(* ===== verification/Osc_Prelude.thy ===== *)
theory Osc_Prelude
  imports Main "HOL-Library.State_Monad"
begin

text \<open>
  The prelude of the development: Go error values, the state monad the controllers are
  written in, and the two calculi the component proofs use.

  \<^item> Go errors are values of \<open>goerr\<close>. API errors keep the reason the sources discriminate
    (\<open>IsNotFound\<close>, \<open>IsConflict\<close>, \<open>IsAlreadyExists\<close>, \<open>IsGone\<close>, \<open>IsNoMatchError\<close>); a
    \<open>%w\<close>-wrapped error is seen through, as \<open>errors.As\<close> does.
  \<^item> A controller operation is a \<open>('s, 'a) state\<close> whose state holds a \<open>trace\<close>: the requests
    sent to the API server so far, oldest first.
  \<^item> \<open>wp m Q s\<close> says that running \<open>m\<close> from \<open>s\<close> ends with \<open>Q\<close>.
  \<^item> \<open>emits P m\<close> says that \<open>m\<close> only appends to the trace, and only events satisfying \<open>P\<close>.
  \<^item> \<open>preserves f m\<close> says that \<open>m\<close> does not change the part \<open>f\<close> of the state.
  \<^item> \<open>guarded G m Q s\<close> says in addition that each event is appended after a history that
    permits it: \<open>G h e\<close> for every event \<open>e\<close> with history \<open>h\<close>.
\<close>

named_theorems wp_simps "rewriting weakest preconditions of operations"
named_theorems emits_intros "introduction rules for the emits predicate"
named_theorems preserves_intros "introduction rules for the preserves predicate"
named_theorems guarded_intros "introduction rules for the guarded predicate"

section \<open>Go errors\<close>

datatype reason =
    NotFound | Conflict | AlreadyExists | Gone | NoMatch | FileNotExist | OtherReason

datatype goerr =
    ApiError reason string
  | Errorf string
  | Wrapf string goerr
  | GoPanic string

fun reasonOf :: "goerr \<Rightarrow> reason" where
  "reasonOf (ApiError r _) = r"
| "reasonOf (Errorf _) = OtherReason"
| "reasonOf (Wrapf _ e) = reasonOf e"
| "reasonOf (GoPanic _) = OtherReason"

fun errorText :: "goerr \<Rightarrow> string" where
  "errorText (ApiError _ m) = m"
| "errorText (Errorf m) = m"
| "errorText (Wrapf p e) = p @ errorText e"
| "errorText (GoPanic m) = m"

definition IsNotFound :: "goerr \<Rightarrow> bool" where "IsNotFound e \<longleftrightarrow> reasonOf e = NotFound"
definition IsConflict :: "goerr \<Rightarrow> bool" where "IsConflict e \<longleftrightarrow> reasonOf e = Conflict"
definition IsAlreadyExists :: "goerr \<Rightarrow> bool" where "IsAlreadyExists e \<longleftrightarrow> reasonOf e = AlreadyExists"
definition IsGone :: "goerr \<Rightarrow> bool" where "IsGone e \<longleftrightarrow> reasonOf e = Gone"
definition IsNoMatchError :: "goerr \<Rightarrow> bool" where "IsNoMatchError e \<longleftrightarrow> reasonOf e = NoMatch"

text \<open>\<open>os.IsNotExist\<close>, on the errors of reading a file.\<close>

definition IsNotExist :: "goerr \<Rightarrow> bool" where "IsNotExist e \<longleftrightarrow> reasonOf e = FileNotExist"

text \<open>
  Formatting an error with \<open>%v\<close> keeps its text only, and replacing it by another error keeps
  nothing; a panic is neither formatted nor replaced, it unwinds.
\<close>

definition isPanic :: "goerr \<Rightarrow> bool" where
  "isPanic e = (case e of GoPanic _ \<Rightarrow> True | _ \<Rightarrow> False)"

definition fmtV :: "string \<Rightarrow> goerr \<Rightarrow> goerr" where
  "fmtV prefix e = (if isPanic e then e else Errorf (prefix @ errorText e))"

definition replaceErr :: "goerr \<Rightarrow> goerr \<Rightarrow> goerr" where
  "replaceErr new e = (if isPanic e then e else new)"

lemmas err_class_defs =
  IsNotFound_def IsConflict_def IsAlreadyExists_def IsGone_def IsNoMatchError_def

lemma err_class_wrap [simp]:
  "IsNotFound (Wrapf p e) = IsNotFound e"
  "IsConflict (Wrapf p e) = IsConflict e"
  "IsAlreadyExists (Wrapf p e) = IsAlreadyExists e"
  "IsGone (Wrapf p e) = IsGone e"
  "IsNoMatchError (Wrapf p e) = IsNoMatchError e"
  by (simp_all add: err_class_defs)

section \<open>Operations and their weakest preconditions\<close>

abbreviation return :: "'a \<Rightarrow> ('s, 'a) state" where
  "return \<equiv> State_Monad.return"

definition gets :: "('s \<Rightarrow> 'a) \<Rightarrow> ('s, 'a) state" where
  "gets f = State (\<lambda>s. (f s, s))"

definition modify :: "('s \<Rightarrow> 's) \<Rightarrow> ('s, unit) state" where
  "modify f = State (\<lambda>s. ((), f s))"

lemma run_gets [simp]: "run_state (gets f) s = (f s, s)"
  by (simp add: gets_def)

lemma run_modify [simp]: "run_state (modify f) s = ((), f s)"
  by (simp add: modify_def)

definition exec :: "('s, 'a) state \<Rightarrow> 's \<Rightarrow> 's" where
  "exec m s = snd (run_state m s)"

definition result :: "('s, 'a) state \<Rightarrow> 's \<Rightarrow> 'a" where
  "result m s = fst (run_state m s)"

definition wp :: "('s, 'a) state \<Rightarrow> ('a \<Rightarrow> 's \<Rightarrow> bool) \<Rightarrow> 's \<Rightarrow> bool" where
  "wp m Q s \<longleftrightarrow> Q (result m s) (exec m s)"

lemma wp_run_state: "wp m Q s \<longleftrightarrow> (case run_state m s of (r, s') \<Rightarrow> Q r s')"
  by (simp add: wp_def result_def exec_def split: prod.splits)

lemma wp_return [wp_simps]: "wp (return x) Q s = Q x s"
  by (simp add: wp_run_state)

lemma wp_gets [wp_simps]: "wp (gets f) Q s = Q (f s) s"
  by (simp add: wp_run_state)

lemma wp_modify [wp_simps]: "wp (modify f) Q s = Q () (f s)"
  by (simp add: wp_run_state)

lemma wp_bind [wp_simps]:
  "wp (State_Monad.bind m f) Q s = wp m (\<lambda>x s'. wp (f x) Q s') s"
  by (simp add: wp_run_state split: prod.splits)

lemma wp_if [wp_simps]: "wp (if b then m else n) Q s = (if b then wp m Q s else wp n Q s)"
  by simp

lemma wp_let [wp_simps]: "wp (Let x f) Q s = wp (f x) Q s"
  by simp

lemma wp_conseq: "wp m Q s \<Longrightarrow> (\<And>r s'. Q r s' \<Longrightarrow> R r s') \<Longrightarrow> wp m R s"
  by (simp add: wp_def)

lemma result_via_wp: "wp m (\<lambda>r s'. r = x) s \<Longrightarrow> result m s = x"
  by (simp add: wp_def)

section \<open>Traces\<close>

record 'e traced =
  trace :: "'e list"

definition newEvents :: "(('e, 'z) traced_scheme, 'a) state \<Rightarrow> ('e, 'z) traced_scheme \<Rightarrow> 'e list" where
  "newEvents m s = drop (length (trace s)) (trace (exec m s))"

definition emits :: "('e \<Rightarrow> bool) \<Rightarrow> (('e, 'z) traced_scheme, 'a) state \<Rightarrow> bool" where
  "emits P m \<longleftrightarrow> (\<forall>s. \<exists>new. trace (exec m s) = trace s @ new \<and> list_all P new)"

lemma emits_newEvents:
  assumes "emits P m"
  shows "trace (exec m s) = trace s @ newEvents m s" and "list_all P (newEvents m s)"
  using assms by (auto simp: emits_def newEvents_def dest: spec[of _ s])

lemma emits_mono: "emits P m \<Longrightarrow> (\<And>e. P e \<Longrightarrow> R e) \<Longrightarrow> emits R m"
  unfolding emits_def by (metis list.pred_mono_strong)

lemma emits_return [emits_intros]: "emits P (return x)"
  by (simp add: emits_def exec_def)

lemma emits_gets [emits_intros]: "emits P (gets f)"
  by (simp add: emits_def exec_def)

lemma emits_modify [emits_intros]: "(\<And>s. trace (f s) = trace s) \<Longrightarrow> emits P (modify f)"
  by (simp add: emits_def exec_def)

lemma emits_bind [emits_intros]:
  assumes m: "emits P m" and f: "\<And>x. emits P (f x)"
  shows "emits P (State_Monad.bind m f)"
  unfolding emits_def
proof
  fix s
  obtain r s1 where r: "run_state m s = (r, s1)" by (cases "run_state m s")
  from m r obtain n1 where n1: "trace s1 = trace s @ n1" "list_all P n1"
    by (auto simp: emits_def exec_def dest: spec[of _ s])
  from f[of r] obtain n2 where
    n2: "trace (snd (run_state (f r) s1)) = trace s1 @ n2" "list_all P n2"
    by (auto simp: emits_def exec_def)
  have "trace (exec (State_Monad.bind m f) s) = trace s @ (n1 @ n2)"
    using r n1 n2 by (simp add: exec_def)
  moreover have "list_all P (n1 @ n2)" using n1 n2 by simp
  ultimately show "\<exists>new. trace (exec (State_Monad.bind m f) s) = trace s @ new \<and> list_all P new"
    by blast
qed

lemma emits_if [emits_intros]:
  "(b \<Longrightarrow> emits P m) \<Longrightarrow> (\<not> b \<Longrightarrow> emits P n) \<Longrightarrow> emits P (if b then m else n)"
  by simp

lemma emits_let [emits_intros]: "(\<And>y. emits P (f y)) \<Longrightarrow> emits P (Let x f)"
  by simp

lemma emits_case_sum [emits_intros]:
  "(\<And>e. emits P (f e)) \<Longrightarrow> (\<And>x. emits P (g x)) \<Longrightarrow> emits P (case_sum f g r)"
  by (cases r) simp_all

lemma emits_case_option [emits_intros]:
  "emits P m \<Longrightarrow> (\<And>x. emits P (f x)) \<Longrightarrow> emits P (case_option m f r)"
  by (cases r) simp_all

lemma emits_case_prod [emits_intros]:
  "(\<And>x y. emits P (f x y)) \<Longrightarrow> emits P (case_prod f r)"
  by (cases r) simp

lemma emits_case_list [emits_intros]:
  "emits P m \<Longrightarrow> (\<And>x xs. emits P (f x xs)) \<Longrightarrow> emits P (case_list m f r)"
  by (cases r) simp_all

section \<open>Guarded events\<close>

text \<open>
  \<open>guarded G m Q s\<close>: from \<open>s\<close>, the operation appends events to the trace, each permitted by
  \<open>G\<close> with the history before it, and ends with \<open>Q\<close>. Ordering properties of a handler are
  guarantees \<open>G\<close> on one kind of event.
\<close>

fun permitted :: "('e list \<Rightarrow> 'e \<Rightarrow> bool) \<Rightarrow> 'e list \<Rightarrow> 'e list \<Rightarrow> bool" where
  "permitted G h [] = True"
| "permitted G h (e # es) = (G h e \<and> permitted G (h @ [e]) es)"

lemma permitted_append: "permitted G h (xs @ ys) = (permitted G h xs \<and> permitted G (h @ xs) ys)"
  by (induction xs arbitrary: h) auto

lemma permitted_nth:
  "permitted G h new \<Longrightarrow> new = pre @ e # post \<Longrightarrow> G (h @ pre) e"
  by (simp add: permitted_append)

lemma permitted_all: "list_all P new \<Longrightarrow> (\<And>h e. P e \<Longrightarrow> G h e) \<Longrightarrow> permitted G h new"
  by (induction new arbitrary: h) auto

definition guarded ::
  "('e list \<Rightarrow> 'e \<Rightarrow> bool) \<Rightarrow> (('e, 'z) traced_scheme, 'a) state \<Rightarrow>
   ('a \<Rightarrow> ('e, 'z) traced_scheme \<Rightarrow> bool) \<Rightarrow> ('e, 'z) traced_scheme \<Rightarrow> bool" where
  "guarded G m Q s \<longleftrightarrow>
     (\<exists>new. trace (exec m s) = trace s @ new \<and> permitted G (trace s) new \<and>
            Q (result m s) (exec m s))"

lemma guarded_permitted:
  assumes "guarded G m Q s"
  shows "permitted G (trace s) (newEvents m s)"
  using assms by (auto simp: guarded_def newEvents_def)

lemma guarded_event:
  assumes "guarded G m Q s" and "newEvents m s = pre @ e # post"
  shows "G (trace s @ pre) e"
  using guarded_permitted[OF assms(1)] assms(2) by (rule permitted_nth)

lemma guarded_post: "guarded G m Q s \<Longrightarrow> wp m Q s"
  by (auto simp: guarded_def wp_def)

lemma guarded_return [guarded_intros]: "Q x s \<Longrightarrow> guarded G (return x) Q s"
  by (simp add: guarded_def exec_def result_def)

lemma guarded_gets [guarded_intros]: "Q (f s) s \<Longrightarrow> guarded G (gets f) Q s"
  by (simp add: guarded_def exec_def result_def)

lemma guarded_modify [guarded_intros]:
  "trace (f s) = trace s \<Longrightarrow> Q () (f s) \<Longrightarrow> guarded G (modify f) Q s"
  by (simp add: guarded_def exec_def result_def)

lemma guarded_bind [guarded_intros]:
  assumes "guarded G m (\<lambda>x s'. guarded G (f x) Q s') s"
  shows "guarded G (State_Monad.bind m f) Q s"
proof -
  obtain r s1 where r: "run_state m s = (r, s1)" by (cases "run_state m s")
  from assms r obtain n1 where n1: "trace s1 = trace s @ n1" "permitted G (trace s) n1"
    and g: "guarded G (f r) Q s1"
    by (auto simp: guarded_def exec_def result_def)
  from g obtain n2 where n2: "trace (snd (run_state (f r) s1)) = trace s1 @ n2"
    "permitted G (trace s1) n2" "Q (fst (run_state (f r) s1)) (snd (run_state (f r) s1))"
    by (auto simp: guarded_def exec_def result_def)
  have "trace (exec (State_Monad.bind m f) s) = trace s @ (n1 @ n2)"
    "permitted G (trace s) (n1 @ n2)"
    "Q (result (State_Monad.bind m f) s) (exec (State_Monad.bind m f) s)"
    using r n1 n2 by (simp_all add: exec_def result_def permitted_append)
  then show ?thesis unfolding guarded_def by blast
qed

lemma guarded_if [guarded_intros]:
  "(b \<Longrightarrow> guarded G m Q s) \<Longrightarrow> (\<not> b \<Longrightarrow> guarded G n Q s) \<Longrightarrow>
   guarded G (if b then m else n) Q s"
  by simp

lemma guarded_let [guarded_intros]: "guarded G (f x) Q s \<Longrightarrow> guarded G (Let x f) Q s"
  by simp

lemma guarded_case_sum [guarded_intros]:
  "(\<And>e. r = Inl e \<Longrightarrow> guarded G (f e) Q s) \<Longrightarrow> (\<And>x. r = Inr x \<Longrightarrow> guarded G (g x) Q s) \<Longrightarrow>
   guarded G (case_sum f g r) Q s"
  by (cases r) simp_all

lemma guarded_case_option [guarded_intros]:
  "(r = None \<Longrightarrow> guarded G m Q s) \<Longrightarrow> (\<And>x. r = Some x \<Longrightarrow> guarded G (f x) Q s) \<Longrightarrow>
   guarded G (case_option m f r) Q s"
  by (cases r) simp_all

lemma guarded_case_prod [guarded_intros]:
  "(\<And>x y. r = (x, y) \<Longrightarrow> guarded G (f x y) Q s) \<Longrightarrow> guarded G (case_prod f r) Q s"
  by (cases r) simp

lemma guarded_conseq: "guarded G m Q s \<Longrightarrow> (\<And>r s'. Q r s' \<Longrightarrow> R r s') \<Longrightarrow> guarded G m R s"
  by (auto simp: guarded_def)

text \<open>An operation known only by what it may emit: its post-state extends the trace.\<close>

lemma guarded_emits:
  assumes "emits P m" and "\<And>h e. P e \<Longrightarrow> G h e"
    and "\<And>r s'. set (trace s) \<subseteq> set (trace s') \<Longrightarrow> Q r s'"
  shows "guarded G m Q s"
proof -
  from assms(1) obtain new where new: "trace (exec m s) = trace s @ new" "list_all P new"
    by (auto simp: emits_def)
  moreover from new(2) assms(2) have "permitted G (trace s) new" by (rule permitted_all)
  moreover have "Q (result m s) (exec m s)" by (rule assms(3)) (simp add: new)
  ultimately show ?thesis by (auto simp: guarded_def)
qed

text \<open>The same with a fact about the result, proved by \<open>wp\<close>.\<close>

lemma guarded_emits_wp:
  assumes "emits P m" and "\<And>h e. P e \<Longrightarrow> G h e" and "wp m R s"
    and "\<And>r s'. set (trace s) \<subseteq> set (trace s') \<Longrightarrow> R r s' \<Longrightarrow> Q r s'"
  shows "guarded G m Q s"
proof -
  from assms(1) obtain new where new: "trace (exec m s) = trace s @ new" "list_all P new"
    by (auto simp: emits_def)
  moreover from new(2) assms(2) have "permitted G (trace s) new" by (rule permitted_all)
  moreover have "Q (result m s) (exec m s)"
    by (rule assms(4)) (use assms(3) new in \<open>simp_all add: wp_def\<close>)
  ultimately show ?thesis by (auto simp: guarded_def)
qed

section \<open>Parts of the state an operation keeps\<close>

definition preserves :: "('s \<Rightarrow> 'b) \<Rightarrow> ('s, 'a) state \<Rightarrow> bool" where
  "preserves f m \<longleftrightarrow> (\<forall>s. f (exec m s) = f s)"

lemma preservesD: "preserves f m \<Longrightarrow> f (exec m s) = f s"
  by (simp add: preserves_def)

lemma preserves_comp: "preserves f m \<Longrightarrow> preserves (\<lambda>s. g (f s)) m"
  by (simp add: preserves_def)

lemma preserves_return [preserves_intros]: "preserves f (return x)"
  by (simp add: preserves_def exec_def)

lemma preserves_gets [preserves_intros]: "preserves f (gets g)"
  by (simp add: preserves_def exec_def)

lemma preserves_modify [preserves_intros]: "(\<And>s. f (g s) = f s) \<Longrightarrow> preserves f (modify g)"
  by (simp add: preserves_def exec_def)

lemma preserves_bind [preserves_intros]:
  "preserves f m \<Longrightarrow> (\<And>x. preserves f (k x)) \<Longrightarrow> preserves f (State_Monad.bind m k)"
  by (simp add: preserves_def exec_def split: prod.splits) (metis snd_conv)

lemma preserves_if [preserves_intros]:
  "(b \<Longrightarrow> preserves f m) \<Longrightarrow> (\<not> b \<Longrightarrow> preserves f n) \<Longrightarrow> preserves f (if b then m else n)"
  by simp

lemma preserves_let [preserves_intros]: "(\<And>y. preserves f (k y)) \<Longrightarrow> preserves f (Let x k)"
  by simp

lemma preserves_case_sum [preserves_intros]:
  "(\<And>e. preserves f (h e)) \<Longrightarrow> (\<And>x. preserves f (k x)) \<Longrightarrow> preserves f (case_sum h k r)"
  by (cases r) simp_all

lemma preserves_case_option [preserves_intros]:
  "preserves f m \<Longrightarrow> (\<And>x. preserves f (k x)) \<Longrightarrow> preserves f (case_option m k r)"
  by (cases r) simp_all

lemma preserves_case_prod [preserves_intros]:
  "(\<And>x y. preserves f (k x y)) \<Longrightarrow> preserves f (case_prod k r)"
  by (cases r) simp

lemma wp_preserves: "preserves f m \<Longrightarrow> wp m Q s \<Longrightarrow> wp m (\<lambda>r s'. Q r s' \<and> f s' = f s) s"
  by (simp add: wp_def preserves_def)

text \<open>The same with a part of the state the operation keeps.\<close>

lemma guarded_keep:
  assumes "emits P m" and "preserves f m" and "\<And>h e. P e \<Longrightarrow> G h e"
    and "\<And>r s'. f s' = f s \<Longrightarrow> set (trace s) \<subseteq> set (trace s') \<Longrightarrow> Q r s'"
  shows "guarded G m Q s"
proof -
  have keep: "wp m (\<lambda>_ s'. f s' = f s) s"
    using assms(2) by (simp add: wp_def preserves_def)
  show ?thesis by (rule guarded_emits_wp[OF assms(1,3) keep]) (simp_all add: assms(4))
qed

section \<open>Error checks and loops\<close>

text \<open>
  \<open>if err := m; err != nil { h }; k\<close>, and the same for a call that returns a value or an error.
\<close>

definition onErr ::
  "('s, goerr option) state \<Rightarrow> (goerr \<Rightarrow> ('s, 'b) state) \<Rightarrow> ('s, 'b) state \<Rightarrow> ('s, 'b) state" where
  "onErr m h k = do { r \<leftarrow> m; (case r of Some e \<Rightarrow> h e | None \<Rightarrow> k) }"

definition onInl ::
  "('s, goerr + 'a) state \<Rightarrow> (goerr \<Rightarrow> ('s, 'b) state) \<Rightarrow> ('a \<Rightarrow> ('s, 'b) state) \<Rightarrow> ('s, 'b) state"
  where "onInl m h k = do { r \<leftarrow> m; (case r of Inl e \<Rightarrow> h e | Inr x \<Rightarrow> k x) }"

text \<open>A \<open>for\<close> loop that returns the first error, and one that goes on and keeps the last.\<close>

fun forEach :: "('a \<Rightarrow> ('s, goerr option) state) \<Rightarrow> 'a list \<Rightarrow> ('s, goerr option) state" where
  "forEach f [] = return None"
| "forEach f (x # xs) = onErr (f x) (\<lambda>e. return (Some e)) (forEach f xs)"

fun forEachKeepLast ::
  "('a \<Rightarrow> ('s, goerr option) state) \<Rightarrow> 'a list \<Rightarrow> goerr option \<Rightarrow> ('s, goerr option) state" where
  "forEachKeepLast f [] err = return err"
| "forEachKeepLast f (x # xs) err = do {
     e \<leftarrow> f x;
     forEachKeepLast f xs (if e = None then err else e)
   }"

lemma wp_onErr [wp_simps]:
  "wp (onErr m h k) Q s =
   wp m (\<lambda>r s'. (\<forall>e. r = Some e \<longrightarrow> wp (h e) Q s') \<and> (r = None \<longrightarrow> wp k Q s')) s"
  by (auto simp: onErr_def wp_run_state split: prod.splits option.splits)

lemma wp_onInl [wp_simps]:
  "wp (onInl m h k) Q s =
   wp m (\<lambda>r s'. (\<forall>e. r = Inl e \<longrightarrow> wp (h e) Q s') \<and> (\<forall>x. r = Inr x \<longrightarrow> wp (k x) Q s')) s"
  by (auto simp: onInl_def wp_run_state split: prod.splits sum.splits)

lemma emits_onErr [emits_intros]:
  "emits P m \<Longrightarrow> (\<And>e. emits P (h e)) \<Longrightarrow> emits P k \<Longrightarrow> emits P (onErr m h k)"
  unfolding onErr_def by (intro emits_intros)

lemma emits_onInl [emits_intros]:
  "emits P m \<Longrightarrow> (\<And>e. emits P (h e)) \<Longrightarrow> (\<And>x. emits P (k x)) \<Longrightarrow> emits P (onInl m h k)"
  unfolding onInl_def by (intro emits_intros)

lemma guarded_onErr [guarded_intros]:
  "guarded G m (\<lambda>r s'. (\<forall>e. r = Some e \<longrightarrow> guarded G (h e) Q s') \<and>
     (r = None \<longrightarrow> guarded G k Q s')) s \<Longrightarrow> guarded G (onErr m h k) Q s"
  unfolding onErr_def by (rule guarded_bind, erule guarded_conseq) (simp split: option.splits)

lemma guarded_onInl [guarded_intros]:
  "guarded G m (\<lambda>r s'. (\<forall>e. r = Inl e \<longrightarrow> guarded G (h e) Q s') \<and>
     (\<forall>x. r = Inr x \<longrightarrow> guarded G (k x) Q s')) s \<Longrightarrow> guarded G (onInl m h k) Q s"
  unfolding onInl_def by (rule guarded_bind, erule guarded_conseq) (simp split: sum.splits)

lemma emits_forEach [emits_intros]: "(\<And>x. emits P (f x)) \<Longrightarrow> emits P (forEach f xs)"
  by (induction xs) (auto intro!: emits_intros)

lemma emits_forEach_set: "(\<And>x. x \<in> set xs \<Longrightarrow> emits P (f x)) \<Longrightarrow> emits P (forEach f xs)"
  by (induction xs) (auto intro!: emits_return emits_onErr)

lemma emits_forEachKeepLast [emits_intros]:
  "(\<And>x. emits P (f x)) \<Longrightarrow> emits P (forEachKeepLast f xs err)"
  by (induction xs arbitrary: err) (auto intro!: emits_intros)

lemma preserves_onErr [preserves_intros]:
  "preserves f m \<Longrightarrow> (\<And>e. preserves f (h e)) \<Longrightarrow> preserves f k \<Longrightarrow> preserves f (onErr m h k)"
  unfolding onErr_def by (intro preserves_intros)

lemma preserves_onInl [preserves_intros]:
  "preserves f m \<Longrightarrow> (\<And>e. preserves f (h e)) \<Longrightarrow> (\<And>x. preserves f (k x)) \<Longrightarrow>
   preserves f (onInl m h k)"
  unfolding onInl_def by (intro preserves_intros)

lemma preserves_forEach [preserves_intros]:
  "(\<And>x. preserves f (g x)) \<Longrightarrow> preserves f (forEach g xs)"
  by (induction xs) (auto intro!: preserves_intros)

lemma preserves_forEachKeepLast [preserves_intros]:
  "(\<And>x. preserves f (g x)) \<Longrightarrow> preserves f (forEachKeepLast g xs err)"
  by (induction xs arbitrary: err) (auto intro!: preserves_intros)

text \<open>Stepping over a call of which only the part of the state it keeps matters.\<close>

lemma wp_bind_keep:
  "preserves f m \<Longrightarrow> (\<And>x s'. f s' = f s \<Longrightarrow> wp (k x) Q s') \<Longrightarrow> wp (State_Monad.bind m k) Q s"
  by (simp only: wp_bind) (simp add: wp_def preserves_def)

lemma wp_onErr_keep:
  "preserves f m \<Longrightarrow> (\<And>e s'. f s' = f s \<Longrightarrow> wp (h e) Q s') \<Longrightarrow>
   (\<And>s'. f s' = f s \<Longrightarrow> wp k Q s') \<Longrightarrow> wp (onErr m h k) Q s"
  by (simp only: wp_onErr) (simp add: wp_def preserves_def)

lemma wp_onInl_keep:
  "preserves f m \<Longrightarrow> (\<And>e s'. f s' = f s \<Longrightarrow> wp (h e) Q s') \<Longrightarrow>
   (\<And>x s'. f s' = f s \<Longrightarrow> wp (k x) Q s') \<Longrightarrow> wp (onInl m h k) Q s"
  by (simp only: wp_onInl) (simp add: wp_def preserves_def)

text \<open>Stepping over a call of which only the growth of the trace matters.\<close>

definition grown :: "('e, 'z) traced_scheme \<Rightarrow> ('e, 'z) traced_scheme \<Rightarrow> bool" where
  "grown s s' \<longleftrightarrow> (\<exists>new. trace s' = trace s @ new)"

lemma grown_trans: "grown s s' \<Longrightarrow> grown s' s'' \<Longrightarrow> grown s s''"
  by (auto simp: grown_def)

lemma grown_refl [simp]: "grown s s"
  by (simp add: grown_def)

lemma grown_exec: "emits (\<lambda>_. True) m \<Longrightarrow> grown s (exec m s)"
  by (auto simp: grown_def emits_def)

lemma wp_grown: "emits (\<lambda>_. True) m \<Longrightarrow> (\<And>r s'. grown s s' \<Longrightarrow> Q r s') \<Longrightarrow> wp m Q s"
  by (simp add: wp_def grown_exec)

lemma wp_bind_grown:
  "emits (\<lambda>_. True) m \<Longrightarrow> (\<And>x s'. grown s s' \<Longrightarrow> wp (k x) Q s') \<Longrightarrow> wp (State_Monad.bind m k) Q s"
  by (simp only: wp_bind) (rule wp_grown)

lemma wp_onErr_grown:
  "emits (\<lambda>_. True) m \<Longrightarrow> (\<And>e s'. grown s s' \<Longrightarrow> wp (h e) Q s') \<Longrightarrow>
   (\<And>s'. grown s s' \<Longrightarrow> wp k Q s') \<Longrightarrow> wp (onErr m h k) Q s"
  by (simp only: wp_onErr) (rule wp_grown, auto)

lemma wp_onInl_grown:
  "emits (\<lambda>_. True) m \<Longrightarrow> (\<And>e s'. grown s s' \<Longrightarrow> wp (h e) Q s') \<Longrightarrow>
   (\<And>x s'. grown s s' \<Longrightarrow> wp (k x) Q s') \<Longrightarrow> wp (onInl m h k) Q s"
  by (simp only: wp_onInl) (rule wp_grown, auto)

lemma wp_forEach:
  assumes "\<And>x s. x \<in> set xs \<Longrightarrow> I s \<Longrightarrow> wp (f x) (\<lambda>_. I) s" and "I s"
  shows "wp (forEach f xs) (\<lambda>_. I) s"
  using assms
proof (induction xs arbitrary: s)
  case Nil
  then show ?case by (simp add: wp_simps)
next
  case (Cons x xs)
  have "wp (f x) (\<lambda>_. I) s" using Cons.prems by simp
  then show ?case unfolding forEach.simps wp_onErr
    by (rule wp_conseq) (use Cons in \<open>simp add: wp_simps\<close>)
qed

lemma wp_forEachKeepLast:
  assumes "\<And>x s. x \<in> set xs \<Longrightarrow> I s \<Longrightarrow> wp (f x) (\<lambda>_. I) s" and "I s"
  shows "wp (forEachKeepLast f xs err) (\<lambda>_. I) s"
  using assms
proof (induction xs arbitrary: s err)
  case Nil
  then show ?case by (simp add: wp_simps)
next
  case (Cons x xs)
  have "wp (f x) (\<lambda>_. I) s" using Cons.prems by simp
  then show ?case unfolding forEachKeepLast.simps wp_bind
    by (rule wp_conseq) (use Cons in \<open>simp add: wp_simps\<close>)
qed

section \<open>Lists and maps\<close>

text \<open>\<open>contains\<close> of \<open>common.go\<close>.\<close>

fun contains :: "string list \<Rightarrow> string \<Rightarrow> bool" where
  "contains [] s = False"
| "contains (v # list) s = (if v = s then True else contains list s)"

lemma contains_iff [simp]: "contains xs s \<longleftrightarrow> s \<in> set xs"
  by (induction xs) auto

lemma find_filter: "List.find P xs = (case filter P xs of [] \<Rightarrow> None | x # _ \<Rightarrow> Some x)"
  by (induction xs) auto

text \<open>A Go map literal and \<open>maps.Copy\<close>.\<close>

type_synonym labels = "string \<rightharpoonup> string"

definition mapsCopy :: "labels \<Rightarrow> labels \<Rightarrow> labels" where
  "mapsCopy dst src = dst ++ src"

text \<open>Go's \<open>m[k]\<close> on a map of strings: the zero value for a missing key.\<close>

definition atKey :: "labels \<Rightarrow> string \<Rightarrow> string" where
  "atKey m k = (case m k of Some v \<Rightarrow> v | None \<Rightarrow> [])"

text \<open>\<open>strings.HasPrefix\<close>, \<open>strings.HasSuffix\<close> and \<open>strings.Contains\<close>.\<close>

fun hasPrefix :: "string \<Rightarrow> string \<Rightarrow> bool" where
  "hasPrefix s [] = True"
| "hasPrefix [] (c # p) = False"
| "hasPrefix (d # s) (c # p) = (c = d \<and> hasPrefix s p)"

lemma hasPrefix_iff: "hasPrefix s p \<longleftrightarrow> (\<exists>t. s = p @ t)"
  by (induction s p rule: hasPrefix.induct) auto

definition hasSuffix :: "string \<Rightarrow> string \<Rightarrow> bool" where
  "hasSuffix s p = hasPrefix (rev s) (rev p)"

fun strContains :: "string \<Rightarrow> string \<Rightarrow> bool" where
  "strContains [] p = (p = [])"
| "strContains (c # s) p = (hasPrefix (c # s) p \<or> strContains s p)"

end
