(* ===== verification/Kube_Objects.thy ===== *)
theory Kube_Objects
  imports Osc_Prelude
begin

text \<open>
  The data the operator reads and writes: the KataConfig custom resource
  (\<^verbatim>\<open>api/v1/kataconfig_types.go\<close>) and, of each Kubernetes or OpenShift object, the fields the
  sources build or inspect. A struct is a record with one field per struct field; a Go
  \<open>map[string]string\<close> is a \<open>labels\<close> map (a nil and an empty map are the same value, except for
  ConfigMap data, where writing to a nil map panics); a nil-able pointer is an option; byte
  slices and resource quantities are strings; nil and empty slices are the same list.
\<close>

section \<open>Object metadata and selectors\<close>

record ownerRef =
  orAPIVersion :: string
  orKind :: string
  orName :: string
  orUID :: string

record objMeta =
  Name :: string
  Namespace :: string
  Labels :: labels
  Annotations :: labels
  Finalizers :: "string list"
  OwnerReferences :: "ownerRef list"
  DeletionTimestamp :: "nat option"
  ResourceVersion :: string

definition mkMeta :: "string \<Rightarrow> string \<Rightarrow> objMeta" where
  "mkMeta name ns = \<lparr>Name = name, Namespace = ns, Labels = Map.empty, Annotations = Map.empty,
     Finalizers = [], OwnerReferences = [], DeletionTimestamp = None, ResourceVersion = []\<rparr>"

lemma mkMeta_simps [simp]:
  "Name (mkMeta n ns) = n" "Namespace (mkMeta n ns) = ns" "Labels (mkMeta n ns) = Map.empty"
  "Annotations (mkMeta n ns) = Map.empty" "Finalizers (mkMeta n ns) = []"
  "OwnerReferences (mkMeta n ns) = []" "DeletionTimestamp (mkMeta n ns) = None"
  "ResourceVersion (mkMeta n ns) = []"
  by (simp_all add: mkMeta_def)

record labelReq =
  reqKey :: string
  reqOperator :: string
  reqValues :: "string list"

record labelSelector =
  MatchLabels :: labels
  MatchExpressions :: "labelReq list"

definition emptyLabelSelector :: labelSelector where
  "emptyLabelSelector = \<lparr>MatchLabels = Map.empty, MatchExpressions = []\<rparr>"

definition byLabels :: "labels \<Rightarrow> labelSelector" where
  "byLabels m = \<lparr>MatchLabels = m, MatchExpressions = []\<rparr>"

section \<open>KataConfig\<close>

record kataConfigSpec =
  KataConfigPoolSelector :: "labelSelector option"
  CheckNodeEligibility :: bool
  LogLevel :: string
  EnablePeerPods :: bool
  EnableMixedCluster :: bool

text \<open>A condition's \<open>Type\<close> and \<open>Status\<close> are strings in the API; the zero value is the empty string.\<close>

record kataConfigCondition =
  condType :: string
  condStatus :: string
  LastTransitionTime :: nat
  condReason :: string
  condMessage :: string

record kataNodesStatus =
  NodeCount :: int
  ReadyNodeCount :: int
  Installed :: "string list"
  Installing :: "string list"
  WaitingToInstall :: "string list"
  FailedToInstall :: "string list"
  Uninstalling :: "string list"
  WaitingToUninstall :: "string list"
  FailedToUninstall :: "string list"

record kataConfigStatus =
  RuntimeClasses :: "string list"
  KataNodes :: kataNodesStatus
  Conditions :: "kataConfigCondition list"
  WaitingForMcoToStart :: bool

record kataconfig =
  kcMeta :: objMeta
  Spec :: kataConfigSpec
  Status :: kataConfigStatus

section \<open>Nodes, pods and machine configuration\<close>

record node =
  nodeMeta :: objMeta

record pod =
  podMeta :: objMeta
  podRuntimeClassName :: "string option"
  podPhase :: string

record mcpCondition =
  mcpCondType :: string
  mcpCondStatus :: string

record mcpStatus =
  MachineCount :: int
  ReadyMachineCount :: int
  UpdatedMachineCount :: int
  DegradedMachineCount :: int
  ObservedGeneration :: int
  mcpConditions :: "mcpCondition list"

record mcp =
  mcpMeta :: objMeta
  mcpMachineConfigSelector :: "labelSelector option"
  mcpNodeSelector :: "labelSelector option"
  mcpConfigurationName :: string
  mcpStatusOf :: mcpStatus

record ignFile =
  ignPath :: string
  ignSource :: string
  ignMode :: nat

record ignConfig =
  ignVersion :: string
  ignFiles :: "ignFile list"

record mcSpec =
  Extensions :: "string list"
  mcConfigRaw :: string
  OSImageURL :: string
  KernelArguments :: "string list"

record machineConfig =
  mcMeta :: objMeta
  mcSpecOf :: mcSpec

record ctrRuntimeConfig =
  crcMeta :: objMeta
  crcPoolSelector :: "labelSelector option"
  crcLogLevel :: "string option"

section \<open>RuntimeClasses and security context constraints\<close>

record scheduling =
  schedNodeSelector :: labels
  schedTolerations :: "string list"

record runtimeClass =
  rcMeta :: objMeta
  Handler :: string
  PodFixed :: "string \<rightharpoonup> string"
  Scheduling :: "scheduling option"

record scc =
  sccMeta :: objMeta
  AllowHostDirVolumePlugin :: bool
  AllowHostIPC :: bool
  AllowHostNetwork :: bool
  AllowHostPID :: bool
  AllowHostPorts :: bool
  AllowPrivilegeEscalation :: "bool option"
  AllowPrivilegedContainer :: bool
  ReadOnlyRootFilesystem :: bool
  RequiredDropCapabilities :: "string list"
  AllowedCapabilities :: "string list"
  RunAsUserType :: string
  SELinuxContextType :: string
  sccVolumes :: "string list"
  sccUsers :: "string list"

section \<open>Workloads\<close>

record keyToPath =
  ktpKey :: string
  ktpPath :: string

record tokenProjection =
  tpPath :: string
  tpAudience :: string
  tpExpirationSeconds :: "int option"

datatype volumeSource =
    VsHostPath string "string option"
  | VsSecret string "int option" "keyToPath list" "bool option"
  | VsConfigMap string "int option" "keyToPath list"
  | VsProjected "tokenProjection list"
  | VsEmptyDir

record volume =
  volName :: string
  volSource :: volumeSource

record volumeMount =
  vmName :: string
  vmMountPath :: string
  vmReadOnly :: bool
  vmSubPath :: string
  vmPropagation :: "string option"

record envVar =
  envName :: string
  envValue :: string
  envFieldPath :: "string option"

datatype envFromSource = SecretRef string | ConfigMapRef string

record securityContext =
  scPrivileged :: "bool option"
  scRunAsUser :: "int option"
  scRunAsGroup :: "int option"
  scSELinuxType :: "string option"
  scAllowPrivilegeEscalation :: "bool option"
  scDropCapabilities :: "string list"

definition emptySecurityContext :: securityContext where
  "emptySecurityContext = \<lparr>scPrivileged = None, scRunAsUser = None, scRunAsGroup = None,
     scSELinuxType = None, scAllowPrivilegeEscalation = None, scDropCapabilities = []\<rparr>"

record httpProbe =
  probePath :: string
  probePort :: int
  probeScheme :: string
  probeInitialDelaySeconds :: int
  probePeriodSeconds :: int

record container =
  ctrName :: string
  ctrImage :: string
  ctrImagePullPolicy :: string
  ctrSecurityContext :: securityContext
  ctrCommand :: "string list"
  ctrArgs :: "string list"
  ctrEnv :: "envVar list"
  ctrEnvFrom :: "envFromSource list"
  ctrRequests :: labels
  ctrLimits :: labels
  ctrVolumeMounts :: "volumeMount list"
  ctrPorts :: "int list"
  ctrReadinessProbe :: "httpProbe option"

record podSpec =
  ServiceAccountName :: string
  NodeSelector :: labels
  TolerationOperators :: "string list"
  HostNetwork :: bool
  HostPID :: bool
  RunAsNonRoot :: "bool option"
  SeccompProfile :: "string option"
  Containers :: "container list"
  InitContainers :: "container list"
  Volumes :: "volume list"

text \<open>The zero values a Go struct literal leaves in the fields it does not name.\<close>

definition emptyContainer :: container where
  "emptyContainer = \<lparr>ctrName = [], ctrImage = [], ctrImagePullPolicy = [],
     ctrSecurityContext = emptySecurityContext, ctrCommand = [], ctrArgs = [], ctrEnv = [],
     ctrEnvFrom = [], ctrRequests = Map.empty, ctrLimits = Map.empty, ctrVolumeMounts = [],
     ctrPorts = [], ctrReadinessProbe = None\<rparr>"

definition emptyPodSpec :: podSpec where
  "emptyPodSpec = \<lparr>ServiceAccountName = [], NodeSelector = Map.empty, TolerationOperators = [],
     HostNetwork = False, HostPID = False, RunAsNonRoot = None, SeccompProfile = None,
     Containers = [], InitContainers = [], Volumes = []\<rparr>"

definition plainMount :: "string \<Rightarrow> string \<Rightarrow> volumeMount" where
  "plainMount name path = \<lparr>vmName = name, vmMountPath = path, vmReadOnly = False, vmSubPath = [],
     vmPropagation = None\<rparr>"

text \<open>Every volume a container mounts is declared by the pod.\<close>

definition mountsDeclared :: "podSpec \<Rightarrow> bool" where
  "mountsDeclared ps = list_all (\<lambda>c. list_all (\<lambda>m. vmName m \<in> set (map volName (Volumes ps)))
     (ctrVolumeMounts c)) (InitContainers ps @ Containers ps)"

record podTemplate =
  tplLabels :: labels
  tplAnnotations :: labels
  tplSpec :: podSpec

record daemonSet =
  dsMeta :: objMeta
  dsSelector :: labels
  dsUpdateStrategy :: "(string \<times> int) option"
  dsTemplate :: podTemplate

record deployment =
  depMeta :: objMeta
  depReplicas :: "int option"
  depSelector :: "labels option"
  depStrategy :: string
  depTemplate :: podTemplate

record servicePort =
  spName :: string
  spProtocol :: string
  spPort :: int
  spTargetPort :: int

record service =
  svcMeta :: objMeta
  svcPorts :: "servicePort list"
  svcSelector :: labels
  svcType :: string

record job =
  jobMeta :: objMeta
  jobContainers :: "container list"
  jobInitContainers :: "container list"
  jobVolumes :: "volume list"

record jobCondition =
  jcType :: string
  jcStatus :: string

record jobStatus =
  jobConditions :: "jobCondition list"
  jobActive :: int
  jobSucceeded :: int
  jobFailed :: int

section \<open>Configuration objects\<close>

record configMap =
  cmMeta :: objMeta
  cmData :: "labels option"

definition cmLookup :: "configMap \<Rightarrow> labels" where
  "cmLookup cm = (case cmData cm of Some d \<Rightarrow> d | None \<Rightarrow> Map.empty)"

record secret =
  secMeta :: objMeta
  secData :: labels
  secType :: string

record clusterVersion =
  cvClusterID :: string
  cvDesiredImage :: string
  cvDesiredVersion :: string

record proxyConfig =
  HTTPProxy :: string
  HTTPSProxy :: string
  specNoProxy :: string
  statusNoProxy :: string
  TrustedCAName :: string

record releaseTag =
  tagName :: string
  tagFrom :: "(string \<times> string) option"

record tlsProfileSpec =
  tlsMinVersion :: string
  tlsCiphers :: "string list"

record tlsSecurityProfile =
  tspType :: string
  tspCustom :: "tlsProfileSpec option"

record apiServerConfig =
  TLSAdherence :: string
  TLSSecurityProfile :: "tlsSecurityProfile option"

record namespaceObj =
  nsMeta :: objMeta

text \<open>A JSON value: strings and objects, the latter in the order they are built.\<close>

datatype json = JString string | JObject "(string \<times> json) list"

record credentialsRequest =
  credMeta :: objMeta

section \<open>The OpenShift console and the operator's installation\<close>

record consoleOperator =
  conMeta :: objMeta
  conPlugins :: "string list"

record consolePlugin =
  cpMeta :: objMeta
  cpDisplayName :: string
  cpLoadType :: string
  cpBackendType :: string
  cpServiceName :: string
  cpServiceNamespace :: string
  cpServicePort :: int
  cpBasePath :: string

record csv =
  csvMeta :: objMeta
  csvAPIVersion :: string
  csvKind :: string
  csvUID :: string

section \<open>Network policies, NFD rules and the mutating webhook\<close>

record npPort =
  npProtocol :: string
  npPortNumber :: int

record npPeer =
  npNamespaceSelector :: "labels option"
  npPeerPodSelector :: "labels option"

record npIngressRule =
  npFrom :: "npPeer list"
  npInPorts :: "npPort list"

record npEgressRule =
  npTo :: "npPeer list"
  npOutPorts :: "npPort list"

record npSpec =
  npPodSelector :: labels
  npPolicyTypes :: "string list"
  npIngress :: "npIngressRule list"
  npEgress :: "npEgressRule list"

record networkPolicy =
  npMeta :: objMeta
  npSpecOf :: npSpec

record featureMatch =
  fmFeature :: string
  fmExpressions :: "(string \<times> string) list"

record featureRule =
  frName :: string
  frLabels :: "(string \<times> string) list"
  frMatchFeatures :: "featureMatch list"

record nodeFeatureRule =
  nfrMeta :: objMeta
  nfrRules :: "featureRule list"

record mutatingWebhook =
  mwName :: string
  mwServiceName :: string
  mwServiceNamespace :: string
  mwServicePath :: string
  mwCABundle :: string
  mwOperations :: "string list"
  mwAPIGroups :: "string list"
  mwAPIVersions :: "string list"
  mwResources :: "string list"
  mwFailurePolicy :: string
  mwSideEffects :: string
  mwReviewVersions :: "string list"
  mwNamespaceSelector :: labelSelector

record mutatingWebhookConfig =
  mwcMeta :: objMeta
  mwcWebhooks :: "mutatingWebhook list"

section \<open>Events\<close>

record k8sEvent =
  evtGenerateName :: string
  evtNamespace :: string
  evtInvolvedKind :: string
  evtInvolvedNamespace :: string
  evtInvolvedName :: string
  evtReason :: string
  evtMessage :: string
  evtType :: string
  evtReportingController :: string
  evtReportingInstance :: string
  evtAction :: string
  evtTime :: nat

section \<open>Any object\<close>

datatype kobj =
    OKataConfig kataconfig
  | ONode node
  | OMachineConfigPool mcp
  | OMachineConfig machineConfig
  | ORuntimeClass runtimeClass
  | OScc scc
  | ODaemonSet daemonSet
  | ODeployment deployment
  | OService service
  | OConfigMap configMap
  | OSecret secret
  | OCtrRuntimeConfig ctrRuntimeConfig
  | ONetworkPolicy networkPolicy
  | ONodeFeatureRule nodeFeatureRule
  | OMutatingWebhookConfig mutatingWebhookConfig
  | OJob job
  | OEvent k8sEvent
  | OCredentialsRequest credentialsRequest
  | OConsole consoleOperator
  | OConsolePlugin consolePlugin
  | ONamespace namespaceObj

datatype rkind =
    KKataConfig | KNode | KPod | KMachineConfigPool | KMachineConfig | KRuntimeClass | KScc
  | KDaemonSet | KDeployment | KService | KConfigMap | KSecret | KCtrRuntimeConfig
  | KNetworkPolicy | KNodeFeatureRule | KNodeFeatureDiscovery | KMutatingWebhookConfig | KJob
  | KPeerPodConfig | KClusterVersion | KInfrastructure | KProxy | KCloudCredential
  | KAuthentication | KEvent | KCredentialsRequest | KConsole | KConsolePlugin | KCsv | KApiServer
  | KNamespace

fun kindOf :: "kobj \<Rightarrow> rkind" where
  "kindOf (OKataConfig _) = KKataConfig"
| "kindOf (ONode _) = KNode"
| "kindOf (OMachineConfigPool _) = KMachineConfigPool"
| "kindOf (OMachineConfig _) = KMachineConfig"
| "kindOf (ORuntimeClass _) = KRuntimeClass"
| "kindOf (OScc _) = KScc"
| "kindOf (ODaemonSet _) = KDaemonSet"
| "kindOf (ODeployment _) = KDeployment"
| "kindOf (OService _) = KService"
| "kindOf (OConfigMap _) = KConfigMap"
| "kindOf (OSecret _) = KSecret"
| "kindOf (OCtrRuntimeConfig _) = KCtrRuntimeConfig"
| "kindOf (ONetworkPolicy _) = KNetworkPolicy"
| "kindOf (ONodeFeatureRule _) = KNodeFeatureRule"
| "kindOf (OMutatingWebhookConfig _) = KMutatingWebhookConfig"
| "kindOf (OJob _) = KJob"
| "kindOf (OEvent _) = KEvent"
| "kindOf (OCredentialsRequest _) = KCredentialsRequest"
| "kindOf (OConsole _) = KConsole"
| "kindOf (OConsolePlugin _) = KConsolePlugin"
| "kindOf (ONamespace _) = KNamespace"

end
