(* ===== verification/Kube_Client.thy ===== *)
theory Kube_Client
  imports Kube_Objects
begin

text \<open>
  What the operator relies on outside its own sources, as parameters. An \<open>env\<close> holds

  \<^item> the API server behind the controller-runtime client (\<open>api\<close>): the answer to each request is
    a function of the requests sent before it, so every behaviour of the server, of its caches
    and of the other actors in the cluster is one such function;
  \<^item> the third-party packages the sources call (\<open>lib\<close>);
  \<^item> the process environment (\<open>proc\<close>): environment variables, files, architecture, the clock
    (in nanoseconds) and the order in which \<open>range\<close> visits the keys of a map.

  The client operations append the request and its outcome to the trace. A controller-runtime
  \<open>CreateOrUpdate\<close> is modelled by its two interactions: the object handed to the mutate function
  (fetched or fresh) and the write of the mutated object.
\<close>

section \<open>Requests and events\<close>

datatype request =
    GetReq rkind string string
  | ListReq rkind
  | CreateReq kobj
  | UpdateReq kobj
  | StatusUpdateReq kobj
  | PatchReq kobj
  | DeleteReq rkind string string
  | CreateOrUpdateReq kobj

datatype event = Ev (evRequest: request) (evError: "goerr option")

type_synonym history = "event list"

type_synonym ('z, 'a) op = "((event, 'z) traced_scheme, 'a) state"

fun isWrite :: "request \<Rightarrow> bool" where
  "isWrite (GetReq _ _ _) = False"
| "isWrite (ListReq _) = False"
| "isWrite _ = True"

fun writesKind :: "request \<Rightarrow> rkind option" where
  "writesKind (GetReq _ _ _) = None"
| "writesKind (ListReq _) = None"
| "writesKind (CreateReq obj) = Some (kindOf obj)"
| "writesKind (UpdateReq obj) = Some (kindOf obj)"
| "writesKind (StatusUpdateReq obj) = Some (kindOf obj)"
| "writesKind (PatchReq obj) = Some (kindOf obj)"
| "writesKind (DeleteReq k _ _) = Some k"
| "writesKind (CreateOrUpdateReq obj) = Some (kindOf obj)"

definition readOnly :: "event \<Rightarrow> bool" where
  "readOnly e \<longleftrightarrow> \<not> isWrite (evRequest e)"

definition writesOnly :: "rkind set \<Rightarrow> event \<Rightarrow> bool" where
  "writesOnly K e \<longleftrightarrow> (case writesKind (evRequest e) of None \<Rightarrow> True | Some k \<Rightarrow> k \<in> K)"

lemma writesOnly_mono: "writesOnly K e \<Longrightarrow> K \<subseteq> L \<Longrightarrow> writesOnly L e"
  by (auto simp: writesOnly_def split: option.splits)

lemma readOnly_writesOnly: "readOnly e \<Longrightarrow> writesOnly K e"
  by (cases e, rename_tac q err, case_tac q) (auto simp: readOnly_def writesOnly_def)

lemma writesOnly_Ev [simp]:
  "writesOnly K (Ev q r) \<longleftrightarrow> (case writesKind q of None \<Rightarrow> True | Some k \<Rightarrow> k \<in> K)"
  by (simp add: writesOnly_def)

section \<open>The parameters\<close>

text \<open>The label selection of a node list request: a compiled selector and \<open>MatchingLabels\<close>.\<close>

record nodeQuery =
  qSelector :: "(labels \<Rightarrow> bool) option"
  qLabels :: labels

record api =
  getKataConfig :: "history \<Rightarrow> string \<Rightarrow> goerr + kataconfig"
  getConfigMap :: "history \<Rightarrow> string \<Rightarrow> string \<Rightarrow> goerr + configMap"
  getSecret :: "history \<Rightarrow> string \<Rightarrow> string \<Rightarrow> goerr + secret"
  getMachineConfigPool :: "history \<Rightarrow> string \<Rightarrow> goerr + mcp"
  getMachineConfig :: "history \<Rightarrow> string \<Rightarrow> goerr + machineConfig"
  getRuntimeClass :: "history \<Rightarrow> string \<Rightarrow> goerr + runtimeClass"
  getScc :: "history \<Rightarrow> string \<Rightarrow> goerr + scc"
  getDaemonSet :: "history \<Rightarrow> string \<Rightarrow> string \<Rightarrow> goerr + daemonSet"
  getCtrRuntimeConfig :: "history \<Rightarrow> string \<Rightarrow> goerr + ctrRuntimeConfig"
  getClusterVersion :: "history \<Rightarrow> goerr + clusterVersion"
  getPlatformType :: "history \<Rightarrow> goerr + string option"
  getProxy :: "history \<Rightarrow> goerr + proxyConfig"
  getCredentialsMode :: "history \<Rightarrow> goerr + string"
  getServiceAccountIssuer :: "history \<Rightarrow> goerr + string"
  getPeerPodConfigLimit :: "history \<Rightarrow> goerr + string option"
  getJobStatus :: "history \<Rightarrow> string \<Rightarrow> string \<Rightarrow> goerr + jobStatus"
  probeKind :: "history \<Rightarrow> rkind \<Rightarrow> string \<Rightarrow> string \<Rightarrow> goerr option"
  listMachineConfigPools :: "history \<Rightarrow> goerr + mcp list"
  listMachineConfigs :: "history \<Rightarrow> goerr + machineConfig list"
  listNodes :: "history \<Rightarrow> nodeQuery \<Rightarrow> goerr + node list"
  listPods :: "history \<Rightarrow> goerr + pod list"
  listPodsByClass :: "history \<Rightarrow> string \<Rightarrow> goerr + pod list"
  listNfdCount :: "history \<Rightarrow> goerr + nat"
  listKataConfigs :: "history \<Rightarrow> goerr + kataconfig list"
  listCsvs :: "history \<Rightarrow> string \<Rightarrow> goerr + csv list"
  getConsole :: "history \<Rightarrow> goerr + consoleOperator"
  getApiServer :: "history \<Rightarrow> goerr + apiServerConfig"
  getDeployment :: "history \<Rightarrow> string \<Rightarrow> string \<Rightarrow> goerr + deployment"
  getNamespace :: "history \<Rightarrow> string \<Rightarrow> goerr + namespaceObj"
  writeError :: "history \<Rightarrow> request \<Rightarrow> goerr option"
  writtenKataConfig :: "history \<Rightarrow> request \<Rightarrow> kataconfig"
  mutableNetworkPolicy :: "history \<Rightarrow> string \<Rightarrow> string \<Rightarrow> goerr + networkPolicy"
  mutableScc :: "history \<Rightarrow> string \<Rightarrow> goerr + scc"
  mutableDaemonSet :: "history \<Rightarrow> string \<Rightarrow> string \<Rightarrow> goerr + daemonSet"
  mutableNodeFeatureRule :: "history \<Rightarrow> string \<Rightarrow> string \<Rightarrow> goerr + nodeFeatureRule"
  mutableService :: "history \<Rightarrow> string \<Rightarrow> string \<Rightarrow> goerr + service"
  mutableDeployment :: "history \<Rightarrow> string \<Rightarrow> string \<Rightarrow> goerr + deployment"
  mutableWebhookConfig :: "history \<Rightarrow> string \<Rightarrow> goerr + mutatingWebhookConfig"
  mutableConfigMap :: "history \<Rightarrow> string \<Rightarrow> string \<Rightarrow> goerr + configMap"
  mutableSecret :: "history \<Rightarrow> string \<Rightarrow> string \<Rightarrow> goerr + secret"
  mutableConsolePlugin :: "history \<Rightarrow> string \<Rightarrow> goerr + consolePlugin"

record lib =
  labelSelectorAsSelector :: "labelSelector \<Rightarrow> goerr + (labels \<Rightarrow> bool)"
  addLabelToSelector :: "labelSelector \<Rightarrow> string \<Rightarrow> string \<Rightarrow> labelSelector"
  controllerRefs :: "kataconfig \<Rightarrow> objMeta \<Rightarrow> goerr + ownerRef list"
  hasFinalizer :: "string list \<Rightarrow> string \<Rightarrow> bool"
  withFinalizer :: "string list \<Rightarrow> string \<Rightarrow> string list"
  withoutFinalizer :: "string list \<Rightarrow> string \<Rightarrow> string list"
  isMcpConditionTrue :: "mcpCondition list \<Rightarrow> string \<Rightarrow> bool"
  getMcpCondition :: "mcpStatus \<Rightarrow> string \<Rightarrow> mcpCondition option"
  marshalIgnition :: "ignConfig \<Rightarrow> goerr + string"
  loadReleaseInfo :: "string \<Rightarrow> goerr + releaseTag list"
  profileCipherIDs :: "string \<Rightarrow> string list \<Rightarrow> nat list"
  ianaByID :: "nat \<rightharpoonup> string"
  unmarshalJob :: "string \<Rightarrow> goerr + job"
  unmarshalConfigMap :: "string \<Rightarrow> goerr + configMap"
  inClusterConfig :: "goerr option"
  newForConfig :: "goerr option"
  unmarshalCredentialsRequest :: "string \<Rightarrow> goerr + credentialsRequest"
  setOwnerReference :: "objMeta \<Rightarrow> objMeta \<Rightarrow> goerr + ownerRef list"
  jsonTypeField :: "string \<Rightarrow> goerr + string"
  marshalJson :: "json \<Rightarrow> goerr + string"
  sha256Hex :: "string \<Rightarrow> string"
  tlsProfiles :: "string \<rightharpoonup> tlsProfileSpec"
  versionAtLeast :: "string \<Rightarrow> nat \<Rightarrow> nat \<Rightarrow> bool option"
  retrySteps :: nat

record proc =
  lookupEnv :: "string \<Rightarrow> string option"
  readFile :: "string \<Rightarrow> goerr + string"
  goArch :: string
  clock :: "history \<Rightarrow> nat"
  rangeKeys :: "history \<Rightarrow> labels \<Rightarrow> string list"

record env =
  apiOf :: api
  libOf :: lib
  procOf :: proc

text \<open>\<open>os.Getenv\<close>: the empty string for an unset variable.\<close>

definition getenv :: "env \<Rightarrow> string \<Rightarrow> string" where
  "getenv E k = (case lookupEnv (procOf E) k of Some v \<Rightarrow> v | None \<Rightarrow> [])"

text \<open>
  \<open>controllerutil\<close>: \<open>SetControllerReference\<close> computes an object's owner references or fails,
  \<open>ContainsFinalizer\<close>, \<open>AddFinalizer\<close> and \<open>RemoveFinalizer\<close> work on its finalizers.
\<close>

definition SetControllerReference :: "env \<Rightarrow> kataconfig \<Rightarrow> objMeta \<Rightarrow> goerr + objMeta" where
  "SetControllerReference E owner m = (case controllerRefs (libOf E) owner m of
     Inl e \<Rightarrow> Inl e | Inr refs \<Rightarrow> Inr (m\<lparr>OwnerReferences := refs\<rparr>))"

definition ContainsFinalizer :: "env \<Rightarrow> objMeta \<Rightarrow> string \<Rightarrow> bool" where
  "ContainsFinalizer E m f = hasFinalizer (libOf E) (Finalizers m) f"

definition AddFinalizer :: "env \<Rightarrow> string \<Rightarrow> objMeta \<Rightarrow> objMeta" where
  "AddFinalizer E f m = m\<lparr>Finalizers := withFinalizer (libOf E) (Finalizers m) f\<rparr>"

definition RemoveFinalizer :: "env \<Rightarrow> string \<Rightarrow> objMeta \<Rightarrow> objMeta" where
  "RemoveFinalizer E f m = m\<lparr>Finalizers := withoutFinalizer (libOf E) (Finalizers m) f\<rparr>"

lemma SetControllerReference_Inr:
  "SetControllerReference E owner m = Inr m' \<Longrightarrow> \<exists>refs. m' = m\<lparr>OwnerReferences := refs\<rparr>"
  by (auto simp: SetControllerReference_def split: sum.splits)

section \<open>Client operations\<close>

definition outcome :: "goerr + 'a \<Rightarrow> goerr option" where
  "outcome r = (case r of Inl e \<Rightarrow> Some e | Inr _ \<Rightarrow> None)"

definition readOp :: "request \<Rightarrow> (history \<Rightarrow> goerr + 'a) \<Rightarrow> ('z, goerr + 'a) op" where
  "readOp q f = State (\<lambda>s. let r = f (trace s) in (r, s\<lparr>trace := trace s @ [Ev q (outcome r)]\<rparr>))"

definition probeOp :: "env \<Rightarrow> rkind \<Rightarrow> string \<Rightarrow> string \<Rightarrow> ('z, goerr option) op" where
  "probeOp E k ns name = State (\<lambda>s. let r = probeKind (apiOf E) (trace s) k ns name
     in (r, s\<lparr>trace := trace s @ [Ev (GetReq k ns name) r]\<rparr>))"

definition writeOp :: "env \<Rightarrow> request \<Rightarrow> ('z, goerr option) op" where
  "writeOp E q = State (\<lambda>s. let r = writeError (apiOf E) (trace s) q
     in (r, s\<lparr>trace := trace s @ [Ev q r]\<rparr>))"

lemma run_readOp [simp]:
  "run_state (readOp q f) s = (f (trace s), s\<lparr>trace := trace s @ [Ev q (outcome (f (trace s)))]\<rparr>)"
  by (simp add: readOp_def Let_def)

lemma run_probeOp [simp]:
  "run_state (probeOp E k ns name) s =
     (probeKind (apiOf E) (trace s) k ns name,
      s\<lparr>trace := trace s @ [Ev (GetReq k ns name) (probeKind (apiOf E) (trace s) k ns name)]\<rparr>)"
  by (simp add: probeOp_def Let_def)

lemma run_writeOp [simp]:
  "run_state (writeOp E q) s =
     (writeError (apiOf E) (trace s) q,
      s\<lparr>trace := trace s @ [Ev q (writeError (apiOf E) (trace s) q)]\<rparr>)"
  by (simp add: writeOp_def Let_def)

lemma outcome_simps [simp]: "outcome (Inl e) = Some e" "outcome (Inr x) = None"
  by (simp_all add: outcome_def)

lemma wp_readOp [wp_simps]:
  "wp (readOp q f) Q s = Q (f (trace s)) (s\<lparr>trace := trace s @ [Ev q (outcome (f (trace s)))]\<rparr>)"
  by (simp add: wp_run_state)

lemma wp_probeOp [wp_simps]:
  "wp (probeOp E k ns name) Q s =
     Q (probeKind (apiOf E) (trace s) k ns name)
       (s\<lparr>trace := trace s @ [Ev (GetReq k ns name) (probeKind (apiOf E) (trace s) k ns name)]\<rparr>)"
  by (simp add: wp_run_state)

lemma wp_writeOp [wp_simps]:
  "wp (writeOp E q) Q s =
     Q (writeError (apiOf E) (trace s) q)
       (s\<lparr>trace := trace s @ [Ev q (writeError (apiOf E) (trace s) q)]\<rparr>)"
  by (simp add: wp_run_state)

lemma emits_readOp [emits_intros]: "(\<And>r. P (Ev q r)) \<Longrightarrow> emits P (readOp q f)"
  by (simp add: emits_def exec_def)

lemma emits_probeOp [emits_intros]:
  "(\<And>r. P (Ev (GetReq k ns name) r)) \<Longrightarrow> emits P (probeOp E k ns name)"
  by (simp add: emits_def exec_def)

lemma emits_writeOp [emits_intros]: "(\<And>r. P (Ev q r)) \<Longrightarrow> emits P (writeOp E q)"
  by (simp add: emits_def exec_def)

lemma preserves_readOp [preserves_intros]:
  "(\<And>s t. f (s\<lparr>trace := t\<rparr>) = f s) \<Longrightarrow> preserves f (readOp q g)"
  by (simp add: preserves_def exec_def)

lemma preserves_probeOp [preserves_intros]:
  "(\<And>s t. f (s\<lparr>trace := t\<rparr>) = f s) \<Longrightarrow> preserves f (probeOp E k ns name)"
  by (simp add: preserves_def exec_def)

lemma preserves_writeOp [preserves_intros]:
  "(\<And>s t. f (s\<lparr>trace := t\<rparr>) = f s) \<Longrightarrow> preserves f (writeOp E q)"
  by (simp add: preserves_def exec_def)

lemma guarded_readOp [guarded_intros]:
  assumes "\<And>r. G (trace s) (Ev q r)"
    and "\<And>r s'. set (trace s') = insert (Ev q (outcome r)) (set (trace s)) \<Longrightarrow> Q r s'"
  shows "guarded G (readOp q f) Q s"
proof -
  have "Q (f (trace s)) (s\<lparr>trace := trace s @ [Ev q (outcome (f (trace s)))]\<rparr>)"
    by (rule assms(2)) simp
  then show ?thesis using assms(1) by (simp add: guarded_def exec_def result_def)
qed

lemma guarded_probeOp [guarded_intros]:
  assumes "\<And>r. G (trace s) (Ev (GetReq k ns name) r)"
    and "\<And>r s'. set (trace s') = insert (Ev (GetReq k ns name) r) (set (trace s)) \<Longrightarrow> Q r s'"
  shows "guarded G (probeOp E k ns name) Q s"
proof -
  let ?r = "probeKind (apiOf E) (trace s) k ns name"
  have "Q ?r (s\<lparr>trace := trace s @ [Ev (GetReq k ns name) ?r]\<rparr>)"
    by (rule assms(2)) simp
  then show ?thesis using assms(1) by (simp add: guarded_def exec_def result_def)
qed

lemma guarded_writeOp [guarded_intros]:
  assumes "\<And>r. G (trace s) (Ev q r)"
    and "\<And>r s'. set (trace s') = insert (Ev q r) (set (trace s)) \<Longrightarrow> Q r s'"
  shows "guarded G (writeOp E q) Q s"
proof -
  let ?r = "writeError (apiOf E) (trace s) q"
  have "Q ?r (s\<lparr>trace := trace s @ [Ev q ?r]\<rparr>)" by (rule assms(2)) simp
  then show ?thesis using assms(1) by (simp add: guarded_def exec_def result_def)
qed

text \<open>
  \<open>controllerutil.CreateOrUpdate\<close>: \<open>fetch\<close> gives the object the mutate function works on, \<open>wrap\<close>
  its kind; the mutate function may itself call the client, and nothing is written when it fails.
\<close>

definition createOrUpdateM ::
  "env \<Rightarrow> request \<Rightarrow> (history \<Rightarrow> goerr + 'o) \<Rightarrow> ('o \<Rightarrow> kobj) \<Rightarrow> ('o \<Rightarrow> ('z, goerr + 'o) op) \<Rightarrow>
   ('z, goerr option) op" where
  "createOrUpdateM E q fetch wrap mutate =
     onInl (readOp q fetch) (\<lambda>e. return (Some e)) (\<lambda>obj.
     onInl (mutate obj) (\<lambda>e. return (Some e)) (\<lambda>obj'.
     writeOp E (CreateOrUpdateReq (wrap obj'))))"

definition createOrUpdate ::
  "env \<Rightarrow> request \<Rightarrow> (history \<Rightarrow> goerr + 'o) \<Rightarrow> ('o \<Rightarrow> kobj) \<Rightarrow> ('o \<Rightarrow> goerr + 'o) \<Rightarrow> ('z, goerr option) op"
  where
  "createOrUpdate E q fetch wrap mutate =
     onInl (readOp q fetch) (\<lambda>e. return (Some e)) (\<lambda>obj.
       case mutate obj of
         Inl e \<Rightarrow> return (Some e)
       | Inr obj' \<Rightarrow> writeOp E (CreateOrUpdateReq (wrap obj')))"

lemma emits_createOrUpdateM [emits_intros]:
  assumes "\<And>r. P (Ev q r)" and "\<And>obj. emits P (mutate obj)"
    and "\<And>obj r. P (Ev (CreateOrUpdateReq (wrap obj)) r)"
  shows "emits P (createOrUpdateM E q fetch wrap mutate)"
  unfolding createOrUpdateM_def by (intro emits_intros assms)

lemma preserves_createOrUpdateM [preserves_intros]:
  "(\<And>s t. f (s\<lparr>trace := t\<rparr>) = f s) \<Longrightarrow> (\<And>obj. preserves f (mutate obj)) \<Longrightarrow>
   preserves f (createOrUpdateM E q fetch wrap mutate)"
  unfolding createOrUpdateM_def by (intro preserves_intros) simp_all

lemma emits_createOrUpdate:
  assumes "\<And>r. P (Ev q r)"
    and "\<And>obj obj' r. mutate obj = Inr obj' \<Longrightarrow> P (Ev (CreateOrUpdateReq (wrap obj')) r)"
  shows "emits P (createOrUpdate E q fetch wrap mutate)"
  unfolding createOrUpdate_def
proof (intro emits_onInl emits_readOp emits_return assms(1))
  show "emits P (case mutate x of Inl e \<Rightarrow> return (Some e)
      | Inr obj' \<Rightarrow> writeOp E (CreateOrUpdateReq (wrap obj')))" for x
    using assms(2)[of x] by (cases "mutate x") (auto intro!: emits_intros)
qed

lemma preserves_createOrUpdate [preserves_intros]:
  "(\<And>s t. f (s\<lparr>trace := t\<rparr>) = f s) \<Longrightarrow> preserves f (createOrUpdate E q fetch wrap mutate)"
  unfolding createOrUpdate_def by (intro preserves_intros) simp_all

lemma wp_createOrUpdate:
  "wp (createOrUpdate E q fetch wrap mutate)
     (\<lambda>r s'. r = None \<longrightarrow> (\<exists>obj obj'. mutate obj = Inr obj' \<and>
        Ev (CreateOrUpdateReq (wrap obj')) None \<in> set (trace s'))) s"
  unfolding createOrUpdate_def by (auto simp: wp_simps split: sum.split)

text \<open>Gets and lists, one abbreviation per kind.\<close>

abbreviation getCM :: "env \<Rightarrow> string \<Rightarrow> string \<Rightarrow> ('z, goerr + configMap) op" where
  "getCM E ns name \<equiv> readOp (GetReq KConfigMap ns name) (\<lambda>h. getConfigMap (apiOf E) h ns name)"

abbreviation getSec :: "env \<Rightarrow> string \<Rightarrow> string \<Rightarrow> ('z, goerr + secret) op" where
  "getSec E ns name \<equiv> readOp (GetReq KSecret ns name) (\<lambda>h. getSecret (apiOf E) h ns name)"

abbreviation getMCP :: "env \<Rightarrow> string \<Rightarrow> ('z, goerr + mcp) op" where
  "getMCP E name \<equiv>
     readOp (GetReq KMachineConfigPool [] name) (\<lambda>h. getMachineConfigPool (apiOf E) h name)"

abbreviation getMC :: "env \<Rightarrow> string \<Rightarrow> ('z, goerr + machineConfig) op" where
  "getMC E name \<equiv> readOp (GetReq KMachineConfig [] name) (\<lambda>h. getMachineConfig (apiOf E) h name)"

abbreviation getRC :: "env \<Rightarrow> string \<Rightarrow> ('z, goerr + runtimeClass) op" where
  "getRC E name \<equiv> readOp (GetReq KRuntimeClass [] name) (\<lambda>h. getRuntimeClass (apiOf E) h name)"

abbreviation getSCC :: "env \<Rightarrow> string \<Rightarrow> ('z, goerr + scc) op" where
  "getSCC E name \<equiv> readOp (GetReq KScc [] name) (\<lambda>h. getScc (apiOf E) h name)"

abbreviation getDS :: "env \<Rightarrow> string \<Rightarrow> string \<Rightarrow> ('z, goerr + daemonSet) op" where
  "getDS E ns name \<equiv> readOp (GetReq KDaemonSet ns name) (\<lambda>h. getDaemonSet (apiOf E) h ns name)"

abbreviation getCRC :: "env \<Rightarrow> string \<Rightarrow> ('z, goerr + ctrRuntimeConfig) op" where
  "getCRC E name \<equiv>
     readOp (GetReq KCtrRuntimeConfig [] name) (\<lambda>h. getCtrRuntimeConfig (apiOf E) h name)"

abbreviation getCV :: "env \<Rightarrow> ('z, goerr + clusterVersion) op" where
  "getCV E \<equiv> readOp (GetReq KClusterVersion [] ''version'') (getClusterVersion (apiOf E))"

abbreviation listNodesOp :: "env \<Rightarrow> nodeQuery \<Rightarrow> ('z, goerr + node list) op" where
  "listNodesOp E q \<equiv> readOp (ListReq KNode) (\<lambda>h. listNodes (apiOf E) h q)"

abbreviation listPodsOp :: "env \<Rightarrow> ('z, goerr + pod list) op" where
  "listPodsOp E \<equiv> readOp (ListReq KPod) (listPods (apiOf E))"

section \<open>The writes of an operation\<close>

text \<open>
  \<open>writesOf m s\<close> is the list of write requests \<open>m\<close> sends from \<open>s\<close>, in order. The rules compute it
  along the structure of an operation whose parts only append to the trace.
\<close>

abbreviation appends :: "('z, 'a) op \<Rightarrow> bool" where
  "appends m \<equiv> emits (\<lambda>_. True) m"

definition writesOf :: "('z, 'a) op \<Rightarrow> (event, 'z) traced_scheme \<Rightarrow> request list" where
  "writesOf m s = map evRequest (filter (\<lambda>e. isWrite (evRequest e)) (newEvents m s))"

lemma newEvents_bind:
  assumes "appends m" and "\<And>x. appends (f x)"
  shows "newEvents (State_Monad.bind m f) s =
    newEvents m s @ newEvents (f (result m s)) (exec m s)"
proof -
  have ex: "exec (State_Monad.bind m f) s = exec (f (result m s)) (exec m s)"
    by (simp add: exec_def result_def split: prod.splits)
  show ?thesis
    by (simp only: newEvents_def[of "State_Monad.bind m f"] ex
        emits_newEvents(1)[OF assms(2), of "result m s" "exec m s"] emits_newEvents(1)[OF assms(1), of s])
      simp
qed

lemma writesOf_bind:
  assumes "appends m" and "\<And>x. appends (f x)"
  shows "writesOf (State_Monad.bind m f) s = writesOf m s @ writesOf (f (result m s)) (exec m s)"
  unfolding writesOf_def newEvents_bind[OF assms] by simp

lemma writesOf_onInl:
  assumes "appends m" and "\<And>e. appends (h e)" and "\<And>x. appends (k x)"
  shows "writesOf (onInl m h k) s = writesOf m s @
    (case result m s of Inl e \<Rightarrow> writesOf (h e) (exec m s) | Inr x \<Rightarrow> writesOf (k x) (exec m s))"
  unfolding onInl_def
  by (subst writesOf_bind) (auto intro!: emits_intros assms split: sum.split)

lemma writesOf_onErr:
  assumes "appends m" and "\<And>e. appends (h e)" and "appends k"
  shows "writesOf (onErr m h k) s = writesOf m s @
    (case result m s of Some e \<Rightarrow> writesOf (h e) (exec m s) | None \<Rightarrow> writesOf k (exec m s))"
  unfolding onErr_def
  by (subst writesOf_bind) (auto intro!: emits_intros assms split: option.split)

lemma writesOf_readOnly: "emits readOnly m \<Longrightarrow> writesOf m s = []"
  using emits_newEvents(2)[of readOnly m s]
  by (auto simp: writesOf_def filter_empty_conv list_all_iff readOnly_def)

lemma writesOf_simps [simp]:
  "writesOf (return x) s = []" "writesOf (gets g) s = []" "writesOf (probeOp E k ns n) s = []"
  "writesOf (writeOp E q) s = (if isWrite q then [q] else [])"
  by (simp_all add: writesOf_def newEvents_def exec_def)

lemma writesOf_modify: "(\<And>s. trace (f s) = trace s) \<Longrightarrow> writesOf (modify f) s = []"
  by (simp add: writesOf_def newEvents_def exec_def)

lemma writesOf_readOp [simp]:
  "writesOf (readOp (GetReq k ns n) f) s = []" "writesOf (readOp (ListReq k) f) s = []"
  by (simp_all add: writesOf_def newEvents_def exec_def)

lemma run_parts [simp]:
  "result (return x) s = x" "exec (return x) s = s"
  "result (readOp q f) s = f (trace s)"
  "exec (readOp q f) s = s\<lparr>trace := trace s @ [Ev q (outcome (f (trace s)))]\<rparr>"
  "result (writeOp E q) s = writeError (apiOf E) (trace s) q"
  "exec (writeOp E q) s = s\<lparr>trace := trace s @ [Ev q (writeError (apiOf E) (trace s) q)]\<rparr>"
  by (simp_all add: result_def exec_def)

lemma run_gets_parts [simp]: "result (gets g) s = g s" "exec (gets g) s = s"
  by (simp_all add: result_def exec_def)

lemma exec_modify [simp]: "exec (modify g) s = g s"
  by (simp add: exec_def)

lemma run_bind:
  "result (State_Monad.bind m f) s = result (f (result m s)) (exec m s)"
  "exec (State_Monad.bind m f) s = exec (f (result m s)) (exec m s)"
  by (simp_all add: result_def exec_def split: prod.splits)

lemma run_onInl:
  "result (onInl m h k) s =
     (case result m s of Inl e \<Rightarrow> result (h e) (exec m s) | Inr x \<Rightarrow> result (k x) (exec m s))"
  "exec (onInl m h k) s =
     (case result m s of Inl e \<Rightarrow> exec (h e) (exec m s) | Inr x \<Rightarrow> exec (k x) (exec m s))"
  by (simp_all add: onInl_def run_bind split: sum.split)

lemma run_onErr:
  "result (onErr m h k) s =
     (case result m s of Some e \<Rightarrow> result (h e) (exec m s) | None \<Rightarrow> result k (exec m s))"
  "exec (onErr m h k) s =
     (case result m s of Some e \<Rightarrow> exec (h e) (exec m s) | None \<Rightarrow> exec k (exec m s))"
  by (simp_all add: onErr_def run_bind split: option.split)

lemmas run_simps = run_bind run_onInl run_onErr

lemma appends_createOrUpdate: "appends (createOrUpdate E q fetch wrap mutate)"
  by (rule emits_createOrUpdate) simp_all

lemma writesOf_createOrUpdate:
  "writesOf (createOrUpdate E (GetReq k ns n) fetch wrap mutate) s =
    (case fetch (trace s) of
       Inl _ \<Rightarrow> []
     | Inr obj \<Rightarrow> (case mutate obj of Inl _ \<Rightarrow> [] | Inr obj' \<Rightarrow> [CreateOrUpdateReq (wrap obj')]))"
  unfolding createOrUpdate_def
  by (subst writesOf_onInl; (intro emits_intros TrueI)?) (auto split: sum.split)

section \<open>What a successful operation has done\<close>

text \<open>
  \<open>achieves ok P m\<close>: whenever \<open>m\<close> returns a value satisfying \<open>ok\<close>, some event it has appended to the
  trace satisfies \<open>P\<close>. A chain of error checks achieves what any of its links achieves.
\<close>

definition achieves :: "('a \<Rightarrow> bool) \<Rightarrow> (event \<Rightarrow> bool) \<Rightarrow> ('z, 'a) op \<Rightarrow> bool" where
  "achieves ok P m \<longleftrightarrow> (\<forall>s. ok (result m s) \<longrightarrow> (\<exists>e \<in> set (newEvents m s). P e))"

abbreviation noError :: "goerr option \<Rightarrow> bool" where
  "noError r \<equiv> r = None"

lemma achievesD: "achieves ok P m \<Longrightarrow> ok (result m s) \<Longrightarrow> \<exists>e \<in> set (newEvents m s). P e"
  by (simp add: achieves_def)

lemma achieves_mono:
  "achieves ok P m \<Longrightarrow> (\<And>e. P e \<Longrightarrow> R e) \<Longrightarrow> (\<And>x. ok' x \<Longrightarrow> ok x) \<Longrightarrow> achieves ok' R m"
  unfolding achieves_def by blast

lemma newEvents_onErr:
  assumes "appends m" and "\<And>e. appends (h e)" and "appends k"
  shows "newEvents (onErr m h k) s = newEvents m s @
    (case result m s of Some e \<Rightarrow> newEvents (h e) (exec m s) | None \<Rightarrow> newEvents k (exec m s))"
  unfolding onErr_def by (subst newEvents_bind) (auto intro!: emits_intros assms split: option.split)

lemma newEvents_onInl:
  assumes "appends m" and "\<And>e. appends (h e)" and "\<And>x. appends (k x)"
  shows "newEvents (onInl m h k) s = newEvents m s @
    (case result m s of Inl e \<Rightarrow> newEvents (h e) (exec m s) | Inr x \<Rightarrow> newEvents (k x) (exec m s))"
  unfolding onInl_def by (subst newEvents_bind) (auto intro!: emits_intros assms split: sum.split)

lemma achieves_onErr_first:
  assumes "achieves noError P m" and "\<And>e s. \<not> ok (result (h e) s)"
    and "appends m" "\<And>e. appends (h e)" "appends k"
  shows "achieves ok P (onErr m h k)"
  using assms(1,2) unfolding achieves_def
  by (simp add: newEvents_onErr[OF assms(3-5)] run_simps bex_Un split: option.split)

lemma achieves_onErr_rest:
  assumes "achieves ok P k" and "\<And>e s. \<not> ok (result (h e) s)"
    and "appends m" "\<And>e. appends (h e)" "appends k"
  shows "achieves ok P (onErr m h k)"
  using assms(1,2) unfolding achieves_def
  by (simp add: newEvents_onErr[OF assms(3-5)] run_simps bex_Un split: option.split)

lemma achieves_onInl_rest:
  assumes "\<And>x. achieves ok P (k x)" and "\<And>e s. \<not> ok (result (h e) s)"
    and "appends m" "\<And>e. appends (h e)" "\<And>x. appends (k x)"
  shows "achieves ok P (onInl m h k)"
  using assms(1,2) unfolding achieves_def
  by (simp add: newEvents_onInl[OF assms(3-5)] run_simps bex_Un split: sum.split)

lemma achieves_bind_first:
  assumes "achieves ok' P m" and "\<And>x s. ok (result (k x) s) \<Longrightarrow> ok' x"
    and "appends m" "\<And>x. appends (k x)"
  shows "achieves ok P (State_Monad.bind m k)"
  using assms(1,2) unfolding achieves_def
  by (simp add: newEvents_bind[OF assms(3-4)] run_simps bex_Un)

lemma achieves_bind_rest:
  assumes "\<And>x. achieves ok P (k x)" and "appends m" "\<And>x. appends (k x)"
  shows "achieves ok P (State_Monad.bind m k)"
  using assms(1) unfolding achieves_def
  by (simp add: newEvents_bind[OF assms(2-3)] run_simps bex_Un)

lemma achieves_return: "\<not> ok x \<Longrightarrow> achieves ok P (return x)"
  by (simp add: achieves_def)

lemma achieves_writeOp: "P (Ev q None) \<Longrightarrow> achieves noError P (writeOp E q)"
  by (simp add: achieves_def newEvents_def)

lemma achieves_createOrUpdateM:
  assumes "\<And>obj s. wp (mutate obj) (\<lambda>r _. case r of Inl _ \<Rightarrow> True
      | Inr obj' \<Rightarrow> P (Ev (CreateOrUpdateReq (wrap obj')) None)) s"
    and "\<And>obj. appends (mutate obj)"
  shows "achieves noError P (createOrUpdateM E q fetch wrap mutate)"
proof -
  have one: "achieves noError P (onInl (mutate obj) (\<lambda>e. return (Some e))
      (\<lambda>obj'. writeOp E (CreateOrUpdateReq (wrap obj'))))" for obj
    unfolding achieves_def
  proof (intro allI impI)
    fix s assume ok: "result (onInl (mutate obj) (\<lambda>e. return (Some e))
      (\<lambda>obj'. writeOp E (CreateOrUpdateReq (wrap obj')))) s = None"
    show "\<exists>e \<in> set (newEvents (onInl (mutate obj) (\<lambda>e. return (Some e))
      (\<lambda>obj'. writeOp E (CreateOrUpdateReq (wrap obj')))) s). P e"
    proof (cases "result (mutate obj) s")
      case (Inl e)
      then show ?thesis using ok by (simp add: run_simps)
    next
      case (Inr obj')
      then have "P (Ev (CreateOrUpdateReq (wrap obj')) None)" using assms(1)[of obj s] by (simp add: wp_def)
      then show ?thesis using ok Inr
        by (subst newEvents_onInl; (intro emits_intros assms(2) TrueI)?)
          (simp add: run_simps newEvents_def)
    qed
  qed
  show ?thesis unfolding createOrUpdateM_def
    by (rule achieves_onInl_rest[OF one]) (simp_all add: emits_return emits_readOp emits_onInl assms(2) emits_writeOp)
qed

lemma achieves_createOrUpdate:
  assumes "\<And>obj obj'. mutate obj = Inr obj' \<Longrightarrow> P (Ev (CreateOrUpdateReq (wrap obj')) None)"
  shows "achieves noError P (createOrUpdate E q fetch wrap mutate)"
  unfolding createOrUpdate_def
proof (rule achieves_onInl_rest)
  fix obj
  show "achieves noError P (case mutate obj of Inl e \<Rightarrow> return (Some e)
      | Inr obj' \<Rightarrow> writeOp E (CreateOrUpdateReq (wrap obj')))"
    using assms[of obj] by (cases "mutate obj") (simp_all add: achieves_return achieves_writeOp)
qed (simp_all add: emits_return emits_readOp emits_case_sum emits_writeOp)

text \<open>The same as a fact about the trace at the end.\<close>

lemma achieves_wp:
  assumes "achieves ok P m" and "appends m"
  shows "wp m (\<lambda>r s'. ok r \<longrightarrow> (\<exists>e \<in> set (trace s'). P e)) s"
  using achievesD[OF assms(1), of s] emits_newEvents(1)[OF assms(2), of s] by (auto simp: wp_def)

text \<open>Stepping through a guarded operation: the trace grows, and a success leaves its event behind.\<close>

lemma guarded_bind_grown:
  assumes "emits P m" and "\<And>h e. P e \<Longrightarrow> G h e" and "\<And>x s'. grown s s' \<Longrightarrow> guarded G (k x) Q s'"
  shows "guarded G (State_Monad.bind m k) Q s"
proof (rule guarded_bind, rule guarded_emits_wp[OF assms(1,2)])
  show "wp m (\<lambda>_ s'. grown s s') s"
    by (rule wp_grown) (auto intro: emits_mono[OF assms(1)])
qed (auto intro: assms(3))

lemma guarded_onInl_grown:
  assumes "emits P m" and "\<And>h e. P e \<Longrightarrow> G h e" and "\<And>e s'. grown s s' \<Longrightarrow> guarded G (h e) Q s'"
    and "\<And>x s'. grown s s' \<Longrightarrow> guarded G (k x) Q s'"
  shows "guarded G (onInl m h k) Q s"
  unfolding onInl_def
  by (rule guarded_bind_grown[OF assms(1,2)]) (auto intro: guarded_case_sum assms(3,4))

lemma guarded_onErr_grown:
  assumes "emits P m" and "\<And>h e. P e \<Longrightarrow> G h e" and "\<And>e s'. grown s s' \<Longrightarrow> guarded G (h e) Q s'"
    and "\<And>s'. grown s s' \<Longrightarrow> guarded G k Q s'"
  shows "guarded G (onErr m h k) Q s"
  unfolding onErr_def
  by (rule guarded_bind_grown[OF assms(1,2)]) (auto intro: guarded_case_option assms(3,4))

definition since :: "nat \<Rightarrow> (event \<Rightarrow> bool) \<Rightarrow> history \<Rightarrow> bool" where
  "since n A h \<longleftrightarrow> (\<exists>e \<in> set (drop n h). A e)"

lemma since_grown: "since n A (trace s) \<Longrightarrow> grown s s' \<Longrightarrow> since n A (trace s')"
  by (auto simp: since_def grown_def)

lemma since_le: "since n A h \<Longrightarrow> m \<le> n \<Longrightarrow> since m A h"
  unfolding since_def by (metis set_drop_subset_set_drop subsetD)

lemma since_append: "since n A h \<Longrightarrow> since n A (h @ h')"
  by (auto simp: since_def)

lemma guarded_onErr_achieves:
  assumes "emits P m" and "\<And>h e. P e \<Longrightarrow> G h e" and "achieves noError A m"
    and "\<And>e s'. grown s s' \<Longrightarrow> guarded G (h e) Q s'"
    and "\<And>s'. grown s s' \<Longrightarrow> since (length (trace s)) A (trace s') \<Longrightarrow> guarded G k Q s'"
  shows "guarded G (onErr m h k) Q s"
proof (rule guarded_onErr, rule guarded_emits_wp[OF assms(1,2)])
  have ap: "appends m" using assms(1) by (rule emits_mono) simp
  have "result m s = None \<longrightarrow> since (length (trace s)) A (trace (exec m s))"
    using achievesD[OF assms(3), of s] by (auto simp: since_def newEvents_def)
  then show "wp m (\<lambda>r s'. grown s s' \<and> (r = None \<longrightarrow> since (length (trace s)) A (trace s'))) s"
    using grown_exec[OF ap, of s] by (simp add: wp_def)
qed (auto intro: assms(4,5))

text \<open>A guarantee about the events of one call only.\<close>

lemma permitted_call: "permitted (\<lambda>h. G (drop (length t) h)) (t @ h) new = permitted G h new"
proof (induction new arbitrary: h)
  case (Cons e new)
  have "permitted (\<lambda>h. G (drop (length t) h)) (t @ (h @ [e])) new = permitted G (h @ [e]) new" by (rule Cons)
  then show ?case by simp
qed simp

lemma guarded_call:
  assumes "guarded (\<lambda>h. G (drop (length (trace s)) h)) m Q s"
  shows "permitted G [] (newEvents m s)"
  using guarded_permitted[OF assms] permitted_call[of G "trace s" "[]"] by simp

end
