(* ===== verification/Kata_Status.thy ===== *)
theory Kata_Status
  imports Kube_Client
begin

text \<open>
  The reconciler's state and the part of \<^verbatim>\<open>controllers/openshift_controller.go\<close> that computes
  KataConfig status: the InProgress condition and its mutators, the predicates that classify a
  node from its MCO state, the node status lists, and the status comparison of the reconcile
  loop. The contract shared by all InProgress mutators is the locale \<open>inprogress_mutator\<close>; the
  one shared by the functions that put a node on a status list is \<open>node_placement\<close>.
\<close>

section \<open>The reconciler\<close>

datatype deploymentMode = MachineConfigMode | DaemonSetMode | UnknownMode int

record imageGenerator =
  igProvider :: string
  igClusterId :: string
  CMimageIDKey :: string
  igFips :: bool

text \<open>
  The reconciler's fields and the package-level variables its methods use: \<open>ig\<close>, the image
  generator, whose \<open>sync.Once\<close> is reset on an error, so that it has run exactly when \<open>ig\<close> is
  set; and \<open>eventCache\<close>, the times of the last Kubernetes events by key.
\<close>

record rstate = "event traced" +
  kataConfig :: kataconfig
  ImgMc :: "machineConfig option"
  DeploymentMode :: deploymentMode
  TLSProfileSpec :: tlsProfileSpec
  HonorTLSProfile :: bool
  ig :: "imageGenerator option"
  eventCache :: "string \<rightharpoonup> nat"

record ctrlResult =
  Requeue :: bool
  RequeueAfter :: nat

definition emptyResult :: ctrlResult where
  "emptyResult = \<lparr>Requeue = False, RequeueAfter = 0\<rparr>"

definition requeueIn :: "nat \<Rightarrow> ctrlResult" where
  "requeueIn n = \<lparr>Requeue = True, RequeueAfter = n\<rparr>"

definition OperatorNamespace :: string where
  "OperatorNamespace = ''openshift-sandboxed-containers-operator''"

definition kataConfigFinalizer :: string where
  "kataConfigFinalizer = ''kataconfiguration.openshift.io/finalizer''"

text \<open>Changing the status of the in-memory KataConfig.\<close>

definition onStatus :: "(kataConfigStatus \<Rightarrow> kataConfigStatus) \<Rightarrow> rstate \<Rightarrow> rstate" where
  "onStatus f r = r\<lparr>kataConfig := (kataConfig r)\<lparr>Status := f (Status (kataConfig r))\<rparr>\<rparr>"

lemma onStatus_simps [simp]:
  "trace (onStatus f r) = trace r" "ImgMc (onStatus f r) = ImgMc r"
  "DeploymentMode (onStatus f r) = DeploymentMode r" "ig (onStatus f r) = ig r"
  "Spec (kataConfig (onStatus f r)) = Spec (kataConfig r)"
  "kcMeta (kataConfig (onStatus f r)) = kcMeta (kataConfig r)"
  "Status (kataConfig (onStatus f r)) = f (Status (kataConfig r))"
  by (simp_all add: onStatus_def)

text \<open>
  \<open>Client.Update\<close> and \<open>Client.Status().Update\<close> of the KataConfig: on success the object in
  memory is the one the server answers with.
\<close>

definition writeKataConfig :: "env \<Rightarrow> (kataconfig \<Rightarrow> request) \<Rightarrow> (rstate, goerr option) state" where
  "writeKataConfig E mk = do {
     kc \<leftarrow> gets kataConfig;
     h \<leftarrow> gets trace;
     r \<leftarrow> writeOp E (mk kc);
     (case r of
        Some e \<Rightarrow> return (Some e)
      | None \<Rightarrow> do {
          _ \<leftarrow> modify (kataConfig_update (\<lambda>_. writtenKataConfig (apiOf E) h (mk kc)));
          return None
        })
   }"

abbreviation updateKataConfig :: "env \<Rightarrow> (rstate, goerr option) state" where
  "updateKataConfig E \<equiv> writeKataConfig E (\<lambda>kc. UpdateReq (OKataConfig kc))"

abbreviation statusUpdateKataConfig :: "env \<Rightarrow> (rstate, goerr option) state" where
  "statusUpdateKataConfig E \<equiv> writeKataConfig E (\<lambda>kc. StatusUpdateReq (OKataConfig kc))"

lemma emits_writeKataConfig:
  "(\<And>kc r. P (Ev (mk kc) r)) \<Longrightarrow> emits P (writeKataConfig E mk)"
  unfolding writeKataConfig_def by (intro emits_intros) simp_all

lemmas emits_writeKataConfigs [emits_intros] =
  emits_writeKataConfig[where mk = "\<lambda>kc. UpdateReq (OKataConfig kc)"]
  emits_writeKataConfig[where mk = "\<lambda>kc. StatusUpdateReq (OKataConfig kc)"]

section \<open>The InProgress condition\<close>

type_synonym conditions = "kataConfigCondition list"

definition KataConfigInProgress :: string where
  "KataConfigInProgress = ''InProgress''"

abbreviation isInProgress :: "kataConfigCondition \<Rightarrow> bool" where
  "isInProgress c \<equiv> condType c = KataConfigInProgress"

text \<open>The pointer the code returns into the slice is the index of the element.\<close>

fun findInProgressCondition :: "conditions \<Rightarrow> nat option" where
  "findInProgressCondition [] = None"
| "findInProgressCondition (c # cs) =
     (if condType c = KataConfigInProgress then Some 0
      else map_option Suc (findInProgressCondition cs))"

definition getInProgressConditionValue :: "conditions \<Rightarrow> string" where
  "getInProgressConditionValue cs =
     (case findInProgressCondition cs of None \<Rightarrow> ''Unknown'' | Some i \<Rightarrow> condStatus (cs ! i))"

definition addInProgressCondition :: "conditions \<Rightarrow> conditions \<times> nat" where
  "addInProgressCondition cs =
     (let cs' = cs @ [\<lparr>condType = KataConfigInProgress, condStatus = [], LastTransitionTime = 0,
                       condReason = [], condMessage = []\<rparr>]
      in (cs', length cs' - 1))"

definition retrieveInProgressConditionForChange :: "nat \<Rightarrow> conditions \<Rightarrow> conditions \<times> nat" where
  "retrieveInProgressConditionForChange now cs =
     (let (cs', i) = (case findInProgressCondition cs of
                        None \<Rightarrow> addInProgressCondition cs
                      | Some i \<Rightarrow> (cs, i))
      in (cs'[i := (cs' ! i)\<lparr>LastTransitionTime := now\<rparr>], i))"

text \<open>The three assignments every mutator makes after its preamble.\<close>

definition setCondition :: "string \<Rightarrow> string \<Rightarrow> string \<Rightarrow> conditions \<times> nat \<Rightarrow> conditions" where
  "setCondition st rs msg ci = (case ci of (cs, i) \<Rightarrow>
     cs[i := (cs ! i)\<lparr>condStatus := st, condReason := rs, condMessage := msg\<rparr>])"

definition setInProgressConditionToInstalling :: "nat \<Rightarrow> conditions \<Rightarrow> conditions" where
  "setInProgressConditionToInstalling now cs =
     setCondition ''True'' ''Installing'' ''Performing initial installation of kata on cluster''
       (retrieveInProgressConditionForChange now cs)"

definition setInProgressConditionToUninstalling :: "nat \<Rightarrow> conditions \<Rightarrow> conditions" where
  "setInProgressConditionToUninstalling now cs =
     setCondition ''True'' ''Uninstalling'' ''Removing kata from cluster''
       (retrieveInProgressConditionForChange now cs)"

definition setInProgressConditionToUpdating :: "nat \<Rightarrow> conditions \<Rightarrow> conditions" where
  "setInProgressConditionToUpdating now cs =
     setCondition ''True'' ''Updating'' ''Adding and/or removing kata-enabled nodes''
       (retrieveInProgressConditionForChange now cs)"

definition degradedMessage :: "node \<Rightarrow> string" where
  "degradedMessage failingNode =
     (let reasonForDegraded =
            atKey (Annotations (nodeMeta failingNode)) ''machineconfiguration.openshift.io/reason''
      in ''Node '' @ Name (nodeMeta failingNode) @ '' Degraded: '' @ reasonForDegraded)"

definition setInProgressConditionToFailed :: "node \<Rightarrow> nat \<Rightarrow> conditions \<Rightarrow> conditions" where
  "setInProgressConditionToFailed failingNode now cs =
     setCondition ''True'' ''Failed'' (degradedMessage failingNode)
       (retrieveInProgressConditionForChange now cs)"

definition setInProgressConditionToBlockedByExistingKataPods ::
  "string \<Rightarrow> nat \<Rightarrow> conditions \<Rightarrow> conditions" where
  "setInProgressConditionToBlockedByExistingKataPods message now cs =
     setCondition ''False'' ''BlockedByExistingKataPods'' message
       (retrieveInProgressConditionForChange now cs)"

definition resetInProgressCondition :: "nat \<Rightarrow> conditions \<Rightarrow> conditions" where
  "resetInProgressCondition now cs =
     setCondition ''False'' [] [] (retrieveInProgressConditionForChange now cs)"

definition setInProgressConditionToPodVMImageCreating :: "nat \<Rightarrow> conditions \<Rightarrow> conditions" where
  "setInProgressConditionToPodVMImageCreating now cs =
     setCondition ''True'' ''PodVMImageJobRunning'' ''Creating Pod VM Image''
       (retrieveInProgressConditionForChange now cs)"

definition setInProgressConditionToPodVMImageCreated :: "nat \<Rightarrow> conditions \<Rightarrow> conditions" where
  "setInProgressConditionToPodVMImageCreated now cs =
     setCondition ''True'' ''PodVMImageJobCompleted'' ''Created Pod VM Image''
       (retrieveInProgressConditionForChange now cs)"

definition setInProgressConditionToPodVMImageCreationFailed ::
  "nat \<Rightarrow> conditions \<Rightarrow> conditions" where
  "setInProgressConditionToPodVMImageCreationFailed now cs =
     setCondition ''True'' ''PodVMImageJobFailed'' ''Failed to create Pod VM Image''
       (retrieveInProgressConditionForChange now cs)"

definition setInProgressConditionToPodVMImageCreationUnknown ::
  "nat \<Rightarrow> conditions \<Rightarrow> conditions" where
  "setInProgressConditionToPodVMImageCreationUnknown now cs =
     setCondition ''Unknown'' ''PodVMImageJobStatusUnknown''
       ''Pod VM Image creation status is unknown'' (retrieveInProgressConditionForChange now cs)"

definition setInProgressConditionToPodVMImageDeleting :: "nat \<Rightarrow> conditions \<Rightarrow> conditions" where
  "setInProgressConditionToPodVMImageDeleting now cs =
     setCondition ''True'' ''PodVMImageJobRunning'' ''Deleting Pod VM Image''
       (retrieveInProgressConditionForChange now cs)"

definition setInProgressConditionToPodVMImageDeleted :: "nat \<Rightarrow> conditions \<Rightarrow> conditions" where
  "setInProgressConditionToPodVMImageDeleted now cs =
     setCondition ''True'' ''PodVMImageJobCompleted'' ''Deleted Pod VM Image''
       (retrieveInProgressConditionForChange now cs)"

definition setInProgressConditionToPodVMImageDeletionFailed ::
  "nat \<Rightarrow> conditions \<Rightarrow> conditions" where
  "setInProgressConditionToPodVMImageDeletionFailed now cs =
     setCondition ''True'' ''PodVMImageJobFailed'' ''Failed to delete Pod VM Image''
       (retrieveInProgressConditionForChange now cs)"

definition setInProgressConditionToPodVMImageDeletionUnknown ::
  "nat \<Rightarrow> conditions \<Rightarrow> conditions" where
  "setInProgressConditionToPodVMImageDeletionUnknown now cs =
     setCondition ''Unknown'' ''PodVMImageJobStatusUnknown''
       ''Pod VM Image deletion status is unknown'' (retrieveInProgressConditionForChange now cs)"

definition setInProgressConditionToPodVMImageUnsupportedProvider ::
  "nat \<Rightarrow> conditions \<Rightarrow> conditions" where
  "setInProgressConditionToPodVMImageUnsupportedProvider now cs =
     setCondition ''True'' ''PodVMImageUnsupportedProvider''
       ''Pod VM image provider is unsupported'' (retrieveInProgressConditionForChange now cs)"

definition isInstalling :: "conditions \<Rightarrow> bool" where
  "isInstalling cs = (case findInProgressCondition cs of
     None \<Rightarrow> False
   | Some i \<Rightarrow> condStatus (cs ! i) = ''True'' \<and> condReason (cs ! i) = ''Installing'')"

definition isUpdating :: "conditions \<Rightarrow> bool" where
  "isUpdating cs = (case findInProgressCondition cs of
     None \<Rightarrow> False
   | Some i \<Rightarrow> condStatus (cs ! i) = ''True'' \<and> condReason (cs ! i) = ''Updating'')"

text \<open>A mutator called as a method: it reads the clock and changes the KataConfig in memory.\<close>

definition mutateCondition ::
  "env \<Rightarrow> (nat \<Rightarrow> conditions \<Rightarrow> conditions) \<Rightarrow> (rstate, unit) state" where
  "mutateCondition E f = modify (\<lambda>r. onStatus (Conditions_update (f (clock (procOf E) (trace r)))) r)"

definition conditionsOf :: "rstate \<Rightarrow> conditions" where
  "conditionsOf r = Conditions (Status (kataConfig r))"

lemma wp_mutateCondition [wp_simps]:
  "wp (mutateCondition E f) Q r =
     Q () (onStatus (Conditions_update (f (clock (procOf E) (trace r)))) r)"
  by (simp add: mutateCondition_def wp_simps)

lemma emits_mutateCondition [emits_intros]: "emits P (mutateCondition E f)"
  unfolding mutateCondition_def by (intro emits_intros) simp

lemma preserves_mutateCondition [preserves_intros]:
  "(\<And>g s. f (onStatus (Conditions_update g) s) = f s) \<Longrightarrow> preserves f (mutateCondition E c)"
  unfolding mutateCondition_def by (intro preserves_intros) simp

lemma guarded_mutateCondition [guarded_intros]:
  "Q () (onStatus (Conditions_update (f (clock (procOf E) (trace r)))) r) \<Longrightarrow>
   guarded G (mutateCondition E f) Q r"
  unfolding mutateCondition_def by (intro guarded_intros) simp_all

text \<open>
  The contract of a mutator: it replaces the first InProgress condition, or appends one, and
  touches no other condition.
\<close>

fun putInProgress :: "kataConfigCondition \<Rightarrow> conditions \<Rightarrow> conditions" where
  "putInProgress c [] = [c]"
| "putInProgress c (d # cs) = (if isInProgress d then c # cs else d # putInProgress c cs)"

definition inProgressCondition :: "string \<Rightarrow> string \<Rightarrow> string \<Rightarrow> nat \<Rightarrow> kataConfigCondition" where
  "inProgressCondition st rs msg t =
     \<lparr>condType = KataConfigInProgress, condStatus = st, LastTransitionTime = t,
      condReason = rs, condMessage = msg\<rparr>"

lemma inProgressCondition_simps [simp]:
  "condType (inProgressCondition st rs msg t) = KataConfigInProgress"
  "condStatus (inProgressCondition st rs msg t) = st"
  "condReason (inProgressCondition st rs msg t) = rs"
  "condMessage (inProgressCondition st rs msg t) = msg"
  "LastTransitionTime (inProgressCondition st rs msg t) = t"
  by (simp_all add: inProgressCondition_def)

lemma findInProgressCondition_Some:
  "findInProgressCondition cs = Some i \<Longrightarrow>
   i < length cs \<and> isInProgress (cs ! i) \<and> putInProgress c cs = cs[i := c]"
  by (induction cs arbitrary: i) (auto split: if_splits)

lemma findInProgressCondition_None:
  "findInProgressCondition cs = None \<longleftrightarrow> filter isInProgress cs = []"
  by (induction cs) auto

lemma putInProgress_append: "findInProgressCondition cs = None \<Longrightarrow> putInProgress c cs = cs @ [c]"
  by (induction cs) (auto split: if_splits)

lemma setCondition_refines:
  "setCondition st rs msg (retrieveInProgressConditionForChange t cs) =
   putInProgress (inProgressCondition st rs msg t) cs"
proof (cases "findInProgressCondition cs")
  case None
  then show ?thesis
    by (simp add: setCondition_def retrieveInProgressConditionForChange_def
        addInProgressCondition_def putInProgress_append inProgressCondition_def)
next
  case (Some i)
  then have "i < length cs" "isInProgress (cs ! i)"
    "putInProgress (inProgressCondition st rs msg t) cs = cs[i := inProgressCondition st rs msg t]"
    using findInProgressCondition_Some by blast+
  note f = this
  have "setCondition st rs msg (retrieveInProgressConditionForChange t cs) =
      cs[i := (cs ! i)\<lparr>LastTransitionTime := t, condStatus := st, condReason := rs,
        condMessage := msg\<rparr>]" (is "_ = cs[i := ?c]")
    using Some f(1) by (simp add: setCondition_def retrieveInProgressConditionForChange_def)
  also have "?c = inProgressCondition st rs msg t"
    using f(2) by (cases "cs ! i") (simp add: inProgressCondition_def)
  finally show ?thesis by (simp only: f(3))
qed

lemma find_putInProgress:
  "isInProgress c \<Longrightarrow> \<exists>i. findInProgressCondition (putInProgress c cs) = Some i \<and>
     putInProgress c cs ! i = c"
  by (induction cs) auto

lemma putInProgress_others:
  "isInProgress c \<Longrightarrow> filter (\<lambda>d. \<not> isInProgress d) (putInProgress c cs) =
   filter (\<lambda>d. \<not> isInProgress d) cs"
  by (induction cs) auto

lemma putInProgress_count:
  "isInProgress c \<Longrightarrow> length (filter isInProgress (putInProgress c cs)) =
   max 1 (length (filter isInProgress cs))"
  by (induction cs) auto

lemma putInProgress_twice:
  "isInProgress c \<Longrightarrow> putInProgress d (putInProgress c cs) = putInProgress d cs"
  by (induction cs) auto

locale inprogress_mutator =
  fixes setc :: "nat \<Rightarrow> conditions \<Rightarrow> conditions" and st rs msg :: string
  assumes refines: "setc t cs = putInProgress (inProgressCondition st rs msg t) cs"
begin

lemma value_after: "getInProgressConditionValue (setc t cs) = st"
  using find_putInProgress[of "inProgressCondition st rs msg t" cs]
  by (auto simp: getInProgressConditionValue_def refines)

lemma installing_after: "isInstalling (setc t cs) \<longleftrightarrow> st = ''True'' \<and> rs = ''Installing''"
  using find_putInProgress[of "inProgressCondition st rs msg t" cs]
  by (auto simp: isInstalling_def refines)

lemma updating_after: "isUpdating (setc t cs) \<longleftrightarrow> st = ''True'' \<and> rs = ''Updating''"
  using find_putInProgress[of "inProgressCondition st rs msg t" cs]
  by (auto simp: isUpdating_def refines)

lemma others_kept:
  "filter (\<lambda>d. \<not> isInProgress d) (setc t cs) = filter (\<lambda>d. \<not> isInProgress d) cs"
  by (simp add: refines putInProgress_others)

lemma single_after:
  assumes "length (filter isInProgress cs) \<le> 1"
  shows "filter isInProgress (setc t cs) = [inProgressCondition st rs msg t]"
proof -
  have "length (filter isInProgress (setc t cs)) = 1"
    using assms by (simp add: refines putInProgress_count)
  moreover obtain i where "findInProgressCondition (setc t cs) = Some i"
    "setc t cs ! i = inProgressCondition st rs msg t"
    using find_putInProgress[of "inProgressCondition st rs msg t" cs] by (auto simp: refines)
  then have "inProgressCondition st rs msg t \<in> set (filter isInProgress (setc t cs))"
    using findInProgressCondition_Some[of "setc t cs" i] nth_mem[of i "setc t cs"] by auto
  ultimately show ?thesis by (cases "filter isInProgress (setc t cs)") auto
qed

lemma idempotent: "setc t (setc u cs) = setc t cs"
  by (simp add: refines putInProgress_twice)

end

interpretation toInstalling: inprogress_mutator setInProgressConditionToInstalling
  "''True''" "''Installing''" "''Performing initial installation of kata on cluster''"
  by unfold_locales (simp add: setInProgressConditionToInstalling_def setCondition_refines)

interpretation toUninstalling: inprogress_mutator setInProgressConditionToUninstalling
  "''True''" "''Uninstalling''" "''Removing kata from cluster''"
  by unfold_locales (simp add: setInProgressConditionToUninstalling_def setCondition_refines)

interpretation toUpdating: inprogress_mutator setInProgressConditionToUpdating
  "''True''" "''Updating''" "''Adding and/or removing kata-enabled nodes''"
  by unfold_locales (simp add: setInProgressConditionToUpdating_def setCondition_refines)

interpretation toFailed: inprogress_mutator "setInProgressConditionToFailed n"
  "''True''" "''Failed''" "degradedMessage n" for n
  by unfold_locales (simp add: setInProgressConditionToFailed_def setCondition_refines)

interpretation toBlocked: inprogress_mutator
  "setInProgressConditionToBlockedByExistingKataPods m"
  "''False''" "''BlockedByExistingKataPods''" m for m
  by unfold_locales
    (simp add: setInProgressConditionToBlockedByExistingKataPods_def setCondition_refines)

interpretation toReset: inprogress_mutator resetInProgressCondition "''False''" "[]" "[]"
  by unfold_locales (simp add: resetInProgressCondition_def setCondition_refines)

interpretation toImageCreating: inprogress_mutator setInProgressConditionToPodVMImageCreating
  "''True''" "''PodVMImageJobRunning''" "''Creating Pod VM Image''"
  by unfold_locales (simp add: setInProgressConditionToPodVMImageCreating_def setCondition_refines)

interpretation toImageCreated: inprogress_mutator setInProgressConditionToPodVMImageCreated
  "''True''" "''PodVMImageJobCompleted''" "''Created Pod VM Image''"
  by unfold_locales (simp add: setInProgressConditionToPodVMImageCreated_def setCondition_refines)

interpretation toImageCreationFailed: inprogress_mutator
  setInProgressConditionToPodVMImageCreationFailed
  "''True''" "''PodVMImageJobFailed''" "''Failed to create Pod VM Image''"
  by unfold_locales
    (simp add: setInProgressConditionToPodVMImageCreationFailed_def setCondition_refines)

interpretation toImageCreationUnknown: inprogress_mutator
  setInProgressConditionToPodVMImageCreationUnknown
  "''Unknown''" "''PodVMImageJobStatusUnknown''" "''Pod VM Image creation status is unknown''"
  by unfold_locales
    (simp add: setInProgressConditionToPodVMImageCreationUnknown_def setCondition_refines)

interpretation toImageDeleting: inprogress_mutator setInProgressConditionToPodVMImageDeleting
  "''True''" "''PodVMImageJobRunning''" "''Deleting Pod VM Image''"
  by unfold_locales (simp add: setInProgressConditionToPodVMImageDeleting_def setCondition_refines)

interpretation toImageDeleted: inprogress_mutator setInProgressConditionToPodVMImageDeleted
  "''True''" "''PodVMImageJobCompleted''" "''Deleted Pod VM Image''"
  by unfold_locales (simp add: setInProgressConditionToPodVMImageDeleted_def setCondition_refines)

interpretation toImageDeletionFailed: inprogress_mutator
  setInProgressConditionToPodVMImageDeletionFailed
  "''True''" "''PodVMImageJobFailed''" "''Failed to delete Pod VM Image''"
  by unfold_locales
    (simp add: setInProgressConditionToPodVMImageDeletionFailed_def setCondition_refines)

interpretation toImageDeletionUnknown: inprogress_mutator
  setInProgressConditionToPodVMImageDeletionUnknown
  "''Unknown''" "''PodVMImageJobStatusUnknown''" "''Pod VM Image deletion status is unknown''"
  by unfold_locales
    (simp add: setInProgressConditionToPodVMImageDeletionUnknown_def setCondition_refines)

interpretation toImageUnsupported: inprogress_mutator
  setInProgressConditionToPodVMImageUnsupportedProvider
  "''True''" "''PodVMImageUnsupportedProvider''" "''Pod VM image provider is unsupported''"
  by unfold_locales
    (simp add: setInProgressConditionToPodVMImageUnsupportedProvider_def setCondition_refines)

section \<open>Comparing statuses\<close>

definition stripTransitionTimes :: "kataConfigStatus \<Rightarrow> kataConfigStatus" where
  "stripTransitionTimes st =
     st\<lparr>Conditions := map (\<lambda>c. c\<lparr>LastTransitionTime := 0\<rparr>) (Conditions st)\<rparr>"

definition IsKataConfigStatusChanged :: "kataConfigStatus \<Rightarrow> kataConfigStatus \<Rightarrow> bool" where
  "IsKataConfigStatusChanged oldStatus newStatus \<longleftrightarrow>
     \<not> stripTransitionTimes oldStatus = stripTransitionTimes newStatus"

section \<open>Classifying a node\<close>

definition NodeWorking :: string where "NodeWorking = ''Working''"
definition NodeDone :: string where "NodeDone = ''Done''"
definition NodeDegraded :: string where "NodeDegraded = ''Degraded''"

lemma node_states_distinct [simp]:
  "NodeWorking \<noteq> NodeDone" "NodeDone \<noteq> NodeWorking" "NodeWorking \<noteq> NodeDegraded"
  "NodeDegraded \<noteq> NodeWorking" "NodeDone \<noteq> NodeDegraded" "NodeDegraded \<noteq> NodeDone"
  by (simp_all add: NodeWorking_def NodeDone_def NodeDegraded_def)

text \<open>What the predicates look at: MCO state, current and target MachineConfig, kata enabled.\<close>

type_synonym node_predicate = "string \<Rightarrow> string \<Rightarrow> string \<Rightarrow> bool \<Rightarrow> bool"

definition isNodeInstalled :: node_predicate where
  "isNodeInstalled nodeMcoState nodeCurrMc nodeTargetMc isKataEnabledOnNode \<longleftrightarrow>
     nodeMcoState = NodeDone \<and> nodeCurrMc = nodeTargetMc \<and> isKataEnabledOnNode"

definition isNodeNotInstalled :: node_predicate where
  "isNodeNotInstalled nodeMcoState nodeCurrMc nodeTargetMc isKataEnabledOnNode \<longleftrightarrow>
     nodeMcoState = NodeDone \<and> nodeCurrMc = nodeTargetMc \<and> \<not> isKataEnabledOnNode"

definition isNodeInstalling :: node_predicate where
  "isNodeInstalling nodeMcoState nodeCurrMc nodeTargetMc isKataEnabledOnNode \<longleftrightarrow>
     nodeMcoState = NodeWorking \<and> isKataEnabledOnNode"

definition isNodeUninstalling :: node_predicate where
  "isNodeUninstalling nodeMcoState nodeCurrMc nodeTargetMc isKataEnabledOnNode \<longleftrightarrow>
     nodeMcoState = NodeWorking \<and> \<not> isKataEnabledOnNode"

definition isNodeWaitingToInstall :: node_predicate where
  "isNodeWaitingToInstall nodeMcoState nodeCurrMc nodeTargetMc isKataEnabledOnNode \<longleftrightarrow>
     nodeMcoState = NodeDone \<and> nodeCurrMc \<noteq> nodeTargetMc \<and> isKataEnabledOnNode"

definition isNodeWaitingToUninstall :: node_predicate where
  "isNodeWaitingToUninstall nodeMcoState nodeCurrMc nodeTargetMc isKataEnabledOnNode \<longleftrightarrow>
     nodeMcoState = NodeDone \<and> nodeCurrMc \<noteq> nodeTargetMc \<and> \<not> isKataEnabledOnNode"

definition isNodeFailedToInstall :: node_predicate where
  "isNodeFailedToInstall nodeMcoState nodeCurrMc nodeTargetMc isKataEnabledOnNode \<longleftrightarrow>
     nodeMcoState = NodeDegraded \<and> isKataEnabledOnNode"

definition isNodeFailedToUninstall :: node_predicate where
  "isNodeFailedToUninstall nodeMcoState nodeCurrMc nodeTargetMc isKataEnabledOnNode \<longleftrightarrow>
     nodeMcoState = NodeDegraded \<and> \<not> isKataEnabledOnNode"

lemmas node_predicate_defs =
  isNodeInstalled_def isNodeNotInstalled_def isNodeInstalling_def isNodeUninstalling_def
  isNodeWaitingToInstall_def isNodeWaitingToUninstall_def isNodeFailedToInstall_def
  isNodeFailedToUninstall_def

definition nodePredicates :: "node_predicate list" where
  "nodePredicates = [isNodeInstalled, isNodeNotInstalled, isNodeInstalling, isNodeUninstalling,
     isNodeWaitingToInstall, isNodeWaitingToUninstall, isNodeFailedToInstall,
     isNodeFailedToUninstall]"

section \<open>Node status lists\<close>

definition clearNodeStatusLists :: "kataConfigStatus \<Rightarrow> kataConfigStatus" where
  "clearNodeStatusLists st = st\<lparr>KataNodes := (KataNodes st)\<lparr>Installed := [], Installing := [],
     WaitingToInstall := [], FailedToInstall := [], Uninstalling := [], WaitingToUninstall := [],
     FailedToUninstall := []\<rparr>\<rparr>"

datatype statusList =
    LInstalled | LInstalling | LWaitingToInstall | LFailedToInstall
  | LUninstalling | LWaitingToUninstall | LFailedToUninstall

definition statusLists :: "statusList list" where
  "statusLists = [LInstalled, LInstalling, LWaitingToInstall, LFailedToInstall,
     LUninstalling, LWaitingToUninstall, LFailedToUninstall]"

fun nodesOn :: "statusList \<Rightarrow> kataConfigStatus \<Rightarrow> string list" where
  "nodesOn LInstalled st = Installed (KataNodes st)"
| "nodesOn LInstalling st = Installing (KataNodes st)"
| "nodesOn LWaitingToInstall st = WaitingToInstall (KataNodes st)"
| "nodesOn LFailedToInstall st = FailedToInstall (KataNodes st)"
| "nodesOn LUninstalling st = Uninstalling (KataNodes st)"
| "nodesOn LWaitingToUninstall st = WaitingToUninstall (KataNodes st)"
| "nodesOn LFailedToUninstall st = FailedToUninstall (KataNodes st)"

text \<open>The statement \<open>Status.KataNodes.X = append(Status.KataNodes.X, name)\<close>.\<close>

fun appendNode :: "statusList \<Rightarrow> string \<Rightarrow> kataConfigStatus \<Rightarrow> kataConfigStatus" where
  "appendNode LInstalled n st =
     st\<lparr>KataNodes := (KataNodes st)\<lparr>Installed := Installed (KataNodes st) @ [n]\<rparr>\<rparr>"
| "appendNode LInstalling n st =
     st\<lparr>KataNodes := (KataNodes st)\<lparr>Installing := Installing (KataNodes st) @ [n]\<rparr>\<rparr>"
| "appendNode LWaitingToInstall n st =
     st\<lparr>KataNodes := (KataNodes st)\<lparr>WaitingToInstall := WaitingToInstall (KataNodes st) @ [n]\<rparr>\<rparr>"
| "appendNode LFailedToInstall n st =
     st\<lparr>KataNodes := (KataNodes st)\<lparr>FailedToInstall := FailedToInstall (KataNodes st) @ [n]\<rparr>\<rparr>"
| "appendNode LUninstalling n st =
     st\<lparr>KataNodes := (KataNodes st)\<lparr>Uninstalling := Uninstalling (KataNodes st) @ [n]\<rparr>\<rparr>"
| "appendNode LWaitingToUninstall n st =
     st\<lparr>KataNodes := (KataNodes st)\<lparr>WaitingToUninstall := WaitingToUninstall (KataNodes st) @ [n]\<rparr>\<rparr>"
| "appendNode LFailedToUninstall n st =
     st\<lparr>KataNodes := (KataNodes st)\<lparr>FailedToUninstall := FailedToUninstall (KataNodes st) @ [n]\<rparr>\<rparr>"

text \<open>What \<open>putNodeOnStatusList\<close> does with a node once its state is known.\<close>

record nodeObservation =
  obsNode :: node
  obsState :: string
  obsCurrMc :: string
  obsTargetMc :: string
  obsEnabled :: bool

definition placeNode :: "nat \<Rightarrow> nodeObservation \<Rightarrow> kataConfigStatus \<Rightarrow> kataConfigStatus" where
  "placeNode t ob st =
     (let n = Name (nodeMeta (obsNode ob));
          holds = (\<lambda>p :: node_predicate.
            p (obsState ob) (obsCurrMc ob) (obsTargetMc ob) (obsEnabled ob));
          failed = Conditions_update (setInProgressConditionToFailed (obsNode ob) t)
      in if holds isNodeInstalled then appendNode LInstalled n st
         else if holds isNodeNotInstalled then st
         else if holds isNodeInstalling then appendNode LInstalling n st
         else if holds isNodeUninstalling then appendNode LUninstalling n st
         else if holds isNodeWaitingToInstall then appendNode LWaitingToInstall n st
         else if holds isNodeWaitingToUninstall then appendNode LWaitingToUninstall n st
         else if holds isNodeFailedToInstall then failed (appendNode LFailedToInstall n st)
         else if holds isNodeFailedToUninstall then failed (appendNode LFailedToUninstall n st)
         else st)"

lemma nodesOn_appendNode [simp]:
  "nodesOn l (appendNode k n st) = nodesOn l st @ (if k = l then [n] else [])"
  by (cases k; cases l) simp_all

lemma nodesOn_conditions [simp]: "nodesOn l (Conditions_update f st) = nodesOn l st"
  by (cases l) simp_all

lemma nodesOn_clear [simp]: "nodesOn l (clearNodeStatusLists st) = []"
  by (cases l) (simp_all add: clearNodeStatusLists_def)

lemma appendNode_frame [simp]:
  "NodeCount (KataNodes (appendNode l n st)) = NodeCount (KataNodes st)"
  "ReadyNodeCount (KataNodes (appendNode l n st)) = ReadyNodeCount (KataNodes st)"
  "RuntimeClasses (appendNode l n st) = RuntimeClasses st"
  "Conditions (appendNode l n st) = Conditions st"
  "WaitingForMcoToStart (appendNode l n st) = WaitingForMcoToStart st"
  by (cases l; simp)+

declare appendNode.simps [simp del]

text \<open>A function that puts each node on at most one status list, under its own name.\<close>

locale node_placement =
  fixes place :: "'n \<Rightarrow> kataConfigStatus \<Rightarrow> kataConfigStatus"
    and name :: "'n \<Rightarrow> string"
    and slot :: "'n \<Rightarrow> statusList option"
  assumes place: "nodesOn l (place n st) = nodesOn l st @ (if slot n = Some l then [name n] else [])"
    and place_count: "NodeCount (KataNodes (place n st)) = NodeCount (KataNodes st)"
begin

lemma fold_place:
  "nodesOn l (fold place ns st) = nodesOn l st @ map name (filter (\<lambda>n. slot n = Some l) ns)"
  by (induction ns arbitrary: st) (simp_all add: place)

lemma fold_count: "NodeCount (KataNodes (fold place ns st)) = NodeCount (KataNodes st)"
  by (induction ns arbitrary: st) (simp_all add: place_count)

lemma fold_place_cleared:
  "nodesOn l (fold place ns (clearNodeStatusLists st)) =
   map name (filter (\<lambda>n. slot n = Some l) ns)"
  by (simp add: fold_place)

lemma lists_disjoint:
  assumes "distinct (map name ns)" and "l \<noteq> k"
  shows "set (nodesOn l (fold place ns (clearNodeStatusLists st))) \<inter>
         set (nodesOn k (fold place ns (clearNodeStatusLists st))) = {}"
proof -
  have "inj_on name (set ns)" using assms(1) by (simp add: distinct_map)
  then show ?thesis using assms(2)
    by (auto simp: fold_place_cleared dest!: inj_onD)
qed

lemma lists_total:
  "sum_list (map (\<lambda>l. length (nodesOn l (fold place ns (clearNodeStatusLists st)))) statusLists) =
   length (filter (\<lambda>n. slot n \<noteq> None) ns)"
proof (induction ns)
  case Nil
  then show ?case by (simp add: statusLists_def)
next
  case (Cons n ns)
  show ?case
  proof (cases "slot n")
    case None
    then show ?thesis using Cons by (simp add: fold_place place)
  next
    case (Some l)
    then show ?thesis using Cons
      by (cases l) (simp_all add: fold_place place statusLists_def)
  qed
qed

end

definition mcoSlot :: "nodeObservation \<Rightarrow> statusList option" where
  "mcoSlot ob =
     (if obsState ob = NodeDone then
        (if obsCurrMc ob = obsTargetMc ob then (if obsEnabled ob then Some LInstalled else None)
         else if obsEnabled ob then Some LWaitingToInstall else Some LWaitingToUninstall)
      else if obsState ob = NodeWorking then
        (if obsEnabled ob then Some LInstalling else Some LUninstalling)
      else if obsState ob = NodeDegraded then
        (if obsEnabled ob then Some LFailedToInstall else Some LFailedToUninstall)
      else None)"

lemma nodesOn_placeNode:
  "nodesOn l (placeNode t ob st) =
   nodesOn l st @ (if mcoSlot ob = Some l then [Name (nodeMeta (obsNode ob))] else [])"
  by (auto simp: placeNode_def mcoSlot_def node_predicate_defs Let_def)

lemma NodeCount_placeNode: "NodeCount (KataNodes (placeNode t ob st)) = NodeCount (KataNodes st)"
  by (auto simp: placeNode_def node_predicate_defs Let_def)

interpretation mco: node_placement "\<lambda>(t, ob). placeNode t ob"
  "\<lambda>(t, ob). Name (nodeMeta (obsNode ob))" "\<lambda>(t, ob). mcoSlot ob"
  by unfold_locales (simp_all add: nodesOn_placeNode NodeCount_placeNode split: prod.split)

section \<open>Properties\<close>

text \<open>The mutators, each with the status, reason and message it reports.\<close>

definition inProgressMutators ::
  "node \<Rightarrow> string \<Rightarrow> ((nat \<Rightarrow> conditions \<Rightarrow> conditions) \<times> string \<times> string \<times> string) list" where
  "inProgressMutators n m = [
     (setInProgressConditionToInstalling, ''True'', ''Installing'',
      ''Performing initial installation of kata on cluster''),
     (setInProgressConditionToUninstalling, ''True'', ''Uninstalling'', ''Removing kata from cluster''),
     (setInProgressConditionToUpdating, ''True'', ''Updating'',
      ''Adding and/or removing kata-enabled nodes''),
     (setInProgressConditionToFailed n, ''True'', ''Failed'', degradedMessage n),
     (setInProgressConditionToBlockedByExistingKataPods m, ''False'',
      ''BlockedByExistingKataPods'', m),
     (resetInProgressCondition, ''False'', [], []),
     (setInProgressConditionToPodVMImageCreating, ''True'', ''PodVMImageJobRunning'',
      ''Creating Pod VM Image''),
     (setInProgressConditionToPodVMImageCreated, ''True'', ''PodVMImageJobCompleted'',
      ''Created Pod VM Image''),
     (setInProgressConditionToPodVMImageCreationFailed, ''True'', ''PodVMImageJobFailed'',
      ''Failed to create Pod VM Image''),
     (setInProgressConditionToPodVMImageCreationUnknown, ''Unknown'', ''PodVMImageJobStatusUnknown'',
      ''Pod VM Image creation status is unknown''),
     (setInProgressConditionToPodVMImageDeleting, ''True'', ''PodVMImageJobRunning'',
      ''Deleting Pod VM Image''),
     (setInProgressConditionToPodVMImageDeleted, ''True'', ''PodVMImageJobCompleted'',
      ''Deleted Pod VM Image''),
     (setInProgressConditionToPodVMImageDeletionFailed, ''True'', ''PodVMImageJobFailed'',
      ''Failed to delete Pod VM Image''),
     (setInProgressConditionToPodVMImageDeletionUnknown, ''Unknown'', ''PodVMImageJobStatusUnknown'',
      ''Pod VM Image deletion status is unknown''),
     (setInProgressConditionToPodVMImageUnsupportedProvider, ''True'',
      ''PodVMImageUnsupportedProvider'', ''Pod VM image provider is unsupported'')]"

lemma inProgressMutators_contract:
  "(f, st, rs, msg) \<in> set (inProgressMutators n m) \<Longrightarrow> inprogress_mutator f st rs msg"
  unfolding inProgressMutators_def
  by (auto intro: toInstalling.inprogress_mutator_axioms toUninstalling.inprogress_mutator_axioms
      toUpdating.inprogress_mutator_axioms toFailed.inprogress_mutator_axioms
      toBlocked.inprogress_mutator_axioms toReset.inprogress_mutator_axioms
      toImageCreating.inprogress_mutator_axioms toImageCreated.inprogress_mutator_axioms
      toImageCreationFailed.inprogress_mutator_axioms
      toImageCreationUnknown.inprogress_mutator_axioms
      toImageDeleting.inprogress_mutator_axioms toImageDeleted.inprogress_mutator_axioms
      toImageDeletionFailed.inprogress_mutator_axioms
      toImageDeletionUnknown.inprogress_mutator_axioms toImageUnsupported.inprogress_mutator_axioms)

text \<open>
  C29: Every InProgress mutator, started with at most one InProgress condition, leaves exactly
  one, with the status, reason, message and time of that mutator; the other conditions are
  unchanged and in their order, and applying the mutator again gives the same list.
\<close>

theorem inProgress_mutators_correct:
  assumes "(f, st, rs, msg) \<in> set (inProgressMutators n m)"
    and "length (filter isInProgress cs) \<le> 1"
  shows "filter isInProgress (f t cs) = [inProgressCondition st rs msg t] \<and>
    filter (\<lambda>c. \<not> isInProgress c) (f t cs) = filter (\<lambda>c. \<not> isInProgress c) cs \<and>
    f t (f u cs) = f t cs \<and>
    getInProgressConditionValue (f t cs) = st \<and>
    isInstalling (f t cs) = (st = ''True'' \<and> rs = ''Installing'') \<and>
    isUpdating (f t cs) = (st = ''True'' \<and> rs = ''Updating'')"
proof -
  have mutator: "inprogress_mutator f st rs msg"
    using assms(1) by (rule inProgressMutators_contract)
  show ?thesis
    using inprogress_mutator.single_after[OF mutator assms(2)]
      inprogress_mutator.others_kept[OF mutator] inprogress_mutator.idempotent[OF mutator]
      inprogress_mutator.value_after[OF mutator] inprogress_mutator.installing_after[OF mutator]
      inprogress_mutator.updating_after[OF mutator]
    by blast
qed

theorem inProgress_mutators_correct_witness:
  "filter isInProgress (setInProgressConditionToUpdating 7 []) =
     [inProgressCondition ''True'' ''Updating'' ''Adding and/or removing kata-enabled nodes'' 7] \<and>
   isUpdating (setInProgressConditionToUpdating 7 [])"
  using inProgress_mutators_correct[of setInProgressConditionToUpdating "''True''" "''Updating''"
      "''Adding and/or removing kata-enabled nodes''" _ _ "[]" 7]
  by (simp add: inProgressMutators_def)

text \<open>
  C40: The eight predicates on a node's MCO state are mutually exclusive and cover the three
  states of the machine config daemon: exactly one holds of a Done, Working or Degraded node,
  whatever its MachineConfigs and whether kata is enabled on it, and none holds in any other
  state.
\<close>

theorem node_predicates_exclusive:
  "length (filter (\<lambda>p. p nodeMcoState nodeCurrMc nodeTargetMc isKataEnabledOnNode) nodePredicates) =
   (if nodeMcoState \<in> {NodeDone, NodeWorking, NodeDegraded} then 1 else 0)"
  by (auto simp: nodePredicates_def node_predicate_defs)

text \<open>
  C39: The reconcile loop sees a status change exactly when something other than a transition
  time differs: the runtime classes, the node lists and counts, the MCO flag, or a condition's
  type, status, reason or message.
\<close>

theorem status_changed_iff:
  "IsKataConfigStatusChanged old new \<longleftrightarrow>
     \<not> (RuntimeClasses old = RuntimeClasses new \<and> KataNodes old = KataNodes new \<and>
        WaitingForMcoToStart old = WaitingForMcoToStart new \<and>
        map (\<lambda>c. (condType c, condStatus c, condReason c, condMessage c)) (Conditions old) =
        map (\<lambda>c. (condType c, condStatus c, condReason c, condMessage c)) (Conditions new))"
proof -
  have cond: "(c\<lparr>LastTransitionTime := 0\<rparr> = d\<lparr>LastTransitionTime := 0\<rparr>) =
    ((condType c, condStatus c, condReason c, condMessage c) =
     (condType d, condStatus d, condReason d, condMessage d))" for c d :: kataConfigCondition
    by (cases c, cases d) simp
  have "(map (\<lambda>c. c\<lparr>LastTransitionTime := 0\<rparr>) cs = map (\<lambda>c. c\<lparr>LastTransitionTime := 0\<rparr>) ds) =
    (map (\<lambda>c. (condType c, condStatus c, condReason c, condMessage c)) cs =
     map (\<lambda>c. (condType c, condStatus c, condReason c, condMessage c)) ds)" for cs ds :: conditions
    unfolding list_eq_iff_nth_eq by (auto simp: cond)
  then show ?thesis
    by (cases old, cases new) (auto simp: IsKataConfigStatusChanged_def stripTransitionTimes_def)
qed

end
