(* ===== verification/Sample_Cluster.thy ===== *)
theory Sample_Cluster
  imports Kata_Status
begin

text \<open>
  A concrete environment, for evaluating the operations on an example: a cluster without
  nodes, pods or configuration objects in which every write succeeds, the library functions as
  their packages document them, and a process without environment variables or files. Examples
  vary it field by field.
\<close>

definition absent :: "goerr + 'a" where
  "absent = Inl (ApiError NotFound ''not found'')"

definition sampleKataConfig :: kataconfig where
  "sampleKataConfig = \<lparr>
     kcMeta = mkMeta ''example-kataconfig'' [],
     Spec = \<lparr>KataConfigPoolSelector = None, CheckNodeEligibility = False, LogLevel = ''info'',
             EnablePeerPods = False, EnableMixedCluster = False\<rparr>,
     Status = \<lparr>RuntimeClasses = [],
               KataNodes = \<lparr>NodeCount = 0, ReadyNodeCount = 0, Installed = [], Installing = [],
                 WaitingToInstall = [], FailedToInstall = [], Uninstalling = [],
                 WaitingToUninstall = [], FailedToUninstall = []\<rparr>,
               Conditions = [], WaitingForMcoToStart = False\<rparr>\<rparr>"

definition sampleApi :: api where
  "sampleApi = \<lparr>
     getKataConfig = \<lambda>h n. absent,
     getConfigMap = \<lambda>h ns n. absent,
     getSecret = \<lambda>h ns n. absent,
     getMachineConfigPool = \<lambda>h n. absent,
     getMachineConfig = \<lambda>h n. absent,
     getRuntimeClass = \<lambda>h n. absent,
     getScc = \<lambda>h n. absent,
     getDaemonSet = \<lambda>h ns n. absent,
     getCtrRuntimeConfig = \<lambda>h n. absent,
     getClusterVersion = \<lambda>h. absent,
     getPlatformType = \<lambda>h. absent,
     getProxy = \<lambda>h. absent,
     getCredentialsMode = \<lambda>h. absent,
     getServiceAccountIssuer = \<lambda>h. absent,
     getPeerPodConfigLimit = \<lambda>h. absent,
     getJobStatus = \<lambda>h ns n. absent,
     probeKind = \<lambda>h k ns n. Some (ApiError NotFound ''not found''),
     listMachineConfigPools = \<lambda>h. Inr [],
     listMachineConfigs = \<lambda>h. Inr [],
     listNodes = \<lambda>h q. Inr [],
     listPods = \<lambda>h. Inr [],
     listPodsByClass = \<lambda>h c. Inr [],
     listNfdCount = \<lambda>h. Inr 0,
     listKataConfigs = \<lambda>h. Inr [],
     listCsvs = \<lambda>h ns. Inr [],
     getConsole = \<lambda>h. absent,
     getApiServer = \<lambda>h. absent,
     getDeployment = \<lambda>h ns n. absent,
     getNamespace = \<lambda>h n. absent,
     writeError = \<lambda>h q. None,
     writtenKataConfig = \<lambda>h q. (case q of
        UpdateReq (OKataConfig kc) \<Rightarrow> kc | StatusUpdateReq (OKataConfig kc) \<Rightarrow> kc | _ \<Rightarrow> sampleKataConfig),
     mutableNetworkPolicy = \<lambda>h ns n. absent,
     mutableScc = \<lambda>h n. absent,
     mutableDaemonSet = \<lambda>h ns n. absent,
     mutableNodeFeatureRule = \<lambda>h ns n. absent,
     mutableService = \<lambda>h ns n. absent,
     mutableDeployment = \<lambda>h ns n. absent,
     mutableWebhookConfig = \<lambda>h n. absent,
     mutableConfigMap = \<lambda>h ns n. absent,
     mutableSecret = \<lambda>h ns n. absent,
     mutableConsolePlugin = \<lambda>h n. absent\<rparr>"

definition sampleLib :: lib where
  "sampleLib = \<lparr>
     labelSelectorAsSelector = \<lambda>sel. Inr (\<lambda>l. MatchLabels sel \<subseteq>\<^sub>m l),
     addLabelToSelector = \<lambda>sel k v. sel\<lparr>MatchLabels := (MatchLabels sel)(k \<mapsto> v)\<rparr>,
     controllerRefs = \<lambda>kc m. Inr (OwnerReferences m @
        [\<lparr>orAPIVersion = ''kataconfiguration.openshift.io/v1'', orKind = ''KataConfig'',
          orName = Name (kcMeta kc), orUID = []\<rparr>]),
     hasFinalizer = \<lambda>fs f. f \<in> set fs,
     withFinalizer = \<lambda>fs f. if f \<in> set fs then fs else fs @ [f],
     withoutFinalizer = \<lambda>fs f. removeAll f fs,
     isMcpConditionTrue = \<lambda>cs t. list_ex (\<lambda>c. mcpCondType c = t \<and> mcpCondStatus c = ''True'') cs,
     getMcpCondition = \<lambda>st t. List.find (\<lambda>c. mcpCondType c = t) (mcpConditions st),
     marshalIgnition = \<lambda>c. Inr ''{}'',
     loadReleaseInfo = \<lambda>i. Inr [],
     profileCipherIDs = \<lambda>v cs. [],
     ianaByID = Map.empty,
     unmarshalJob = \<lambda>y. Inl (Errorf ''no yaml''),
     unmarshalConfigMap = \<lambda>y. Inl (Errorf ''no yaml''),
     inClusterConfig = None,
     newForConfig = None,
     unmarshalCredentialsRequest = \<lambda>y. Inl (Errorf ''no yaml''),
     setOwnerReference = \<lambda>owner m. Inr (OwnerReferences m @
        [\<lparr>orAPIVersion = ''v1'', orKind = ''Secret'', orName = Name owner, orUID = []\<rparr>]),
     jsonTypeField = \<lambda>j. Inl (Errorf ''no json''),
     marshalJson = \<lambda>j. Inr ''{}'',
     sha256Hex = id,
     tlsProfiles = Map.empty,
     versionAtLeast = \<lambda>v a b. None,
     retrySteps = 5\<rparr>"

definition sampleProc :: proc where
  "sampleProc = \<lparr>lookupEnv = Map.empty, readFile = \<lambda>f. Inl (Errorf ''no such file''),
     goArch = ''amd64'', clock = length, rangeKeys = \<lambda>h m. []\<rparr>"

definition sampleEnv :: env where
  "sampleEnv = \<lparr>apiOf = sampleApi, libOf = sampleLib, procOf = sampleProc\<rparr>"

definition sampleState :: rstate where
  "sampleState = \<lparr>trace = [], kataConfig = sampleKataConfig, ImgMc = None,
     DeploymentMode = MachineConfigMode, TLSProfileSpec = \<lparr>tlsMinVersion = [], tlsCiphers = []\<rparr>,
     HonorTLSProfile = False, ig = None, eventCache = Map.empty\<rparr>"

lemmas sample_defs =
  absent_def sampleKataConfig_def sampleApi_def sampleLib_def sampleProc_def sampleEnv_def
  sampleState_def

end
