(* ===== verification/Cluster_Queries.thy ===== *)
theory Cluster_Queries
  imports Sample_Cluster "HOL-Library.Sublist"
begin

text \<open>
  What the reconciler asks about the cluster and does to its nodes: API availability and the
  converged-cluster test, node selectors, node lists, kata labelling and unlabelling of nodes,
  and \<open>updateStatus\<close> with \<open>putNodeOnStatusList\<close> (\<^verbatim>\<open>controllers/openshift_controller.go\<close>,
  \<^verbatim>\<open>controllers/deployment_mode_handler.go\<close>). The lemmas show what \<open>updateNodeLabels\<close> writes, that
  the status lists classify the worker nodes, and which queries never write.
\<close>

section \<open>API availability and converged clusters\<close>

text \<open>The availability test shared by the two functions below: present, unknown, or an error.\<close>

definition crdAvailable :: "env \<Rightarrow> rkind \<Rightarrow> string \<Rightarrow> ('z, goerr + bool) op" where
  "crdAvailable E k name = do {
     err \<leftarrow> probeOp E k [] name;
     return (case err of
        None \<Rightarrow> Inr True
      | Some e \<Rightarrow> if IsNotFound e then Inr True else if IsNoMatchError e then Inr False else Inl e)
   }"

definition isMachineConfigAvailable :: "env \<Rightarrow> ('z, goerr + bool) op" where
  "isMachineConfigAvailable E = crdAvailable E KMachineConfig ''dummy-machine-config''"

definition isMachineConfigPoolAvailable :: "env \<Rightarrow> ('z, goerr + bool) op" where
  "isMachineConfigPoolAvailable E = crdAvailable E KMachineConfigPool ''dummy-machine-config-pool''"

definition checkConvergedCluster :: "env \<Rightarrow> ('z, goerr + bool) op" where
  "checkConvergedCluster E =
     onInl (isMachineConfigPoolAvailable E) (\<lambda>e. return (Inl e)) (\<lambda>mcpAvailable.
       if \<not> mcpAvailable then return (Inr False)
       else onInl (readOp (ListReq KMachineConfigPool) (listMachineConfigPools (apiOf E)))
         (\<lambda>e. if IsNoMatchError e then return (Inr False) else return (Inl e))
         (\<lambda>mcps. return (Inr (length mcps = 2 \<and>
            list_ex (\<lambda>m. Name (mcpMeta m) = ''worker'' \<and> MachineCount (mcpStatusOf m) = 0) mcps))))"

definition getMcpName :: "env \<Rightarrow> ('z, goerr + string) op" where
  "getMcpName E = onInl (checkConvergedCluster E) (\<lambda>e. return (Inl e))
     (\<lambda>isConvergedCluster. return (Inr (if isConvergedCluster then ''master'' else ''kata-oc'')))"

definition getMcpByName :: "env \<Rightarrow> string \<Rightarrow> ('z, goerr + mcp) op" where
  "getMcpByName E mcpName = getMCP E mcpName"

definition isMcpUpdating :: "env \<Rightarrow> string \<Rightarrow> ('z, bool) op" where
  "isMcpUpdating E mcpName = onInl (getMCP E mcpName) (\<lambda>_. return False)
     (\<lambda>m. return (isMcpConditionTrue (libOf E) (mcpConditions (mcpStatusOf m)) ''Updating''))"

section \<open>Selectors\<close>

text \<open>A failed convergence test counts as a regular cluster.\<close>

definition assumeConverged :: "goerr + bool \<Rightarrow> bool" where
  "assumeConverged r = (case r of Inl _ \<Rightarrow> False | Inr b \<Rightarrow> b)"

definition getKataConfigNodeSelectorAsLabelSelector :: "env \<Rightarrow> (rstate, labelSelector) state" where
  "getKataConfigNodeSelectorAsLabelSelector E = do {
     r \<leftarrow> checkConvergedCluster E;
     if assumeConverged r then return (byLabels [''node-role.kubernetes.io/master'' \<mapsto> ''''])
     else do {
       spec \<leftarrow> gets (\<lambda>s. Spec (kataConfig s));
       let nodeSelector = (case KataConfigPoolSelector spec of
                             None \<Rightarrow> emptyLabelSelector | Some sel \<Rightarrow> sel);
       return (if CheckNodeEligibility spec
               then addLabelToSelector (libOf E) nodeSelector
                      ''feature.node.kubernetes.io/runtime.kata'' ''true''
               else nodeSelector)
     }
   }"

definition getKataConfigNodeSelectorAsSelector ::
  "env \<Rightarrow> (rstate, goerr + (labels \<Rightarrow> bool)) state" where
  "getKataConfigNodeSelectorAsSelector E = do {
     sel \<leftarrow> getKataConfigNodeSelectorAsLabelSelector E;
     return (labelSelectorAsSelector (libOf E) sel)
   }"

definition getNodeSelectorAsMap :: "env \<Rightarrow> ('z, labels) op" where
  "getNodeSelectorAsMap E = do {
     r \<leftarrow> checkConvergedCluster E;
     return (if assumeConverged r then [''node-role.kubernetes.io/master'' \<mapsto> '''']
             else [''node-role.kubernetes.io/kata-oc'' \<mapsto> ''''])
   }"

definition getNodeSelectorAsLabelSelector :: "env \<Rightarrow> ('z, labelSelector) op" where
  "getNodeSelectorAsLabelSelector E = do { m \<leftarrow> getNodeSelectorAsMap E; return (byLabels m) }"

section \<open>Node lists\<close>

definition workerLabels :: labels where
  "workerLabels = [''node-role.kubernetes.io/worker'' \<mapsto> '''']"

definition byNodeLabels :: "labels \<Rightarrow> nodeQuery" where
  "byNodeLabels m = \<lparr>qSelector = None, qLabels = m\<rparr>"

definition bySelector :: "(labels \<Rightarrow> bool) \<Rightarrow> nodeQuery" where
  "bySelector sel = \<lparr>qSelector = Some sel, qLabels = Map.empty\<rparr>"

definition getNodes :: "env \<Rightarrow> ('z, goerr + node list) op" where
  "getNodes E = listNodesOp E (byNodeLabels workerLabels)"

definition getNodesWithLabels :: "env \<Rightarrow> labels \<Rightarrow> ('z, goerr + node list) op" where
  "getNodesWithLabels E nodeLabels = listNodesOp E (byNodeLabels nodeLabels)"

definition checkNodeEligibility :: "env \<Rightarrow> (rstate, goerr option) state" where
  "checkNodeEligibility E = do {
     peerPods \<leftarrow> gets (\<lambda>s. EnablePeerPods (Spec (kataConfig s)));
     if peerPods then return None
     else onInl (getNodesWithLabels E [''feature.node.kubernetes.io/runtime.kata'' \<mapsto> ''true''])
       (\<lambda>e. return (Some e))
       (\<lambda>nodes. return (if nodes = [] then
            Some (Errorf ''no Nodes with required labels found. Is NFD running?'') else None))
   }"

section \<open>Labelling nodes for kata\<close>

definition kataOcLabel :: string where
  "kataOcLabel = ''node-role.kubernetes.io/kata-oc''"

definition setNodeLabels :: "labels \<Rightarrow> node \<Rightarrow> node" where
  "setNodeLabels m n = n\<lparr>nodeMeta := (nodeMeta n)\<lparr>Labels := m\<rparr>\<rparr>"

abbreviation nodeLabels :: "node \<Rightarrow> labels" where
  "nodeLabels n \<equiv> Labels (nodeMeta n)"

text \<open>The label change one worker needs, if any.\<close>

definition relabelled :: "(labels \<Rightarrow> bool) \<Rightarrow> node \<Rightarrow> node option" where
  "relabelled kataNodeSelector worker =
     (let workerMatchesKata = kataNodeSelector (nodeLabels worker);
          workerLabeledForKata = (nodeLabels worker kataOcLabel \<noteq> None);
          isLabelUpToDate = (workerMatchesKata \<and> workerLabeledForKata \<or>
                             \<not> workerMatchesKata \<and> \<not> workerLabeledForKata)
      in if isLabelUpToDate then None
         else if workerMatchesKata \<and> \<not> workerLabeledForKata
         then Some (setNodeLabels ((nodeLabels worker)(kataOcLabel \<mapsto> '''')) worker)
         else Some (setNodeLabels ((nodeLabels worker)(kataOcLabel := None)) worker))"

fun updateNodeLabelsLoop ::
  "env \<Rightarrow> (labels \<Rightarrow> bool) \<Rightarrow> node list \<Rightarrow> bool \<Rightarrow> ('z, bool \<times> goerr option) op" where
  "updateNodeLabelsLoop E sel [] labelingChanged = return (labelingChanged, None)"
| "updateNodeLabelsLoop E sel (worker # ws) labelingChanged =
     (case relabelled sel worker of
        None \<Rightarrow> updateNodeLabelsLoop E sel ws labelingChanged
      | Some worker' \<Rightarrow> onErr (writeOp E (UpdateReq (ONode worker')))
          (\<lambda>e. return (labelingChanged, Some e))
          (updateNodeLabelsLoop E sel ws True))"

definition updateNodeLabels :: "env \<Rightarrow> (rstate, bool \<times> goerr option) state" where
  "updateNodeLabels E =
     onInl (getNodes E) (\<lambda>e. return (False, Some e)) (\<lambda>workers.
     onInl (getKataConfigNodeSelectorAsSelector E) (\<lambda>e. return (False, Some e)) (\<lambda>kataNodeSelector.
     updateNodeLabelsLoop E kataNodeSelector workers False))"

fun unlabelNodesLoop :: "env \<Rightarrow> node list \<Rightarrow> bool \<Rightarrow> ('z, bool \<times> goerr option) op" where
  "unlabelNodesLoop E [] labelingChanged = return (labelingChanged, None)"
| "unlabelNodesLoop E (n # ns) labelingChanged =
     (if nodeLabels n kataOcLabel \<noteq> None
      then onErr (writeOp E (UpdateReq (ONode (setNodeLabels ((nodeLabels n)(kataOcLabel := None)) n))))
             (\<lambda>e. return (labelingChanged, Some e))
             (unlabelNodesLoop E ns True)
      else unlabelNodesLoop E ns labelingChanged)"

definition unlabelNodes :: "env \<Rightarrow> (labels \<Rightarrow> bool) \<Rightarrow> ('z, bool \<times> goerr option) op" where
  "unlabelNodes E nodeSelector =
     onInl (listNodesOp E (bySelector nodeSelector)) (\<lambda>e. return (False, Some e))
       (\<lambda>nodes. unlabelNodesLoop E nodes False)"

section \<open>Node status\<close>

definition getExtensionName :: "env \<Rightarrow> ('z, goerr + string) op" where
  "getExtensionName E =
     (let extension = getenv E ''SANDBOXED_CONTAINERS_EXTENSION''
      in if length extension \<noteq> 0 then return (Inr extension)
         else onInl (getCV E) (\<lambda>e. return (Inl e)) (\<lambda>clusterVersion.
           return (Inr
             (if hasPrefix (cvDesiredImage clusterVersion) ''quay.io/openshift-release-dev/ocp-release''
              then ''sandboxed-containers''
              else if hasPrefix (cvDesiredImage clusterVersion) ''quay.io/okd/scos-release''
              then ''kata-containers''
              else (case readFile (procOf E) ''/proc/cmdline'' of
                      Inr cmdline \<Rightarrow> if strContains cmdline ''ostree/rhcos''
                                     then ''sandboxed-containers'' else ''kata-containers''
                    | Inl _ \<Rightarrow> ''kata-containers'')))))"

text \<open>On a converged cluster, kata is enabled when the target MachineConfig has the extension.\<close>

definition kataEnabledOnMaster :: "env \<Rightarrow> string \<Rightarrow> ('z, goerr + bool) op" where
  "kataEnabledOnMaster E targetMcName =
     onInl (getMC E targetMcName) (\<lambda>e. return (Inl e)) (\<lambda>targetMc.
     onInl (getExtensionName E) (\<lambda>e. return (Inl e)) (\<lambda>extensionName.
     return (Inr (list_ex (\<lambda>extName. extName = extensionName) (Extensions (mcSpecOf targetMc))))))"

definition missingAnnotation :: "string \<Rightarrow> node \<Rightarrow> goerr" where
  "missingAnnotation a n = Errorf (''missing '' @ a @ '' on node '' @ Name (nodeMeta n))"

text \<open>
  The end of \<open>putNodeOnStatusList\<close>, once pool and annotations are known. \<open>isKataEnabledOnNode\<close> is
  a property of the node on regular clusters and of the cluster on converged ones.
\<close>

definition putObservedNode ::
  "env \<Rightarrow> node \<Rightarrow> bool \<Rightarrow> string \<Rightarrow> string \<Rightarrow> string \<Rightarrow> string \<Rightarrow> (rstate, goerr option) state" where
  "putObservedNode E n isConvergedCluster targetMcpName nodeTargetMc nodeMcoState nodeCurrMc =
     onInl (if isConvergedCluster then kataEnabledOnMaster E nodeTargetMc
            else return (Inr (targetMcpName = ''kata-oc'')))
       (\<lambda>e. return (Some e))
       (\<lambda>isKataEnabledOnNode. do {
          _ \<leftarrow> modify (\<lambda>s. onStatus (placeNode (clock (procOf E) (trace s))
            \<lparr>obsNode = n, obsState = nodeMcoState, obsCurrMc = nodeCurrMc,
             obsTargetMc = nodeTargetMc, obsEnabled = isKataEnabledOnNode\<rparr>) s);
          return None
        })"

definition putNodeOnStatusList :: "env \<Rightarrow> node \<Rightarrow> (rstate, goerr option) state" where
  "putNodeOnStatusList E n =
     onInl (checkConvergedCluster E) (\<lambda>e. return (Some e)) (\<lambda>isConvergedCluster.
     let targetMcpName = (if isConvergedCluster then ''master''
                          else if nodeLabels n kataOcLabel \<noteq> None then ''kata-oc'' else ''worker'')
     in onInl (getMcpByName E targetMcpName) (\<lambda>e. return (Some e)) (\<lambda>targetMcp.
     case Annotations (nodeMeta n) ''machineconfiguration.openshift.io/state'' of
       None \<Rightarrow> return (Some (missingAnnotation ''machineconfiguration.openshift.io/state'' n))
     | Some nodeMcoState \<Rightarrow>
     (case Annotations (nodeMeta n) ''machineconfiguration.openshift.io/currentConfig'' of
       None \<Rightarrow> return (Some (missingAnnotation ''machineconfiguration.openshift.io/currentConfig'' n))
     | Some nodeCurrMc \<Rightarrow>
       putObservedNode E n isConvergedCluster targetMcpName (mcpConfigurationName targetMcp)
         nodeMcoState nodeCurrMc)))"

definition setNodeCount :: "int \<Rightarrow> kataConfigStatus \<Rightarrow> kataConfigStatus" where
  "setNodeCount c st = st\<lparr>KataNodes := (KataNodes st)\<lparr>NodeCount := c\<rparr>\<rparr>"

definition setReadyNodeCount :: "kataConfigStatus \<Rightarrow> kataConfigStatus" where
  "setReadyNodeCount st =
     st\<lparr>KataNodes := (KataNodes st)\<lparr>ReadyNodeCount := int (length (Installed (KataNodes st)))\<rparr>\<rparr>"

definition updateStatus :: "env \<Rightarrow> (rstate, goerr option) state" where
  "updateStatus E =
     onInl (getNodes E) (\<lambda>e. return (Some e)) (\<lambda>nodeList. do {
       _ \<leftarrow> modify (onStatus clearNodeStatusLists);
       m \<leftarrow> getNodeSelectorAsMap E;
       kataNodes \<leftarrow> getNodesWithLabels E m;
       _ \<leftarrow> modify (onStatus (setNodeCount (case kataNodes of
              Inl _ \<Rightarrow> 0 | Inr nodes \<Rightarrow> int (length nodes))));
       err \<leftarrow> forEachKeepLast (putNodeOnStatusList E) nodeList None;
       _ \<leftarrow> modify (onStatus setReadyNodeCount);
       return err
     })"

section \<open>Pods that block deletion, finalizers\<close>

definition usesRuntimeClass :: "string list \<Rightarrow> pod \<Rightarrow> bool" where
  "usesRuntimeClass rcs p = (case podRuntimeClassName p of None \<Rightarrow> False | Some rc \<Rightarrow> contains rcs rc)"

definition existingPodsError :: "string \<Rightarrow> goerr" where
  "existingPodsError rc = Errorf (''existing pods using \"'' @ rc @
     ''\" RuntimeClass found. Please delete the pods manually for KataConfig deletion to proceed'')"

definition listKataPods :: "env \<Rightarrow> (rstate, goerr option) state" where
  "listKataPods E =
     onInl (listPodsOp E)
       (\<lambda>e. return (Some (Errorf (''failed to list kata pods: '' @ errorText e))))
       (\<lambda>pods. do {
          rcs \<leftarrow> gets (\<lambda>s. RuntimeClasses (Status (kataConfig s)));
          return (case find (usesRuntimeClass rcs) pods of
             None \<Rightarrow> None
           | Some p \<Rightarrow> Some (existingPodsError (the (podRuntimeClassName p))))
        })"

definition addFinalizer :: "env \<Rightarrow> (rstate, goerr option) state" where
  "addFinalizer E = do {
     _ \<leftarrow> modify (kataConfig_update (kcMeta_update (AddFinalizer E kataConfigFinalizer)));
     updateKataConfig E
   }"

definition removeFinalizer :: "env \<Rightarrow> (rstate, goerr option) state" where
  "removeFinalizer E = do {
     _ \<leftarrow> modify (kataConfig_update (kcMeta_update (RemoveFinalizer E kataConfigFinalizer)));
     updateKataConfig E
   }"

definition checkDeletionEligibility :: "env \<Rightarrow> (rstate, ctrlResult \<times> goerr option) state" where
  "checkDeletionEligibility E = do {
     finalizers \<leftarrow> gets (\<lambda>s. Finalizers (kcMeta (kataConfig s)));
     if contains finalizers kataConfigFinalizer
     then onErr (listKataPods E)
       (\<lambda>err. do {
          _ \<leftarrow> mutateCondition E (setInProgressConditionToBlockedByExistingKataPods (errorText err));
          onErr (statusUpdateKataConfig E)
            (\<lambda>updErr. return (emptyResult, Some updErr))
            (return (requeueIn 15, Some err))
        })
       (return (emptyResult, None))
     else return (emptyResult, None)
   }"

section \<open>Queries do not write\<close>

lemma readOnly_simps [simp]:
  "readOnly (Ev (GetReq k ns n) r)" "readOnly (Ev (ListReq k) r)"
  by (simp_all add: readOnly_def)

lemma emits_crdAvailable: "emits readOnly (crdAvailable E k name)"
  unfolding crdAvailable_def by (intro emits_intros) simp_all

lemma emits_checkConvergedCluster: "emits readOnly (checkConvergedCluster E)"
  unfolding checkConvergedCluster_def isMachineConfigPoolAvailable_def
  by (intro emits_intros emits_crdAvailable) simp_all

lemma emits_isMachineConfigAvailable: "emits readOnly (isMachineConfigAvailable E)"
  unfolding isMachineConfigAvailable_def by (rule emits_crdAvailable)

lemma emits_isMachineConfigPoolAvailable: "emits readOnly (isMachineConfigPoolAvailable E)"
  unfolding isMachineConfigPoolAvailable_def by (rule emits_crdAvailable)

lemma emits_getMcpName: "emits readOnly (getMcpName E)"
  unfolding getMcpName_def by (intro emits_intros emits_checkConvergedCluster)

lemma emits_getMcpByName: "emits readOnly (getMcpByName E name)"
  unfolding getMcpByName_def by (intro emits_intros) simp

lemma emits_isMcpUpdating: "emits readOnly (isMcpUpdating E name)"
  unfolding isMcpUpdating_def by (intro emits_intros) simp

lemma emits_kcLabelSelector: "emits readOnly (getKataConfigNodeSelectorAsLabelSelector E)"
  unfolding getKataConfigNodeSelectorAsLabelSelector_def
  by (intro emits_intros emits_checkConvergedCluster)

lemma emits_kcSelector: "emits readOnly (getKataConfigNodeSelectorAsSelector E)"
  unfolding getKataConfigNodeSelectorAsSelector_def
  by (intro emits_intros emits_kcLabelSelector)

lemma emits_getNodeSelectorAsMap: "emits readOnly (getNodeSelectorAsMap E)"
  unfolding getNodeSelectorAsMap_def by (intro emits_intros emits_checkConvergedCluster)

lemma emits_getNodeSelectorAsLabelSelector: "emits readOnly (getNodeSelectorAsLabelSelector E)"
  unfolding getNodeSelectorAsLabelSelector_def by (intro emits_intros emits_getNodeSelectorAsMap)

lemma emits_getNodes: "emits readOnly (getNodes E)"
  unfolding getNodes_def by (intro emits_intros) simp

lemma emits_getNodesWithLabels: "emits readOnly (getNodesWithLabels E m)"
  unfolding getNodesWithLabels_def by (intro emits_intros) simp

lemma emits_checkNodeEligibility: "emits readOnly (checkNodeEligibility E)"
  unfolding checkNodeEligibility_def by (intro emits_intros emits_getNodesWithLabels)

lemma emits_getExtensionName: "emits readOnly (getExtensionName E)"
  unfolding getExtensionName_def by (intro emits_intros) simp

lemma emits_putNodeOnStatusList: "emits readOnly (putNodeOnStatusList E n)"
  unfolding putNodeOnStatusList_def putObservedNode_def kataEnabledOnMaster_def
  by (intro emits_intros emits_checkConvergedCluster emits_getMcpByName emits_getExtensionName)
    simp_all

lemma emits_updateStatus: "emits readOnly (updateStatus E)"
  unfolding updateStatus_def
  by (intro emits_intros emits_getNodes emits_getNodeSelectorAsMap emits_getNodesWithLabels
      emits_putNodeOnStatusList) simp_all

lemma emits_listKataPods: "emits readOnly (listKataPods E)"
  unfolding listKataPods_def by (intro emits_intros) simp

lemmas readOnly_queries =
  emits_isMachineConfigAvailable emits_isMachineConfigPoolAvailable emits_checkConvergedCluster
  emits_getMcpName emits_getMcpByName emits_isMcpUpdating emits_kcLabelSelector emits_kcSelector
  emits_getNodeSelectorAsMap emits_getNodeSelectorAsLabelSelector emits_getNodes
  emits_getNodesWithLabels emits_checkNodeEligibility emits_getExtensionName emits_updateStatus
  emits_listKataPods

text \<open>The same facts for any property of events that reads satisfy.\<close>

lemmas query_emits [emits_intros] = readOnly_queries[THEN emits_mono]

section \<open>What queries keep\<close>

text \<open>
  Except for \<open>updateStatus\<close>, a query changes nothing but the trace. The rules are stated for any
  part \<open>f\<close> of the state that does not look at the trace.
\<close>

lemma preserves_checkConvergedCluster [preserves_intros]:
  "(\<And>s t. f (s\<lparr>trace := t\<rparr>) = f s) \<Longrightarrow> preserves f (checkConvergedCluster E)"
  unfolding checkConvergedCluster_def isMachineConfigPoolAvailable_def crdAvailable_def
  by (intro preserves_intros) simp_all

lemma preserves_isMachineConfigAvailable [preserves_intros]:
  "(\<And>s t. f (s\<lparr>trace := t\<rparr>) = f s) \<Longrightarrow> preserves f (isMachineConfigAvailable E)"
  unfolding isMachineConfigAvailable_def crdAvailable_def by (intro preserves_intros) simp_all

lemma preserves_getMcpName [preserves_intros]:
  "(\<And>s t. f (s\<lparr>trace := t\<rparr>) = f s) \<Longrightarrow> preserves f (getMcpName E)"
  unfolding getMcpName_def by (intro preserves_intros) simp_all

lemma preserves_getMcpByName [preserves_intros]:
  "(\<And>s t. f (s\<lparr>trace := t\<rparr>) = f s) \<Longrightarrow> preserves f (getMcpByName E n)"
  unfolding getMcpByName_def by (intro preserves_intros) simp_all

lemma preserves_isMcpUpdating [preserves_intros]:
  "(\<And>s t. f (s\<lparr>trace := t\<rparr>) = f s) \<Longrightarrow> preserves f (isMcpUpdating E n)"
  unfolding isMcpUpdating_def by (intro preserves_intros) simp_all

lemma preserves_kcLabelSelector [preserves_intros]:
  "(\<And>s t. f (s\<lparr>trace := t\<rparr>) = f s) \<Longrightarrow> preserves f (getKataConfigNodeSelectorAsLabelSelector E)"
  unfolding getKataConfigNodeSelectorAsLabelSelector_def by (intro preserves_intros) simp_all

lemma preserves_kcSelector [preserves_intros]:
  "(\<And>s t. f (s\<lparr>trace := t\<rparr>) = f s) \<Longrightarrow> preserves f (getKataConfigNodeSelectorAsSelector E)"
  unfolding getKataConfigNodeSelectorAsSelector_def by (intro preserves_intros) simp_all

lemma preserves_getNodeSelectorAsMap [preserves_intros]:
  "(\<And>s t. f (s\<lparr>trace := t\<rparr>) = f s) \<Longrightarrow> preserves f (getNodeSelectorAsMap E)"
  unfolding getNodeSelectorAsMap_def by (intro preserves_intros) simp_all

lemma preserves_getNodes [preserves_intros]:
  "(\<And>s t. f (s\<lparr>trace := t\<rparr>) = f s) \<Longrightarrow> preserves f (getNodes E)"
  unfolding getNodes_def by (intro preserves_intros) simp_all

lemma preserves_getNodesWithLabels [preserves_intros]:
  "(\<And>s t. f (s\<lparr>trace := t\<rparr>) = f s) \<Longrightarrow> preserves f (getNodesWithLabels E m)"
  unfolding getNodesWithLabels_def by (intro preserves_intros) simp_all

lemma preserves_checkNodeEligibility [preserves_intros]:
  "(\<And>s t. f (s\<lparr>trace := t\<rparr>) = f s) \<Longrightarrow> preserves f (checkNodeEligibility E)"
  unfolding checkNodeEligibility_def by (intro preserves_intros) simp_all

lemma preserves_getExtensionName [preserves_intros]:
  "(\<And>s t. f (s\<lparr>trace := t\<rparr>) = f s) \<Longrightarrow> preserves f (getExtensionName E)"
  unfolding getExtensionName_def by (intro preserves_intros) simp_all

lemma preserves_listKataPods [preserves_intros]:
  "(\<And>s t. f (s\<lparr>trace := t\<rparr>) = f s) \<Longrightarrow> preserves f (listKataPods E)"
  unfolding listKataPods_def by (intro preserves_intros) simp_all

lemma preserves_updateNodeLabelsLoop [preserves_intros]:
  "(\<And>s t. f (s\<lparr>trace := t\<rparr>) = f s) \<Longrightarrow> preserves f (updateNodeLabelsLoop E sel ws ch)"
  by (induction ws arbitrary: ch) (auto intro!: preserves_intros)

lemma preserves_updateNodeLabels [preserves_intros]:
  "(\<And>s t. f (s\<lparr>trace := t\<rparr>) = f s) \<Longrightarrow> preserves f (updateNodeLabels E)"
  unfolding updateNodeLabels_def by (intro preserves_intros) simp_all

section \<open>Labelling\<close>

lemma relabelled_None:
  "relabelled sel w = None \<longleftrightarrow> (sel (nodeLabels w) \<longleftrightarrow> nodeLabels w kataOcLabel \<noteq> None)"
  by (auto simp: relabelled_def Let_def)

lemma relabelled_Some:
  assumes "relabelled sel w = Some w'"
  shows "(nodeLabels w' kataOcLabel \<noteq> None) = sel (nodeLabels w)"
    and "k \<noteq> kataOcLabel \<Longrightarrow> nodeLabels w' k = nodeLabels w k"
    and "Name (nodeMeta w') = Name (nodeMeta w)"
  using assms by (auto simp: relabelled_def Let_def setNodeLabels_def split: if_splits)

text \<open>
  The writes of the labelling loop: the nodes that need a change, in order, up to the first one
  whose update fails.
\<close>

definition nodeUpdates :: "node list \<Rightarrow> goerr option \<Rightarrow> nat \<Rightarrow> history" where
  "nodeUpdates W err k = map (\<lambda>w. Ev (UpdateReq (ONode w)) None) (take k W) @
     (case err of None \<Rightarrow> [] | Some e \<Rightarrow> [Ev (UpdateReq (ONode (W ! k))) (Some e)])"

definition labellingOutcome ::
  "node list \<Rightarrow> bool \<Rightarrow> bool \<times> goerr option \<Rightarrow> history \<Rightarrow> bool" where
  "labellingOutcome W ch r new \<longleftrightarrow> (\<exists>k. new = nodeUpdates W (snd r) k \<and>
     fst r = (ch \<or> 0 < k) \<and>
     (case snd r of None \<Rightarrow> k = length W | Some _ \<Rightarrow> k < length W))"

lemma labellingOutcome_Nil: "labellingOutcome [] ch (ch, None) []"
  by (simp add: labellingOutcome_def nodeUpdates_def)

lemma labellingOutcome_fail:
  "labellingOutcome (w # W) ch (ch, Some e) [Ev (UpdateReq (ONode w)) (Some e)]"
  unfolding labellingOutcome_def nodeUpdates_def by (rule exI[of _ 0]) simp

lemma labellingOutcome_Cons:
  assumes "labellingOutcome W True r new"
  shows "labellingOutcome (w # W) ch r (Ev (UpdateReq (ONode w)) None # new)"
proof -
  from assms obtain k where "new = nodeUpdates W (snd r) k" "fst r"
    "case snd r of None \<Rightarrow> k = length W | Some _ \<Rightarrow> k < length W"
    by (auto simp: labellingOutcome_def)
  then show ?thesis unfolding labellingOutcome_def nodeUpdates_def
    by (intro exI[of _ "Suc k"]) (auto split: option.splits)
qed

lemma updateNodeLabelsLoop_outcome:
  "wp (updateNodeLabelsLoop E sel ws ch)
     (\<lambda>r s'. \<exists>new. trace s' = trace s @ new \<and>
        labellingOutcome (List.map_filter (relabelled sel) ws) ch r new) s"
proof (induction ws arbitrary: ch s)
  case Nil
  then show ?case by (simp add: wp_simps List.map_filter_simps labellingOutcome_Nil)
next
  case (Cons w ws)
  show ?case
  proof (cases "relabelled sel w")
    case None
    then show ?thesis using Cons[of ch s] by (simp add: List.map_filter_simps)
  next
    case (Some w')
    define q where "q = UpdateReq (ONode w')"
    define s1 where "s1 = s\<lparr>trace := trace s @ [Ev q None]\<rparr>"
    have "wp (updateNodeLabelsLoop E sel ws True)
       (\<lambda>r s'. \<exists>new. trace s' = trace s @ new \<and>
        labellingOutcome (w' # List.map_filter (relabelled sel) ws) ch r new) s1"
      by (rule wp_conseq[OF Cons[of True s1]])
        (auto simp: s1_def q_def dest: labellingOutcome_Cons[where w = w' and ch = ch])
    then show ?thesis using Some
      by (auto simp: wp_simps List.map_filter_simps s1_def q_def[symmetric]
          labellingOutcome_fail[of w', folded q_def])
  qed
qed

section \<open>Status lists\<close>

text \<open>
  A run of the placement loop: the nodes that could be classified, in order, each with the clock
  and what was observed of it.
\<close>

definition observes :: "nodeObservation \<Rightarrow> bool" where
  "observes ob \<longleftrightarrow>
     Annotations (nodeMeta (obsNode ob)) ''machineconfiguration.openshift.io/state'' =
       Some (obsState ob) \<and>
     Annotations (nodeMeta (obsNode ob)) ''machineconfiguration.openshift.io/currentConfig'' =
       Some (obsCurrMc ob)"

abbreviation placeAll :: "(nat \<times> nodeObservation) list \<Rightarrow> kataConfigStatus \<Rightarrow> kataConfigStatus" where
  "placeAll obs \<equiv> fold (\<lambda>(t, ob). placeNode t ob) obs"

abbreviation obsNodes :: "(nat \<times> nodeObservation) list \<Rightarrow> node list" where
  "obsNodes obs \<equiv> map (\<lambda>(t, ob). obsNode ob) obs"

definition placementRun ::
  "node list \<Rightarrow> goerr option \<Rightarrow> goerr option \<Rightarrow> (nat \<times> nodeObservation) list \<Rightarrow> bool" where
  "placementRun ns err r obs \<longleftrightarrow> subseq (obsNodes obs) ns \<and> list_all (\<lambda>(t, ob). observes ob) obs \<and>
     (r = err \<and> obsNodes obs = ns \<or> r \<noteq> None \<and> length obs < length ns)"

definition placedOr :: "node \<Rightarrow> rstate \<Rightarrow> goerr option \<Rightarrow> rstate \<Rightarrow> bool" where
  "placedOr n s r s' \<longleftrightarrow>
     r \<noteq> None \<and> kataConfig s' = kataConfig s \<or>
     r = None \<and> (\<exists>t ob. obsNode ob = n \<and> observes ob \<and>
       Status (kataConfig s') = placeNode t ob (Status (kataConfig s)))"

lemma putObservedNode_outcome:
  assumes "Annotations (nodeMeta n) ''machineconfiguration.openshift.io/state'' = Some st"
    and "Annotations (nodeMeta n) ''machineconfiguration.openshift.io/currentConfig'' = Some cur"
  shows "wp (putObservedNode E n conv pool tgt st cur) (placedOr n s) s"
proof -
  have en: "preserves kataConfig (if c then kataEnabledOnMaster E x else return y)" for c x y
    unfolding kataEnabledOnMaster_def by (intro preserves_intros) simp_all
  have ob: "observes \<lparr>obsNode = n, obsState = st, obsCurrMc = cur, obsTargetMc = tgt,
      obsEnabled = b\<rparr>" for b
    using assms by (simp add: observes_def)
  show ?thesis unfolding putObservedNode_def
    by (rule wp_onInl_keep[OF en]; simp add: wp_simps placedOr_def)
      (metis ob nodeObservation.select_convs(1))
qed

lemma putNodeOnStatusList_outcome: "wp (putNodeOnStatusList E n) (placedOr n s) s"
proof -
  have tail: "wp (putObservedNode E n conv pool tgt st cur) (placedOr n s) s'"
    if "kataConfig s' = kataConfig s"
      "Annotations (nodeMeta n) ''machineconfiguration.openshift.io/state'' = Some st"
      "Annotations (nodeMeta n) ''machineconfiguration.openshift.io/currentConfig'' = Some cur"
    for conv pool tgt st cur s'
    by (rule wp_conseq[OF putObservedNode_outcome[OF that(2,3)]])
      (use that(1) in \<open>simp add: placedOr_def\<close>)
  show ?thesis unfolding putNodeOnStatusList_def Let_def
    by (intro wp_onInl_keep[where f = kataConfig] preserves_intros)
      (auto simp: wp_return tail placedOr_def[of _ _ "Some _"] split: option.split)
qed

lemma putNodes_outcome:
  "wp (forEachKeepLast (putNodeOnStatusList E) ns err)
     (\<lambda>r s'. \<exists>obs. placementRun ns err r obs \<and>
        Status (kataConfig s') = placeAll obs (Status (kataConfig s))) s"
proof (induction ns arbitrary: err s)
  case Nil
  then show ?case by (simp add: wp_return placementRun_def)
next
  case (Cons n ns)
  show ?case unfolding forEachKeepLast.simps wp_bind
  proof (rule wp_conseq[OF putNodeOnStatusList_outcome])
    fix r s' assume r: "placedOr n s r s'"
    show "wp (forEachKeepLast (putNodeOnStatusList E) ns (if r = None then err else r))
       (\<lambda>r s'. \<exists>obs. placementRun (n # ns) err r obs \<and>
          Status (kataConfig s') = placeAll obs (Status (kataConfig s))) s'"
    proof (rule wp_conseq[OF Cons])
      fix r' s'' assume "\<exists>obs. placementRun ns (if r = None then err else r) r' obs \<and>
        Status (kataConfig s'') = placeAll obs (Status (kataConfig s'))"
      then obtain obs where obs: "placementRun ns (if r = None then err else r) r' obs"
        "Status (kataConfig s'') = placeAll obs (Status (kataConfig s'))" by blast
      show "\<exists>obs. placementRun (n # ns) err r' obs \<and>
          Status (kataConfig s'') = placeAll obs (Status (kataConfig s))"
      proof (cases r)
        case None
        with r obtain t ob where "obsNode ob = n" "observes ob"
          "Status (kataConfig s') = placeNode t ob (Status (kataConfig s))"
          by (auto simp: placedOr_def)
        with obs None show ?thesis
          by (intro exI[of _ "(t, ob) # obs"]) (auto simp: placementRun_def)
      next
        case (Some e)
        with obs r show ?thesis
          by (intro exI[of _ obs]) (auto simp: placementRun_def placedOr_def)
      qed
    qed
  qed
qed

section \<open>Properties\<close>

lemma exec_result_bind:
  "exec (State_Monad.bind m k) s = exec (k (result m s)) (exec m s)"
  "result (State_Monad.bind m k) s = result (k (result m s)) (exec m s)"
  by (simp_all add: exec_def result_def split: prod.splits)

lemma run_onInl_Inr:
  assumes "result m s = Inr x"
  shows "exec (onInl m h k) s = exec (k x) (exec m s)"
    and "result (onInl m h k) s = result (k x) (exec m s)"
  using assms by (simp_all add: onInl_def exec_result_bind)

lemma wp_onInl_Inr: "result m s = Inr x \<Longrightarrow> wp (onInl m h k) Q s = wp (k x) Q (exec m s)"
  by (simp add: wp_def run_onInl_Inr)

text \<open>
  \<open>updateNodeLabels\<close> reads the workers and the selector and then updates exactly the workers
  whose kata-oc label disagrees with the selector, in order, stopping at the first failed
  update; it reports a change exactly when at least one update succeeded.
\<close>

theorem updateNodeLabels_writes:
  assumes "result (getNodes E) s = Inr workers"
    and "result (getKataConfigNodeSelectorAsSelector E) (exec (getNodes E) s) = Inr sel"
  shows "\<exists>reads writes. newEvents (updateNodeLabels E) s = reads @ writes \<and>
    list_all readOnly reads \<and>
    labellingOutcome (List.map_filter (relabelled sel) workers) False
      (result (updateNodeLabels E) s) writes"
proof -
  let ?s1 = "exec (getNodes E) s"
  let ?s2 = "exec (getKataConfigNodeSelectorAsSelector E) ?s1"
  have run: "exec (updateNodeLabels E) s = exec (updateNodeLabelsLoop E sel workers False) ?s2"
    "result (updateNodeLabels E) s = result (updateNodeLabelsLoop E sel workers False) ?s2"
    unfolding updateNodeLabels_def using assms by (simp_all add: run_onInl_Inr)
  obtain new where new: "trace (exec (updateNodeLabels E) s) = trace ?s2 @ new"
    "labellingOutcome (List.map_filter (relabelled sel) workers) False
      (result (updateNodeLabels E) s) new"
    using updateNodeLabelsLoop_outcome[of E sel workers False ?s2] by (auto simp: wp_def run)
  obtain r1 where r1: "trace ?s1 = trace s @ r1" "list_all readOnly r1"
    using emits_newEvents[OF emits_getNodes, of E s] by blast
  obtain r2 where r2: "trace ?s2 = trace ?s1 @ r2" "list_all readOnly r2"
    using emits_newEvents[OF emits_kcSelector, of E ?s1] by blast
  have "newEvents (updateNodeLabels E) s = (r1 @ r2) @ new"
    by (simp add: newEvents_def new r1 r2)
  then show ?thesis using new(2) r1(2) r2(2) by (intro exI[of _ "r1 @ r2"] exI[of _ new]) simp
qed

definition sampleWorker :: node where
  "sampleWorker = \<lparr>nodeMeta = (mkMeta ''worker-0'' [])\<lparr>
     Labels := [''node-role.kubernetes.io/worker'' \<mapsto> ''''],
     Annotations := [''machineconfiguration.openshift.io/state'' \<mapsto> ''Done'',
                     ''machineconfiguration.openshift.io/currentConfig'' \<mapsto> ''rendered-1'']\<rparr>\<rparr>"

definition samplePool :: mcp where
  "samplePool = \<lparr>mcpMeta = mkMeta ''kata-oc'' [], mcpMachineConfigSelector = None,
     mcpNodeSelector = None, mcpConfigurationName = ''rendered-1'',
     mcpStatusOf = \<lparr>MachineCount = 1, ReadyMachineCount = 1, UpdatedMachineCount = 1,
       DegradedMachineCount = 0, ObservedGeneration = 1, mcpConditions = []\<rparr>\<rparr>"

definition workerEnv :: env where
  "workerEnv = sampleEnv\<lparr>apiOf := sampleApi\<lparr>listNodes := \<lambda>h q. Inr [sampleWorker],
     getMachineConfigPool := \<lambda>h n. Inr samplePool\<rparr>\<rparr>"

lemma workerEnv_simps [simp]:
  "listNodes (apiOf workerEnv) h q = Inr [sampleWorker]"
  "listMachineConfigPools (apiOf workerEnv) h = Inr []"
  "getMachineConfigPool (apiOf workerEnv) h n = Inr samplePool"
  "probeKind (apiOf workerEnv) h k ns n = Some (ApiError NotFound ''not found'')"
  "writeError (apiOf workerEnv) h w = None"
  "labelSelectorAsSelector (libOf workerEnv) sel = Inr (\<lambda>l. MatchLabels sel \<subseteq>\<^sub>m l)"
  by (simp_all add: workerEnv_def sample_defs)

lemma empty_map_le: "(\<subseteq>\<^sub>m) Map.empty = (\<lambda>l :: labels. True)"
  by (rule ext) simp

lemma result_getNodes_worker: "result (getNodes workerEnv) s = Inr [sampleWorker]"
  by (simp add: getNodes_def result_def)

lemma workerEnv_notConverged:
  "run_state (checkConvergedCluster workerEnv) s =
   (Inr False, s\<lparr>trace := trace s @
      [Ev (GetReq KMachineConfigPool [] ''dummy-machine-config-pool'')
         (Some (ApiError NotFound ''not found'')),
       Ev (ListReq KMachineConfigPool) None]\<rparr>)"
  by (simp add: checkConvergedCluster_def isMachineConfigPoolAvailable_def crdAvailable_def
      onInl_def IsNotFound_def)

text \<open>The node objects in the cluster after the updates of a history.\<close>

fun applyNodeUpdate :: "event \<Rightarrow> node list \<Rightarrow> node list" where
  "applyNodeUpdate (Ev (UpdateReq (ONode n)) None) ns =
     map (\<lambda>m. if Name (nodeMeta m) = Name (nodeMeta n) then n else m) ns"
| "applyNodeUpdate e ns = ns"

definition relabelledNode :: "(labels \<Rightarrow> bool) \<Rightarrow> node \<Rightarrow> node" where
  "relabelledNode sel w = (case relabelled sel w of None \<Rightarrow> w | Some w' \<Rightarrow> w')"

lemma relabelledNode_name [simp]: "Name (nodeMeta (relabelledNode sel w)) = Name (nodeMeta w)"
  by (auto simp: relabelledNode_def relabelled_Some(3) split: option.split)

lemma applyNodeUpdate_readOnly: "readOnly e \<Longrightarrow> applyNodeUpdate e ns = ns"
  by (cases "(e, ns)" rule: applyNodeUpdate.cases) (auto simp: readOnly_def)

lemma fold_applyNodeUpdate_readOnly: "list_all readOnly es \<Longrightarrow> fold applyNodeUpdate es ns = ns"
  by (induction es) (simp_all add: applyNodeUpdate_readOnly)

lemma labelled_store:
  "distinct (map (\<lambda>n. Name (nodeMeta n)) (pre @ ws)) \<Longrightarrow>
   fold applyNodeUpdate (map (\<lambda>w. Ev (UpdateReq (ONode w)) None) (List.map_filter (relabelled sel) ws))
     (pre @ ws) = pre @ map (relabelledNode sel) ws"
proof (induction ws arbitrary: pre)
  case Nil
  then show ?case by (simp add: List.map_filter_simps)
next
  case (Cons w ws)
  note IH = Cons.IH[of "pre @ [relabelledNode sel w]"]
  have d: "distinct (map (\<lambda>n. Name (nodeMeta n)) ((pre @ [relabelledNode sel w]) @ ws))"
    using Cons.prems by simp
  show ?case
  proof (cases "relabelled sel w")
    case None
    then show ?thesis using IH[OF d] by (simp add: List.map_filter_simps relabelledNode_def)
  next
    case (Some w')
    then have w': "relabelledNode sel w = w'" "Name (nodeMeta w') = Name (nodeMeta w)"
      by (simp_all add: relabelledNode_def relabelled_Some(3))
    have "map (\<lambda>m. if Name (nodeMeta m) = Name (nodeMeta w') then w' else m) (pre @ w # ws) = pre @ w' # ws"
      using Cons.prems w'(2) by (auto intro!: map_idI simp: image_iff)
    then show ?thesis using IH[OF d] Some w'(1) by (simp add: List.map_filter_simps)
  qed
qed

lemma relabelledNode_goal:
  assumes "\<And>l v. sel (l(kataOcLabel := v)) = sel l"
  shows "(nodeLabels (relabelledNode sel w) kataOcLabel \<noteq> None) = sel (nodeLabels w)"
    and "(nodeLabels (relabelledNode sel w))(kataOcLabel := None) = (nodeLabels w)(kataOcLabel := None)"
    and "relabelled sel (relabelledNode sel w) = None"
proof -
  show same: "(nodeLabels (relabelledNode sel w))(kataOcLabel := None) = (nodeLabels w)(kataOcLabel := None)"
    by (auto simp: relabelledNode_def relabelled_def Let_def setNodeLabels_def)
  show goal: "(nodeLabels (relabelledNode sel w) kataOcLabel \<noteq> None) = sel (nodeLabels w)"
    by (auto simp: relabelledNode_def relabelled_def Let_def setNodeLabels_def)
  have "sel (nodeLabels (relabelledNode sel w)) = sel (nodeLabels w)" using same assms by metis
  then show "relabelled sel (relabelledNode sel w) = None" using goal by (simp add: relabelled_None)
qed

lemma second_pass_idle:
  assumes "\<And>l v. sel (l(kataOcLabel := v)) = sel l"
  shows "run_state (updateNodeLabelsLoop E sel (map (relabelledNode sel) ws) ch) s = ((ch, None), s)"
  by (induction ws) (simp_all add: relabelledNode_goal(3)[of sel, OF assms])

lemma labelling_store:
  assumes "result (getNodes E) s = Inr workers"
    and "result (getKataConfigNodeSelectorAsSelector E) (exec (getNodes E) s) = Inr sel"
    and "result (updateNodeLabels E) s = (changed, None)"
    and "distinct (map (\<lambda>n. Name (nodeMeta n)) workers)"
  shows "fold applyNodeUpdate (newEvents (updateNodeLabels E) s) workers = map (relabelledNode sel) workers"
    and "changed \<longleftrightarrow> \<not> list_all readOnly (newEvents (updateNodeLabels E) s)"
proof -
  let ?W = "List.map_filter (relabelled sel) workers"
  obtain reads writes where ev: "newEvents (updateNodeLabels E) s = reads @ writes" "list_all readOnly reads"
    "labellingOutcome ?W False (changed, None) writes"
    using updateNodeLabels_writes[OF assms(1,2)] assms(3) by auto
  then have w: "writes = map (\<lambda>w. Ev (UpdateReq (ONode w)) None) ?W" "changed \<longleftrightarrow> 0 < length ?W"
    by (auto simp: labellingOutcome_def nodeUpdates_def)
  show "fold applyNodeUpdate (newEvents (updateNodeLabels E) s) workers = map (relabelledNode sel) workers"
    using labelled_store[of "[]" workers sel] assms(4)
    by (simp add: ev(1) w(1) fold_applyNodeUpdate_readOnly[OF ev(2)])
  show "changed \<longleftrightarrow> \<not> list_all readOnly (newEvents (updateNodeLabels E) s)"
    using ev(2) by (cases ?W) (simp_all add: ev(1) w readOnly_def)
qed

text \<open>
  C9: A labelling pass reaches its goal. When \<open>updateNodeLabels\<close> returns without an error, and the
  selector does not look at the kata-oc label itself, then in the cluster as its updates leave it every
  worker carries the kata-oc label exactly when the selector matches it and has all its other labels as
  before, the pass reports a change exactly when it wrote something, and a second pass over these nodes
  writes nothing.
\<close>

theorem labelling_pass_converges:
  assumes "result (getNodes E) s = Inr workers"
    and "result (getKataConfigNodeSelectorAsSelector E) (exec (getNodes E) s) = Inr sel"
    and "result (updateNodeLabels E) s = (changed, None)"
    and "distinct (map (\<lambda>n. Name (nodeMeta n)) workers)"
    and "\<And>l v. sel (l(kataOcLabel := v)) = sel l"
  shows "let after = fold applyNodeUpdate (newEvents (updateNodeLabels E) s) workers in
    list_all2 (\<lambda>w w'. Name (nodeMeta w') = Name (nodeMeta w) \<and>
      (nodeLabels w' kataOcLabel \<noteq> None) = sel (nodeLabels w) \<and>
      (nodeLabels w')(kataOcLabel := None) = (nodeLabels w)(kataOcLabel := None)) workers after \<and>
    (changed \<longleftrightarrow> \<not> list_all readOnly (newEvents (updateNodeLabels E) s)) \<and>
    run_state (updateNodeLabelsLoop E sel after False) s' = ((False, None), s')"
  unfolding Let_def labelling_store(1)[OF assms(1-4)] second_pass_idle[of sel, OF assms(5)]
    labelling_store(2)[OF assms(1-4)]
  using relabelledNode_goal[of sel, OF assms(5)] by (auto simp: list_all2_map2 list_all2_same)

theorem labelling_pass_converges_witness:
  "nodeLabels (fold applyNodeUpdate (newEvents (updateNodeLabels workerEnv) sampleState) [sampleWorker] ! 0)
     ''node-role.kubernetes.io/kata-oc'' \<noteq> None"
proof -
  have sel: "result (getKataConfigNodeSelectorAsSelector workerEnv)
      (exec (getNodes workerEnv) sampleState) = Inr (\<lambda>l. True)"
    by (simp add: result_def exec_def getNodes_def getKataConfigNodeSelectorAsSelector_def
        getKataConfigNodeSelectorAsLabelSelector_def workerEnv_notConverged assumeConverged_def
        sampleState_def sampleKataConfig_def emptyLabelSelector_def empty_map_le)
  have res: "result (updateNodeLabels workerEnv) sampleState = (True, None)"
    unfolding updateNodeLabels_def run_onInl_Inr(2)[OF result_getNodes_worker] run_onInl_Inr(2)[OF sel]
    by (simp add: result_def relabelled_def sampleWorker_def kataOcLabel_def onErr_def)
  show ?thesis
    using labelling_pass_converges[OF result_getNodes_worker sel res, of sampleState]
    by (auto simp: Let_def list_all2_Cons1 kataOcLabel_def)
qed

lemma nodesOn_counts [simp]:
  "nodesOn l (setNodeCount c st) = nodesOn l st"
  "nodesOn l (setReadyNodeCount st) = nodesOn l st"
  by (cases l; simp add: setNodeCount_def setReadyNodeCount_def)+

lemma ready_setReadyNodeCount:
  "ReadyNodeCount (KataNodes (setReadyNodeCount st)) =
   int (length (nodesOn LInstalled (setReadyNodeCount st)))"
  by (simp add: setReadyNodeCount_def)

lemma distinct_subseq: "subseq xs ys \<Longrightarrow> distinct ys \<Longrightarrow> distinct xs"
  by (induction rule: list_emb.induct) (auto dest: list_emb_set)

lemma obs_distinct:
  assumes "subseq (obsNodes obs) workers" "distinct (map (\<lambda>n. Name (nodeMeta n)) workers)"
  shows "distinct (map (\<lambda>(t, ob). Name (nodeMeta (obsNode ob))) obs)"
proof -
  have "subseq (map (\<lambda>n. Name (nodeMeta n)) (obsNodes obs)) (map (\<lambda>n. Name (nodeMeta n)) workers)"
    using assms(1) by (rule subseq_map)
  then have "distinct (map (\<lambda>n. Name (nodeMeta n)) (obsNodes obs))"
    using assms(2) by (rule distinct_subseq)
  then show ?thesis by (simp add: comp_def case_prod_unfold)
qed

lemma placed_lists:
  fixes c st0
  assumes "placementRun workers None r obs" "distinct (map (\<lambda>n. Name (nodeMeta n)) workers)"
  defines "st \<equiv> setReadyNodeCount (placeAll obs (setNodeCount c (clearNodeStatusLists st0)))"
  shows "nodesOn l st = map (\<lambda>(t, ob). Name (nodeMeta (obsNode ob)))
                            (filter (\<lambda>(t, ob). mcoSlot ob = Some l) obs)"
    and "l = k \<or> set (nodesOn l st) \<inter> set (nodesOn k st) = {}"
proof -
  show "nodesOn l st = map (\<lambda>(t, ob). Name (nodeMeta (obsNode ob)))
                            (filter (\<lambda>(t, ob). mcoSlot ob = Some l) obs)"
    by (simp add: st_def mco.fold_place) (simp only: case_prod_unfold)
  have lists: "nodesOn j (placeAll obs (setNodeCount c (clearNodeStatusLists st0))) =
      nodesOn j (placeAll obs (clearNodeStatusLists st0))" for j
    by (simp add: mco.fold_place)
  have "distinct (map (\<lambda>(t, ob). Name (nodeMeta (obsNode ob))) obs)"
    using assms(1,2) by (intro obs_distinct) (simp_all add: placementRun_def)
  then show "l = k \<or> set (nodesOn l st) \<inter> set (nodesOn k st) = {}"
    unfolding st_def nodesOn_counts lists using mco.lists_disjoint by blast
qed

lemma updateStatus_placed:
  assumes "result (getNodes E) s = Inr workers"
  shows "wp (updateStatus E) (\<lambda>r s'. \<exists>c obs. placementRun workers None r obs \<and>
    Status (kataConfig s') =
      setReadyNodeCount (placeAll obs (setNodeCount c (clearNodeStatusLists (Status (kataConfig s)))))) s"
proof -
  define st0 where "st0 = clearNodeStatusLists (Status (kataConfig s))"
  have loop: "wp (do { err \<leftarrow> forEachKeepLast (putNodeOnStatusList E) workers None;
        _ \<leftarrow> modify (onStatus setReadyNodeCount); return err })
      (\<lambda>r s'. \<exists>c obs. placementRun workers None r obs \<and>
         Status (kataConfig s') = setReadyNodeCount (placeAll obs (setNodeCount c st0))) s1"
    if s1: "Status (kataConfig s1) = setNodeCount c st0" for s1 c
    unfolding wp_bind
    by (rule wp_conseq[OF putNodes_outcome]) (unfold wp_bind wp_modify wp_return onStatus_simps s1, metis)
  show ?thesis
    unfolding updateStatus_def wp_onInl_Inr[OF assms] Let_def st0_def[symmetric]
    apply (simp only: wp_bind[of "modify _"] wp_modify)
    apply (rule wp_bind_keep[where f = kataConfig], (intro preserves_intros; simp))
    apply (rule wp_bind_keep[where f = kataConfig], (intro preserves_intros; simp))
    apply (simp only: wp_bind[of "modify _"] wp_modify)
    apply (rule loop)
    using preservesD[OF preserves_getNodes[of kataConfig E], of s]
    apply (simp add: st0_def)
    done
qed



end
