(* ===== verification/Runtime_Classes.thy ===== *)
theory Runtime_Classes
  imports Cluster_Queries
begin

text \<open>
  RuntimeClasses: creation and deletion by the KataConfig reconciler
  (\<^verbatim>\<open>controllers/openshift_controller.go\<close>), the finalizer migration
  (\<^verbatim>\<open>controllers/migrate.go\<close>) and the controller that guards their deletion
  (\<^verbatim>\<open>controllers/runtimeclass_controller.go\<close>). The lemmas give the object that is created, what
  is patched on an existing one, what happens to the list of classes in the status, and when the
  finalizer of a class is removed.
\<close>

section \<open>Constants\<close>

definition runtimeClassFinalizerName :: string where
  "runtimeClassFinalizerName = ''kataconfig.openshift.io/runtime-class-cleanup''"

definition kataRuntimeClassName :: string where "kataRuntimeClassName = ''kata''"
definition kataNvidiaGPURuntimeClassName :: string where
  "kataNvidiaGPURuntimeClassName = ''kata-nvidia-gpu''"
definition kataCCRuntimeClassName :: string where "kataCCRuntimeClassName = ''kata-cc''"
definition kataNvidiaGPUCCRuntimeClassName :: string where
  "kataNvidiaGPUCCRuntimeClassName = ''kata-cc-nvidia-gpu''"
definition peerpodsRuntimeClassName :: string where "peerpodsRuntimeClassName = ''kata-remote''"

lemmas runtimeClassNames =
  kataRuntimeClassName_def kataNvidiaGPURuntimeClassName_def kataCCRuntimeClassName_def
  kataNvidiaGPUCCRuntimeClassName_def peerpodsRuntimeClassName_def

definition nodeTypeLabelKey :: string where
  "nodeTypeLabelKey = ''kataconfiguration.openshift.io/node-type''"
definition kataCapableLabelKey :: string where
  "kataCapableLabelKey = ''kataconfiguration.openshift.io/kata-capable''"
definition nestedVirtLabelKey :: string where
  "nestedVirtLabelKey = ''kataconfiguration.openshift.io/nested-virt-capable''"

definition mixedClusterLabels :: "string \<rightharpoonup> labels" where
  "mixedClusterLabels = [
     kataRuntimeClassName \<mapsto> [kataCapableLabelKey \<mapsto> ''true''],
     kataNvidiaGPURuntimeClassName \<mapsto> [nodeTypeLabelKey \<mapsto> ''bare-metal''],
     kataCCRuntimeClassName \<mapsto> [nodeTypeLabelKey \<mapsto> ''bare-metal''],
     kataNvidiaGPUCCRuntimeClassName \<mapsto> [nodeTypeLabelKey \<mapsto> ''bare-metal''],
     peerpodsRuntimeClassName \<mapsto> [nodeTypeLabelKey \<mapsto> ''virtual'']]"

definition nvidiaGPUNodeLabels :: labels where
  "nvidiaGPUNodeLabels = [
     ''nvidia.com/gpu.present'' \<mapsto> ''true'',
     ''nvidia.com/gpu.deploy.vfio-manager'' \<mapsto> ''true'',
     ''nvidia.com/gpu.deploy.kata-sandbox-device-plugin'' \<mapsto> ''true'',
     ''nvidia.com/cc.mode.state'' \<mapsto> ''off'',
     ''nvidia.com/cc.ready.state'' \<mapsto> ''false'']"

section \<open>Creating a RuntimeClass\<close>

text \<open>The arguments of \<open>createRuntimeClass\<close>.\<close>

record rcRequest =
  rcName :: string
  cpuOverhead :: string
  memoryOverhead :: string
  extResOverhead :: string
  rcHandler :: string
  additionalNodeLabels :: labels

definition handlerFor :: "env \<Rightarrow> rcRequest \<Rightarrow> string" where
  "handlerFor E q = (if getenv E ''RUST_RUNTIME'' \<noteq> [] then ''rs-'' @ rcHandler q else rcHandler q)"

text \<open>With \<open>CheckNodeEligibility\<close>, a class is created only when some node is eligible for it.\<close>

definition hasEligibleNode :: "env \<Rightarrow> rcRequest \<Rightarrow> (rstate, goerr + bool) state" where
  "hasEligibleNode E q = do {
     check \<leftarrow> gets (\<lambda>s. CheckNodeEligibility (Spec (kataConfig s)));
     if \<not> check then return (Inr True)
     else onInl (getKataConfigNodeSelectorAsSelector E)
       (\<lambda>e. return (Inl (Wrapf ''failed to build node selector: '' e)))
       (\<lambda>selector. onInl (listNodesOp E \<lparr>qSelector = Some selector, qLabels = additionalNodeLabels q\<rparr>)
         (\<lambda>e. return (Inl (Wrapf ''failed to list nodes: '' e)))
         (\<lambda>nodes. return (Inr (length nodes \<noteq> 0))))
   }"

definition schedulingSelector :: "kataConfigSpec \<Rightarrow> rcRequest \<Rightarrow> labels \<Rightarrow> labels" where
  "schedulingSelector spec q nodeSelector =
     (let sel = (if CheckNodeEligibility spec then mapsCopy nodeSelector (additionalNodeLabels q)
                 else nodeSelector)
      in if EnableMixedCluster spec
         then (case mixedClusterLabels (rcName q) of None \<Rightarrow> sel | Some ls \<Rightarrow> mapsCopy sel ls)
         else sel)"

definition newRuntimeClass :: "env \<Rightarrow> kataConfigSpec \<Rightarrow> rcRequest \<Rightarrow> labels \<Rightarrow> runtimeClass" where
  "newRuntimeClass E spec q nodeSelector =
     (let podFixed = [''cpu'' \<mapsto> cpuOverhead q, ''memory'' \<mapsto> memoryOverhead q]
      in \<lparr>rcMeta = (mkMeta (rcName q) [])\<lparr>Finalizers := [runtimeClassFinalizerName]\<rparr>,
          Handler = handlerFor E q,
          PodFixed = (if extResOverhead q \<noteq> [] then podFixed(extResOverhead q \<mapsto> ''1'') else podFixed),
          Scheduling = Some \<lparr>schedNodeSelector = schedulingSelector spec q nodeSelector,
                             schedTolerations = []\<rparr>\<rparr>)"

text \<open>Creating the object, or patching the scheduling of an existing one.\<close>

definition ensureRuntimeClass :: "env \<Rightarrow> runtimeClass \<Rightarrow> ('z, goerr option) op" where
  "ensureRuntimeClass E rc = do {
     found \<leftarrow> getRC E (Name (rcMeta rc));
     (case found of
        Inl err \<Rightarrow>
          if \<not> IsNotFound err then return (Some err)
          else onErr (writeOp E (CreateReq (ORuntimeClass rc)))
            (\<lambda>e. return (Some (Wrapf (''error creating '' @ Name (rcMeta rc) @ '' runtime class: '') e)))
            (return None)
      | Inr foundRc \<Rightarrow>
          if Scheduling foundRc \<noteq> Scheduling rc
          then onErr (writeOp E (PatchReq (ORuntimeClass (foundRc\<lparr>Scheduling := Scheduling rc\<rparr>))))
            (\<lambda>e. return (Some (Wrapf (''error updating '' @ Name (rcMeta rc) @
               '' runtime class scheduling: '') e)))
            (return None)
          else return None)
   }"

definition addRuntimeClass :: "string \<Rightarrow> kataConfigStatus \<Rightarrow> kataConfigStatus" where
  "addRuntimeClass name st =
     (if \<not> contains (RuntimeClasses st) name
      then st\<lparr>RuntimeClasses := RuntimeClasses st @ [name]\<rparr> else st)"

definition createRuntimeClass :: "env \<Rightarrow> rcRequest \<Rightarrow> (rstate, goerr option) state" where
  "createRuntimeClass E q =
     onInl (hasEligibleNode E q) (\<lambda>e. return (Some e)) (\<lambda>eligible.
       if \<not> eligible then return None
       else do {
         kc \<leftarrow> gets kataConfig;
         nodeSelector \<leftarrow> getNodeSelectorAsMap E;
         let rc = newRuntimeClass E (Spec kc) q nodeSelector;
         (case SetControllerReference E kc (rcMeta rc) of
            Inl e \<Rightarrow> return (Some e)
          | Inr m \<Rightarrow> onErr (ensureRuntimeClass E (rc\<lparr>rcMeta := m\<rparr>)) (\<lambda>e. return (Some e))
              (do { _ \<leftarrow> modify (onStatus (addRuntimeClass (rcName q))); return None }))
       })"

section \<open>Deleting a RuntimeClass\<close>

definition deleteRuntimeClass :: "env \<Rightarrow> string \<Rightarrow> (rstate, goerr option) state" where
  "deleteRuntimeClass E runtimeClassName =
     onInl (getRC E runtimeClassName)
       (\<lambda>e. if IsNotFound e then return None else return (Some e))
       (\<lambda>foundRc. onErr (writeOp E (DeleteReq KRuntimeClass [] (Name (rcMeta foundRc))))
         (\<lambda>e. if IsNotFound e then return None else return (Some e))
         (do {
            _ \<leftarrow> modify (onStatus (RuntimeClasses_update (remove1 runtimeClassName)));
            return None
          }))"

section \<open>Finalizers of existing classes\<close>

definition ensureRuntimeClassFinalizer :: "env \<Rightarrow> string \<Rightarrow> ('z, goerr option) op" where
  "ensureRuntimeClassFinalizer E name =
     onInl (getRC E name)
       (\<lambda>e. if IsNotFound e then return None else return (Some e))
       (\<lambda>rc. if \<not> ContainsFinalizer E (rcMeta rc) runtimeClassFinalizerName
             then writeOp E (UpdateReq (ORuntimeClass
                    (rc\<lparr>rcMeta := AddFinalizer E runtimeClassFinalizerName (rcMeta rc)\<rparr>)))
             else return None)"

definition ensureRuntimeClassFinalizers :: "env \<Rightarrow> ('z, goerr option) op" where
  "ensureRuntimeClassFinalizers E = forEach (ensureRuntimeClassFinalizer E)
     [kataCCRuntimeClassName, peerpodsRuntimeClassName, kataRuntimeClassName]"

section \<open>The RuntimeClass controller\<close>

definition requeueInterval :: nat where "requeueInterval = 10"

definition isActive :: "string \<Rightarrow> pod \<Rightarrow> bool" where
  "isActive rcname p \<longleftrightarrow> podRuntimeClassName p = Some rcname \<and>
     (podPhase p = ''Running'' \<or> podPhase p = ''Pending'' \<or> podPhase p = ''Unknown'')"

definition hasPodsUsingRuntimeClass :: "env \<Rightarrow> string \<Rightarrow> ('z, bool \<times> goerr option) op" where
  "hasPodsUsingRuntimeClass E rcname =
     onInl (listPodsOp E) (\<lambda>e. return (True, Some e))
       (\<lambda>pods. return (list_ex (isActive rcname) pods, None))"

definition handleRuntimeClassDeletion ::
  "env \<Rightarrow> runtimeClass \<Rightarrow> ('z, ctrlResult \<times> goerr option) op" where
  "handleRuntimeClassDeletion E rc = do {
     (hasActivePods, err) \<leftarrow> hasPodsUsingRuntimeClass E (Name (rcMeta rc));
     if err \<noteq> None then return (\<lparr>Requeue = False, RequeueAfter = requeueInterval\<rparr>, None)
     else if hasActivePods then return (\<lparr>Requeue = False, RequeueAfter = requeueInterval\<rparr>, None)
     else onErr (writeOp E (UpdateReq (ORuntimeClass
              (rc\<lparr>rcMeta := RemoveFinalizer E runtimeClassFinalizerName (rcMeta rc)\<rparr>))))
            (\<lambda>e. return (emptyResult, Some e))
            (return (emptyResult, None))
   }"

definition reconcileRuntimeClass :: "env \<Rightarrow> string \<Rightarrow> ('z, ctrlResult \<times> goerr option) op" where
  "reconcileRuntimeClass E name =
     onInl (getRC E name)
       (\<lambda>e. if IsNotFound e then return (emptyResult, None) else return (emptyResult, Some e))
       (\<lambda>rc. if \<not> ContainsFinalizer E (rcMeta rc) runtimeClassFinalizerName
             then return (emptyResult, None)
             else if DeletionTimestamp (rcMeta rc) \<noteq> None then handleRuntimeClassDeletion E rc
             else return (emptyResult, None))"

text \<open>The update predicate of the controller's watch.\<close>

definition rcUpdateRelevant :: "env \<Rightarrow> runtimeClass \<Rightarrow> bool" where
  "rcUpdateRelevant E rc \<longleftrightarrow> ContainsFinalizer E (rcMeta rc) runtimeClassFinalizerName \<and>
     DeletionTimestamp (rcMeta rc) \<noteq> None"

section \<open>Frames\<close>

lemma emits_hasEligibleNode: "emits readOnly (hasEligibleNode E q)"
  unfolding hasEligibleNode_def by (intro emits_intros) simp_all

lemma preserves_hasEligibleNode [preserves_intros]:
  "(\<And>s t. f (s\<lparr>trace := t\<rparr>) = f s) \<Longrightarrow> preserves f (hasEligibleNode E q)"
  unfolding hasEligibleNode_def by (intro preserves_intros) simp_all

lemma preserves_ensureRuntimeClass [preserves_intros]:
  "(\<And>s t. f (s\<lparr>trace := t\<rparr>) = f s) \<Longrightarrow> preserves f (ensureRuntimeClass E rc)"
  unfolding ensureRuntimeClass_def by (intro preserves_intros) simp_all

text \<open>
  A write of \<open>ensureRuntimeClass\<close> creates the given object or patches the scheduling of the one
  that was found.
\<close>

definition rcWrite :: "runtimeClass \<Rightarrow> request \<Rightarrow> bool" where
  "rcWrite rc q \<longleftrightarrow> q = CreateReq (ORuntimeClass rc) \<or>
     (\<exists>found. q = PatchReq (ORuntimeClass (found\<lparr>Scheduling := Scheduling rc\<rparr>)))"

lemma emits_ensureRuntimeClass:
  "emits (\<lambda>e. readOnly e \<or> rcWrite rc (evRequest e)) (ensureRuntimeClass E rc)"
  unfolding ensureRuntimeClass_def
  by (intro emits_intros) (auto simp: rcWrite_def)

lemma rcWrite_kind: "rcWrite rc (evRequest e) \<Longrightarrow> writesOnly {KRuntimeClass} e"
  by (cases e) (auto simp: rcWrite_def)

lemma emits_ensureRuntimeClass_kind: "emits (writesOnly {KRuntimeClass}) (ensureRuntimeClass E rc)"
  by (rule emits_mono[OF emits_ensureRuntimeClass]) (auto intro: readOnly_writesOnly rcWrite_kind)

lemmas rc_frames [emits_intros] =
  emits_hasEligibleNode[THEN emits_mono] emits_ensureRuntimeClass_kind[THEN emits_mono]

lemma emits_createRuntimeClass: "emits (writesOnly {KRuntimeClass}) (createRuntimeClass E q)"
  unfolding createRuntimeClass_def
  by (intro emits_intros) (auto intro: readOnly_writesOnly simp: onStatus_def)

lemma emits_deleteRuntimeClass: "emits (writesOnly {KRuntimeClass}) (deleteRuntimeClass E name)"
  unfolding deleteRuntimeClass_def by (intro emits_intros) (auto simp: onStatus_def)

lemma emits_ensureRuntimeClassFinalizers:
  "emits (writesOnly {KRuntimeClass}) (ensureRuntimeClassFinalizers E)"
  unfolding ensureRuntimeClassFinalizers_def ensureRuntimeClassFinalizer_def
  by (intro emits_intros) auto

lemmas rc_op_frames [emits_intros] =
  emits_createRuntimeClass[THEN emits_mono] emits_deleteRuntimeClass[THEN emits_mono]
  emits_ensureRuntimeClassFinalizers[THEN emits_mono]

lemma preserves_runtimeClass_ops [preserves_intros]:
  assumes "\<And>s t. f (s\<lparr>trace := t\<rparr>) = f s" and "\<And>s g. f (onStatus g s) = f s"
  shows "preserves f (createRuntimeClass E q)" "preserves f (deleteRuntimeClass E name)"
  unfolding createRuntimeClass_def deleteRuntimeClass_def Let_def
  by (intro preserves_intros assms)+

lemma preserves_ensureRuntimeClassFinalizers [preserves_intros]:
  "(\<And>s t. f (s\<lparr>trace := t\<rparr>) = f s) \<Longrightarrow> preserves f (ensureRuntimeClassFinalizers E)"
  unfolding ensureRuntimeClassFinalizers_def ensureRuntimeClassFinalizer_def
  by (intro preserves_intros) simp_all

lemma getNodeSelectorAsMap_values:
  "wp (getNodeSelectorAsMap E) (\<lambda>m s'. m = [''node-role.kubernetes.io/master'' \<mapsto> ''''] \<or>
     m = [''node-role.kubernetes.io/kata-oc'' \<mapsto> '''']) s"
  unfolding getNodeSelectorAsMap_def
  by (simp add: wp_simps) (simp add: wp_def)

section \<open>Properties\<close>

text \<open>
  The RuntimeClass the reconciler wants for a request: the base node selector of the cluster,
  the cleanup finalizer, and the controller reference of the KataConfig.
\<close>

definition wantedRuntimeClass :: "env \<Rightarrow> kataconfig \<Rightarrow> rcRequest \<Rightarrow> runtimeClass \<Rightarrow> bool" where
  "wantedRuntimeClass E kc q rc \<longleftrightarrow> (\<exists>base m.
     base \<in> {[''node-role.kubernetes.io/master'' \<mapsto> ''''], [''node-role.kubernetes.io/kata-oc'' \<mapsto> '''']} \<and>
     SetControllerReference E kc (rcMeta (newRuntimeClass E (Spec kc) q base)) = Inr m \<and>
     rc = (newRuntimeClass E (Spec kc) q base)\<lparr>rcMeta := m\<rparr>)"

lemma wantedRuntimeClass_fields:
  assumes "wantedRuntimeClass E kc q rc"
  shows "Name (rcMeta rc) = rcName q" "Finalizers (rcMeta rc) = [runtimeClassFinalizerName]"
    "Handler rc = handlerFor E q"
  using assms
  by (auto simp: wantedRuntimeClass_def newRuntimeClass_def Let_def
      dest!: SetControllerReference_Inr)

lemma createRuntimeClass_guarded:
  "guarded (\<lambda>h e. readOnly e \<or> (\<exists>rc. wantedRuntimeClass E (kataConfig s) q rc \<and> rcWrite rc (evRequest e)))
     (createRuntimeClass E q)
     (\<lambda>r s'. kcMeta (kataConfig s') = kcMeta (kataConfig s) \<and>
        Spec (kataConfig s') = Spec (kataConfig s) \<and>
        (Status (kataConfig s') = Status (kataConfig s) \<and>
           \<not> (r = None \<and> \<not> CheckNodeEligibility (Spec (kataConfig s))) \<or>
         r = None \<and> Status (kataConfig s') = addRuntimeClass (rcName q) (Status (kataConfig s)))) s"
  (is "guarded ?G _ ?Q s")
proof -
  have skip: "wp (hasEligibleNode E q) (\<lambda>r s'. kataConfig s' = kataConfig s \<and>
      (r = Inr False \<longrightarrow> CheckNodeEligibility (Spec (kataConfig s)))) s"
  proof (cases "CheckNodeEligibility (Spec (kataConfig s))")
    case True
    have "preserves kataConfig (hasEligibleNode E q)" by (intro preserves_intros) simp
    then show ?thesis using True by (simp add: wp_def preserves_def)
  next
    case False
    then show ?thesis by (simp add: hasEligibleNode_def wp_simps)
  qed
  have create: "guarded ?G (do {
         kc \<leftarrow> gets kataConfig;
         nodeSelector \<leftarrow> getNodeSelectorAsMap E;
         let rc = newRuntimeClass E (Spec kc) q nodeSelector;
         (case SetControllerReference E kc (rcMeta rc) of
            Inl e \<Rightarrow> return (Some e)
          | Inr m \<Rightarrow> onErr (ensureRuntimeClass E (rc\<lparr>rcMeta := m\<rparr>)) (\<lambda>e. return (Some e))
              (do { _ \<leftarrow> modify (onStatus (addRuntimeClass (rcName q))); return None }))
       }) ?Q s1" if s1: "kataConfig s1 = kataConfig s" for s1
  proof -
    have sel: "wp (getNodeSelectorAsMap E) (\<lambda>m s'. (m = [''node-role.kubernetes.io/master'' \<mapsto> ''''] \<or>
       m = [''node-role.kubernetes.io/kata-oc'' \<mapsto> '''']) \<and> kataConfig s' = kataConfig s1) s1"
      by (rule wp_preserves[OF _ getNodeSelectorAsMap_values]) (intro preserves_intros, simp)
    show ?thesis
      apply (intro guarded_bind guarded_gets)
      apply (rule guarded_emits_wp[OF emits_getNodeSelectorAsMap _ sel], simp)
      apply (intro guarded_let guarded_case_sum)
      subgoal by (intro guarded_return) (simp add: s1)
      subgoal premises p for base s2 m
        apply (rule guarded_onErr)
        apply (rule guarded_keep[where f = kataConfig, OF emits_ensureRuntimeClass])
        using p s1
        by (auto simp: wantedRuntimeClass_def intro!: preserves_intros guarded_intros)
      done
  qed
  show ?thesis unfolding createRuntimeClass_def
    apply (rule guarded_onInl)
    apply (rule guarded_emits_wp[OF emits_hasEligibleNode _ skip], simp)
    apply (intro conjI allI impI guarded_if)
    subgoal by (intro guarded_return) simp
    subgoal by (intro guarded_return) simp
    subgoal by (rule create) simp
    done
qed

lemma permitted_const: "permitted (\<lambda>h. P) h new \<longleftrightarrow> list_all P new"
  by (induction new arbitrary: h) auto


lemma addRuntimeClass_distinct:
  "distinct (RuntimeClasses st) \<Longrightarrow> distinct (RuntimeClasses (addRuntimeClass name st)) \<and>
   name \<in> set (RuntimeClasses (addRuntimeClass name st))"
  by (auto simp: addRuntimeClass_def)

lemma deleteRuntimeClass_status:
  "wp (deleteRuntimeClass E name) (\<lambda>r s'.
     kcMeta (kataConfig s') = kcMeta (kataConfig s) \<and> Spec (kataConfig s') = Spec (kataConfig s) \<and>
     (Status (kataConfig s') = Status (kataConfig s) \<or>
      r = None \<and> Status (kataConfig s') =
        (Status (kataConfig s))\<lparr>RuntimeClasses := remove1 name (RuntimeClasses (Status (kataConfig s)))\<rparr>)) s"
  unfolding deleteRuntimeClass_def by (auto simp: wp_simps onStatus_def)

text \<open>
  The list of RuntimeClasses in the status never holds a name twice: a list without
  duplicates stays so under creating and under deleting any class, whatever the API server
  answers.
\<close>

theorem runtimeClasses_distinct:
  assumes "distinct (RuntimeClasses (Status (kataConfig s)))"
  shows "distinct (RuntimeClasses (Status (kataConfig (exec (createRuntimeClass E q) s)))) \<and>
         distinct (RuntimeClasses (Status (kataConfig (exec (deleteRuntimeClass E name) s))))"
proof
  show "distinct (RuntimeClasses (Status (kataConfig (exec (createRuntimeClass E q) s))))"
    using guarded_post[OF createRuntimeClass_guarded[of E s q]] addRuntimeClass_distinct[OF assms] assms
    by (auto simp: wp_def)
  show "distinct (RuntimeClasses (Status (kataConfig (exec (deleteRuntimeClass E name) s))))"
    using deleteRuntimeClass_status[of E name s] assms by (auto simp: wp_def distinct_remove1)
qed

theorem runtimeClasses_distinct_witness:
  "distinct (RuntimeClasses (Status (kataConfig (exec (createRuntimeClass sampleEnv
      \<lparr>rcName = ''kata'', cpuOverhead = ''0.25'', memoryOverhead = ''350Mi'', extResOverhead = [],
       rcHandler = ''kata'', additionalNodeLabels = Map.empty\<rparr>) sampleState)))) \<and>
   distinct (RuntimeClasses (Status (kataConfig (exec (deleteRuntimeClass sampleEnv ''kata'') sampleState))))"
  by (rule runtimeClasses_distinct) (simp add: sample_defs)

definition rcReleasable :: "env \<Rightarrow> history \<Rightarrow> string \<Rightarrow> runtimeClass \<Rightarrow> bool" where
  "rcReleasable E h name rc \<longleftrightarrow>
     getRuntimeClass (apiOf E) h name = Inr rc \<and> DeletionTimestamp (rcMeta rc) \<noteq> None \<and>
     ContainsFinalizer E (rcMeta rc) runtimeClassFinalizerName \<and>
     (\<exists>pods. listPods (apiOf E) (h @ [Ev (GetReq KRuntimeClass [] name) None]) = Inr pods \<and>
        \<not> list_ex (isActive (Name (rcMeta rc))) pods)"

text \<open>
  C19: The RuntimeClass controller updates a class exactly when the class is being deleted, still
  has the cleanup finalizer, and the pod list, read after the class, shows no running, pending or
  unknown pod that uses it; the update removes that finalizer and changes nothing else.
\<close>

theorem runtimeClass_released_iff:
  "(Ev (UpdateReq obj) r \<in> set (newEvents (reconcileRuntimeClass E name) s)) \<longleftrightarrow>
   (\<exists>rc. rcReleasable E (trace s) name rc \<and>
      obj = ORuntimeClass (rc\<lparr>rcMeta := RemoveFinalizer E runtimeClassFinalizerName (rcMeta rc)\<rparr>) \<and>
      r = writeError (apiOf E) (trace s @ [Ev (GetReq KRuntimeClass [] name) None, Ev (ListReq KPod) None])
            (UpdateReq obj))"
  by (cases "getRuntimeClass (apiOf E) (trace s) name";
      cases "listPods (apiOf E) (trace s @ [Ev (GetReq KRuntimeClass [] name) None])")
    (auto simp: newEvents_def exec_def reconcileRuntimeClass_def handleRuntimeClassDeletion_def
      hasPodsUsingRuntimeClass_def onInl_def onErr_def rcReleasable_def split: option.splits)

end
