(* ===== verification/Go_Strings.thy ===== *)
theory Go_Strings
  imports Osc_Prelude
begin

text \<open>
  The functions of Go's \<open>strconv\<close> and \<open>strings\<close> packages that the sources call, on strings of
  bytes: parsing booleans and numbers, printing numbers, splitting, trimming and replacing. The
  lemmas give the bounds of the parsed numbers and the print/parse round trip.
\<close>

section \<open>Booleans\<close>

definition ParseBool :: "string \<Rightarrow> bool option" where
  "ParseBool s =
     (if s \<in> set [''1'', ''t'', ''T'', ''TRUE'', ''true'', ''True''] then Some True
      else if s \<in> set [''0'', ''f'', ''F'', ''FALSE'', ''false'', ''False''] then Some False
      else None)"

section \<open>Numbers\<close>

text \<open>The value of a digit in a base up to 36.\<close>

definition digitValue :: "char \<Rightarrow> nat option" where
  "digitValue c =
     (let n = of_char c :: nat
      in if 48 \<le> n \<and> n \<le> 57 then Some (n - 48)
         else if 97 \<le> n \<and> n \<le> 122 then Some (n - 97 + 10)
         else if 65 \<le> n \<and> n \<le> 90 then Some (n - 65 + 10)
         else None)"

fun parseDigits :: "nat \<Rightarrow> string \<Rightarrow> nat \<Rightarrow> nat option" where
  "parseDigits base [] acc = Some acc"
| "parseDigits base (c # s) acc =
     (case digitValue c of
        None \<Rightarrow> None
      | Some d \<Rightarrow> if d < base then parseDigits base s (base * acc + d) else None)"

text \<open>\<open>strconv.ParseUint\<close> with a base other than 0: nonempty, digits only, within the bit size.\<close>

definition ParseUint :: "nat \<Rightarrow> nat \<Rightarrow> string \<Rightarrow> nat option" where
  "ParseUint base bits s =
     (if s = [] then None
      else (case parseDigits base s 0 of
              None \<Rightarrow> None
            | Some n \<Rightarrow> if n < 2 ^ bits then Some n else None))"

text \<open>\<open>strconv.Atoi\<close>: an optional sign and decimal digits, within the range of a 64-bit int.\<close>

definition Atoi :: "string \<Rightarrow> int option" where
  "Atoi s =
     (let neg = (s \<noteq> [] \<and> hd s = CHR ''-'');
          ds = (if s \<noteq> [] \<and> (hd s = CHR ''-'' \<or> hd s = CHR ''+'') then tl s else s)
      in if ds = [] then None
         else (case parseDigits 10 ds 0 of
                 None \<Rightarrow> None
               | Some n \<Rightarrow> (let v = (if neg then - int n else int n)
                            in if - (2 ^ 63) \<le> v \<and> v < 2 ^ 63 then Some v else None)))"

definition digitChar :: "nat \<Rightarrow> char" where
  "digitChar d = char_of (48 + d)"

text \<open>Printing with \<open>%d\<close>.\<close>

fun natDigits :: "nat \<Rightarrow> string" where
  "natDigits n = (if n < 10 then [digitChar n] else natDigits (n div 10) @ [digitChar (n mod 10)])"

declare natDigits.simps [simp del]

lemma digitValue_digitChar: "d < 10 \<Longrightarrow> digitValue (digitChar d) = Some d"
  by (simp add: digitValue_def digitChar_def Let_def)

lemma parseDigits_append:
  "parseDigits base (s @ t) acc = (case parseDigits base s acc of
     None \<Rightarrow> None | Some n \<Rightarrow> parseDigits base t n)"
  by (induction s arbitrary: acc) (auto split: option.splits)

lemma parseDigits_natDigits: "parseDigits 10 (natDigits n) 0 = Some n"
proof (induction n rule: natDigits.induct)
  case (1 n)
  show ?case
  proof (cases "n < 10")
    case True
    then show ?thesis by (simp add: natDigits.simps[of n] digitValue_digitChar)
  next
    case False
    then have "parseDigits 10 (natDigits (n div 10)) 0 = Some (n div 10)" using 1 by simp
    moreover have "n mod 10 < 10" by simp
    ultimately show ?thesis using False
      by (simp add: natDigits.simps[of n] parseDigits_append digitValue_digitChar)
  qed
qed

lemma natDigits_nonempty [simp]: "natDigits n \<noteq> []"
  by (simp add: natDigits.simps[of n])

lemma ParseUint_bound: "ParseUint base bits s = Some n \<Longrightarrow> n < 2 ^ bits"
  by (auto simp: ParseUint_def split: if_splits option.splits)

lemma ParseUint_natDigits: "n < 2 ^ bits \<Longrightarrow> ParseUint 10 bits (natDigits n) = Some n"
  by (simp add: ParseUint_def parseDigits_natDigits)

section \<open>Splitting, trimming, replacing\<close>

text \<open>\<open>strings.Split(s, sep)\<close> for a one-character separator.\<close>

fun split :: "char \<Rightarrow> string \<Rightarrow> string list" where
  "split c [] = [[]]"
| "split c (d # s) =
     (if d = c then [] # split c s
      else (case split c s of [] \<Rightarrow> [[d]] | w # ws \<Rightarrow> (d # w) # ws))"

text \<open>\<open>strings.Join\<close>.\<close>

fun join :: "string \<Rightarrow> string list \<Rightarrow> string" where
  "join sep [] = []"
| "join sep [w] = w"
| "join sep (w # ws) = w @ sep @ join sep ws"

text \<open>\<open>strings.ReplaceAll(s, c, d)\<close> for one-character arguments.\<close>

definition replaceAll :: "char \<Rightarrow> char \<Rightarrow> string \<Rightarrow> string" where
  "replaceAll c d s = map (\<lambda>x. if x = c then d else x) s"

text \<open>\<open>strings.Trim(s, cutset)\<close>.\<close>

definition trim :: "string \<Rightarrow> string \<Rightarrow> string" where
  "trim cutset s =
     (let cut = dropWhile (\<lambda>c. c \<in> set cutset) in rev (cut (rev (cut s))))"

text \<open>\<open>strings.Fields\<close>: the maximal runs of non-space characters.\<close>

definition isSpace :: "char \<Rightarrow> bool" where
  "isSpace c \<longleftrightarrow> c = CHR '' '' \<or> (9 \<le> (of_char c :: nat) \<and> (of_char c :: nat) \<le> 13)"

fun fieldsFrom :: "string \<Rightarrow> string \<Rightarrow> string list" where
  "fieldsFrom w [] = (if w = [] then [] else [w])"
| "fieldsFrom w (c # s) =
     (if isSpace c then (if w = [] then fieldsFrom [] s else w # fieldsFrom [] s)
      else fieldsFrom (w @ [c]) s)"

definition fields :: "string \<Rightarrow> string list" where
  "fields s = fieldsFrom [] s"

text \<open>\<open>strings.TrimSpace\<close>, and \<open>strings.SplitN(s, sep, 2)\<close> for a one-character separator.\<close>

definition trimSpace :: "string \<Rightarrow> string" where
  "trimSpace s = rev (dropWhile isSpace (rev (dropWhile isSpace s)))"

definition splitOnce :: "char \<Rightarrow> string \<Rightarrow> string list" where
  "splitOnce c s = (case dropWhile (\<lambda>d. d \<noteq> c) s of [] \<Rightarrow> [s] | _ # rest \<Rightarrow> [takeWhile (\<lambda>d. d \<noteq> c) s, rest])"

text \<open>\<open>strings.ToUpper\<close> and \<open>strings.ToLower\<close> on ASCII letters.\<close>

definition toUpper :: "string \<Rightarrow> string" where
  "toUpper s = map (\<lambda>c. let n = of_char c :: nat in if 97 \<le> n \<and> n \<le> 122 then char_of (n - 32) else c) s"

definition toLower :: "string \<Rightarrow> string" where
  "toLower s = map (\<lambda>c. let n = of_char c :: nat in if 65 \<le> n \<and> n \<le> 90 then char_of (n + 32) else c) s"

lemma fieldsFrom_no_space:
  "list_all (\<lambda>c. \<not> isSpace c) w \<Longrightarrow>
   list_all (\<lambda>f. f \<noteq> [] \<and> list_all (\<lambda>c. \<not> isSpace c) f) (fieldsFrom w s)"
  by (induction w s rule: fieldsFrom.induct) simp_all

lemma fields_no_space: "list_all (\<lambda>f. f \<noteq> [] \<and> list_all (\<lambda>c. \<not> isSpace c) f) (fields s)"
  by (simp add: fields_def fieldsFrom_no_space)

lemma fieldsFrom_concat:
  "concat (fieldsFrom w s) = w @ filter (\<lambda>c. \<not> isSpace c) s"
  by (induction w s rule: fieldsFrom.induct) auto

lemma fields_concat: "concat (fields s) = filter (\<lambda>c. \<not> isSpace c) s"
  by (simp add: fields_def fieldsFrom_concat)

lemma split_nonempty [simp]: "split c s \<noteq> []"
  by (induction s) (auto split: list.splits)

lemma join_Cons: "ws \<noteq> [] \<Longrightarrow> join sep (w # ws) = w @ sep @ join sep ws"
  by (cases ws) simp_all

lemma join_head: "join sep ((d # w) # ws) = d # join sep (w # ws)"
  by (cases ws) simp_all

lemma join_split: "join [c] (split c s) = s"
proof (induction s)
  case (Cons d s)
  obtain w ws where w: "split c s = w # ws" by (cases "split c s") simp_all
  show ?case
    using Cons by (simp add: w join_head join_Cons)
qed simp

end
