(* ===== verification/Utils.thy ===== *)
theory Utils
  imports Cluster_Queries Go_Strings "HOL-Library.List_Lexorder" "HOL-Library.Char_ord"
begin

text \<open>
  The helpers shared by the controllers: \<^verbatim>\<open>controllers/utils.go\<close>, the cipher list of
  \<^verbatim>\<open>controllers/tls.go\<close> and the PeerPodConfig migration of \<^verbatim>\<open>controllers/migrate.go\<close>. The lemmas
  show what ConfigMap updates write, that redaction hides every environment value, how proxy
  settings combine, when an event is suppressed, and the frames of the operations.
\<close>

section \<open>Cluster configuration\<close>

definition peerpodsCMName :: string where "peerpodsCMName = ''peer-pods-cm''"
definition peerPodsSecretName :: string where "peerPodsSecretName = ''peer-pods-secret''"
definition KataAddonConfigMapName :: string where "KataAddonConfigMapName = ''kata-addon-artifacts''"
definition FgConfigMapName :: string where "FgConfigMapName = ''osc-feature-gates''"

text \<open>The state of a feature gate (\<^verbatim>\<open>controllers/fg_handler.go\<close>).\<close>

datatype featureGateState = Enabled | Disabled

definition getPeerPodsSecret :: "env \<Rightarrow> ('z, goerr + secret) op" where
  "getPeerPodsSecret E = getSec E OperatorNamespace peerPodsSecretName"

definition getCloudProviderFromInfra :: "env \<Rightarrow> ('z, goerr + string) op" where
  "getCloudProviderFromInfra E =
     onInl (readOp (GetReq KInfrastructure [] ''cluster'') (getPlatformType (apiOf E)))
       (\<lambda>e. return (Inl e))
       (\<lambda>platformStatus. return (case platformStatus of
          None \<Rightarrow> Inl (Errorf ''Infrastructure.status.platformStatus is empty and is not libvirt'')
        | Some t \<Rightarrow> if t = ''None'' then Inr ''libvirt'' else Inr (toLower t)))"

definition isConfigMapRelevant :: "string \<Rightarrow> bool" where
  "isConfigMapRelevant configMapName \<longleftrightarrow> configMapName = FgConfigMapName \<or>
     configMapName = KataAddonConfigMapName \<or> configMapName = peerpodsCMName"

text \<open>The slice expression panics on a shorter id.\<close>

definition getClusterID :: "env \<Rightarrow> ('z, goerr + string) op" where
  "getClusterID E = onInl (getCV E) (\<lambda>e. return (Inl e))
     (\<lambda>cv. return (if length (cvClusterID cv) < 8
                   then Inl (GoPanic ''slice bounds out of range'')
                   else Inr (take 8 (cvClusterID cv))))"

definition GetImageForComponent :: "env \<Rightarrow> string \<Rightarrow> ('z, goerr + string) op" where
  "GetImageForComponent E componentName =
     onInl (getCV E) (\<lambda>e. return (Inl (Wrapf ''failed to get cluster version: '' e))) (\<lambda>cv.
       if cvDesiredImage cv = [] then return (Inl (Errorf ''no release image found in cluster version''))
       else return (case loadReleaseInfo (libOf E) (cvDesiredImage cv) of
          Inl e \<Rightarrow> Inl e
        | Inr tags \<Rightarrow>
            (case List.find (\<lambda>tag. tagName tag = componentName \<and>
                    (case tagFrom tag of None \<Rightarrow> False | Some (kind, name) \<Rightarrow> kind = ''DockerImage'')) tags of
               Some tag \<Rightarrow> Inr (snd (the (tagFrom tag)))
             | None \<Rightarrow> Inl (Errorf ''empty result for image name''))))"

definition GetOpenshiftVersion :: "env \<Rightarrow> ('z, goerr + string) op" where
  "GetOpenshiftVersion E =
     onInl (getCV E) (\<lambda>e. return (Inl (Wrapf ''reading ClusterVersion: '' e))) (\<lambda>cv.
       let parts = split CHR ''.'' (cvDesiredVersion cv)
       in return (if length parts < 2
                  then Inl (Errorf (''unexpected ClusterVersion format: '' @ cvDesiredVersion cv))
                  else Inr (parts ! 0 @ ''.'' @ parts ! 1)))"

section \<open>Updating a ConfigMap\<close>

text \<open>
  The two loops of \<open>updateConfigMap\<close> over the literal maps of its callers. Assigning to the nil
  map of a ConfigMap without data panics; deleting from it does nothing.
\<close>

type_synonym cmChange = "labels option \<times> bool"

fun setNewData :: "(string \<times> string) list \<Rightarrow> cmChange \<Rightarrow> goerr + cmChange" where
  "setNewData [] c = Inr c"
| "setNewData ((k, newValue) # rest) (data, update) =
     (if atKey (case data of None \<Rightarrow> Map.empty | Some d \<Rightarrow> d) k \<noteq> newValue
      then (case data of
              None \<Rightarrow> Inl (GoPanic ''assignment to entry in nil map'')
            | Some d \<Rightarrow> setNewData rest (Some (d(k \<mapsto> newValue)), True))
      else setNewData rest (data, update))"

fun removeMatchingKeys :: "(string \<times> string) list \<Rightarrow> cmChange \<Rightarrow> cmChange" where
  "removeMatchingKeys [] c = c"
| "removeMatchingKeys ((k, valueToMatch) # rest) (data, update) =
     (case data of
        Some d \<Rightarrow> if d k = Some valueToMatch then removeMatchingKeys rest (Some (d(k := None)), True)
                  else removeMatchingKeys rest (data, update)
      | None \<Rightarrow> removeMatchingKeys rest (data, update))"

definition updateConfigMap ::
  "env \<Rightarrow> string \<Rightarrow> string \<Rightarrow> (string \<times> string) list \<Rightarrow> (string \<times> string) list \<Rightarrow> ('z, goerr option) op"
  where
  "updateConfigMap E cmName ns newData keysToRemove =
     onInl (getCM E ns cmName) (\<lambda>e. return (Some e)) (\<lambda>cm.
       case setNewData newData (cmData cm, False) of
         Inl p \<Rightarrow> return (Some p)
       | Inr c \<Rightarrow> (case removeMatchingKeys keysToRemove c of (data, update) \<Rightarrow>
           if update then writeOp E (UpdateReq (OConfigMap (cm\<lparr>cmData := data\<rparr>)))
           else return None))"

section \<open>Labelling nodes, copying the pull secret, object versions\<close>

definition labelNodes :: "env \<Rightarrow> (labels \<Rightarrow> bool) \<Rightarrow> labels \<Rightarrow> ('z, goerr option) op" where
  "labelNodes E nodeSelector newLabels =
     onInl (listNodesOp E (bySelector nodeSelector)) (\<lambda>e. return (Some e))
       (forEach (\<lambda>n. writeOp E (UpdateReq (ONode (setNodeLabels (nodeLabels n ++ newLabels) n)))))"

definition createAuthJsonSecret :: "env \<Rightarrow> ('z, goerr option) op" where
  "createAuthJsonSecret E =
     onInl (getSec E ''openshift-config'' ''pull-secret'') (\<lambda>e. return (Some e)) (\<lambda>pullSecret.
       let authJsonSecret = OSecret \<lparr>secMeta = mkMeta ''auth-json-secret'' OperatorNamespace,
             secData = [''auth.json'' \<mapsto> atKey (secData pullSecret) ''.dockerconfigjson''],
             secType = ''Opaque''\<rparr>
       in onErr (writeOp E (CreateReq authJsonSecret))
            (\<lambda>e. if IsAlreadyExists e then writeOp E (UpdateReq authJsonSecret) else return (Some e))
            (return None))"

text \<open>The version is \<open>None\<close> when the object does not exist.\<close>

definition getConfigMapVersion :: "env \<Rightarrow> string \<Rightarrow> string \<Rightarrow> ('z, goerr + string option) op" where
  "getConfigMapVersion E name ns =
     onInl (getCM E ns name)
       (\<lambda>e. return (if IsNotFound e then Inr None else Inl e))
       (\<lambda>cm. return (Inr (Some (ResourceVersion (cmMeta cm)))))"

definition getSecretVersion :: "env \<Rightarrow> string \<Rightarrow> string \<Rightarrow> ('z, goerr + string option) op" where
  "getSecretVersion E name ns =
     onInl (getSec E ns name)
       (\<lambda>e. return (if IsNotFound e then Inr None else Inl e))
       (\<lambda>sec. return (Inr (Some (ResourceVersion (secMeta sec)))))"

section \<open>Proxy settings and trusted CA\<close>

fun withProxyEnv :: "env \<Rightarrow> (string \<times> string) list \<Rightarrow> labels \<Rightarrow> labels" where
  "withProxyEnv E [] m = m"
| "withProxyEnv E ((canonical, lower) # rest) m =
     (case lookupEnv (procOf E) canonical of
        Some v \<Rightarrow> withProxyEnv E rest (m(canonical \<mapsto> v, lower \<mapsto> v))
      | None \<Rightarrow> withProxyEnv E rest m)"

definition getProxyEnvVars :: "env \<Rightarrow> labels" where
  "getProxyEnvVars E = withProxyEnv E
     [(''HTTP_PROXY'', ''http_proxy''), (''HTTPS_PROXY'', ''https_proxy''), (''NO_PROXY'', ''no_proxy'')]
     Map.empty"

definition putProxy :: "string \<Rightarrow> string \<Rightarrow> string \<Rightarrow> labels \<Rightarrow> labels" where
  "putProxy canonical lower v m = (if v \<noteq> [] then m(canonical \<mapsto> v, lower \<mapsto> v) else m)"

definition getProxyCREnvVars :: "env \<Rightarrow> ('z, goerr + labels) op" where
  "getProxyCREnvVars E =
     onInl (readOp (GetReq KProxy [] ''cluster'') (getProxy (apiOf E)))
       (\<lambda>e. return (if IsNotFound e then Inr Map.empty else Inl e))
       (\<lambda>proxy.
          let noProxy = (if statusNoProxy proxy = [] then specNoProxy proxy else statusNoProxy proxy)
          in return (Inr
               (putProxy ''NO_PROXY'' ''no_proxy'' noProxy
               (putProxy ''HTTPS_PROXY'' ''https_proxy'' (HTTPSProxy proxy)
               (putProxy ''HTTP_PROXY'' ''http_proxy'' (HTTPProxy proxy) Map.empty)))))"

definition plainEnv :: "string \<Rightarrow> string \<Rightarrow> envVar" where
  "plainEnv n v = \<lparr>envName = n, envValue = v, envFieldPath = None\<rparr>"

definition getEffectiveProxyEnvVars :: "env \<Rightarrow> ('z, goerr + envVar list) op" where
  "getEffectiveProxyEnvVars E =
     onInl (getProxyCREnvVars E) (\<lambda>e. return (Inl e)) (\<lambda>crVars. do {
       let effective = crVars ++ getProxyEnvVars E;
       h \<leftarrow> gets trace;
       return (Inr (map (\<lambda>k. plainEnv k (atKey effective k)) (rangeKeys (procOf E) h effective)))
     })"

definition trustedCAMountPath :: string where
  "trustedCAMountPath = ''/etc/pki/ca-trust/extracted/pem''"
definition trustedCAFilename :: string where
  "trustedCAFilename = trustedCAMountPath @ ''/tls-ca-bundle.pem''"
definition trustedCAConfigMapName :: string where "trustedCAConfigMapName = ''trusted-ca''"

definition trustedCAVolumes :: "volume \<times> volumeMount" where
  "trustedCAVolumes =
     (\<lparr>volName = ''trusted-ca'', volSource = VsConfigMap trustedCAConfigMapName None
         [\<lparr>ktpKey = ''ca-bundle.crt'', ktpPath = ''tls-ca-bundle.pem''\<rparr>]\<rparr>,
      \<lparr>vmName = ''trusted-ca'', vmMountPath = trustedCAMountPath, vmReadOnly = True, vmSubPath = [],
       vmPropagation = None\<rparr>)"

definition newTrustedCA :: configMap where
  "newTrustedCA = \<lparr>cmMeta = (mkMeta trustedCAConfigMapName OperatorNamespace)\<lparr>
       Labels := [''config.openshift.io/inject-trusted-cabundle'' \<mapsto> ''true'']\<rparr>,
     cmData = Some [''ca-bundle.crt'' \<mapsto> '''']\<rparr>"

text \<open>\<open>None\<close> stands for the empty volume and mount the code returns when there is no trusted CA.\<close>

definition generateTrustedCAVolumeConfig ::
  "env \<Rightarrow> kataconfig \<Rightarrow> ('z, (volume \<times> volumeMount) option) op" where
  "generateTrustedCAVolumeConfig E kc =
     onInl (getCM E OperatorNamespace trustedCAConfigMapName)
       (\<lambda>e. if \<not> IsNotFound e then return None
            else onInl (readOp (GetReq KProxy [] ''cluster'') (getProxy (apiOf E)))
              (\<lambda>_. return None)
              (\<lambda>proxy.
                 if TrustedCAName proxy = [] then return None
                 else (case SetControllerReference E kc (cmMeta newTrustedCA) of
                         Inl _ \<Rightarrow> return None
                       | Inr m \<Rightarrow> onErr (writeOp E (CreateReq (OConfigMap (newTrustedCA\<lparr>cmMeta := m\<rparr>))))
                           (\<lambda>_. return None) (return (Some trustedCAVolumes)))))
       (\<lambda>_. return (Some trustedCAVolumes))"

section \<open>Redaction\<close>

definition redactedValue :: string where "redactedValue = ''REDACTED''"

definition redactContainers :: "container list \<Rightarrow> container list" where
  "redactContainers cs = map (\<lambda>c. c\<lparr>ctrEnv := map (\<lambda>v. v\<lparr>envValue := redactedValue\<rparr>) (ctrEnv c)\<rparr>) cs"

definition redactDaemonSet :: "daemonSet \<Rightarrow> daemonSet" where
  "redactDaemonSet ds = dsTemplate_update (tplSpec_update (\<lambda>sp.
     sp\<lparr>Containers := redactContainers (Containers sp),
        InitContainers := redactContainers (InitContainers sp)\<rparr>)) ds"

section \<open>Token-based authentication\<close>

definition isClusterInTokenBasedAuthMode :: "env \<Rightarrow> ('z, bool \<times> goerr option) op" where
  "isClusterInTokenBasedAuthMode E =
     onInl (readOp (GetReq KCloudCredential [] ''cluster'') (getCredentialsMode (apiOf E)))
       (\<lambda>e. return (if IsNotFound e then (False, None)
          else (True, Some (Wrapf ''failed to get CloudCredential, defaulting to token-based mode: '' e))))
       (\<lambda>credentialsMode.
          if credentialsMode \<noteq> ''Manual'' then return (False, None)
          else onInl (readOp (GetReq KAuthentication [] ''cluster'') (getServiceAccountIssuer (apiOf E)))
            (\<lambda>e. return (if IsNotFound e then (False, None)
               else (True, Some (Wrapf ''failed to get Authentication, defaulting to token-based mode: '' e))))
            (\<lambda>issuer. return (issuer \<noteq> [], None)))"

section \<open>TLS cipher suites\<close>

definition tlsCipherSuitesEnvValue :: "env \<Rightarrow> tlsProfileSpec \<Rightarrow> string" where
  "tlsCipherSuitesEnvValue E profile =
     (let cipherSuites = profileCipherIDs (libOf E) (tlsMinVersion profile) (tlsCiphers profile)
      in if cipherSuites = [] then []
         else join '','' (List.map_filter (ianaByID (libOf E)) cipherSuites))"

section \<open>Kubernetes events\<close>

definition suppressionDuration :: nat where "suppressionDuration = 2 * 60 * 10 ^ 9"

definition createKubernetesEvent :: "env \<Rightarrow> k8sEvent \<Rightarrow> string \<Rightarrow> (rstate, goerr option) state" where
  "createKubernetesEvent E event cacheKey = do {
     t \<leftarrow> gets (\<lambda>s. clock (procOf E) (trace s));
     cached \<leftarrow> gets (\<lambda>s. eventCache s cacheKey);
     if (case cached of None \<Rightarrow> False | Some timestamp \<Rightarrow> int t - int timestamp < int suppressionDuration)
     then return None
     else do {
       _ \<leftarrow> modify (eventCache_update (\<lambda>m. m(cacheKey \<mapsto> t)));
       writeOp E (CreateReq (OEvent event))
     }
   }"

section \<open>Migrating the PeerPodConfig limit\<close>

definition deletePeerPodConfig :: "env \<Rightarrow> ('z, goerr option) op" where
  "deletePeerPodConfig E = writeOp E (DeleteReq KPeerPodConfig OperatorNamespace ''peerpodconfig-openshift'')"

definition migratePeerPodsLimit :: "env \<Rightarrow> ('z, goerr option) op" where
  "migratePeerPodsLimit E =
     onInl (readOp (GetReq KPeerPodConfig OperatorNamespace ''peerpodconfig-openshift'')
              (getPeerPodConfigLimit (apiOf E)))
       (\<lambda>e. if IsNoMatchError e then return None
            else if IsNotFound e then return None else return (Some e))
       (\<lambda>limit. case limit of
          None \<Rightarrow> deletePeerPodConfig E
        | Some limitValue \<Rightarrow>
            onInl (getCM E OperatorNamespace ''peer-pods-cm'')
              (\<lambda>e. if IsNotFound e then deletePeerPodConfig E else return (Some e))
              (\<lambda>cm. case cmData cm of
                 None \<Rightarrow> return (Some (GoPanic ''assignment to entry in nil map''))
               | Some d \<Rightarrow>
                   onErr (writeOp E (UpdateReq (OConfigMap
                            (cm\<lparr>cmData := Some (d(''PEERPODS_LIMIT_PER_NODE'' \<mapsto> limitValue))\<rparr>))))
                     (\<lambda>e. return (Some e))
                     (onErr (deletePeerPodConfig E) (\<lambda>e. return (Some e)) (return None))))"

section \<open>Frames\<close>

lemma emits_util_queries:
  "emits readOnly (getPeerPodsSecret E)" "emits readOnly (getCloudProviderFromInfra E)"
  "emits readOnly (getClusterID E)" "emits readOnly (GetImageForComponent E n)"
  "emits readOnly (GetOpenshiftVersion E)" "emits readOnly (getConfigMapVersion E n ns)"
  "emits readOnly (getSecretVersion E n ns)" "emits readOnly (getProxyCREnvVars E)"
  "emits readOnly (getEffectiveProxyEnvVars E)" "emits readOnly (isClusterInTokenBasedAuthMode E)"
  unfolding getPeerPodsSecret_def getCloudProviderFromInfra_def getClusterID_def
    GetImageForComponent_def GetOpenshiftVersion_def getConfigMapVersion_def getSecretVersion_def
    getProxyCREnvVars_def getEffectiveProxyEnvVars_def isClusterInTokenBasedAuthMode_def
  by (intro emits_intros; simp)+

lemmas util_query_emits [emits_intros] = emits_util_queries[THEN emits_mono]

lemma preserves_util_queries [preserves_intros]:
  assumes "\<And>s t. f (s\<lparr>trace := t\<rparr>) = f s"
  shows "preserves f (getPeerPodsSecret E)" "preserves f (getCloudProviderFromInfra E)"
    "preserves f (getClusterID E)" "preserves f (GetImageForComponent E n)"
    "preserves f (GetOpenshiftVersion E)" "preserves f (getConfigMapVersion E n ns)"
    "preserves f (getSecretVersion E n ns)" "preserves f (getProxyCREnvVars E)"
    "preserves f (getEffectiveProxyEnvVars E)" "preserves f (isClusterInTokenBasedAuthMode E)"
  unfolding getPeerPodsSecret_def getCloudProviderFromInfra_def getClusterID_def
    GetImageForComponent_def GetOpenshiftVersion_def getConfigMapVersion_def getSecretVersion_def
    getProxyCREnvVars_def getEffectiveProxyEnvVars_def isClusterInTokenBasedAuthMode_def
  by (intro preserves_intros assms)+

text \<open>What each of the other helpers may write.\<close>

lemma emits_updateConfigMap: "emits (writesOnly {KConfigMap}) (updateConfigMap E n ns new rem)"
  unfolding updateConfigMap_def by (intro emits_intros) (simp_all add: writesOnly_def)

lemma emits_labelNodes: "emits (writesOnly {KNode}) (labelNodes E sel ls)"
  unfolding labelNodes_def by (intro emits_intros) (simp_all add: writesOnly_def)

lemma emits_createAuthJsonSecret: "emits (writesOnly {KSecret}) (createAuthJsonSecret E)"
  unfolding createAuthJsonSecret_def Let_def by (intro emits_intros) (simp_all add: writesOnly_def)

lemma emits_generateTrustedCAVolumeConfig:
  "emits (writesOnly {KConfigMap}) (generateTrustedCAVolumeConfig E kc)"
  unfolding generateTrustedCAVolumeConfig_def
  by (intro emits_intros) (simp_all add: writesOnly_def)

lemma emits_createKubernetesEvent: "emits (writesOnly {KEvent}) (createKubernetesEvent E ev k)"
  unfolding createKubernetesEvent_def by (intro emits_intros) (simp_all add: writesOnly_def)

lemma emits_migratePeerPodsLimit:
  "emits (writesOnly {KConfigMap, KPeerPodConfig}) (migratePeerPodsLimit E)"
  unfolding migratePeerPodsLimit_def deletePeerPodConfig_def
  by (intro emits_intros) (simp_all add: writesOnly_def)

lemmas util_emits = emits_updateConfigMap emits_labelNodes emits_createAuthJsonSecret
  emits_generateTrustedCAVolumeConfig emits_createKubernetesEvent emits_migratePeerPodsLimit

lemmas util_emits_mono [emits_intros] = util_emits[THEN emits_mono]

lemma preserves_util_writes [preserves_intros]:
  assumes "\<And>s t. f (s\<lparr>trace := t\<rparr>) = f s"
  shows "preserves f (updateConfigMap E n ns new rem)" "preserves f (labelNodes E sel ls)"
    "preserves f (createAuthJsonSecret E)" "preserves f (generateTrustedCAVolumeConfig E kc)"
    "preserves f (migratePeerPodsLimit E)"
  unfolding updateConfigMap_def labelNodes_def createAuthJsonSecret_def
    generateTrustedCAVolumeConfig_def migratePeerPodsLimit_def deletePeerPodConfig_def
  by (intro preserves_intros assms)+

lemma preserves_createKubernetesEvent [preserves_intros]:
  "(\<And>s t. f (s\<lparr>trace := t\<rparr>) = f s) \<Longrightarrow> (\<And>s g. f (eventCache_update g s) = f s) \<Longrightarrow>
   preserves f (createKubernetesEvent E ev k)"
  unfolding createKubernetesEvent_def by (intro preserves_intros) simp_all

section \<open>Updating data\<close>

text \<open>
  On a ConfigMap with data the loop of new values cannot panic: it assigns the values that
  differ, so that a lookup gives the new value for each of its keys and the old one elsewhere,
  and it reports an update exactly when something was assigned.
\<close>

fun dataAfter :: "(string \<times> string) list \<Rightarrow> labels \<Rightarrow> labels" where
  "dataAfter [] d = d"
| "dataAfter ((k, v) # rest) d = dataAfter rest (if atKey d k \<noteq> v then d(k \<mapsto> v) else d)"

lemma setNewData_Some:
  "distinct (map fst new) \<Longrightarrow>
   setNewData new (Some d, u) = Inr (Some (dataAfter new d), u \<or> list_ex (\<lambda>(k, v). atKey d k \<noteq> v) new)"
proof (induction new arbitrary: d u)
  case (Cons kv new)
  obtain k v where kv: "kv = (k, v)" by (cases kv)
  have notin: "k \<notin> fst ` set new" using Cons.prems kv by auto
  have other: "list_ex (\<lambda>(k', v'). atKey (d(k \<mapsto> v)) k' \<noteq> v') new =
      list_ex (\<lambda>(k', v'). atKey d k' \<noteq> v') new"
    using notin by (induction new) (auto simp: atKey_def)
  show ?case using Cons kv other by simp
qed simp

lemma dataAfter_other: "k \<notin> fst ` set new \<Longrightarrow> dataAfter new d k = d k"
  by (induction new d rule: dataAfter.induct) auto

lemma dataAfter_new:
  "distinct (map fst new) \<Longrightarrow> (k, v) \<in> set new \<Longrightarrow> atKey (dataAfter new d) k = v"
proof (induction new d rule: dataAfter.induct)
  case (2 k' v' rest d)
  show ?case
  proof (cases "(k, v) = (k', v')")
    case True
    then have "dataAfter rest (d(k \<mapsto> v)) k = Some v" "dataAfter rest d k = d k"
      using 2(2) by (auto simp: dataAfter_other)
    then show ?thesis using True by (auto simp: atKey_def)
  next
    case False
    then show ?thesis using 2 by auto
  qed
qed simp

fun dataWithout :: "(string \<times> string) list \<Rightarrow> labels \<Rightarrow> labels" where
  "dataWithout [] d = d"
| "dataWithout ((k, v) # rest) d = dataWithout rest (if d k = Some v then d(k := None) else d)"

lemma removeMatchingKeys_Some:
  "distinct (map fst rem) \<Longrightarrow>
   removeMatchingKeys rem (Some d, u) = (Some (dataWithout rem d), u \<or> list_ex (\<lambda>(k, v). d k = Some v) rem)"
proof (induction rem arbitrary: d u)
  case (Cons kv rem)
  obtain k v where kv: "kv = (k, v)" by (cases kv)
  have notin: "k \<notin> fst ` set rem" using Cons.prems kv by auto
  have other: "list_ex (\<lambda>(k', v'). (d(k := None)) k' = Some v') rem =
      list_ex (\<lambda>(k', v'). d k' = Some v') rem"
    using notin by (induction rem) auto
  show ?case using Cons kv other by simp
qed simp

lemma dataWithout_other: "k \<notin> fst ` set rem \<Longrightarrow> dataWithout rem d k = d k"
  by (induction rem d rule: dataWithout.induct) auto

lemma dataWithout_mem:
  "distinct (map fst rem) \<Longrightarrow> (k, v) \<in> set rem \<Longrightarrow> dataWithout rem d k \<noteq> Some v"
proof (induction rem d rule: dataWithout.induct)
  case (2 k' v' rest d)
  show ?case
  proof (cases "(k, v) = (k', v')")
    case True
    then have "dataWithout rest d' k = d' k" for d' using 2(2) by (auto simp: dataWithout_other)
    then show ?thesis using True by simp
  next
    case False
    then show ?thesis using 2 by auto
  qed
qed simp

section \<open>Properties\<close>

text \<open>
  C33: On a ConfigMap that has data, \<open>updateConfigMap\<close> sends at most one write, an update of that
  ConfigMap, and sends none when every key already has its new value and no key has the value
  that asks for its removal. In the data it writes, each key has its new value (unless that value
  is to be removed), no key has the value that asks for its removal, and other keys keep theirs.
\<close>

theorem updateConfigMap_correct:
  assumes "getConfigMap (apiOf E) (trace s) ns name = Inr cm" and "cmData cm = Some d"
    and "distinct (map fst newData)" and "distinct (map fst rem)"
  shows "newEvents (updateConfigMap E name ns newData rem) s =
     Ev (GetReq KConfigMap ns name) None #
     (if list_ex (\<lambda>(k, v). atKey d k \<noteq> v) newData \<or>
         list_ex (\<lambda>(k, v). dataAfter newData d k = Some v) rem
      then (let q = UpdateReq (OConfigMap (cm\<lparr>cmData := Some (dataWithout rem (dataAfter newData d))\<rparr>))
            in [Ev q (writeError (apiOf E) (trace s @ [Ev (GetReq KConfigMap ns name) None]) q)])
      else []) \<and>
     list_all (\<lambda>(k, v). k \<in> fst ` set rem \<or> atKey (dataWithout rem (dataAfter newData d)) k = v) newData \<and>
     list_all (\<lambda>(k, v). dataWithout rem (dataAfter newData d) k \<noteq> Some v) rem \<and>
     (\<forall>k. k \<in> fst ` set (newData @ rem) \<or> dataWithout rem (dataAfter newData d) k = d k)"
proof -
  have "k \<in> fst ` set rem \<or> atKey (dataWithout rem (dataAfter newData d)) k = v"
    if "(k, v) \<in> set newData" for k v
    using dataAfter_new[OF assms(3) that, of d] dataWithout_other[of k rem "dataAfter newData d"]
    by (cases "k \<in> fst ` set rem") (simp_all add: atKey_def)
  then have "list_all (\<lambda>(k, v). k \<in> fst ` set rem \<or> atKey (dataWithout rem (dataAfter newData d)) k = v) newData"
    by (auto simp: list_all_iff)
  moreover have "list_all (\<lambda>(k, v). dataWithout rem (dataAfter newData d) k \<noteq> Some v) rem"
    using dataWithout_mem[OF assms(4)] by (auto simp: list_all_iff)
  moreover have "k \<in> fst ` set (newData @ rem) \<or> dataWithout rem (dataAfter newData d) k = d k" for k
    using dataAfter_other[of k newData] dataWithout_other[of k rem]
    by (cases "k \<in> fst ` set (newData @ rem)") (auto simp: image_Un)
  moreover have "newEvents (updateConfigMap E name ns newData rem) s =
     Ev (GetReq KConfigMap ns name) None #
     (if list_ex (\<lambda>(k, v). atKey d k \<noteq> v) newData \<or>
         list_ex (\<lambda>(k, v). dataAfter newData d k = Some v) rem
      then (let q = UpdateReq (OConfigMap (cm\<lparr>cmData := Some (dataWithout rem (dataAfter newData d))\<rparr>))
            in [Ev q (writeError (apiOf E) (trace s @ [Ev (GetReq KConfigMap ns name) None]) q)])
      else [])"
    using assms(1,2) setNewData_Some[OF assms(3), of d False]
      removeMatchingKeys_Some[OF assms(4), of "dataAfter newData d"]
    by (simp add: newEvents_def exec_def updateConfigMap_def onInl_def Let_def)
  ultimately show ?thesis by blast
qed

theorem updateConfigMap_correct_witness:
  "newEvents (updateConfigMap (sampleEnv\<lparr>apiOf := sampleApi\<lparr>getConfigMap :=
       \<lambda>h ns n. Inr \<lparr>cmMeta = mkMeta n ns, cmData = Some [''DISABLECVM'' \<mapsto> ''true'']\<rparr>\<rparr>\<rparr>)
       ''peer-pods-cm'' ''ns'' [(''DISABLECVM'', ''true'')] []) sampleState =
     [Ev (GetReq KConfigMap ''ns'' ''peer-pods-cm'') None]"
proof -
  let ?E = "sampleEnv\<lparr>apiOf := sampleApi\<lparr>getConfigMap :=
       \<lambda>h ns n. Inr \<lparr>cmMeta = mkMeta n ns, cmData = Some [''DISABLECVM'' \<mapsto> ''true'']\<rparr>\<rparr>\<rparr>"
  show ?thesis
    using updateConfigMap_correct[of ?E sampleState "''ns''" "''peer-pods-cm''"
      "\<lparr>cmMeta = mkMeta ''peer-pods-cm'' ''ns'', cmData = Some [''DISABLECVM'' \<mapsto> ''true'']\<rparr>"
      "[''DISABLECVM'' \<mapsto> ''true'']" "[(''DISABLECVM'', ''true'')]" "[]"]
    by (simp add: atKey_def)
qed

text \<open>
  Redaction hides the value of every environment variable of every container and init
  container and changes nothing else: names and sources of the variables, and all other parts of
  the DaemonSet, are as before.
\<close>

theorem redactDaemonSet_hides:
  "let sp = tplSpec (dsTemplate ds); sp' = tplSpec (dsTemplate (redactDaemonSet ds));
       envs = \<lambda>s. concat (map ctrEnv (Containers s @ InitContainers s))
   in list_all (\<lambda>v. envValue v = redactedValue) (envs sp') \<and>
      map (\<lambda>v. (envName v, envFieldPath v)) (envs sp') = map (\<lambda>v. (envName v, envFieldPath v)) (envs sp) \<and>
      map (\<lambda>c. c\<lparr>ctrEnv := []\<rparr>) (Containers sp') = map (\<lambda>c. c\<lparr>ctrEnv := []\<rparr>) (Containers sp) \<and>
      map (\<lambda>c. c\<lparr>ctrEnv := []\<rparr>) (InitContainers sp') = map (\<lambda>c. c\<lparr>ctrEnv := []\<rparr>) (InitContainers sp) \<and>
      dsMeta (redactDaemonSet ds) = dsMeta ds \<and> Volumes sp' = Volumes sp"
  by (auto simp: redactDaemonSet_def redactContainers_def Let_def list_all_iff map_concat comp_def)

lemma getProxyEnvVars_at:
  "getProxyEnvVars E ''HTTP_PROXY'' = lookupEnv (procOf E) ''HTTP_PROXY''"
  "getProxyEnvVars E ''http_proxy'' = lookupEnv (procOf E) ''HTTP_PROXY''"
  "getProxyEnvVars E ''HTTPS_PROXY'' = lookupEnv (procOf E) ''HTTPS_PROXY''"
  "getProxyEnvVars E ''https_proxy'' = lookupEnv (procOf E) ''HTTPS_PROXY''"
  "getProxyEnvVars E ''NO_PROXY'' = lookupEnv (procOf E) ''NO_PROXY''"
  "getProxyEnvVars E ''no_proxy'' = lookupEnv (procOf E) ''NO_PROXY''"
  unfolding getProxyEnvVars_def by (simp split: option.split)+

lemma finite_dom_getProxyEnvVars: "finite (dom (getProxyEnvVars E))"
  unfolding getProxyEnvVars_def by (simp split: option.split)

definition crProxy :: "proxyConfig \<Rightarrow> labels" where
  "crProxy proxy =
     putProxy ''NO_PROXY'' ''no_proxy''
       (if statusNoProxy proxy = [] then specNoProxy proxy else statusNoProxy proxy)
     (putProxy ''HTTPS_PROXY'' ''https_proxy'' (HTTPSProxy proxy)
     (putProxy ''HTTP_PROXY'' ''http_proxy'' (HTTPProxy proxy) Map.empty))"

definition proxySetting :: "string \<Rightarrow> string option" where
  "proxySetting v = (if v = [] then None else Some v)"

lemma crProxy_at:
  "crProxy p ''HTTP_PROXY'' = proxySetting (HTTPProxy p)"
  "crProxy p ''http_proxy'' = proxySetting (HTTPProxy p)"
  "crProxy p ''HTTPS_PROXY'' = proxySetting (HTTPSProxy p)"
  "crProxy p ''https_proxy'' = proxySetting (HTTPSProxy p)"
  "crProxy p ''NO_PROXY'' = proxySetting (if statusNoProxy p = [] then specNoProxy p else statusNoProxy p)"
  "crProxy p ''no_proxy'' = proxySetting (if statusNoProxy p = [] then specNoProxy p else statusNoProxy p)"
  unfolding crProxy_def putProxy_def proxySetting_def by simp+

text \<open>
  C38: The proxy variables handed to pods are the cluster's proxy settings overridden by the
  operator's own environment: a variable set in the environment wins, an unset one falls back to
  the cluster configuration, and the lower-case variables agree with the upper-case ones.
\<close>

theorem effective_proxy_correct:
  assumes "getProxy (apiOf E) (trace s) = Inr proxy"
    and "\<And>h m. finite (dom m) \<Longrightarrow> set (rangeKeys (procOf E) h m) = dom m"
  shows "\<exists>vars. result (getEffectiveProxyEnvVars E) s = Inr vars \<and>
    list_all (\<lambda>(upper, lower, cr). \<forall>v.
        (plainEnv upper v \<in> set vars) = (plainEnv lower v \<in> set vars) \<and>
        (plainEnv upper v \<in> set vars) =
          (Some v = (case lookupEnv (procOf E) upper of Some w \<Rightarrow> Some w | None \<Rightarrow> proxySetting cr)))
      [(''HTTP_PROXY'', ''http_proxy'', HTTPProxy proxy),
       (''HTTPS_PROXY'', ''https_proxy'', HTTPSProxy proxy),
       (''NO_PROXY'', ''no_proxy'', if statusNoProxy proxy = [] then specNoProxy proxy else statusNoProxy proxy)]"
proof -
  define eff where "eff = crProxy proxy ++ getProxyEnvVars E"
  define h where "h = trace s @ [Ev (GetReq KProxy [] ''cluster'') None]"
  define vars where "vars = map (\<lambda>k. plainEnv k (atKey eff k)) (rangeKeys (procOf E) h eff)"
  have res: "result (getEffectiveProxyEnvVars E) s = Inr vars"
    using assms(1)
    by (simp add: result_def getEffectiveProxyEnvVars_def getProxyCREnvVars_def onInl_def Let_def
        vars_def eff_def h_def crProxy_def)
  have "finite (dom eff)"
    by (simp add: eff_def crProxy_def putProxy_def finite_dom_getProxyEnvVars)
  then have mem: "plainEnv k v \<in> set vars \<longleftrightarrow> eff k = Some v" for k v
    by (auto simp: vars_def assms(2) plainEnv_def atKey_def image_iff split: option.splits)
  have eff: "eff k = (case getProxyEnvVars E k of None \<Rightarrow> crProxy proxy k | Some v \<Rightarrow> Some v)" for k
    by (simp add: eff_def map_add_def)
  have agree: "\<forall>v. (plainEnv upper v \<in> set vars) = (plainEnv lower v \<in> set vars) \<and>
      (plainEnv upper v \<in> set vars) =
        (Some v = (case lookupEnv (procOf E) upper of Some w \<Rightarrow> Some w | None \<Rightarrow> proxySetting cr))"
    if "getProxyEnvVars E upper = lookupEnv (procOf E) upper"
      "getProxyEnvVars E lower = lookupEnv (procOf E) upper"
      "crProxy proxy upper = proxySetting cr" "crProxy proxy lower = proxySetting cr" for upper lower cr
    using that by (auto simp: mem eff split: option.split)
  show ?thesis
    unfolding list.pred_inject prod.case
    by (intro exI[of _ vars] conjI res agree[OF getProxyEnvVars_at(1,2) crProxy_at(1,2)]
        agree[OF getProxyEnvVars_at(3,4) crProxy_at(3,4)]
        agree[OF getProxyEnvVars_at(5,6) crProxy_at(5,6)]) simp
qed

text \<open>The order of map iteration enters as a function that lists the keys of a map.\<close>

definition proxyEnv :: env where
  "proxyEnv = sampleEnv\<lparr>apiOf := sampleApi\<lparr>getProxy := \<lambda>h. Inr \<lparr>HTTPProxy = ''http://p'', HTTPSProxy = [],
       specNoProxy = [], statusNoProxy = [], TrustedCAName = []\<rparr>\<rparr>,
     procOf := sampleProc\<lparr>rangeKeys := \<lambda>h m. sorted_list_of_set (dom m)\<rparr>\<rparr>"

theorem effective_proxy_correct_witness:
  "\<exists>vars. result (getEffectiveProxyEnvVars proxyEnv) sampleState = Inr vars \<and>
     plainEnv ''http_proxy'' ''http://p'' \<in> set vars"
  using effective_proxy_correct[of proxyEnv sampleState "\<lparr>HTTPProxy = ''http://p'', HTTPSProxy = [],
       specNoProxy = [], statusNoProxy = [], TrustedCAName = []\<rparr>"]
  by (auto simp: proxyEnv_def sample_defs proxySetting_def)

text \<open>
  An event with a given key is created exactly when no event with that key was recorded
  within the suppression time; then its time is recorded, otherwise nothing is sent and the
  cache is unchanged.
\<close>

theorem event_suppression:
  "let t = clock (procOf E) (trace s);
       recent = (\<exists>timestamp. eventCache s cacheKey = Some timestamp \<and>
                   int t - int timestamp < int suppressionDuration)
   in (newEvents (createKubernetesEvent E event cacheKey) s =
         (if recent then []
          else [Ev (CreateReq (OEvent event)) (writeError (apiOf E) (trace s) (CreateReq (OEvent event)))])) \<and>
      eventCache (exec (createKubernetesEvent E event cacheKey) s) =
        (if recent then eventCache s else (eventCache s)(cacheKey \<mapsto> t))"
  by (auto simp: newEvents_def exec_def createKubernetesEvent_def Let_def split: option.splits)

text \<open>
  C32: The migration never loses a limit: when the PeerPodConfig has a limit, it is deleted only if
  the peer-pods ConfigMap does not exist, or after an update has stored the limit in it.
\<close>

theorem migration_keeps_limit:
  assumes "Ev (DeleteReq KPeerPodConfig ns n) r \<in> set (newEvents (migratePeerPodsLimit E) s)"
    and "getPeerPodConfigLimit (apiOf E) (trace s) = Inr (Some limit)"
  shows "(\<exists>e. IsNotFound e \<and>
      Ev (GetReq KConfigMap OperatorNamespace ''peer-pods-cm'') (Some e) \<in>
        set (newEvents (migratePeerPodsLimit E) s)) \<or>
    (\<exists>cm. cmLookup cm ''PEERPODS_LIMIT_PER_NODE'' = Some limit \<and>
      Ev (UpdateReq (OConfigMap cm)) None \<in> set (newEvents (migratePeerPodsLimit E) s))"
proof -
  let ?h = "trace s @ [Ev (GetReq KPeerPodConfig OperatorNamespace ''peerpodconfig-openshift'') None]"
  show ?thesis
  proof (cases "getConfigMap (apiOf E) ?h OperatorNamespace ''peer-pods-cm''")
    case (Inl e)
    then show ?thesis using assms
      by (auto simp: newEvents_def exec_def migratePeerPodsLimit_def onInl_def
          deletePeerPodConfig_def split: if_splits)
  next
    case (Inr cm)
    show ?thesis
    proof (cases "cmData cm")
      case None
      then show ?thesis using assms Inr
        by (simp add: newEvents_def exec_def migratePeerPodsLimit_def onInl_def)
    next
      case (Some d)
      let ?cm = "cm\<lparr>cmData := Some (d(''PEERPODS_LIMIT_PER_NODE'' \<mapsto> limit))\<rparr>"
      have "Ev (UpdateReq (OConfigMap ?cm)) None \<in> set (newEvents (migratePeerPodsLimit E) s)"
        using assms Inr Some
        by (auto simp: newEvents_def exec_def migratePeerPodsLimit_def onInl_def onErr_def
            deletePeerPodConfig_def split: option.splits)
      moreover have "cmLookup ?cm ''PEERPODS_LIMIT_PER_NODE'' = Some limit"
        by (simp add: cmLookup_def)
      ultimately show ?thesis by blast
    qed
  qed
qed

definition limitEnv :: env where
  "limitEnv = sampleEnv\<lparr>apiOf := sampleApi\<lparr>getPeerPodConfigLimit := \<lambda>h. Inr (Some ''10'')\<rparr>\<rparr>"

theorem migration_keeps_limit_witness:
  "(\<exists>e. IsNotFound e \<and>
      Ev (GetReq KConfigMap OperatorNamespace ''peer-pods-cm'') (Some e) \<in>
        set (newEvents (migratePeerPodsLimit limitEnv) sampleState)) \<or>
    (\<exists>cm. cmLookup cm ''PEERPODS_LIMIT_PER_NODE'' = Some ''10'' \<and>
      Ev (UpdateReq (OConfigMap cm)) None \<in> set (newEvents (migratePeerPodsLimit limitEnv) sampleState))"
proof (rule migration_keeps_limit)
  show "Ev (DeleteReq KPeerPodConfig OperatorNamespace ''peerpodconfig-openshift'') None \<in>
      set (newEvents (migratePeerPodsLimit limitEnv) sampleState)"
    by (simp add: newEvents_def exec_def migratePeerPodsLimit_def onInl_def deletePeerPodConfig_def
        limitEnv_def sample_defs IsNotFound_def)
  show "getPeerPodConfigLimit (apiOf limitEnv) (trace sampleState) = Inr (Some ''10'')"
    by (simp add: limitEnv_def)
qed

end
