(* ===== verification/Image_Generator.thy ===== *)
theory Image_Generator
  imports Utils
begin

text \<open>
  \<^verbatim>\<open>controllers/image_generator.go\<close>: building and deleting pod VM images for a cloud provider with
  Kubernetes jobs. The generator is a package-level value that is set up on first use; an image
  operation validates the peer-pods configuration, prepares the provider's image ConfigMap, runs
  the job and reports a status. The lemmas give the possible outcomes of the two image
  operations, the bounds of the generated image version, and what validation requires.
\<close>

section \<open>Constants\<close>

definition unsupportedCloudProvider :: string where "unsupportedCloudProvider = ''unsupported''"
definition AWSProvider :: string where "AWSProvider = ''aws''"
definition AzureProvider :: string where "AzureProvider = ''azure''"
definition GCPProvider :: string where "GCPProvider = ''gcp''"
definition LibvirtProvider :: string where "LibvirtProvider = ''libvirt''"
definition IBMCloudProvider :: string where "IBMCloudProvider = ''ibmcloud''"

lemmas provider_defs = unsupportedCloudProvider_def AWSProvider_def AzureProvider_def
  GCPProvider_def LibvirtProvider_def IBMCloudProvider_def

definition imageIDKeyOf :: "string \<rightharpoonup> string" where
  "imageIDKeyOf = [
     AWSProvider \<mapsto> ''PODVM_AMI_ID'', AzureProvider \<mapsto> ''AZURE_IMAGE_ID'',
     GCPProvider \<mapsto> ''PODVM_IMAGE_NAME'', LibvirtProvider \<mapsto> ''LIBVIRT_IMAGE_ID'',
     IBMCloudProvider \<mapsto> ''IBMCLOUD_PODVM_IMAGE_ID'']"

text \<open>The statuses of an image operation: the counted constants and the negative ones.\<close>

definition ImageCreatedSuccessfully :: int where "ImageCreatedSuccessfully = 0"
definition ImageDeletedSuccessfully :: int where "ImageDeletedSuccessfully = 1"
definition RequeueNeeded :: int where "RequeueNeeded = 2"
definition ImageJobRunning :: int where "ImageJobRunning = 3"
definition ImageJobCompleted :: int where "ImageJobCompleted = 4"
definition ImageJobFailed :: int where "ImageJobFailed = 5"
definition UnsupportedPodVMImageProvider :: int where "UnsupportedPodVMImageProvider = 8"
definition ImageCreationFailed :: int where "ImageCreationFailed = -1"
definition ImageDeletionFailed :: int where "ImageDeletionFailed = -1"
definition CheckingJobStatusFailed :: int where "CheckingJobStatusFailed = -1"
definition ImageCreationStatusUnknown :: int where "ImageCreationStatusUnknown = -2"
definition ImageDeletionStatusUnknown :: int where "ImageDeletionStatusUnknown = -2"

lemmas image_status_defs = ImageCreatedSuccessfully_def ImageDeletedSuccessfully_def
  RequeueNeeded_def ImageJobRunning_def ImageJobCompleted_def ImageJobFailed_def
  UnsupportedPodVMImageProvider_def ImageCreationFailed_def ImageDeletionFailed_def
  CheckingJobStatusFailed_def ImageCreationStatusUnknown_def ImageDeletionStatusUnknown_def

definition ErrInitializingImageGenerator :: goerr where
  "ErrInitializingImageGenerator = Errorf ''error initializing ImageGenerator instance''"
definition ErrUnsupportedCloudProvider :: goerr where
  "ErrUnsupportedCloudProvider = Errorf ''unsupported cloud provider, skipping image creation''"
definition ErrValidatingPeerPodsConfigs :: goerr where
  "ErrValidatingPeerPodsConfigs = Errorf ''error validating peer-pods-cm and peer-pods-secret''"
definition ErrCreatingImageConfigMap :: goerr where
  "ErrCreatingImageConfigMap = Errorf ''error creating podvm image configMap from file''"
definition ErrUpdatingImageConfigMap :: goerr where
  "ErrUpdatingImageConfigMap = Errorf ''error updating podvm image configMap''"
definition ErrCreatingImageJob :: goerr where
  "ErrCreatingImageJob = Errorf ''error creating image job from yaml file''"
definition ErrCheckingJobStatus :: goerr where
  "ErrCheckingJobStatus = Errorf ''error checking job status''"

section \<open>Setting up the generator\<close>

definition newImageGenerator :: "env \<Rightarrow> ('z, goerr + imageGenerator) op" where
  "newImageGenerator E =
     (case inClusterConfig (libOf E) of
        Some e \<Rightarrow> return (Inl (fmtV ''failed to get in-cluster config: '' e))
      | None \<Rightarrow>
     (case newForConfig (libOf E) of
        Some e \<Rightarrow> return (Inl (fmtV ''failed to get k8s clientset: '' e))
      | None \<Rightarrow>
     (case readFile (procOf E) ''/proc/sys/crypto/fips_enabled'' of
        Inl e \<Rightarrow> return (Inl (fmtV ''failed to read FIPS file: '' e))
      | Inr content \<Rightarrow>
     (case Atoi (trim (CHR 0x0A # CHR 0x09 # '' '') content) of
        None \<Rightarrow> return (Inl (Errorf ''failed to convert FIPS file content to int''))
      | Some fips \<Rightarrow>
        let override = getenv E ''PROVIDER_OVERRIDE''
        in onInl (if override \<noteq> [] then return (Inr override) else getCloudProviderFromInfra E)
             (\<lambda>e. return (Inl (fmtV ''failed to get cloud provider from infra: '' e)))
             (\<lambda>provider.
                let (p, key) = (case imageIDKeyOf provider of
                      Some key \<Rightarrow> (provider, key) | None \<Rightarrow> (unsupportedCloudProvider, []))
                in onInl (getClusterID E)
                     (\<lambda>e. return (Inl (fmtV ''failed to get cluster ID: '' e)))
                     (\<lambda>clusterID. return (Inr \<lparr>igProvider = p, igClusterId = clusterID,
                        CMimageIDKey = key, igFips = (fips = 1)\<rparr>)))))))"

definition InitializeImageGenerator :: "env \<Rightarrow> (rstate, goerr option) state" where
  "InitializeImageGenerator E = do {
     g \<leftarrow> gets ig;
     if g \<noteq> None then return None
     else onInl (newImageGenerator E) (\<lambda>e. return (Some e))
       (\<lambda>g. do { _ \<leftarrow> modify (ig_update (\<lambda>_. Some g)); return None })
   }"

section \<open>Configuration\<close>

definition getPeerPodsCM :: "env \<Rightarrow> ('z, goerr + configMap) op" where
  "getPeerPodsCM E = getCM E OperatorNamespace peerpodsCMName"

definition isImageIDSet :: "env \<Rightarrow> imageGenerator \<Rightarrow> ('z, bool) op" where
  "isImageIDSet E g = onInl (getPeerPodsCM E) (\<lambda>_. return False)
     (\<lambda>cm. return (atKey (cmLookup cm) (CMimageIDKey g) \<noteq> []))"

definition getImageID :: "env \<Rightarrow> imageGenerator \<Rightarrow> ('z, goerr + string) op" where
  "getImageID E g = onInl (getPeerPodsCM E) (\<lambda>e. return (Inl e))
     (\<lambda>cm. return (Inr (atKey (cmLookup cm) (CMimageIDKey g))))"

text \<open>A nil map of strings fails both checks; \<open>None\<close> is the nil map.\<close>

definition checkKeysPresentAndNotEmpty :: "labels option \<Rightarrow> string list \<Rightarrow> bool" where
  "checkKeysPresentAndNotEmpty data keys =
     (case data of None \<Rightarrow> False | Some m \<Rightarrow> list_all (\<lambda>k. m k \<noteq> None \<and> m k \<noteq> Some []) keys)"

definition checkAnyKeyPresentWithValue :: "labels option \<Rightarrow> string list \<Rightarrow> bool" where
  "checkAnyKeyPresentWithValue data keys =
     (case data of None \<Rightarrow> False | Some m \<Rightarrow> list_ex (\<lambda>k. m k \<noteq> None \<and> m k \<noteq> Some []) keys)"

definition secretError :: goerr where
  "secretError = Errorf ''validatePeerPodsConfigs: cannot find the required keys in peer-pods-secret Secret''"
definition configMapError :: goerr where
  "configMapError = Errorf ''validatePeerPodsConfigs: cannot find the required keys in peer-pods-cm ConfigMap''"

text \<open>The switch on the provider.\<close>

definition validateFor :: "string \<Rightarrow> labels option \<Rightarrow> labels option \<Rightarrow> goerr option" where
  "validateFor provider sec cm =
     (let check = (\<lambda>secOk cmKeys. if \<not> secOk then Some secretError
                    else if \<not> checkKeysPresentAndNotEmpty cm cmKeys then Some configMapError else None)
      in if provider = ''aws'' then
           check (checkKeysPresentAndNotEmpty sec [''AWS_ACCESS_KEY_ID'', ''AWS_SECRET_ACCESS_KEY''] \<or>
                  checkKeysPresentAndNotEmpty sec [''AWS_ROLE_ARN'', ''AWS_WEB_IDENTITY_TOKEN_FILE''])
             [''AWS_REGION'', ''AWS_SUBNET_ID'', ''AWS_VPC_ID'', ''AWS_SG_IDS'', ''CLOUD_PROVIDER'']
         else if provider = ''azure'' then
           check (checkKeysPresentAndNotEmpty sec
                    [''AZURE_TENANT_ID'', ''AZURE_CLIENT_ID'', ''AZURE_SUBSCRIPTION_ID'', ''AZURE_CLIENT_SECRET''] \<or>
                  checkKeysPresentAndNotEmpty sec
                    [''AZURE_TENANT_ID'', ''AZURE_CLIENT_ID'', ''AZURE_SUBSCRIPTION_ID'', ''AZURE_FEDERATED_TOKEN_FILE''])
             [''AZURE_RESOURCE_GROUP'', ''AZURE_REGION'', ''CLOUD_PROVIDER'']
         else if provider = ''gcp'' then
           check (checkKeysPresentAndNotEmpty sec [''GCP_CREDENTIALS''] \<or>
                  checkKeysPresentAndNotEmpty sec [''GCP_WIF_CREDENTIALS''])
             [''GCP_PROJECT_ID'', ''GCP_ZONE'', ''CLOUD_PROVIDER'']
         else if provider = ''libvirt'' then
           check (checkKeysPresentAndNotEmpty sec [''CLOUD_PROVIDER'', ''LIBVIRT_URI''])
             [''CLOUD_PROVIDER'', ''LIBVIRT_POOL'', ''LIBVIRT_VOL_NAME'', ''LIBVIRT_DIR_NAME'']
         else if provider = IBMCloudProvider then
           check (checkAnyKeyPresentWithValue sec [''IBMCLOUD_IAM_PROFILE_ID'', ''IBMCLOUD_API_KEY''])
             [''CLOUD_PROVIDER'']
         else Some (Errorf (''validatePeerPodsConfigs: unsupported cloud provider '' @ provider)))"

definition validatePeerPodsConfigs :: "env \<Rightarrow> imageGenerator \<Rightarrow> ('z, goerr option) op" where
  "validatePeerPodsConfigs E g =
     onInl (getPeerPodsCM E) (\<lambda>e. return (Some (fmtV ''validatePeerPodsConfigs: '' e))) (\<lambda>cm.
     onInl (getPeerPodsSecret E) (\<lambda>e. return (Some (fmtV ''validatePeerPodsConfigs: '' e))) (\<lambda>sec.
     return (validateFor (igProvider g) (Some (secData sec)) (cmData cm))))"

definition getImageConfigMapName :: "imageGenerator \<Rightarrow> string" where
  "getImageConfigMapName g = igProvider g @ ''-podvm-image-cm''"

definition peerpodsImageJobsPathLocation :: string where
  "peerpodsImageJobsPathLocation = ''/config/peerpods/podvm''"

text \<open>The version of the image: the cluster id read as a hexadecimal number, within 31 bits.\<close>

definition imageVersionFor :: "imageGenerator \<Rightarrow> string" where
  "imageVersionFor g = (case ParseUint 16 32 (igClusterId g) of
     None \<Rightarrow> ''0.0.1''
   | Some clusterIdInt \<Rightarrow> natDigits (clusterIdInt mod (2147483647 + 1)) @ ''.0.1'')"

text \<open>The provider-specific values; assigning to the nil map of a file without data panics.\<close>

definition setImageValues :: "imageGenerator \<Rightarrow> labels option \<Rightarrow> goerr + labels option" where
  "setImageValues g data =
     (let lookup = (case data of None \<Rightarrow> Map.empty | Some d \<Rightarrow> d);
          v = imageVersionFor g;
          assign = (\<lambda>kvs. case data of
             None \<Rightarrow> Inl (GoPanic ''assignment to entry in nil map'')
           | Some d \<Rightarrow> Inr (Some (d ++ map_of kvs)))
      in if igProvider g = AzureProvider then
           assign ((''IMAGE_VERSION'', v) #
             (if atKey lookup ''IMAGE_GALLERY_NAME'' = []
              then [(''IMAGE_GALLERY_NAME'', ''PodVMGallery_'' @ igClusterId g)] else []))
         else if igProvider g = AWSProvider then assign [(''AMI_VERSION'', v)]
         else if igProvider g = GCPProvider then
           assign [(''IMAGE_VERSION'', replaceAll CHR ''.'' CHR ''-'' v)]
         else Inr data)"

definition createImageConfigMapFromFile ::
  "env \<Rightarrow> imageGenerator \<Rightarrow> kataconfig \<Rightarrow> ('z, goerr option) op" where
  "createImageConfigMapFromFile E g kc =
     onInl (getCM E OperatorNamespace (getImageConfigMapName g))
       (\<lambda>_.
          (case readFile (procOf E)
                  (peerpodsImageJobsPathLocation @ ''/'' @ getImageConfigMapName g @ ''.yaml'') of
             Inl e \<Rightarrow> return (Some e)
           | Inr yamlData \<Rightarrow>
          (case unmarshalConfigMap (libOf E) yamlData of
             Inl e \<Rightarrow> return (Some e)
           | Inr cm \<Rightarrow>
          (case setImageValues g (cmData cm) of
             Inl p \<Rightarrow> return (Some p)
           | Inr data \<Rightarrow>
          (case SetControllerReference E kc (cmMeta cm) of
             Inl e \<Rightarrow> return (Some e)
           | Inr m \<Rightarrow> writeOp E (CreateReq (OConfigMap (cm\<lparr>cmMeta := m, cmData := data\<rparr>))))))))
       (\<lambda>_. return None)"

definition updateImageConfigMap :: "env \<Rightarrow> imageGenerator \<Rightarrow> ('z, goerr option) op" where
  "updateImageConfigMap E g =
     onInl (getCM E OperatorNamespace (getImageConfigMapName g)) (\<lambda>e. return (Some e)) (\<lambda>cm.
       if igFips g \<and> atKey (cmLookup cm) ''BOOT_FIPS'' = ''true'' then return None
       else
         let changes = (if igFips g then [(''BOOT_FIPS'', ''true'')] else []) @
               (if atKey (cmLookup cm) ''PODVM_IMAGE_URI'' = [] \<and> getenv E ''RELATED_IMAGE_PODVM_OCI'' \<noteq> [] \<and>
                   goArch (procOf E) \<noteq> ''s390x''
                then [(''PODVM_IMAGE_URI'', ''oci::'' @ getenv E ''RELATED_IMAGE_PODVM_OCI'')] else [])
         in (case cmData cm of
               None \<Rightarrow> if changes = [] then writeOp E (UpdateReq (OConfigMap cm))
                       else return (Some (GoPanic ''assignment to entry in nil map''))
             | Some d \<Rightarrow> writeOp E (UpdateReq (OConfigMap (cm\<lparr>cmData := Some (d ++ map_of changes)\<rparr>)))))"

section \<open>Jobs\<close>

text \<open>Changing \<open>Containers[0]\<close> panics without containers.\<close>

definition onFirst :: "('c \<Rightarrow> 'c) \<Rightarrow> 'c list \<Rightarrow> goerr + 'c list" where
  "onFirst f cs = (case cs of
     [] \<Rightarrow> Inl (GoPanic ''index out of range'') | c # rest \<Rightarrow> Inr (f c # rest))"

definition addEnv :: "envVar list \<Rightarrow> container \<Rightarrow> container" where
  "addEnv vs c = c\<lparr>ctrEnv := ctrEnv c @ vs\<rparr>"

text \<open>The changes of a delete job: the image id under the provider's name, \<open>-g\<close> for Azure.\<close>

definition deleteJobChange :: "string \<Rightarrow> string \<Rightarrow> (container \<Rightarrow> container) option" where
  "deleteJobChange provider imageId =
     (if provider = AzureProvider then
        Some (\<lambda>c. addEnv [plainEnv ''IMAGE_ID'' imageId] (c\<lparr>ctrCommand := ctrCommand c @ [''-g'']\<rparr>))
      else if provider = AWSProvider then Some (addEnv [plainEnv ''AMI_ID'' imageId])
      else if provider = GCPProvider then Some (addEnv [plainEnv ''IMAGE_NAME'' imageId])
      else if provider = LibvirtProvider then Some (addEnv [plainEnv ''LIBVIRT_IMAGE_ID'' imageId])
      else None)"

definition forDeletion :: "env \<Rightarrow> imageGenerator \<Rightarrow> job \<Rightarrow> ('z, goerr + job) op" where
  "forDeletion E g j = onInl (getImageID E g) (\<lambda>e. return (Inl e))
     (\<lambda>imageId. return (case deleteJobChange (igProvider g) imageId of
        None \<Rightarrow> Inr j
      | Some f \<Rightarrow> (case onFirst f (jobContainers j) of
           Inl p \<Rightarrow> Inl p | Inr cs \<Rightarrow> Inr (j\<lparr>jobContainers := cs\<rparr>))))"

text \<open>The part common to both jobs: proxy variables, trusted CA, images from the environment.\<close>

definition completeJob ::
  "env \<Rightarrow> string \<Rightarrow> envVar list \<Rightarrow> (volume \<times> volumeMount) option \<Rightarrow> job \<Rightarrow> goerr + job" where
  "completeJob E jobFileName proxyVars trustedCA j =
     (let builder = getenv E ''RELATED_IMAGE_PODVM_BUILDER'';
          payload = getenv E ''RELATED_IMAGE_PODVM_PAYLOAD'';
          change = (\<lambda>c.
            let c1 = addEnv proxyVars c;
                c2 = (case trustedCA of None \<Rightarrow> c1 | Some (vol, mount) \<Rightarrow>
                        addEnv [plainEnv ''REQUESTS_CA_BUNDLE'' trustedCAFilename]
                          (c1\<lparr>ctrVolumeMounts := ctrVolumeMounts c1 @ [mount]\<rparr>))
            in if builder \<noteq> [] then c2\<lparr>ctrImage := builder\<rparr> else c2)
      in (case onFirst change (jobContainers j) of
            Inl p \<Rightarrow> Inl p
          | Inr cs \<Rightarrow>
              (let j' = j\<lparr>jobContainers := cs,
                         jobVolumes := jobVolumes j @ (case trustedCA of None \<Rightarrow> [] | Some (vol, mount) \<Rightarrow> [vol])\<rparr>
               in if jobFileName = ''osc-podvm-create-job.yaml'' \<and> payload \<noteq> []
                  then (case onFirst (\<lambda>c. c\<lparr>ctrImage := payload\<rparr>) (jobInitContainers j') of
                          Inl p \<Rightarrow> Inl p
                        | Inr ics \<Rightarrow> Inr (j'\<lparr>jobInitContainers := ics\<rparr>))
                  else Inr j')))"

definition createJobFromFile ::
  "env \<Rightarrow> imageGenerator \<Rightarrow> string \<Rightarrow> kataconfig \<Rightarrow> ('z, goerr + job) op" where
  "createJobFromFile E g jobFileName kc =
     (case readFile (procOf E) (peerpodsImageJobsPathLocation @ ''/'' @ jobFileName) of
        Inl e \<Rightarrow> return (Inl e)
      | Inr yamlData \<Rightarrow>
     (case unmarshalJob (libOf E) yamlData of
        Inl e \<Rightarrow> return (Inl e)
      | Inr j0 \<Rightarrow>
        onInl (if jobFileName = ''osc-podvm-delete-job.yaml'' then forDeletion E g j0 else return (Inr j0))
          (\<lambda>e. return (Inl e)) (\<lambda>j.
        onInl (getEffectiveProxyEnvVars E) (\<lambda>e. return (Inl e)) (\<lambda>proxyVars.
        if jobContainers j = [] then return (Inl (GoPanic ''index out of range''))
        else do {
          trustedCA \<leftarrow> generateTrustedCAVolumeConfig E kc;
          return (completeJob E jobFileName proxyVars trustedCA j)
        }))))"

text \<open>Every error of the create request is dropped, not only that the job exists.\<close>

definition createJob :: "env \<Rightarrow> job \<Rightarrow> ('z, goerr option) op" where
  "createJob E j = onErr (writeOp E (CreateReq (OJob j)))
     (\<lambda>e. if IsAlreadyExists e then return None else return None) (return None)"

definition deleteJob :: "env \<Rightarrow> job \<Rightarrow> ('z, goerr option) op" where
  "deleteJob E j = onErr (writeOp E (DeleteReq KJob (Namespace (jobMeta j)) (Name (jobMeta j))))
     (\<lambda>e. if IsNotFound e then return None else return (Some e)) (return None)"

definition hasJobFailed :: "jobStatus \<Rightarrow> bool" where
  "hasJobFailed st =
     list_ex (\<lambda>c. jcType c = ''Failed'' \<and> jcStatus c = ''True'' \<and> jobFailed st > 0) (jobConditions st)"

definition isJobActive :: "jobStatus \<Rightarrow> bool" where
  "isJobActive st \<longleftrightarrow> length (jobConditions st) = 0 \<and> jobActive st > 0"

definition hasJobCompleted :: "jobStatus \<Rightarrow> bool" where
  "hasJobCompleted st =
     list_ex (\<lambda>c. jcType c = ''Complete'' \<and> jcStatus c = ''True'' \<and> jobSucceeded st > 0) (jobConditions st)"

definition createJobEvent ::
  "env \<Rightarrow> string \<Rightarrow> string \<Rightarrow> string \<Rightarrow> string \<Rightarrow> string \<Rightarrow> string \<Rightarrow> (rstate, goerr option) state" where
  "createJobEvent E ns jobName rs message eventType action = do {
     t \<leftarrow> gets (\<lambda>s. clock (procOf E) (trace s));
     createKubernetesEvent E \<lparr>evtGenerateName = ''job-event-'', evtNamespace = ns,
       evtInvolvedKind = ''Job'', evtInvolvedNamespace = ns, evtInvolvedName = jobName, evtReason = rs, evtMessage = message,
       evtType = eventType, evtReportingController = ''image-generator'',
       evtReportingInstance = ''controller-manager'', evtAction = action, evtTime = t\<rparr> rs
   }"

definition checkJobStatus :: "env \<Rightarrow> string \<Rightarrow> string \<Rightarrow> (rstate, int \<times> goerr option) state" where
  "checkJobStatus E jobName ns =
     onInl (readOp (GetReq KJob ns jobName) (\<lambda>h. getJobStatus (apiOf E) h ns jobName))
       (\<lambda>e. return (CheckingJobStatusFailed, Some e))
       (\<lambda>st.
          if hasJobFailed st then do {
            _ \<leftarrow> createJobEvent E ns jobName ''PodVMImageJobFailed''
                  (''PodVM image job ('' @ jobName @ '') failed'') ''Warning'' ''Check the logs for the job'';
            return (ImageJobFailed, None)
          } else if hasJobCompleted st then do {
            _ \<leftarrow> createJobEvent E ns jobName ''PodVMImageJobCompleted''
                  (''PodVM image job ('' @ jobName @ '') completed successfully'') ''Normal''
                  ''Check the pod vm image details in peer-pods-cm configmap'';
            return (ImageJobCompleted, None)
          } else if isJobActive st then do {
            _ \<leftarrow> createJobEvent E ns jobName ''PodVMImageJobRunning''
                  (''PodVM image job ('' @ jobName @ '') is running'') ''Normal'' ''Check the logs for the job'';
            return (ImageJobRunning, None)
          } else return (CheckingJobStatusFailed, Some (Errorf (''job status check failed '' @ jobName))))"

section \<open>Running the jobs\<close>

definition imageCreateJobRunner ::
  "env \<Rightarrow> imageGenerator \<Rightarrow> kataconfig \<Rightarrow> (rstate, int \<times> goerr option) state" where
  "imageCreateJobRunner E g kc =
     onInl (createJobFromFile E g ''osc-podvm-create-job.yaml'' kc)
       (\<lambda>e. return (ImageCreationFailed, Some (replaceErr ErrCreatingImageJob e))) (\<lambda>j. do {
       alreadySet \<leftarrow> isImageIDSet E g;
       if alreadySet
       then onErr (deleteJob E j) (\<lambda>e. return (RequeueNeeded, Some e))
              (return (ImageCreatedSuccessfully, None))
       else onErr (createJob E j) (\<lambda>e. return (RequeueNeeded, Some ErrCreatingImageJob)) (do {
         (status, err) \<leftarrow> checkJobStatus E (Name (jobMeta j)) (Namespace (jobMeta j));
         if err \<noteq> None then return (ImageCreationStatusUnknown, Some ErrCheckingJobStatus)
         else if status = ImageJobRunning then return (RequeueNeeded, None)
         else if status = ImageJobCompleted then do {
           idSet \<leftarrow> isImageIDSet E g;
           if \<not> idSet then return (RequeueNeeded, None)
           else onErr (deleteJob E j) (\<lambda>e. return (RequeueNeeded, Some e))
                  (return (ImageCreatedSuccessfully, None))
         } else if status = ImageJobFailed then
           onErr (deleteJob E j) (\<lambda>e. return (RequeueNeeded, Some e))
             (return (ImageCreationFailed, None))
         else return (RequeueNeeded, None)
       })
     })"

definition imageDeleteJobRunner ::
  "env \<Rightarrow> imageGenerator \<Rightarrow> kataconfig \<Rightarrow> (rstate, int \<times> goerr option) state" where
  "imageDeleteJobRunner E g kc =
     onInl (createJobFromFile E g ''osc-podvm-delete-job.yaml'' kc)
       (\<lambda>e. return (ImageDeletionFailed, Some (replaceErr ErrCreatingImageJob e))) (\<lambda>j. do {
       stillSet \<leftarrow> isImageIDSet E g;
       if \<not> stillSet
       then onErr (deleteJob E j) (\<lambda>e. return (RequeueNeeded, Some e))
              (return (ImageDeletedSuccessfully, None))
       else onErr (createJob E j) (\<lambda>e. return (RequeueNeeded, Some ErrCreatingImageJob)) (do {
         (status, err) \<leftarrow> checkJobStatus E (Name (jobMeta j)) (Namespace (jobMeta j));
         if err \<noteq> None then return (ImageDeletionStatusUnknown, Some ErrCheckingJobStatus)
         else if status = ImageJobRunning then return (RequeueNeeded, None)
         else if status = ImageJobCompleted then do {
           idSet \<leftarrow> isImageIDSet E g;
           if idSet then return (RequeueNeeded, None)
           else onErr (deleteJob E j) (\<lambda>e. return (RequeueNeeded, Some e))
                  (return (ImageDeletedSuccessfully, None))
         } else if status = ImageJobFailed then
           onErr (deleteJob E j) (\<lambda>e. return (RequeueNeeded, Some e))
             (return (ImageDeletionFailed, None))
         else return (RequeueNeeded, None)
       })
     })"

text \<open>After a successful initialisation the generator is set.\<close>

definition withImageGenerator ::
  "env \<Rightarrow> (imageGenerator \<Rightarrow> (rstate, int \<times> goerr option) state) \<Rightarrow> (rstate, int \<times> goerr option) state" where
  "withImageGenerator E k = do {
     g \<leftarrow> gets ig;
     (case g of None \<Rightarrow> return (ImageCreationFailed, Some (GoPanic ''nil pointer dereference'')) | Some g \<Rightarrow> k g)
   }"

definition ImageCreate :: "env \<Rightarrow> kataconfig \<Rightarrow> (rstate, int \<times> goerr option) state" where
  "ImageCreate E kc =
     onErr (InitializeImageGenerator E)
       (\<lambda>e. return (ImageCreationFailed, Some (replaceErr ErrInitializingImageGenerator e)))
     (withImageGenerator E (\<lambda>g.
       if igProvider g = unsupportedCloudProvider
       then return (UnsupportedPodVMImageProvider, Some ErrUnsupportedCloudProvider)
       else onErr (validatePeerPodsConfigs E g)
         (\<lambda>e. return (ImageCreationFailed, Some (replaceErr ErrValidatingPeerPodsConfigs e)))
       (onErr (createImageConfigMapFromFile E g kc)
         (\<lambda>e. return (ImageCreationFailed, Some (replaceErr ErrCreatingImageConfigMap e)))
       (onErr (updateImageConfigMap E g)
         (\<lambda>e. return (ImageCreationFailed, Some (replaceErr ErrUpdatingImageConfigMap e)))
       (do {
          (status, err) \<leftarrow> imageCreateJobRunner E g kc;
          return (if err \<noteq> None then (ImageCreationFailed, err) else (status, None))
        })))))"

definition ImageDelete :: "env \<Rightarrow> kataconfig \<Rightarrow> (rstate, int \<times> goerr option) state" where
  "ImageDelete E kc =
     onErr (InitializeImageGenerator E)
       (\<lambda>e. return (ImageDeletionFailed, Some (replaceErr ErrInitializingImageGenerator e)))
     (withImageGenerator E (\<lambda>g.
       if igProvider g = unsupportedCloudProvider
       then return (UnsupportedPodVMImageProvider, Some ErrUnsupportedCloudProvider)
       else onErr (validatePeerPodsConfigs E g)
         (\<lambda>e. return (ImageDeletionFailed, Some (replaceErr ErrValidatingPeerPodsConfigs e)))
       (do {
          (status, err) \<leftarrow> imageDeleteJobRunner E g kc;
          return (if err \<noteq> None then (ImageDeletionFailed, err) else (status, None))
        })))"

section \<open>Frames\<close>

lemma emits_image_queries:
  "emits readOnly (newImageGenerator E)" "emits readOnly (getPeerPodsCM E)"
  "emits readOnly (isImageIDSet E g)" "emits readOnly (getImageID E g)"
  "emits readOnly (validatePeerPodsConfigs E g)" "emits readOnly (forDeletion E g j)"
  unfolding newImageGenerator_def getPeerPodsCM_def isImageIDSet_def getImageID_def
    validatePeerPodsConfigs_def forDeletion_def
  by (intro emits_intros; simp)+

lemmas image_query_emits [emits_intros] = emits_image_queries[THEN emits_mono]

lemma emits_InitializeImageGenerator: "emits readOnly (InitializeImageGenerator E)"
  unfolding InitializeImageGenerator_def by (intro emits_intros) simp_all

lemma emits_image_configMaps:
  "emits (writesOnly {KConfigMap}) (createImageConfigMapFromFile E g kc)"
  "emits (writesOnly {KConfigMap}) (updateImageConfigMap E g)"
  "emits (writesOnly {KConfigMap}) (createJobFromFile E g n kc)"
  unfolding createImageConfigMapFromFile_def updateImageConfigMap_def createJobFromFile_def
  by (intro emits_intros; auto intro: readOnly_writesOnly elim: writesOnly_mono)+

lemma emits_image_jobs:
  "emits (writesOnly {KJob}) (createJob E j)" "emits (writesOnly {KJob}) (deleteJob E j)"
  unfolding createJob_def deleteJob_def by (intro emits_intros; auto intro: readOnly_writesOnly elim: writesOnly_mono)+

lemma emits_checkJobStatus: "emits (writesOnly {KEvent}) (checkJobStatus E n ns)"
  unfolding checkJobStatus_def createJobEvent_def
  by (intro emits_intros) (auto intro: readOnly_writesOnly elim: writesOnly_mono)

lemmas image_emits = emits_InitializeImageGenerator emits_image_configMaps emits_image_jobs
  emits_checkJobStatus
lemmas image_emits_mono [emits_intros] = image_emits[THEN emits_mono]

lemma emits_jobRunners:
  "emits (writesOnly {KConfigMap, KJob, KEvent}) (imageCreateJobRunner E g kc)"
  "emits (writesOnly {KConfigMap, KJob, KEvent}) (imageDeleteJobRunner E g kc)"
  unfolding imageCreateJobRunner_def imageDeleteJobRunner_def
  by (intro emits_intros; auto intro: readOnly_writesOnly elim: writesOnly_mono)+

lemmas jobRunner_emits [emits_intros] = emits_jobRunners[THEN emits_mono]

lemma emits_ImageCreate: "emits (writesOnly {KConfigMap, KJob, KEvent}) (ImageCreate E kc)"
  and emits_ImageDelete: "emits (writesOnly {KConfigMap, KJob, KEvent}) (ImageDelete E kc)"
  unfolding ImageCreate_def ImageDelete_def withImageGenerator_def
  by (intro emits_intros; auto intro: readOnly_writesOnly elim: writesOnly_mono)+

lemmas image_ops_emits [emits_intros] = emits_ImageCreate[THEN emits_mono] emits_ImageDelete[THEN emits_mono]

lemma preserves_image_queries [preserves_intros]:
  assumes "\<And>s t. f (s\<lparr>trace := t\<rparr>) = f s"
  shows "preserves f (newImageGenerator E)" "preserves f (getPeerPodsCM E)"
    "preserves f (isImageIDSet E g)" "preserves f (getImageID E g)"
    "preserves f (validatePeerPodsConfigs E g)" "preserves f (forDeletion E g j)"
    "preserves f (createImageConfigMapFromFile E g kc)" "preserves f (updateImageConfigMap E g)"
    "preserves f (createJobFromFile E g n kc)" "preserves f (createJob E j)" "preserves f (deleteJob E j)"
  unfolding newImageGenerator_def getPeerPodsCM_def isImageIDSet_def getImageID_def
    validatePeerPodsConfigs_def forDeletion_def createImageConfigMapFromFile_def
    updateImageConfigMap_def createJobFromFile_def createJob_def deleteJob_def
  by (intro preserves_intros assms)+

lemma preserves_image_operations [preserves_intros]:
  assumes "\<And>s t. f (s\<lparr>trace := t\<rparr>) = f s" and "\<And>s c. f (eventCache_update c s) = f s"
  shows "preserves f (checkJobStatus E n ns)"
    "preserves f (imageCreateJobRunner E g kc)" "preserves f (imageDeleteJobRunner E g kc)"
  unfolding checkJobStatus_def createJobEvent_def imageCreateJobRunner_def imageDeleteJobRunner_def
  by (intro preserves_intros assms)+

lemma preserves_ImageOps [preserves_intros]:
  assumes "\<And>s t. f (s\<lparr>trace := t\<rparr>) = f s" and "\<And>s c. f (eventCache_update c s) = f s"
    and "\<And>s g. f (ig_update g s) = f s"
  shows "preserves f (ImageCreate E kc)" "preserves f (ImageDelete E kc)"
  unfolding ImageCreate_def ImageDelete_def InitializeImageGenerator_def withImageGenerator_def
  by (intro preserves_intros assms)+

section \<open>Outcomes of the image operations\<close>

text \<open>
  Reads of the image id in a call that started after \<open>n\<close> requests: \<open>idRead E g n t P\<close> says that a
  read of \<open>peer-pods-cm\<close> during the call answered with \<open>P\<close>.
\<close>

definition idRead ::
  "env \<Rightarrow> imageGenerator \<Rightarrow> nat \<Rightarrow> history \<Rightarrow> (goerr + string \<Rightarrow> bool) \<Rightarrow> bool" where
  "idRead E g n t P \<longleftrightarrow> (\<exists>h rest. t = h @ rest \<and> n \<le> length h \<and>
     P (map_sum id (\<lambda>cm. atKey (cmLookup cm) (CMimageIDKey g))
          (getConfigMap (apiOf E) h OperatorNamespace peerpodsCMName)))"

lemma idRead_grown: "grown s s' \<Longrightarrow> idRead E g n (trace s) P \<Longrightarrow> idRead E g n (trace s') P"
  unfolding grown_def idRead_def by (metis append.assoc)

lemma grown_length: "grown s s' \<Longrightarrow> length (trace s) \<le> length (trace s')"
  by (auto simp: grown_def)

lemma wp_isImageIDSet:
  assumes "n \<le> length (trace s)"
    and "\<And>s'. grown s s' \<Longrightarrow> idRead E g n (trace s') (\<lambda>r. \<exists>i. r = Inr i \<and> i \<noteq> []) \<Longrightarrow> Q True s'"
    and "\<And>s'. grown s s' \<Longrightarrow> idRead E g n (trace s') (\<lambda>r. \<exists>e. r = Inl e \<or> r = Inr []) \<Longrightarrow> Q False s'"
  shows "wp (isImageIDSet E g) Q s"
proof -
  let ?r = "getConfigMap (apiOf E) (trace s) OperatorNamespace peerpodsCMName"
  let ?s = "s\<lparr>trace := trace s @ [Ev (GetReq KConfigMap OperatorNamespace peerpodsCMName) (outcome ?r)]\<rparr>"
  have g: "grown s ?s" by (simp add: grown_def)
  show ?thesis
  proof (cases ?r)
    case (Inl e)
    have "Q False ?s"
      by (rule assms(3)[OF g]) (use assms(1) Inl in \<open>auto simp: idRead_def\<close>)
    then show ?thesis using Inl by (simp add: isImageIDSet_def getPeerPodsCM_def wp_simps)
  next
    case (Inr cm)
    have "Q True ?s" if "atKey (cmLookup cm) (CMimageIDKey g) \<noteq> []"
      by (rule assms(2)[OF g]) (use assms(1) Inr that in \<open>auto simp: idRead_def\<close>)
    moreover have "Q False ?s" if "atKey (cmLookup cm) (CMimageIDKey g) = []"
      by (rule assms(3)[OF g]) (use assms(1) Inr that in \<open>auto simp: idRead_def\<close>)
    ultimately show ?thesis using Inr
      by (cases "atKey (cmLookup cm) (CMimageIDKey g) = []")
        (simp_all add: isImageIDSet_def getPeerPodsCM_def wp_simps)
  qed
qed

text \<open>What a job runner may return.\<close>

definition createOutcome :: "env \<Rightarrow> imageGenerator \<Rightarrow> nat \<Rightarrow> int \<times> goerr option \<Rightarrow> rstate \<Rightarrow> bool" where
  "createOutcome E g n r s' \<longleftrightarrow> snd r = None \<longrightarrow>
     fst r \<in> {RequeueNeeded, ImageCreationFailed} \<or>
     fst r = ImageCreatedSuccessfully \<and> idRead E g n (trace s') (\<lambda>r. \<exists>i. r = Inr i \<and> i \<noteq> [])"

definition deleteOutcome :: "env \<Rightarrow> imageGenerator \<Rightarrow> nat \<Rightarrow> int \<times> goerr option \<Rightarrow> rstate \<Rightarrow> bool" where
  "deleteOutcome E g n r s' \<longleftrightarrow> snd r = None \<longrightarrow>
     fst r \<in> {RequeueNeeded, ImageDeletionFailed} \<or>
     fst r = ImageDeletedSuccessfully \<and> idRead E g n (trace s') (\<lambda>r. \<exists>e. r = Inl e \<or> r = Inr [])"

lemma outcome_return:
  "wp (return (st, Some e)) (createOutcome E g n) s"
  "wp (return (RequeueNeeded, None)) (createOutcome E g n) s"
  "wp (return (ImageCreationFailed, None)) (createOutcome E g n) s"
  "wp (return (st, Some e)) (deleteOutcome E g n) s"
  "wp (return (RequeueNeeded, None)) (deleteOutcome E g n) s"
  "wp (return (ImageDeletionFailed, None)) (deleteOutcome E g n) s"
  by (simp_all add: wp_simps createOutcome_def deleteOutcome_def)

lemma finish_create:
  "idRead E g n (trace s) (\<lambda>r. \<exists>i. r = Inr i \<and> i \<noteq> []) \<Longrightarrow>
   wp (onErr (deleteJob E j) (\<lambda>e. return (RequeueNeeded, Some e)) (return (ImageCreatedSuccessfully, None)))
     (createOutcome E g n) s"
  by (rule wp_onErr_grown) (auto intro!: emits_intros outcome_return
      simp: wp_simps createOutcome_def dest: idRead_grown)

lemma finish_delete:
  "idRead E g n (trace s) (\<lambda>r. \<exists>e. r = Inl e \<or> r = Inr []) \<Longrightarrow>
   wp (onErr (deleteJob E j) (\<lambda>e. return (RequeueNeeded, Some e)) (return (ImageDeletedSuccessfully, None)))
     (deleteOutcome E g n) s"
  by (rule wp_onErr_grown) (auto intro!: emits_intros outcome_return
      simp: wp_simps deleteOutcome_def dest: idRead_grown)

lemma finish_failed:
  "wp (onErr (deleteJob E j) (\<lambda>e. return (RequeueNeeded, Some e)) (return (ImageCreationFailed, None)))
     (createOutcome E g n) s"
  "wp (onErr (deleteJob E j) (\<lambda>e. return (RequeueNeeded, Some e)) (return (ImageDeletionFailed, None)))
     (deleteOutcome E g n) s"
  by (rule wp_onErr_grown; auto intro!: emits_intros outcome_return)+

lemma wp_imageCreateJobRunner:
  assumes "n \<le> length (trace s)"
  shows "wp (imageCreateJobRunner E g kc) (createOutcome E g n) s"
  unfolding imageCreateJobRunner_def
  apply (rule wp_onInl_grown)
    apply (intro emits_intros; simp)
   apply (rule outcome_return)
  subgoal for j s1
    apply (subst wp_bind, rule wp_isImageIDSet[where n = n])
    using assms apply (auto dest: grown_length)[1]
     apply (simp add: finish_create)
    subgoal for s2
      by (simp only: if_False, intro wp_onErr_grown wp_bind_grown)
        (use assms in \<open>auto intro!: emits_intros outcome_return finish_failed finish_create
           wp_isImageIDSet[where n = n] simp: wp_bind split: prod.split dest!: grown_length\<close>)
    done
  done

lemma wp_imageDeleteJobRunner:
  assumes "n \<le> length (trace s)"
  shows "wp (imageDeleteJobRunner E g kc) (deleteOutcome E g n) s"
  unfolding imageDeleteJobRunner_def
  apply (rule wp_onInl_grown)
    apply (intro emits_intros; simp)
   apply (rule outcome_return)
  subgoal for j s1
    apply (subst wp_bind, rule wp_isImageIDSet[where n = n])
    using assms apply (auto dest: grown_length)[1]
    subgoal for s2
      by (simp only: not_True_eq_False if_False, intro wp_onErr_grown wp_bind_grown)
        (use assms in \<open>auto intro!: emits_intros outcome_return finish_failed finish_delete
           wp_isImageIDSet[where n = n] simp: wp_bind split: prod.split dest!: grown_length\<close>)
     apply (simp add: finish_delete)
    done
  done

text \<open>Both operations set up the generator and run a body that keeps it.\<close>

lemma wp_withImageGenerator:
  assumes "\<And>g. preserves ig (k g)" and "\<And>g. ig s = Some g \<Longrightarrow> wp (k g) (Q g) s"
    and "\<And>e s'. ig s' = None \<Longrightarrow> R (ImageCreationFailed, Some e) s'"
    and "\<And>g r s'. ig s' = Some g \<Longrightarrow> Q g r s' \<Longrightarrow> R r s'"
  shows "wp (withImageGenerator E k) R s"
proof (cases "ig s")
  case None
  then show ?thesis using assms(3) by (simp add: withImageGenerator_def wp_simps)
next
  case (Some g)
  have "wp (k g) (\<lambda>r s'. Q g r s' \<and> ig s' = ig s) s"
    by (rule wp_preserves[OF assms(1) assms(2)[OF Some]])
  then have "wp (k g) R s" by (rule wp_conseq) (use Some assms(4) in auto)
  then show ?thesis by (simp add: withImageGenerator_def wp_simps Some)
qed

definition imageOutcome ::
  "(env \<Rightarrow> imageGenerator \<Rightarrow> nat \<Rightarrow> int \<times> goerr option \<Rightarrow> rstate \<Rightarrow> bool) \<Rightarrow> env \<Rightarrow> nat \<Rightarrow>
   imageGenerator \<Rightarrow> int \<times> goerr option \<Rightarrow> rstate \<Rightarrow> bool" where
  "imageOutcome out E n g r s' \<longleftrightarrow> out E g n r s' \<and>
     (snd r \<noteq> None \<longrightarrow> fst r \<in> {ImageCreationFailed, UnsupportedPodVMImageProvider})"

lemma imageOutcome_error:
  "imageOutcome createOutcome E n g (ImageCreationFailed, Some e) s"
  "imageOutcome deleteOutcome E n g (ImageDeletionFailed, Some e) s"
  "imageOutcome createOutcome E n g (UnsupportedPodVMImageProvider, Some e) s"
  "imageOutcome deleteOutcome E n g (UnsupportedPodVMImageProvider, Some e) s"
  by (simp_all add: imageOutcome_def createOutcome_def deleteOutcome_def image_status_defs)

lemma imageOutcome_runner:
  "wp m (out E g n) s \<Longrightarrow> (\<And>st e s'. out E g n (st, Some e) s') \<Longrightarrow>
   wp (m \<bind> (\<lambda>(status, err). return (if err \<noteq> None then (ImageCreationFailed, err) else (status, None))))
     (imageOutcome out E n g) s"
  by (subst wp_bind, erule wp_conseq) (auto simp: wp_simps imageOutcome_def split: prod.split)

lemma wp_onErr_fail:
  "emits (\<lambda>_. True) m \<Longrightarrow> (\<And>e s'. Q (st, Some (f e)) s') \<Longrightarrow> (\<And>s'. grown s s' \<Longrightarrow> wp k Q s') \<Longrightarrow>
   wp (onErr m (\<lambda>e. return (st, Some (f e))) k) Q s"
  by (rule wp_onErr_grown) (simp_all add: wp_return)

lemma emits_any_image:
  "emits (\<lambda>_. True) (InitializeImageGenerator E)" "emits (\<lambda>_. True) (validatePeerPodsConfigs E g)"
  "emits (\<lambda>_. True) (createImageConfigMapFromFile E g kc)" "emits (\<lambda>_. True) (updateImageConfigMap E g)"
  by (intro emits_intros; simp)+

definition reportedBy ::
  "(env \<Rightarrow> imageGenerator \<Rightarrow> nat \<Rightarrow> int \<times> goerr option \<Rightarrow> rstate \<Rightarrow> bool) \<Rightarrow> env \<Rightarrow> nat \<Rightarrow>
   int \<times> goerr option \<Rightarrow> rstate \<Rightarrow> bool" where
  "reportedBy out E n r s' \<longleftrightarrow>
     snd r \<noteq> None \<and> fst r \<in> {ImageCreationFailed, UnsupportedPodVMImageProvider} \<or>
     (\<exists>g. ig s' = Some g \<and> imageOutcome out E n g r s')"

lemma reportedBy_error:
  "reportedBy out E n (ImageCreationFailed, Some e) s'" "reportedBy out E n (ImageDeletionFailed, Some e) s'"
  by (simp_all add: reportedBy_def image_status_defs)

lemma reportedBy_generator:
  assumes "\<And>g. preserves ig (k g)" and "\<And>g. wp (k g) (imageOutcome out E n g) s"
  shows "wp (withImageGenerator E k) (reportedBy out E n) s"
  by (rule wp_withImageGenerator[where Q = "imageOutcome out E n"])
    (use assms in \<open>auto simp: reportedBy_def\<close>)

lemma wp_unsupported:
  assumes "imageOutcome out E n g (UnsupportedPodVMImageProvider, Some ErrUnsupportedCloudProvider) s"
    and "wp m (imageOutcome out E n g) s"
  shows "wp (if b then return (UnsupportedPodVMImageProvider, Some ErrUnsupportedCloudProvider) else m)
    (imageOutcome out E n g) s"
  using assms by (simp add: wp_return)

lemma wp_ImageCreate: "wp (ImageCreate E kc) (reportedBy createOutcome E (length (trace s))) s"
  unfolding ImageCreate_def
  apply (rule wp_onErr_fail, rule emits_any_image(1), rule reportedBy_error(1))
  subgoal for s1
    apply (rule reportedBy_generator)
     apply (intro preserves_intros; simp)
    apply (rule wp_unsupported[OF imageOutcome_error(3)])
    apply (rule wp_onErr_fail, rule emits_any_image(2), rule imageOutcome_error(1))
    apply (rule wp_onErr_fail, rule emits_any_image(3), rule imageOutcome_error(1))
    apply (rule wp_onErr_fail, rule emits_any_image(4), rule imageOutcome_error(1))
    apply (rule imageOutcome_runner[OF wp_imageCreateJobRunner])
     apply (drule grown_length)+
     apply linarith
    by (simp add: createOutcome_def)
  done

lemma deletionFailed_eq: "ImageDeletionFailed = ImageCreationFailed"
  by (simp add: image_status_defs)

lemma wp_ImageDelete: "wp (ImageDelete E kc) (reportedBy deleteOutcome E (length (trace s))) s"
  unfolding ImageDelete_def
  apply (rule wp_onErr_fail, rule emits_any_image(1), rule reportedBy_error(2))
  subgoal for s1
    apply (rule reportedBy_generator)
     apply (intro preserves_intros; simp)
    apply (rule wp_unsupported[OF imageOutcome_error(4)])
    apply (rule wp_onErr_fail, rule emits_any_image(2), rule imageOutcome_error(2))
    apply (unfold deletionFailed_eq)
    apply (rule imageOutcome_runner[OF wp_imageDeleteJobRunner])
     apply (drule grown_length)+
     apply linarith
    by (simp add: deleteOutcome_def)
  done


section \<open>The image version\<close>

lemma digitChar_not_dot: "d < 10 \<Longrightarrow> digitChar d \<noteq> CHR ''.''"
  using digitValue_digitChar[of d] by (auto simp: digitValue_def Let_def)

lemma natDigits_no_dot: "CHR ''.'' \<notin> set (natDigits n)"
proof (induction n rule: natDigits.induct)
  case (1 n)
  then show ?case
    by (subst natDigits.simps) (use digitChar_not_dot[of "n mod 10"] digitChar_not_dot[of n] in auto)
qed

lemma replaceAll_natDigits: "replaceAll CHR ''.'' d (natDigits n) = natDigits n"
  unfolding replaceAll_def by (rule map_idI) (use natDigits_no_dot[of n] in auto)

text \<open>
  C37: The version of the image is a number of at most 31 bits, as Azure requires, followed by
  \<open>.0.1\<close>: its decimal digits parse back to that number without overflow of 32 bits. The three
  providers that take a version get exactly this one, GCP with dashes for the dots, and the
  other keys of the image ConfigMap are kept except that Azure's empty gallery name is filled in.
\<close>

theorem image_version_in_range:
  "\<exists>n \<le> 2147483647. imageVersionFor g = natDigits n @ ''.0.1'' \<and>
     ParseUint 10 32 (natDigits n) = Some n \<and>
     setImageValues (g\<lparr>igProvider := AWSProvider\<rparr>) (Some d) =
       Inr (Some (d(''AMI_VERSION'' \<mapsto> natDigits n @ ''.0.1''))) \<and>
     setImageValues (g\<lparr>igProvider := GCPProvider\<rparr>) (Some d) =
       Inr (Some (d(''IMAGE_VERSION'' \<mapsto> natDigits n @ ''-0-1''))) \<and>
     setImageValues (g\<lparr>igProvider := AzureProvider\<rparr>) (Some d) =
       Inr (Some ((if atKey d ''IMAGE_GALLERY_NAME'' = []
                   then d(''IMAGE_GALLERY_NAME'' \<mapsto> ''PodVMGallery_'' @ igClusterId g) else d)
                  (''IMAGE_VERSION'' \<mapsto> natDigits n @ ''.0.1'')))"
proof -
  define n where "n = (case ParseUint 16 32 (igClusterId g) of None \<Rightarrow> 0 | Some m \<Rightarrow> m mod 2147483648)"
  have bound: "n \<le> 2147483647"
    by (auto simp: n_def split: option.split)
  have "natDigits 0 = ''0''" by code_simp
  then have version: "imageVersionFor g = natDigits n @ ''.0.1''"
    by (simp add: imageVersionFor_def n_def split: option.split)
  have same: "imageVersionFor (g\<lparr>igProvider := p\<rparr>) = imageVersionFor g" for p
    by (simp add: imageVersionFor_def)
  have dashes: "replaceAll CHR ''.'' CHR ''-'' (natDigits n @ ''.0.1'') = natDigits n @ ''-0-1''"
    using replaceAll_natDigits[of "CHR ''-''" n] by (simp add: replaceAll_def)
  have "ParseUint 10 32 (natDigits n) = Some n"
    by (rule ParseUint_natDigits) (use bound in simp)
  then show ?thesis
    by (intro exI[of _ n] conjI bound version)
      (simp_all add: setImageValues_def Let_def same version dashes provider_defs fun_upd_twist)
qed

section \<open>Validation\<close>

text \<open>
  What each provider needs: the alternatives for the keys of the secret, and the keys of the
  ConfigMap.
\<close>

definition requirements :: "(string \<times> string list list \<times> string list) list" where
  "requirements = [
     (AWSProvider, [[''AWS_ACCESS_KEY_ID'', ''AWS_SECRET_ACCESS_KEY''],
                    [''AWS_ROLE_ARN'', ''AWS_WEB_IDENTITY_TOKEN_FILE'']],
        [''AWS_REGION'', ''AWS_SUBNET_ID'', ''AWS_VPC_ID'', ''AWS_SG_IDS'', ''CLOUD_PROVIDER'']),
     (AzureProvider,
        [[''AZURE_TENANT_ID'', ''AZURE_CLIENT_ID'', ''AZURE_SUBSCRIPTION_ID'', ''AZURE_CLIENT_SECRET''],
         [''AZURE_TENANT_ID'', ''AZURE_CLIENT_ID'', ''AZURE_SUBSCRIPTION_ID'', ''AZURE_FEDERATED_TOKEN_FILE'']],
        [''AZURE_RESOURCE_GROUP'', ''AZURE_REGION'', ''CLOUD_PROVIDER'']),
     (GCPProvider, [[''GCP_CREDENTIALS''], [''GCP_WIF_CREDENTIALS'']],
        [''GCP_PROJECT_ID'', ''GCP_ZONE'', ''CLOUD_PROVIDER'']),
     (LibvirtProvider, [[''CLOUD_PROVIDER'', ''LIBVIRT_URI'']],
        [''CLOUD_PROVIDER'', ''LIBVIRT_POOL'', ''LIBVIRT_VOL_NAME'', ''LIBVIRT_DIR_NAME'']),
     (IBMCloudProvider, [[''IBMCLOUD_IAM_PROFILE_ID''], [''IBMCLOUD_API_KEY'']], [''CLOUD_PROVIDER''])]"

definition allSet :: "labels \<Rightarrow> string list \<Rightarrow> bool" where
  "allSet m ks = list_all (\<lambda>k. atKey m k \<noteq> []) ks"

definition meetsRequirements :: "string \<Rightarrow> labels \<Rightarrow> labels \<Rightarrow> bool" where
  "meetsRequirements provider sec cm =
     list_ex (\<lambda>(p, alternatives, keys).
        p = provider \<and> list_ex (allSet sec) alternatives \<and> allSet cm keys) requirements"

lemma keyPresent_iff: "(m k \<noteq> None \<and> m k \<noteq> Some []) \<longleftrightarrow> atKey m k \<noteq> []"
  by (auto simp: atKey_def split: option.split)

lemma checkKeys_iff:
  "ks \<noteq> [] \<Longrightarrow> checkKeysPresentAndNotEmpty data ks \<longleftrightarrow> allSet (case data of None \<Rightarrow> Map.empty | Some d \<Rightarrow> d) ks"
  "checkAnyKeyPresentWithValue data ks \<longleftrightarrow>
     list_ex (\<lambda>k. atKey (case data of None \<Rightarrow> Map.empty | Some d \<Rightarrow> d) k \<noteq> []) ks"
  unfolding checkKeysPresentAndNotEmpty_def checkAnyKeyPresentWithValue_def keyPresent_iff allSet_def
  by (auto split: option.split simp: atKey_def list_all_iff list_ex_iff neq_Nil_conv)

lemma secretThenConfigMap_iff:
  "(if \<not> a then Some e else if \<not> b then Some f else None) = None \<longleftrightarrow> a \<and> b"
  by simp

lemma meetsRequirements_simps:
  "meetsRequirements provider sec cm \<longleftrightarrow>
     list_ex (\<lambda>(p, alternatives, keys). list_ex (allSet sec) alternatives \<and> allSet cm keys)
       (filter (\<lambda>r. fst r = provider) requirements)"
  by (auto simp: meetsRequirements_def list_ex_iff)

lemma validateFor_iff:
  "validateFor provider (Some sec) (cmData cm) = None \<longleftrightarrow> meetsRequirements provider sec (cmLookup cm)"
proof -
  consider "provider = ''aws''" | "provider = ''azure''" | "provider = ''gcp''" | "provider = ''libvirt''"
    | "provider = ''ibmcloud''"
    | "list_all (\<lambda>p. p \<noteq> provider \<and> provider \<noteq> p) [''aws'', ''azure'', ''gcp'', ''libvirt'', ''ibmcloud'']"
    by auto
  then show ?thesis
    by cases (simp_all add: validateFor_def meetsRequirements_simps requirements_def Let_def
        cmLookup_def checkKeys_iff provider_defs secretThenConfigMap_iff allSet_def
        del: if_split)
qed

text \<open>
  C30: Validation of the peer-pods configuration is exactly the table of requirements: it succeeds
  if and only if the ConfigMap and the secret are there and hold, for the generator's provider,
  one of the alternative sets of credentials and all the settings, each with a nonempty value;
  an unsupported provider never passes. Nothing is written.
\<close>

theorem validatePeerPodsConfigs_iff:
  "(result (validatePeerPodsConfigs E g) s = None \<longleftrightarrow>
     (\<exists>cm sec.
        getConfigMap (apiOf E) (trace s) OperatorNamespace ''peer-pods-cm'' = Inr cm \<and>
        getSecret (apiOf E) (trace s @ [Ev (GetReq KConfigMap OperatorNamespace ''peer-pods-cm'') None])
          OperatorNamespace ''peer-pods-secret'' = Inr sec \<and>
        meetsRequirements (igProvider g) (secData sec) (cmLookup cm))) \<and>
   emits readOnly (validatePeerPodsConfigs E g)"
proof
  show "emits readOnly (validatePeerPodsConfigs E g)" by (rule emits_image_queries(5))
next
  show "result (validatePeerPodsConfigs E g) s = None \<longleftrightarrow>
     (\<exists>cm sec.
        getConfigMap (apiOf E) (trace s) OperatorNamespace ''peer-pods-cm'' = Inr cm \<and>
        getSecret (apiOf E) (trace s @ [Ev (GetReq KConfigMap OperatorNamespace ''peer-pods-cm'') None])
          OperatorNamespace ''peer-pods-secret'' = Inr sec \<and>
        meetsRequirements (igProvider g) (secData sec) (cmLookup cm))"
    by (simp add: result_def validatePeerPodsConfigs_def getPeerPodsCM_def getPeerPodsSecret_def
        peerpodsCMName_def peerPodsSecretName_def onInl_def validateFor_iff split: sum.split)
qed

end
