(* ===== verification/Confidential.thy ===== *)
theory Confidential
  imports Runtime_Classes Image_Generator
begin

text \<open>
  \<^verbatim>\<open>controllers/confidential_handler.go\<close>: the confidential-computing feature. For peer pods it sets
  the image ConfigMap and the peer-pods ConfigMap, on bare metal it detects the trusted execution
  environment of the nodes and creates or deletes the two confidential RuntimeClasses. The lemmas
  show when detection succeeds, which RuntimeClass requests are made, and that disabling the
  feature restores the non-confidential settings.
\<close>

section \<open>Constants\<close>

definition intelTDXNodeLabel :: string where
  "intelTDXNodeLabel = ''intel.feature.node.kubernetes.io/tdx''"
definition amdSNPNodeLabel :: string where
  "amdSNPNodeLabel = ''amd.feature.node.kubernetes.io/snp''"
definition ibmSENodeLabel :: string where
  "ibmSENodeLabel = ''ibm.feature.node.kubernetes.io/se''"

lemmas teeLabel_defs = intelTDXNodeLabel_def amdSNPNodeLabel_def ibmSENodeLabel_def

definition nvidiaGPUCCNodeLabels :: labels where
  "nvidiaGPUCCNodeLabels = [''nvidia.com/cc.mode.state'' \<mapsto> ''on'', ''nvidia.com/cc.ready.state'' \<mapsto> ''true'']"

text \<open>The INITDATA value of non-confidential peer pods, base64 of a gzipped policy.\<close>

definition defaultNonCCInitdata :: string where
  "defaultNonCCInitdata = ''H4sIAAAAAAAAA42UwW7bMAyG734KwT3ktKDDehgG9NAl2VZgWQw7bQ7DMDAWYxOVRU+i03pPP7lGhx0muwddyE8U+ZPUhdrX5BVZEg0C6kQG1SN4VToEQa2OvZIaFfvyDbfoQNglYCp2JHWjrlXqa3j3/ipNzug8sR1Ml8u3y8s0Sb4PIX8kKcBSuDFp8C0Wi2Q4SdqyobJfOqz4xdFC+QAVqnCs/ByBJNF4gs6IutH6Js++IVX1kZ3P8VeHXtSHayWuw3+x4hHamHtl2GMhmmyU4Lb/FGSI+p+VWbEVIItuGivA6iM/xaB1MDruZ6jNE5aZ4xJ9tOrPKFsUR+UUsdttN+cgbRQZrGsMdZlomK/k5dYKuhOEfKaonDuJE1tsvrC0pqs+9qG2Y1TunTVB5lV2F27EmAw6P9+RrDPmtgnDFQNyBF1I6Fv0oRwbPs+/NGKFgMF7ckJ88kUNDrfcWYlKkqNH1HmYBW7WeJ7AumY+hwJl7GeYwj010aIDlz1vWhSgyoKZmb9Qq5P5nAZq76AkW00w4l8RiduZQHvpD8OWe/odLf6u1a/Z5RHbtDU24Qs0020c4b87Mo1NL8kBSGaEP4SPGP8/tMOX+geD8J3Z4AUAAA==''"


section \<open>Peer pods\<close>

definition confidentialImageConfig ::
  "env \<Rightarrow> featureGateState \<Rightarrow> imageGenerator \<Rightarrow> kataconfig \<Rightarrow> ('z, goerr option) op" where
  "confidentialImageConfig E state g kc =
     (if igProvider g = unsupportedCloudProvider then return None
      else do {
        idSet \<leftarrow> isImageIDSet E g;
        if idSet then return None
        else if state = Enabled then
          onErr (createImageConfigMapFromFile E g kc) (\<lambda>e. return (Some e))
            (updateConfigMap E (getImageConfigMapName g) OperatorNamespace
               [(''CONFIDENTIAL_COMPUTE_ENABLED'', ''yes'')] [])
        else
          onErr (updateConfigMap E (getImageConfigMapName g) OperatorNamespace
               [(''CONFIDENTIAL_COMPUTE_ENABLED'', ''no'')] [])
            (\<lambda>e. if IsNotFound e then return None else return (Some e)) (return None)
      })"

definition peerPodsCMChanges ::
  "featureGateState \<Rightarrow> (string \<times> string) list \<times> (string \<times> string) list" where
  "peerPodsCMChanges state =
     (if state = Enabled
      then ([(''DISABLECVM'', ''false'')], [(''INITDATA'', defaultNonCCInitdata)])
      else ([(''DISABLECVM'', ''true''), (''INITDATA'', defaultNonCCInitdata)], []))"

definition handleConfidentialPeerPods ::
  "env \<Rightarrow> featureGateState \<Rightarrow> (rstate, goerr option) state" where
  "handleConfidentialPeerPods E state =
     onErr (InitializeImageGenerator E) (\<lambda>e. return (Some e)) (do {
       g \<leftarrow> gets ig;
       kc \<leftarrow> gets kataConfig;
       (case g of
          None \<Rightarrow> return (Some (GoPanic ''nil pointer dereference''))
        | Some g \<Rightarrow>
            onErr (confidentialImageConfig E state g kc) (\<lambda>e. return (Some e))
              (case peerPodsCMChanges state of (newData, keysToRemove) \<Rightarrow>
                 onErr (updateConfigMap E peerpodsCMName OperatorNamespace newData keysToRemove)
                   (\<lambda>e. if IsNotFound e then return None else return (Some e)) (return None)))
     })"

section \<open>Bare metal\<close>

record teeFlags =
  hasIntelTDX :: bool
  hasAmdSNP :: bool
  hasIbmSE :: bool

text \<open>The loop over the nodes.\<close>

definition nodeTEE :: "node \<Rightarrow> teeFlags \<Rightarrow> teeFlags" where
  "nodeTEE n f =
     (let has = (\<lambda>l. nodeLabels n l = Some ''true'')
      in \<lparr>hasIntelTDX = (has intelTDXNodeLabel \<or> hasIntelTDX f),
          hasAmdSNP = (has amdSNPNodeLabel \<or> hasAmdSNP f),
          hasIbmSE = (has ibmSENodeLabel \<or> hasIbmSE f)\<rparr>)"

definition noTEE :: teeFlags where
  "noTEE = \<lparr>hasIntelTDX = False, hasAmdSNP = False, hasIbmSE = False\<rparr>"

definition teeOfNodes :: "node list \<Rightarrow> teeFlags" where
  "teeOfNodes nodes = fold nodeTEE nodes noTEE"

definition teeCount :: "teeFlags \<Rightarrow> nat" where
  "teeCount f = (if hasIntelTDX f then 1 else 0) + (if hasAmdSNP f then 1 else 0) +
     (if hasIbmSE f then 1 else 0)"

definition decideTEE :: "teeFlags \<Rightarrow> goerr + teeFlags" where
  "decideTEE f =
     (if teeCount f = 0 then Inl (Errorf ''no TEE platform labels found'')
      else if teeCount f \<ge> 2
           then Inl (Errorf ''multiple TEE platforms detected; only one per cluster supported'')
      else Inr f)"

definition computeTEE :: "env \<Rightarrow> (rstate, goerr + teeFlags) state" where
  "computeTEE E =
     onInl (getKataConfigNodeSelectorAsSelector E)
       (\<lambda>e. return (Inl (Wrapf ''failed to build node selector: '' e)))
     (\<lambda>selector. onInl (listNodesOp E (bySelector selector))
       (\<lambda>e. return (Inl (Wrapf ''failed to list nodes: '' e)))
     (\<lambda>nodes. return (decideTEE (teeOfNodes nodes))))"

definition teeNodeLabels :: "teeFlags \<Rightarrow> labels" where
  "teeNodeLabels f =
     (if hasIntelTDX f then [intelTDXNodeLabel \<mapsto> ''true'']
      else if hasAmdSNP f then [amdSNPNodeLabel \<mapsto> ''true'']
      else if hasIbmSE f then [ibmSENodeLabel \<mapsto> ''true''] else Map.empty)"

definition teeExtendedResource :: "teeFlags \<Rightarrow> string" where
  "teeExtendedResource f =
     (if hasIntelTDX f then ''tdx.intel.com/keys''
      else if hasAmdSNP f then ''sev-snp.amd.com/esids'' else [])"

definition teeHandler :: "teeFlags \<Rightarrow> string" where
  "teeHandler f =
     (if hasIntelTDX f then ''kata-tdx'' else if hasAmdSNP f then ''kata-snp''
      else if hasIbmSE f then ''kata-se'' else [])"

definition kataCCRequest :: "teeFlags \<Rightarrow> rcRequest" where
  "kataCCRequest f = \<lparr>rcName = kataCCRuntimeClassName, cpuOverhead = ''0.25'',
     memoryOverhead = ''350Mi'', extResOverhead = teeExtendedResource f, rcHandler = teeHandler f,
     additionalNodeLabels = teeNodeLabels f\<rparr>"

text \<open>
  The request for \<open>kata-cc-nvidia-gpu\<close>: the handler and the extended resource are reassigned only
  for Intel and AMD, so on IBM Secure Execution they keep the values of \<open>kata-cc\<close>.
\<close>

definition kataCCGPURequest :: "teeFlags \<Rightarrow> rcRequest" where
  "kataCCGPURequest f = \<lparr>rcName = kataNvidiaGPUCCRuntimeClassName, cpuOverhead = ''0.25'',
     memoryOverhead = ''350Mi'', extResOverhead = teeExtendedResource f,
     rcHandler = (if hasIntelTDX f then ''kata-tdx-nvidia-gpu''
                  else if hasAmdSNP f then ''kata-snp-nvidia-gpu'' else teeHandler f),
     additionalNodeLabels =
       (if hasIntelTDX f \<or> hasAmdSNP f
        then mapsCopy (mapsCopy nvidiaGPUNodeLabels nvidiaGPUCCNodeLabels) (teeNodeLabels f)
        else Map.empty)\<rparr>"

definition handleConfidentialBaremetal ::
  "env \<Rightarrow> featureGateState \<Rightarrow> (rstate, goerr option) state" where
  "handleConfidentialBaremetal E state =
     (if state = Enabled then
        onInl (computeTEE E)
          (\<lambda>err. do {
             peerPods \<leftarrow> gets (\<lambda>s. EnablePeerPods (Spec (kataConfig s)));
             if peerPods then return None else return (Some err)
           })
          (\<lambda>f. onErr (createRuntimeClass E (kataCCRequest f)) (\<lambda>e. return (Some e))
                 (onErr (createRuntimeClass E (kataCCGPURequest f)) (\<lambda>e. return (Some e))
                   (return None)))
      else
        onErr (deleteRuntimeClass E kataCCRuntimeClassName)
          (\<lambda>e. return (Some (Wrapf (''Error deleting '' @ kataCCRuntimeClassName @ '' runtime class: '') e)))
        (onErr (deleteRuntimeClass E kataNvidiaGPUCCRuntimeClassName)
          (\<lambda>e. return (Some (Wrapf (''Error deleting '' @ kataNvidiaGPUCCRuntimeClassName @
             '' runtime class: '') e)))
          (return None)))"

definition handleFeatureConfidential ::
  "env \<Rightarrow> featureGateState \<Rightarrow> (rstate, goerr option) state" where
  "handleFeatureConfidential E state = do {
     peerPods \<leftarrow> gets (\<lambda>s. EnablePeerPods (Spec (kataConfig s)));
     onErr (if peerPods then handleConfidentialPeerPods E state else return None)
       (\<lambda>e. return (Some e))
       (handleConfidentialBaremetal E state)
   }"

section \<open>Frames\<close>

lemma emits_computeTEE: "emits readOnly (computeTEE E)"
  unfolding computeTEE_def by (intro emits_intros) auto

lemma emits_confidentialImageConfig:
  "emits (writesOnly {KConfigMap}) (confidentialImageConfig E state g kc)"
  unfolding confidentialImageConfig_def
  by (intro emits_intros) (auto intro: readOnly_writesOnly elim: writesOnly_mono)

lemmas confidential_frames [emits_intros] =
  emits_computeTEE[THEN emits_mono] emits_confidentialImageConfig[THEN emits_mono]

lemma emits_handleConfidential:
  "emits (writesOnly {KConfigMap}) (handleConfidentialPeerPods E state)"
  "emits (writesOnly {KRuntimeClass}) (handleConfidentialBaremetal E state)"
  unfolding handleConfidentialPeerPods_def handleConfidentialBaremetal_def
  by (intro emits_intros; auto intro: readOnly_writesOnly elim: writesOnly_mono)+

lemmas handleConfidential_frames [emits_intros] = emits_handleConfidential[THEN emits_mono]

lemma emits_handleFeatureConfidential:
  "emits (writesOnly {KConfigMap, KRuntimeClass}) (handleFeatureConfidential E state)"
  unfolding handleFeatureConfidential_def
  by (intro emits_intros) (auto elim: writesOnly_mono)

lemmas handleFeatureConfidential_frame [emits_intros] = emits_handleFeatureConfidential[THEN emits_mono]

lemma preserves_confidential_queries [preserves_intros]:
  assumes "\<And>s t. f (s\<lparr>trace := t\<rparr>) = f s"
  shows "preserves f (computeTEE E)" "preserves f (confidentialImageConfig E state g kc)"
  unfolding computeTEE_def confidentialImageConfig_def by (intro preserves_intros assms)+

lemma preserves_handleFeatureConfidential [preserves_intros]:
  assumes "\<And>s t. f (s\<lparr>trace := t\<rparr>) = f s" and "\<And>s g. f (ig_update g s) = f s"
    and "\<And>s g. f (onStatus g s) = f s"
  shows "preserves f (handleFeatureConfidential E state)"
  unfolding handleFeatureConfidential_def handleConfidentialPeerPods_def
    handleConfidentialBaremetal_def InitializeImageGenerator_def
  by (intro preserves_intros assms)

section \<open>Detecting the platform\<close>

definition teePresent :: "node list \<Rightarrow> string \<Rightarrow> bool" where
  "teePresent nodes label = list_ex (\<lambda>n. nodeLabels n label = Some ''true'') nodes"

lemma fold_nodeTEE:
  "fold nodeTEE nodes f = \<lparr>hasIntelTDX = (hasIntelTDX f \<or> teePresent nodes intelTDXNodeLabel),
     hasAmdSNP = (hasAmdSNP f \<or> teePresent nodes amdSNPNodeLabel),
     hasIbmSE = (hasIbmSE f \<or> teePresent nodes ibmSENodeLabel)\<rparr>"
  by (induction nodes arbitrary: f) (auto simp: teePresent_def nodeTEE_def Let_def)

lemma teeOfNodes_eq:
  "teeOfNodes nodes = \<lparr>hasIntelTDX = teePresent nodes intelTDXNodeLabel,
     hasAmdSNP = teePresent nodes amdSNPNodeLabel, hasIbmSE = teePresent nodes ibmSENodeLabel\<rparr>"
  by (simp add: teeOfNodes_def fold_nodeTEE noTEE_def)

lemma teeCount_teeOfNodes:
  "teeCount (teeOfNodes nodes) =
     length (filter (teePresent nodes) [intelTDXNodeLabel, amdSNPNodeLabel, ibmSENodeLabel])"
  by (simp add: teeOfNodes_eq teeCount_def)

text \<open>The flags of a successful detection, and where they come from.\<close>

definition detectedTEE :: "env \<Rightarrow> teeFlags \<Rightarrow> bool" where
  "detectedTEE E f \<longleftrightarrow> (\<exists>h sel nodes. listNodes (apiOf E) h (bySelector sel) = Inr nodes \<and>
     f = teeOfNodes nodes \<and>
     length (filter (teePresent nodes) [intelTDXNodeLabel, amdSNPNodeLabel, ibmSENodeLabel]) = 1)"

lemma decideTEE_Inr: "decideTEE f = Inr g \<longleftrightarrow> g = f \<and> teeCount f = 1"
  by (auto simp: decideTEE_def)

lemma computeTEE_detects: "wp (computeTEE E) (\<lambda>r s'. \<forall>f. r = Inr f \<longrightarrow> detectedTEE E f) s"
proof -
  have "wp (onInl (listNodesOp E (bySelector selector))
       (\<lambda>e. return (Inl (Wrapf ''failed to list nodes: '' e)))
       (\<lambda>nodes. return (decideTEE (teeOfNodes nodes)))) (\<lambda>r s'. \<forall>f. r = Inr f \<longrightarrow> detectedTEE E f) s1"
    for selector and s1 :: rstate
    by (auto simp: wp_simps decideTEE_Inr teeCount_teeOfNodes detectedTEE_def)
  note inner = this
  show ?thesis unfolding computeTEE_def
    by (rule wp_onInl_grown[OF _ _ inner]) (auto intro!: emits_intros simp: wp_return)
qed

section \<open>Properties\<close>

lemma guarded_all: "guarded (\<lambda>h. P) m Q s \<Longrightarrow> list_all P (newEvents m s)"
  by (drule guarded_permitted) (simp add: permitted_const)

lemma emits_createRuntimeClass_requested:
  "emits (\<lambda>e. readOnly e \<or> (\<exists>rc. rcWrite rc (evRequest e) \<and> Name (rcMeta rc) = rcName q \<and>
     Handler rc = handlerFor E q)) (createRuntimeClass E q)" (is "emits ?P _")
  unfolding emits_def
proof
  fix s
  obtain new where "trace (exec (createRuntimeClass E q) s) = trace s @ new"
    and "permitted (\<lambda>h e. readOnly e \<or>
      (\<exists>rc. wantedRuntimeClass E (kataConfig s) q rc \<and> rcWrite rc (evRequest e))) (trace s) new"
    using createRuntimeClass_guarded[of E s q] by (auto simp: guarded_def)
  moreover from this(2) have "list_all ?P new"
    unfolding permitted_const
    by (rule list.pred_mono_strong) (auto dest: wantedRuntimeClass_fields)
  ultimately show "\<exists>new. trace (exec (createRuntimeClass E q) s) = trace s @ new \<and> list_all ?P new"
    by blast
qed

definition confidentialWrite :: "env \<Rightarrow> event \<Rightarrow> bool" where
  "confidentialWrite E e \<longleftrightarrow> (\<exists>f q rc. detectedTEE E f \<and> q \<in> {kataCCRequest f, kataCCGPURequest f} \<and>
     rcWrite rc (evRequest e) \<and> Name (rcMeta rc) = rcName q \<and> Handler rc = handlerFor E q)"

lemma guarded_confidential_class:
  assumes "detectedTEE E f" and "q \<in> {kataCCRequest f, kataCCGPURequest f}" and "\<And>r s'. Q r s'"
  shows "guarded (\<lambda>h e. readOnly e \<or> confidentialWrite E e) (createRuntimeClass E q) Q s"
proof (rule guarded_emits[OF emits_createRuntimeClass_requested])
  fix h :: history and e
  assume "readOnly e \<or> (\<exists>rc. rcWrite rc (evRequest e) \<and> Name (rcMeta rc) = rcName q \<and>
     Handler rc = handlerFor E q)"
  then show "readOnly e \<or> confidentialWrite E e"
    using assms(1,2) unfolding confidentialWrite_def by blast
qed (rule assms(3))


text \<open>What \<open>updateConfigMap\<close> makes of the data of \<open>peer-pods-cm\<close> for a state of the feature.\<close>

definition toggled :: "featureGateState \<Rightarrow> labels \<Rightarrow> labels option" where
  "toggled state d =
     (case setNewData (fst (peerPodsCMChanges state)) (Some d, False) of
        Inl _ \<Rightarrow> None
      | Inr c \<Rightarrow> fst (removeMatchingKeys (snd (peerPodsCMChanges state)) c))"

lemma defaultNonCCInitdata_nonempty: "defaultNonCCInitdata \<noteq> []"
  by (simp add: defaultNonCCInitdata_def)

lemma toggled_Enabled:
  "toggled Enabled d = Some ((if d ''INITDATA'' = Some defaultNonCCInitdata then d(''INITDATA'' := None) else d)
     (''DISABLECVM'' \<mapsto> ''false''))"
  by (auto simp: toggled_def peerPodsCMChanges_def setNewData_Some removeMatchingKeys_Some atKey_def
      fun_upd_twist split: option.splits)

lemma toggled_Disabled:
  "toggled Disabled d = Some (d(''DISABLECVM'' \<mapsto> ''true'', ''INITDATA'' \<mapsto> defaultNonCCInitdata))"
  using defaultNonCCInitdata_nonempty
  by (auto simp: toggled_def peerPodsCMChanges_def setNewData_Some removeMatchingKeys_Some atKey_def
      fun_upd_twist split: option.splits)


end
