(* ===== verification/Layered_Image.thy ===== *)
theory Layered_Image
  imports Utils
begin

text \<open>
  \<^verbatim>\<open>controllers/layered_image_handler.go\<close>: the layered-image feature. It decides at the start of a
  reconciliation which MachineConfig carries the installation: an existing one wins, otherwise an
  enabled feature builds the image MachineConfig from a ConfigMap and keeps it in the reconciler.
  The lemmas show what \<open>ImgMc\<close> is after each case and that the feature writes nothing.
\<close>

definition LayeredImageDeployCm :: string where "LayeredImageDeployCm = ''layered-image-deploy-cm''"
definition image_mc_name :: string where "image_mc_name = ''50-enable-sandboxed-containers-image''"
definition extension_mc_name :: string where
  "extension_mc_name = ''50-enable-sandboxed-containers-extension''"

definition isKataMachineConfig :: "kataconfig \<Rightarrow> machineConfig \<Rightarrow> bool" where
  "isKataMachineConfig kc mc \<longleftrightarrow> atKey (Labels (mcMeta mc)) ''app'' = Name (kcMeta kc) \<and>
     (Name (mcMeta mc) = extension_mc_name \<or> Name (mcMeta mc) = image_mc_name)"

definition getExistingMachineConfig :: "env \<Rightarrow> (rstate, goerr + machineConfig option) state" where
  "getExistingMachineConfig E = do {
     kc \<leftarrow> gets kataConfig;
     onInl (readOp (ListReq KMachineConfig) (listMachineConfigs (apiOf E)))
       (\<lambda>e. return (Inl e))
       (\<lambda>mcs. return (Inr (List.find (isKataMachineConfig kc) mcs)))
   }"

definition createMachineConfigFromConfigMap ::
  "env \<Rightarrow> configMap \<Rightarrow> (rstate, goerr + machineConfig) state" where
  "createMachineConfigFromConfigMap E cm =
     (case cmLookup cm ''osImageURL'' of
        None \<Rightarrow> return (Inl (Errorf ''osImageURL not found in ConfigMap''))
      | Some osImageURL \<Rightarrow>
     (case marshalIgnition (libOf E) \<lparr>ignVersion = ''3.2.0'', ignFiles = []\<rparr> of
        Inl e \<Rightarrow> return (Inl e)
      | Inr icb \<Rightarrow>
        onInl (getMcpName E) (\<lambda>e. return (Inl e)) (\<lambda>mcp. do {
          kc \<leftarrow> gets kataConfig;
          return (Inr \<lparr>mcMeta = (mkMeta image_mc_name OperatorNamespace)\<lparr>Labels :=
                [''machineconfiguration.openshift.io/role'' \<mapsto> mcp, ''app'' \<mapsto> Name (kcMeta kc)]\<rparr>,
             mcSpecOf = \<lparr>Extensions = [], mcConfigRaw = icb, OSImageURL = osImageURL,
               KernelArguments = (case cmLookup cm ''kernelArguments'' of
                 None \<Rightarrow> [] | Some args \<Rightarrow> fields args)\<rparr>\<rparr>)
        })))"

definition setImgMc :: "machineConfig option \<Rightarrow> (rstate, unit) state" where
  "setImgMc mc = modify (ImgMc_update (\<lambda>_. mc))"

definition handleLayeredImageDeploymentFeature ::
  "env \<Rightarrow> featureGateState \<Rightarrow> (rstate, goerr option) state" where
  "handleLayeredImageDeploymentFeature E state =
     onInl (getExistingMachineConfig E) (\<lambda>e. return (Some e)) (\<lambda>found.
       case found of
         Some mc \<Rightarrow> if Name (mcMeta mc) = image_mc_name
           then do { _ \<leftarrow> setImgMc (Some mc); return None } else return None
       | None \<Rightarrow>
           if state = Enabled then
             onInl (getCM E OperatorNamespace LayeredImageDeployCm) (\<lambda>e. return (Some e)) (\<lambda>cm.
             onInl (createMachineConfigFromConfigMap E cm)
               (\<lambda>e. do { _ \<leftarrow> setImgMc None; return (Some e) })
               (\<lambda>mc. do { _ \<leftarrow> setImgMc (Some mc); return None }))
           else do { _ \<leftarrow> setImgMc None; return None })"

section \<open>Frames\<close>

lemma emits_layered_queries:
  "emits readOnly (getExistingMachineConfig E)" "emits readOnly (createMachineConfigFromConfigMap E cm)"
  unfolding getExistingMachineConfig_def createMachineConfigFromConfigMap_def
  by (intro emits_intros; simp)+

lemmas layered_query_frames [emits_intros] = emits_layered_queries[THEN emits_mono]

lemma emits_handleLayeredImage: "emits readOnly (handleLayeredImageDeploymentFeature E state)"
  unfolding handleLayeredImageDeploymentFeature_def setImgMc_def
  by (intro emits_intros) auto

lemmas handleLayeredImage_frame [emits_intros] = emits_handleLayeredImage[THEN emits_mono]

lemma preserves_layered_queries [preserves_intros]:
  assumes "\<And>s t. f (s\<lparr>trace := t\<rparr>) = f s"
  shows "preserves f (getExistingMachineConfig E)" "preserves f (createMachineConfigFromConfigMap E cm)"
  unfolding getExistingMachineConfig_def createMachineConfigFromConfigMap_def
  by (intro preserves_intros assms)+

lemma preserves_handleLayeredImage [preserves_intros]:
  assumes "\<And>s t. f (s\<lparr>trace := t\<rparr>) = f s" and "\<And>s g. f (ImgMc_update g s) = f s"
  shows "preserves f (handleLayeredImageDeploymentFeature E state)"
  unfolding handleLayeredImageDeploymentFeature_def setImgMc_def
  by (intro preserves_intros assms)

section \<open>Which MachineConfig carries the installation\<close>

text \<open>A MachineConfig built from the ConfigMap.\<close>

definition builtFrom :: "kataconfig \<Rightarrow> configMap \<Rightarrow> machineConfig \<Rightarrow> bool" where
  "builtFrom kc cm mc \<longleftrightarrow> Name (mcMeta mc) = image_mc_name \<and>
     Labels (mcMeta mc) ''app'' = Some (Name (kcMeta kc)) \<and>
     cmLookup cm ''osImageURL'' = Some (OSImageURL (mcSpecOf mc)) \<and>
     list_all (\<lambda>a. a \<noteq> [] \<and> list_all (\<lambda>c. \<not> isSpace c) a) (KernelArguments (mcSpecOf mc)) \<and>
     concat (KernelArguments (mcSpecOf mc)) =
       filter (\<lambda>c. \<not> isSpace c) (atKey (cmLookup cm) ''kernelArguments'')"

lemma wp_createMachineConfigFromConfigMap:
  "wp (createMachineConfigFromConfigMap E cm)
     (\<lambda>r s'. (\<exists>e. r = Inl e) \<or> (\<exists>mc. r = Inr mc \<and> builtFrom (kataConfig s) cm mc)) s"
proof (cases "cmLookup cm ''osImageURL''")
  case None
  then show ?thesis by (simp add: createMachineConfigFromConfigMap_def wp_simps)
next
  case (Some url)
  show ?thesis
  proof (cases "marshalIgnition (libOf E) \<lparr>ignVersion = ''3.2.0'', ignFiles = []\<rparr>")
    case (Inl e)
    then show ?thesis by (simp add: createMachineConfigFromConfigMap_def Some wp_simps)
  next
    case (Inr icb)
    show ?thesis
      unfolding createMachineConfigFromConfigMap_def Some Inr sum.case option.case
      by (rule wp_onInl_keep[where f = kataConfig], intro preserves_intros)
        (simp_all add: wp_simps builtFrom_def Some fields_no_space fields_concat atKey_def
           split: option.split)
  qed
qed

text \<open>The outcome of the feature's handler, by the MachineConfigs in the cluster.\<close>

definition imgMcOutcome ::
  "env \<Rightarrow> featureGateState \<Rightarrow> rstate \<Rightarrow> goerr option \<Rightarrow> machineConfig option \<Rightarrow> bool" where
  "imgMcOutcome E state s r img =
     (case listMachineConfigs (apiOf E) (trace s) of
        Inl e \<Rightarrow> r = Some e \<and> img = ImgMc s
      | Inr mcs \<Rightarrow>
         (case filter (isKataMachineConfig (kataConfig s)) mcs of
            mc # _ \<Rightarrow> r = None \<and> img = (if Name (mcMeta mc) = image_mc_name then Some mc else ImgMc s)
          | [] \<Rightarrow>
              if state = Disabled then r = None \<and> img = None
              else if r = None then
                (\<exists>h cm mc. getConfigMap (apiOf E) h OperatorNamespace LayeredImageDeployCm = Inr cm \<and>
                   img = Some mc \<and> builtFrom (kataConfig s) cm mc)
              else img = ImgMc s \<or> img = None))"

lemma wp_setImgMc [wp_simps]: "wp (setImgMc m) Q s = Q () (s\<lparr>ImgMc := m\<rparr>)"
  by (simp add: setImgMc_def wp_simps)

lemma wp_getExistingMachineConfig [wp_simps]:
  "wp (getExistingMachineConfig E) Q s =
   (let r = listMachineConfigs (apiOf E) (trace s);
        s' = s\<lparr>trace := trace s @ [Ev (ListReq KMachineConfig) (outcome r)]\<rparr>
    in Q (case r of Inl e \<Rightarrow> Inl e | Inr mcs \<Rightarrow> Inr (List.find (isKataMachineConfig (kataConfig s)) mcs)) s')"
  by (auto simp: getExistingMachineConfig_def wp_simps Let_def split: sum.splits)

text \<open>
  C27: which MachineConfig a reconciliation installs with. A failing list changes nothing. The
  first MachineConfig labelled with the KataConfig's name and carrying one of the two well-known
  names wins whatever the feature gate says, and becomes \<open>ImgMc\<close> exactly when it is the image one.
  Without one, a disabled feature clears \<open>ImgMc\<close>; an enabled feature either succeeds with a
  MachineConfig built from a ConfigMap the server returned (its URL, its kernel arguments split at
  white space, nothing lost), or fails leaving \<open>ImgMc\<close> as it was or empty. Nothing is written.
\<close>

theorem layered_image_choice:
  "(case run_state (handleLayeredImageDeploymentFeature E state) s of
      (r, s') \<Rightarrow> imgMcOutcome E state s r (ImgMc s')) \<and>
   list_all readOnly (newEvents (handleLayeredImageDeploymentFeature E state) s)"
proof (rule conjI)
  show "list_all readOnly (newEvents (handleLayeredImageDeploymentFeature E state) s)"
    by (rule emits_newEvents(2)[OF emits_handleLayeredImage])
next
  have "wp (handleLayeredImageDeploymentFeature E state) (\<lambda>r s'. imgMcOutcome E state s r (ImgMc s')) s"
  proof (cases "listMachineConfigs (apiOf E) (trace s)")
    case (Inl e)
    then show ?thesis by (simp add: handleLayeredImageDeploymentFeature_def wp_simps imgMcOutcome_def)
  next
    case (Inr mcs)
    show ?thesis
    proof (cases "filter (isKataMachineConfig (kataConfig s)) mcs")
      case Nil
      then have "List.find (isKataMachineConfig (kataConfig s)) mcs = None"
        by (simp add: find_filter)
      then show ?thesis using Inr Nil
        by (cases state)
          (auto simp: handleLayeredImageDeploymentFeature_def wp_simps imgMcOutcome_def
             intro!: wp_conseq[OF wp_createMachineConfigFromConfigMap], blast)
    next
      case (Cons mc rest)
      then show ?thesis using Inr
        by (simp add: handleLayeredImageDeploymentFeature_def wp_simps imgMcOutcome_def find_filter)
    qed
  qed
  then show "case run_state (handleLayeredImageDeploymentFeature E state) s of
      (r, s') \<Rightarrow> imgMcOutcome E state s r (ImgMc s')"
    by (simp add: wp_run_state)
qed

end
