(* ===== verification/Feature_Gates.thy ===== *)
theory Feature_Gates
  imports Confidential Layered_Image
begin

text \<open>
  The feature gates read at the start of a reconciliation (\<^verbatim>\<open>controllers/fg_handler.go\<close>) and the
  deployment mode (\<^verbatim>\<open>controllers/deployment_mode_handler.go\<close>). The lemmas give the gate values for
  every content of the feature ConfigMap, the decision table of the deployment mode, and what
  \<open>processFeatureGates\<close> may write and in which mode it touches the layered image.
\<close>

section \<open>Deployment mode\<close>

definition MachineConfigOption :: string where "MachineConfigOption = ''MachineConfig''"
definition DaemonSetOption :: string where "DaemonSetOption = ''DaemonSet''"
definition DaemonSetFallbackOption :: string where "DaemonSetFallbackOption = ''DaemonSetFallback''"

lemmas deploymentOption_defs = MachineConfigOption_def DaemonSetOption_def DaemonSetFallbackOption_def

text \<open>\<open>%q\<close> of a printable string.\<close>

definition goQuote :: "string \<Rightarrow> string" where
  "goQuote s = CHR 0x22 # concat (map (\<lambda>c. if c = CHR 0x22 \<or> c = CHR 0x5C then [CHR 0x5C, c] else [c]) s)
     @ [CHR 0x22]"

definition ParseDeploymentModeOption :: "string \<Rightarrow> goerr + string" where
  "ParseDeploymentModeOption s =
     (if s = MachineConfigOption \<or> s = DaemonSetOption \<or> s = DaemonSetFallbackOption then Inr s
      else Inl (Errorf (''invalid DeploymentMode: '' @ goQuote s)))"

definition setDeploymentMode :: "deploymentMode \<Rightarrow> (rstate, unit) state" where
  "setDeploymentMode m = modify (DeploymentMode_update (\<lambda>_. m))"

definition handleDeploymentModeFeature :: "env \<Rightarrow> string \<Rightarrow> (rstate, goerr option) state" where
  "handleDeploymentModeFeature E mode =
     onInl (isMachineConfigAvailable E) (\<lambda>e. return (Some e)) (\<lambda>machineConfigAvailable.
       if mode = MachineConfigOption then
         (if \<not> machineConfigAvailable
          then return (Some (Errorf ''deployment mode is set to MachineConfig, but it's not available''))
          else do { _ \<leftarrow> setDeploymentMode MachineConfigMode; return None })
       else if mode = DaemonSetOption then
         do { _ \<leftarrow> setDeploymentMode DaemonSetMode; return None }
       else if mode = DaemonSetFallbackOption \<and> \<not> machineConfigAvailable then
         do { _ \<leftarrow> setDeploymentMode DaemonSetMode; return None }
       else do { _ \<leftarrow> setDeploymentMode MachineConfigMode; return None })"

section \<open>Gate values\<close>

definition ConfidentialFeatureGate :: string where "ConfidentialFeatureGate = ''confidential''"
definition LayeredImageDeployment :: string where "LayeredImageDeployment = ''layeredImageDeployment''"
definition DeploymentModeConfig :: string where "DeploymentModeConfig = ''deploymentMode''"

record featureGateStatus =
  fgConfidential :: bool
  fgLayeredImageDeployment :: bool
  fgDeploymentModeOption :: string

definition DefaultFeatureGates :: featureGateStatus where
  "DefaultFeatureGates = \<lparr>fgConfidential = False, fgLayeredImageDeployment = False,
     fgDeploymentModeOption = DaemonSetFallbackOption\<rparr>"

definition readConfidentialGate :: "configMap \<Rightarrow> featureGateStatus \<Rightarrow> featureGateStatus" where
  "readConfidentialGate cm fg =
     (case cmLookup cm ConfidentialFeatureGate of
        None \<Rightarrow> fg
      | Some value \<Rightarrow> (case ParseBool value of
          None \<Rightarrow> fg | Some confidential \<Rightarrow> fg\<lparr>fgConfidential := confidential\<rparr>))"

definition readLayeredImageGate :: "configMap \<Rightarrow> featureGateStatus \<Rightarrow> featureGateStatus" where
  "readLayeredImageGate cm fg =
     (case cmLookup cm LayeredImageDeployment of
        None \<Rightarrow> fg
      | Some value \<Rightarrow> (case ParseBool value of
          None \<Rightarrow> fg | Some layered \<Rightarrow> fg\<lparr>fgLayeredImageDeployment := layered\<rparr>))"

definition readDeploymentModeGate :: "configMap \<Rightarrow> featureGateStatus \<Rightarrow> featureGateStatus" where
  "readDeploymentModeGate cm fg =
     (case cmLookup cm DeploymentModeConfig of
        None \<Rightarrow> fg
      | Some value \<Rightarrow> (case ParseDeploymentModeOption value of
          Inl _ \<Rightarrow> fg | Inr mode \<Rightarrow> fg\<lparr>fgDeploymentModeOption := mode\<rparr>))"

text \<open>Both results of the function: the gate values, also next to an error.\<close>

definition NewFeatureGateStatus :: "env \<Rightarrow> ('z, featureGateStatus \<times> goerr option) op" where
  "NewFeatureGateStatus E =
     onInl (getCM E OperatorNamespace FgConfigMapName)
       (\<lambda>err. return (DefaultFeatureGates, if IsNotFound err then None else Some err))
       (\<lambda>cfgMap. return (readDeploymentModeGate cfgMap (readLayeredImageGate cfgMap
          (readConfidentialGate cfgMap DefaultFeatureGates)), None))"

definition statusChecker :: "string \<rightharpoonup> (featureGateStatus \<Rightarrow> bool)" where
  "statusChecker = [ConfidentialFeatureGate \<mapsto> fgConfidential,
     LayeredImageDeployment \<mapsto> fgLayeredImageDeployment]"

definition IsEnabled :: "featureGateStatus \<Rightarrow> string \<Rightarrow> bool" where
  "IsEnabled fg key = (case statusChecker key of Some checkStatus \<Rightarrow> checkStatus fg | None \<Rightarrow> False)"

text \<open>The second part of \<open>processFeatureGates\<close>: the deployment mode, then the layered image.\<close>

definition processModeAndImage :: "env \<Rightarrow> featureGateStatus \<Rightarrow> (rstate, goerr option) state" where
  "processModeAndImage E fgStatus =
     onErr (handleDeploymentModeFeature E (fgDeploymentModeOption fgStatus)) (\<lambda>e. return (Some e))
       (do {
          mode \<leftarrow> gets DeploymentMode;
          if mode = DaemonSetMode then return None
          else if IsEnabled fgStatus LayeredImageDeployment
          then handleLayeredImageDeploymentFeature E Enabled
          else handleLayeredImageDeploymentFeature E Disabled
        })"

definition processFeatureGates :: "env \<Rightarrow> (rstate, goerr option) state" where
  "processFeatureGates E = do {
     (fgStatus, err) \<leftarrow> NewFeatureGateStatus E;
     (case err of
        Some e \<Rightarrow> return (Some e)
      | None \<Rightarrow>
        onErr (if IsEnabled fgStatus ConfidentialFeatureGate then handleFeatureConfidential E Enabled
               else handleFeatureConfidential E Disabled)
          (\<lambda>e. return (Some e))
          (processModeAndImage E fgStatus))
   }"

section \<open>Frames\<close>

lemma emits_handleDeploymentMode: "emits readOnly (handleDeploymentModeFeature E mode)"
  unfolding handleDeploymentModeFeature_def setDeploymentMode_def by (intro emits_intros) auto

lemma emits_NewFeatureGateStatus: "emits readOnly (NewFeatureGateStatus E)"
  unfolding NewFeatureGateStatus_def by (intro emits_intros) (auto simp: readOnly_def)

lemmas gate_frames [emits_intros] =
  emits_handleDeploymentMode[THEN emits_mono] emits_NewFeatureGateStatus[THEN emits_mono]

lemma emits_processFeatureGates:
  "emits (writesOnly {KConfigMap, KRuntimeClass}) (processFeatureGates E)"
  unfolding processFeatureGates_def processModeAndImage_def
  by (intro emits_intros; auto intro: readOnly_writesOnly elim: writesOnly_mono)

lemmas processFeatureGates_frame [emits_intros] = emits_processFeatureGates[THEN emits_mono]

lemma preserves_gates [preserves_intros]:
  assumes "\<And>s t. f (s\<lparr>trace := t\<rparr>) = f s"
  shows "preserves f (NewFeatureGateStatus E)"
  unfolding NewFeatureGateStatus_def by (intro preserves_intros assms)

lemma preserves_handleDeploymentMode [preserves_intros]:
  assumes "\<And>s t. f (s\<lparr>trace := t\<rparr>) = f s" and "\<And>s g. f (DeploymentMode_update g s) = f s"
  shows "preserves f (handleDeploymentModeFeature E mode)"
  unfolding handleDeploymentModeFeature_def setDeploymentMode_def by (intro preserves_intros assms)

section \<open>Gate values and the deployment mode\<close>

text \<open>The spellings of true.\<close>

definition trueWords :: "string set" where
  "trueWords = {''1'', ''t'', ''T'', ''TRUE'', ''true'', ''True''}"

lemma ParseBool_True_iff: "ParseBool s = Some True \<longleftrightarrow> s \<in> trueWords"
  by (simp add: ParseBool_def trueWords_def)

lemma readConfidentialGate_default:
  "fgConfidential (readConfidentialGate cm DefaultFeatureGates) \<longleftrightarrow>
     cmLookup cm ConfidentialFeatureGate \<in> Some ` trueWords"
  by (auto simp: readConfidentialGate_def DefaultFeatureGates_def ParseBool_True_iff[symmetric]
      split: option.splits)

lemma readLayeredImageGate_default:
  "fgLayeredImageDeployment (readLayeredImageGate cm (readConfidentialGate cm DefaultFeatureGates)) \<longleftrightarrow>
     cmLookup cm LayeredImageDeployment \<in> Some ` trueWords"
  by (auto simp: readConfidentialGate_def readLayeredImageGate_def DefaultFeatureGates_def
      ParseBool_True_iff[symmetric] split: option.splits)

lemma gate_reads_independent [simp]:
  "fgConfidential (readLayeredImageGate cm fg) = fgConfidential fg"
  "fgConfidential (readDeploymentModeGate cm fg) = fgConfidential fg"
  "fgLayeredImageDeployment (readDeploymentModeGate cm fg) = fgLayeredImageDeployment fg"
  "fgDeploymentModeOption (readLayeredImageGate cm fg) = fgDeploymentModeOption fg"
  "fgDeploymentModeOption (readConfidentialGate cm fg) = fgDeploymentModeOption fg"
  by (simp_all add: readConfidentialGate_def readLayeredImageGate_def readDeploymentModeGate_def
      split: option.split sum.split)

lemma readDeploymentModeGate_option:
  "fgDeploymentModeOption (readDeploymentModeGate cm fg) =
     (if cmLookup cm DeploymentModeConfig \<in>
           Some ` {MachineConfigOption, DaemonSetOption, DaemonSetFallbackOption}
      then the (cmLookup cm DeploymentModeConfig) else fgDeploymentModeOption fg)"
  by (auto simp: readDeploymentModeGate_def ParseDeploymentModeOption_def split: option.splits)

lemma deploymentOptions_distinct [simp]:
  "MachineConfigOption \<noteq> DaemonSetOption" "DaemonSetOption \<noteq> MachineConfigOption"
  "MachineConfigOption \<noteq> DaemonSetFallbackOption" "DaemonSetFallbackOption \<noteq> MachineConfigOption"
  "DaemonSetOption \<noteq> DaemonSetFallbackOption" "DaemonSetFallbackOption \<noteq> DaemonSetOption"
  by (simp_all add: deploymentOption_defs)

lemma IsEnabled_simps [simp]:
  "IsEnabled fg ConfidentialFeatureGate = fgConfidential fg"
  "IsEnabled fg LayeredImageDeployment = fgLayeredImageDeployment fg"
  by (simp_all add: IsEnabled_def statusChecker_def ConfidentialFeatureGate_def LayeredImageDeployment_def)

text \<open>
  The feature gates, for every answer of the API server. Without the ConfigMap the defaults
  hold and there is no error; another failure is reported. With it, each boolean gate is on
  exactly when its key holds one of the spellings of true that \<open>strconv.ParseBool\<close> accepts
  (a missing or unreadable value is the default, off), a key other than the two gates is never
  enabled, and the deployment mode option is always one of the three legal ones: the ConfigMap's
  when legal, \<open>DaemonSetFallback\<close> otherwise.
\<close>

theorem feature_gate_values:
  "case getConfigMap (apiOf E) (trace s) OperatorNamespace FgConfigMapName of
     Inl e \<Rightarrow> result (NewFeatureGateStatus E) s =
       (DefaultFeatureGates, if IsNotFound e then None else Some e)
   | Inr cm \<Rightarrow> (case result (NewFeatureGateStatus E) s of (fg, err) \<Rightarrow>
       err = None \<and>
       (IsEnabled fg ''confidential'' \<longleftrightarrow> cmLookup cm ''confidential'' \<in> Some ` trueWords) \<and>
       (IsEnabled fg ''layeredImageDeployment'' \<longleftrightarrow>
          cmLookup cm ''layeredImageDeployment'' \<in> Some ` trueWords) \<and>
       (\<forall>key. \<not> (IsEnabled fg key \<and> key \<notin> {''confidential'', ''layeredImageDeployment''})) \<and>
       fgDeploymentModeOption fg =
         (if cmLookup cm ''deploymentMode'' = Some ''MachineConfig'' then ''MachineConfig''
          else if cmLookup cm ''deploymentMode'' = Some ''DaemonSet'' then ''DaemonSet''
          else ''DaemonSetFallback''))"
proof (cases "getConfigMap (apiOf E) (trace s) OperatorNamespace FgConfigMapName")
  case (Inl e)
  then show ?thesis by (simp add: NewFeatureGateStatus_def result_def onInl_def)
next
  case (Inr cm)
  let ?fg = "readDeploymentModeGate cm (readLayeredImageGate cm (readConfidentialGate cm DefaultFeatureGates))"
  have run: "result (NewFeatureGateStatus E) s = (?fg, None)"
    using Inr by (simp add: NewFeatureGateStatus_def result_def onInl_def)
  have other: "\<not> (IsEnabled ?fg key \<and> key \<notin> {''confidential'', ''layeredImageDeployment''})" for key
    by (auto simp: IsEnabled_def statusChecker_def ConfidentialFeatureGate_def LayeredImageDeployment_def
        split: if_splits)
  have mode: "fgDeploymentModeOption ?fg =
         (if cmLookup cm ''deploymentMode'' = Some ''MachineConfig'' then ''MachineConfig''
          else if cmLookup cm ''deploymentMode'' = Some ''DaemonSet'' then ''DaemonSet''
          else ''DaemonSetFallback'')"
    by (simp add: readDeploymentModeGate_option DefaultFeatureGates_def deploymentOption_defs
        DeploymentModeConfig_def image_iff del: set_simps)
  have "IsEnabled ?fg ''confidential'' = fgConfidential ?fg"
    "IsEnabled ?fg ''layeredImageDeployment'' = fgLayeredImageDeployment ?fg"
    using IsEnabled_simps[of ?fg]
    by (simp_all only: ConfidentialFeatureGate_def LayeredImageDeployment_def)
  then show ?thesis using other
    by (simp only: Inr sum.case run prod.case mode gate_reads_independent readConfidentialGate_default
        readLayeredImageGate_default ConfidentialFeatureGate_def LayeredImageDeployment_def) simp
qed

text \<open>The answer of the API server to the probe of the MachineConfig API, as the code reads it.\<close>

definition machineConfigProbe :: "env \<Rightarrow> history \<Rightarrow> goerr + bool" where
  "machineConfigProbe E h =
     (case probeKind (apiOf E) h KMachineConfig [] ''dummy-machine-config'' of
        None \<Rightarrow> Inr True
      | Some e \<Rightarrow> if IsNotFound e then Inr True else if IsNoMatchError e then Inr False else Inl e)"

lemma wp_isMachineConfigAvailable:
  "(\<And>s'. DeploymentMode s' = DeploymentMode s \<Longrightarrow> kataConfig s' = kataConfig s \<Longrightarrow>
      ImgMc s' = ImgMc s \<Longrightarrow> Q (machineConfigProbe E (trace s)) s') \<Longrightarrow>
   wp (isMachineConfigAvailable E) Q s"
  by (simp add: isMachineConfigAvailable_def crdAvailable_def wp_simps machineConfigProbe_def)

text \<open>The mode an option selects, or no mode when it asks for an API that is not there.\<close>

definition selectedMode :: "string \<Rightarrow> bool \<Rightarrow> deploymentMode option" where
  "selectedMode opt available =
     (if opt = DaemonSetOption \<or> (opt = DaemonSetFallbackOption \<and> \<not> available) then Some DaemonSetMode
      else if available \<or> opt \<noteq> MachineConfigOption then Some MachineConfigMode else None)"

lemma wp_handleDeploymentModeFeature:
  "wp (handleDeploymentModeFeature E opt)
     (\<lambda>r s'. ImgMc s' = ImgMc s \<and> (case machineConfigProbe E (trace s) of
          Inl e \<Rightarrow> r = Some e \<and> DeploymentMode s' = DeploymentMode s
        | Inr available \<Rightarrow> (case selectedMode opt available of
            Some m \<Rightarrow> r = None \<and> DeploymentMode s' = m
          | None \<Rightarrow> r \<noteq> None \<and> DeploymentMode s' = DeploymentMode s))) s"
  unfolding handleDeploymentModeFeature_def wp_onInl setDeploymentMode_def
  by (rule wp_isMachineConfigAvailable)
    (auto simp: wp_simps selectedMode_def split: sum.splits option.splits)

lemma wp_NewFeatureGateStatus:
  "wp (NewFeatureGateStatus E)
     (\<lambda>r s'. r = result (NewFeatureGateStatus E) s \<and> ImgMc s' = ImgMc s \<and>
        fgDeploymentModeOption (fst r) \<in> {MachineConfigOption, DaemonSetOption, DaemonSetFallbackOption}) s"
proof -
  have "wp (NewFeatureGateStatus E) (\<lambda>r s'. ImgMc s' = ImgMc s) s"
    by (simp add: NewFeatureGateStatus_def wp_simps)
  moreover have "wp (NewFeatureGateStatus E) (\<lambda>r s'. fgDeploymentModeOption (fst r) \<in>
      {MachineConfigOption, DaemonSetOption, DaemonSetFallbackOption}) s"
    by (auto simp: NewFeatureGateStatus_def wp_simps readDeploymentModeGate_option DefaultFeatureGates_def)
  ultimately show ?thesis by (simp add: wp_def)
qed

text \<open>The gate run from the choice of the mode on.\<close>

definition modeJustified :: "env \<Rightarrow> string \<Rightarrow> machineConfig option \<Rightarrow> rstate \<Rightarrow> bool" where
  "modeJustified E opt img s' = (case DeploymentMode s' of
      MachineConfigMode \<Rightarrow> (\<exists>h. machineConfigProbe E h = Inr True)
    | DaemonSetMode \<Rightarrow> ImgMc s' = img \<and> (\<exists>h avail. machineConfigProbe E h = Inr avail \<and>
        (opt = DaemonSetOption \<or> opt = DaemonSetFallbackOption \<and> \<not> avail))
    | UnknownMode _ \<Rightarrow> False)"

lemma selectedMode_justified:
  assumes "opt \<in> {MachineConfigOption, DaemonSetOption, DaemonSetFallbackOption}"
    and "machineConfigProbe E h = Inr avail"
    and "selectedMode opt avail = Some (DeploymentMode s')" and "ImgMc s' = img"
  shows "modeJustified E opt img s'"
  using assms by (cases avail) (auto simp: modeJustified_def selectedMode_def split: if_splits)

lemma wp_layered_keeps_mode:
  assumes "modeJustified E opt img s" and "DeploymentMode s \<noteq> DaemonSetMode"
  shows "wp (handleLayeredImageDeploymentFeature E state) (\<lambda>_. modeJustified E opt img) s"
proof -
  have "preserves DeploymentMode (handleLayeredImageDeploymentFeature E state)"
    by (intro preserves_intros) simp_all
  then have "DeploymentMode (exec (handleLayeredImageDeploymentFeature E state) s) = DeploymentMode s"
    by (rule preservesD)
  with assms show ?thesis by (auto simp: wp_def modeJustified_def split: deploymentMode.splits)
qed

lemma wp_processModeAndImage:
  assumes "fgDeploymentModeOption fg \<in> {MachineConfigOption, DaemonSetOption, DaemonSetFallbackOption}"
  shows "wp (processModeAndImage E fg)
    (\<lambda>r s'. r = None \<longrightarrow> modeJustified E (fgDeploymentModeOption fg) (ImgMc s) s') s"
proof -
  let ?J = "modeJustified E (fgDeploymentModeOption fg) (ImgMc s)"
  have "wp (handleDeploymentModeFeature E (fgDeploymentModeOption fg)) (\<lambda>r s'. r = None \<longrightarrow> ?J s') s"
    by (rule wp_conseq[OF wp_handleDeploymentModeFeature])
      (auto split: sum.splits option.splits intro: selectedMode_justified[OF assms])
  then show ?thesis unfolding processModeAndImage_def wp_onErr
    by (rule wp_conseq)
      (auto simp: wp_gets wp_bind wp_return wp_if intro: wp_conseq[OF wp_layered_keeps_mode])
qed

lemma wp_processFeatureGates:
  "wp (processFeatureGates E) (\<lambda>r s'. r = None \<longrightarrow>
     (\<exists>fg. result (NewFeatureGateStatus E) s = (fg, None) \<and>
        modeJustified E (fgDeploymentModeOption fg) (ImgMc s) s')) s"
proof -
  have step: "wp (onErr (if b then handleFeatureConfidential E Enabled else handleFeatureConfidential E Disabled)
          (\<lambda>e. return (Some e)) (processModeAndImage E fg))
       (\<lambda>r s'. r = None \<longrightarrow> modeJustified E (fgDeploymentModeOption fg) (ImgMc s1) s') s1"
    if "fgDeploymentModeOption fg \<in> {MachineConfigOption, DaemonSetOption, DaemonSetFallbackOption}"
    for b fg s1
  proof (rule wp_onErr_keep[where f = ImgMc])
    show "preserves ImgMc (if b then handleFeatureConfidential E Enabled else handleFeatureConfidential E Disabled)"
      by (intro preserves_intros) simp_all
  next
    fix s2 :: rstate assume "ImgMc s2 = ImgMc s1"
    with wp_processModeAndImage[OF that, of E s2]
    show "wp (processModeAndImage E fg)
      (\<lambda>r s'. r = None \<longrightarrow> modeJustified E (fgDeploymentModeOption fg) (ImgMc s1) s') s2" by simp
  qed (simp add: wp_simps)
  have body: "wp (case r of (fgStatus, err) \<Rightarrow> (case err of
        Some e \<Rightarrow> return (Some e)
      | None \<Rightarrow> onErr (if IsEnabled fgStatus ConfidentialFeatureGate then handleFeatureConfidential E Enabled
               else handleFeatureConfidential E Disabled)
          (\<lambda>e. return (Some e)) (processModeAndImage E fgStatus)))
     (\<lambda>x s'. x = None \<longrightarrow> (\<exists>fg. r = (fg, None) \<and> modeJustified E (fgDeploymentModeOption fg) (ImgMc s1) s')) s1"
    if "fgDeploymentModeOption (fst r) \<in> {MachineConfigOption, DaemonSetOption, DaemonSetFallbackOption}"
    for r s1
  proof (cases r)
    case (Pair fg err)
    then show ?thesis
      using step[of fg "IsEnabled fg ConfidentialFeatureGate" s1] that
      by (cases err) (simp_all add: wp_return del: IsEnabled_simps)
  qed
  show ?thesis unfolding processFeatureGates_def wp_bind
    by (rule wp_conseq[OF wp_NewFeatureGateStatus], elim conjE)
      (rule wp_conseq[OF body], simp_all del: IsEnabled_simps)
qed

text \<open>
  C23: the deployment mode after the feature gates, from any state of the reconciler, including a
  mode left by an earlier reconciliation. A successful run ends in MachineConfig or DaemonSet mode,
  never in another. Ending in MachineConfig mode, the API server was found to have the
  MachineConfig API; ending in DaemonSet mode, the image MachineConfig kept in the reconciler is
  untouched, and either the option is \<open>DaemonSet\<close> or the API is missing under
  \<open>DaemonSetFallback\<close>. Whatever the outcome, only ConfigMaps and RuntimeClasses are written.
\<close>

theorem feature_gates_mode:
  "(case run_state (processFeatureGates E) s of
      (Some e, s') \<Rightarrow> True
    | (None, s') \<Rightarrow> (\<exists>fg. result (NewFeatureGateStatus E) s = (fg, None) \<and>
        (case DeploymentMode s' of
           MachineConfigMode \<Rightarrow> (\<exists>h. machineConfigProbe E h = Inr True)
         | DaemonSetMode \<Rightarrow> ImgMc s' = ImgMc s \<and> (\<exists>h avail. machineConfigProbe E h = Inr avail \<and>
             (fgDeploymentModeOption fg = DaemonSetOption \<or>
              fgDeploymentModeOption fg = DaemonSetFallbackOption \<and> \<not> avail))
         | UnknownMode _ \<Rightarrow> False))) \<and>
   list_all (writesOnly {KConfigMap, KRuntimeClass}) (newEvents (processFeatureGates E) s)"
  using wp_processFeatureGates[of E s] emits_newEvents(2)[OF emits_processFeatureGates, of E s]
  by (auto simp: wp_run_state modeJustified_def split: prod.splits option.splits)

end
