(* ===== verification/Network_Policies.thy ===== *)
theory Network_Policies
  imports Cluster_Queries
begin

text \<open>
  \<^verbatim>\<open>controllers/networkpolicy.go\<close>: the policies of the operator's operands. Each operand has a
  function that ensures its policies and one that deletes them; the locale \<open>operand_policies\<close>
  states what the two promise each other and is interpreted for the six operands.
\<close>

section \<open>Ensuring and deleting policies\<close>

text \<open>The object handed to the mutate function has the name and namespace it was asked under.\<close>

definition ensureNetworkPolicy ::
  "env \<Rightarrow> string \<Rightarrow> labels \<Rightarrow> npSpec \<Rightarrow> (rstate, goerr option) state" where
  "ensureNetworkPolicy E name annotations spec = do {
     kc \<leftarrow> gets kataConfig;
     createOrUpdate E (GetReq KNetworkPolicy OperatorNamespace name)
       (\<lambda>h. mutableNetworkPolicy (apiOf E) h OperatorNamespace name) ONetworkPolicy
       (\<lambda>np. let m = (npMeta np)\<lparr>Name := name, Namespace := OperatorNamespace, Annotations := annotations\<rparr>
             in (case SetControllerReference E kc m of
                   Inl e \<Rightarrow> Inl e
                 | Inr m' \<Rightarrow> Inr (np\<lparr>npMeta := m', npSpecOf := spec\<rparr>)))
   }"

definition deleteNetworkPolicy :: "env \<Rightarrow> string \<Rightarrow> ('z, goerr option) op" where
  "deleteNetworkPolicy E name =
     onErr (writeOp E (DeleteReq KNetworkPolicy OperatorNamespace name))
       (\<lambda>err. if IsNotFound err then return None else return (Some err)) (return None)"

definition deleteNetworkPolicies :: "env \<Rightarrow> string list \<Rightarrow> ('z, goerr option) op" where
  "deleteNetworkPolicies E names = forEach (deleteNetworkPolicy E) names"

section \<open>Specs\<close>

definition defaultDenySpec :: "labels \<Rightarrow> npSpec" where
  "defaultDenySpec podSelector = \<lparr>npPodSelector = podSelector, npPolicyTypes = [''Ingress'', ''Egress''],
     npIngress = [], npEgress = []\<rparr>"

definition allowAllEgressSpec :: "labels \<Rightarrow> npSpec" where
  "allowAllEgressSpec podSelector = \<lparr>npPodSelector = podSelector, npPolicyTypes = [''Egress''],
     npIngress = [], npEgress = [\<lparr>npTo = [], npOutPorts = []\<rparr>]\<rparr>"

definition allowDNSEgressSpec :: "labels \<Rightarrow> npSpec" where
  "allowDNSEgressSpec podSelector = \<lparr>npPodSelector = podSelector, npPolicyTypes = [''Egress''],
     npIngress = [],
     npEgress = [\<lparr>npTo = [\<lparr>npNamespaceSelector = Some [''kubernetes.io/metadata.name'' \<mapsto> ''openshift-dns''],
                            npPeerPodSelector = None\<rparr>],
                  npOutPorts = [\<lparr>npProtocol = ''TCP'', npPortNumber = 5353\<rparr>,
                                \<lparr>npProtocol = ''UDP'', npPortNumber = 5353\<rparr>]\<rparr>]\<rparr>"

definition allowIngressSpec :: "labels \<Rightarrow> int \<Rightarrow> npSpec" where
  "allowIngressSpec podSelector port = \<lparr>npPodSelector = podSelector, npPolicyTypes = [''Ingress''],
     npIngress = [\<lparr>npFrom = [], npInPorts = [\<lparr>npProtocol = ''TCP'', npPortNumber = port\<rparr>]\<rparr>],
     npEgress = []\<rparr>"

definition allowHostNetworkIngressSpec :: "labels \<Rightarrow> int \<Rightarrow> npSpec" where
  "allowHostNetworkIngressSpec podSelector port =
     \<lparr>npPodSelector = podSelector, npPolicyTypes = [''Ingress''],
      npIngress = [\<lparr>npFrom = [\<lparr>npNamespaceSelector =
                                 Some [''policy-group.network.openshift.io/host-network'' \<mapsto> ''''],
                               npPeerPodSelector = None\<rparr>],
                    npInPorts = [\<lparr>npProtocol = ''TCP'', npPortNumber = port\<rparr>]\<rparr>],
      npEgress = []\<rparr>"

lemma np_specs_select [simp]:
  "npPodSelector (defaultDenySpec ls) = ls" "npPodSelector (allowAllEgressSpec ls) = ls"
  "npPodSelector (allowDNSEgressSpec ls) = ls" "npPodSelector (allowIngressSpec ls p) = ls"
  "npPodSelector (allowHostNetworkIngressSpec ls p) = ls"
  by (simp_all add: defaultDenySpec_def allowAllEgressSpec_def allowDNSEgressSpec_def
      allowIngressSpec_def allowHostNetworkIngressSpec_def)

section \<open>Operands\<close>

text \<open>\<open>if err := m; err != nil { return err }\<close> followed by \<open>k\<close>.\<close>

abbreviation andThen ::
  "('s, goerr option) state \<Rightarrow> ('s, goerr option) state \<Rightarrow> ('s, goerr option) state" where
  "andThen m k \<equiv> onErr m (\<lambda>e. return (Some e)) k"

definition createKataMonitorNetworkPolicies :: "env \<Rightarrow> (rstate, goerr option) state" where
  "createKataMonitorNetworkPolicies E =
     (let ls = [''name'' \<mapsto> ''openshift-sandboxed-containers-monitor'']
      in andThen (ensureNetworkPolicy E ''kata-monitor-deny-all'' Map.empty (defaultDenySpec ls))
        (andThen (ensureNetworkPolicy E ''kata-monitor-allow-metrics-ingress'' Map.empty
                    (allowIngressSpec ls 8443))
        (ensureNetworkPolicy E ''kata-monitor-allow-dns-egress'' Map.empty (allowDNSEgressSpec ls))))"

definition deleteKataMonitorNetworkPolicies :: "env \<Rightarrow> ('z, goerr option) op" where
  "deleteKataMonitorNetworkPolicies E = deleteNetworkPolicies E
     [''kata-monitor-deny-all'', ''kata-monitor-allow-metrics-ingress'', ''kata-monitor-allow-dns-egress'']"

definition createPeerPodsWebhookNetworkPolicies :: "env \<Rightarrow> (rstate, goerr option) state" where
  "createPeerPodsWebhookNetworkPolicies E =
     (let ls = [''app'' \<mapsto> ''peer-pods-webhook'']
      in andThen (ensureNetworkPolicy E ''peer-pods-webhook-deny-all'' Map.empty (defaultDenySpec ls))
        (andThen (ensureNetworkPolicy E ''peer-pods-webhook-allow-webhook-ingress'' Map.empty
                    (allowHostNetworkIngressSpec ls 9443))
        (andThen (ensureNetworkPolicy E ''peer-pods-webhook-allow-metrics-ingress'' Map.empty
                    (allowIngressSpec ls 8443))
        (andThen (ensureNetworkPolicy E ''peer-pods-webhook-allow-dns-egress'' Map.empty
                    (allowDNSEgressSpec ls))
        (ensureNetworkPolicy E ''peer-pods-webhook-allow-apiserver-egress'' Map.empty
                    (allowAllEgressSpec ls))))))"

definition deletePeerPodsWebhookNetworkPolicies :: "env \<Rightarrow> ('z, goerr option) op" where
  "deletePeerPodsWebhookNetworkPolicies E = deleteNetworkPolicies E
     [''peer-pods-webhook-deny-all'', ''peer-pods-webhook-allow-webhook-ingress'',
      ''peer-pods-webhook-allow-metrics-ingress'', ''peer-pods-webhook-allow-dns-egress'',
      ''peer-pods-webhook-allow-apiserver-egress'']"

definition createKataInstallNetworkPolicies :: "env \<Rightarrow> (rstate, goerr option) state" where
  "createKataInstallNetworkPolicies E =
     (let ls = [''name'' \<mapsto> ''osc-rpm-install'']
      in andThen (ensureNetworkPolicy E ''kata-install-deny-all'' Map.empty (defaultDenySpec ls))
        (ensureNetworkPolicy E ''kata-install-allow-egress'' Map.empty (allowAllEgressSpec ls)))"

definition deleteKataInstallNetworkPolicies :: "env \<Rightarrow> ('z, goerr option) op" where
  "deleteKataInstallNetworkPolicies E = deleteNetworkPolicies E
     [''kata-install-deny-all'', ''kata-install-allow-egress'']"

definition createKataUninstallNetworkPolicies :: "env \<Rightarrow> (rstate, goerr option) state" where
  "createKataUninstallNetworkPolicies E =
     (let ls = [''name'' \<mapsto> ''osc-rpm-uninstall'']
      in andThen (ensureNetworkPolicy E ''kata-uninstall-deny-all'' Map.empty (defaultDenySpec ls))
        (ensureNetworkPolicy E ''kata-uninstall-allow-egress'' Map.empty (allowAllEgressSpec ls)))"

definition deleteKataUninstallNetworkPolicies :: "env \<Rightarrow> ('z, goerr option) op" where
  "deleteKataUninstallNetworkPolicies E = deleteNetworkPolicies E
     [''kata-uninstall-deny-all'', ''kata-uninstall-allow-egress'']"

definition createPodVMImageCreationNetworkPolicies :: "env \<Rightarrow> (rstate, goerr option) state" where
  "createPodVMImageCreationNetworkPolicies E =
     (let ls = [''job-name'' \<mapsto> ''osc-podvm-image-creation'']
      in andThen (ensureNetworkPolicy E ''podvm-image-creation-deny-all'' Map.empty (defaultDenySpec ls))
        (ensureNetworkPolicy E ''podvm-image-creation-allow-egress'' Map.empty (allowAllEgressSpec ls)))"

definition deletePodVMImageCreationNetworkPolicies :: "env \<Rightarrow> ('z, goerr option) op" where
  "deletePodVMImageCreationNetworkPolicies E = deleteNetworkPolicies E
     [''podvm-image-creation-deny-all'', ''podvm-image-creation-allow-egress'']"

definition createPodVMImageDeletionNetworkPolicies :: "env \<Rightarrow> (rstate, goerr option) state" where
  "createPodVMImageDeletionNetworkPolicies E =
     (let ls = [''job-name'' \<mapsto> ''osc-podvm-image-deletion'']
      in andThen (ensureNetworkPolicy E ''podvm-image-deletion-deny-all'' Map.empty (defaultDenySpec ls))
        (ensureNetworkPolicy E ''podvm-image-deletion-allow-egress'' Map.empty (allowAllEgressSpec ls)))"

definition deletePodVMImageDeletionNetworkPolicies :: "env \<Rightarrow> ('z, goerr option) op" where
  "deletePodVMImageDeletionNetworkPolicies E = deleteNetworkPolicies E
     [''podvm-image-deletion-deny-all'', ''podvm-image-deletion-allow-egress'']"

section \<open>Ensured and deleted policies\<close>

lemma onErr_return [simp]: "onErr m (\<lambda>e. return (Some e)) (return None) = m"
proof (rule state.expand, rule ext)
  fix s
  show "run_state (onErr m (\<lambda>e. return (Some e)) (return None)) s = run_state m s"
    by (cases "run_state m s") (simp add: onErr_def split: option.split)
qed

text \<open>A policy as written by \<open>ensureNetworkPolicy\<close>.\<close>

definition isPolicy :: "string \<Rightarrow> npSpec \<Rightarrow> networkPolicy \<Rightarrow> bool" where
  "isPolicy n sp np \<longleftrightarrow> Name (npMeta np) = n \<and> Namespace (npMeta np) = OperatorNamespace \<and> npSpecOf np = sp"

lemma ensured_isPolicy:
  assumes "(case SetControllerReference E kc ((npMeta np)\<lparr>Name := n, Namespace := OperatorNamespace,
      Annotations := a\<rparr>) of Inl e \<Rightarrow> Inl e | Inr m' \<Rightarrow> Inr (np\<lparr>npMeta := m', npSpecOf := sp\<rparr>)) = Inr np'"
  shows "isPolicy n sp np'"
  using assms by (auto simp: isPolicy_def split: sum.splits dest!: SetControllerReference_Inr)

lemma emits_ensureNetworkPolicy:
  "emits (\<lambda>e. readOnly e \<or> (\<exists>np. isPolicy n sp np \<and> evRequest e = CreateOrUpdateReq (ONetworkPolicy np)))
     (ensureNetworkPolicy E n a sp)"
  unfolding ensureNetworkPolicy_def
proof (intro emits_bind emits_gets emits_createOrUpdate)
  fix kc r and obj obj' :: networkPolicy
  assume "(let m = npMeta obj\<lparr>Name := n, Namespace := OperatorNamespace, Annotations := a\<rparr>
     in case SetControllerReference E kc m of Inl e \<Rightarrow> Inl e
        | Inr m' \<Rightarrow> Inr (obj\<lparr>npMeta := m', npSpecOf := sp\<rparr>)) = Inr obj'"
  then have "isPolicy n sp obj'" unfolding Let_def by (rule ensured_isPolicy)
  then show "readOnly (Ev (CreateOrUpdateReq (ONetworkPolicy obj')) r) \<or>
     (\<exists>np. isPolicy n sp np \<and> evRequest (Ev (CreateOrUpdateReq (ONetworkPolicy obj')) r) =
       CreateOrUpdateReq (ONetworkPolicy np))" by auto
qed simp

lemma preserves_ensureNetworkPolicy [preserves_intros]:
  "(\<And>s t. f (s\<lparr>trace := t\<rparr>) = f s) \<Longrightarrow> preserves f (ensureNetworkPolicy E n a sp)"
  unfolding ensureNetworkPolicy_def by (intro preserves_intros) simp_all

lemma wp_ensureNetworkPolicy:
  "wp (ensureNetworkPolicy E n a sp) (\<lambda>r s'. r = None \<longrightarrow>
     (\<exists>np. isPolicy n sp np \<and> Ev (CreateOrUpdateReq (ONetworkPolicy np)) None \<in> set (trace s'))) s"
  unfolding ensureNetworkPolicy_def wp_bind wp_gets
  by (rule wp_conseq[OF wp_createOrUpdate]) (auto simp: Let_def dest!: ensured_isPolicy)

lemma emits_deleteNetworkPolicy:
  "emits (\<lambda>e. evRequest e = DeleteReq KNetworkPolicy OperatorNamespace n) (deleteNetworkPolicy E n)"
  unfolding deleteNetworkPolicy_def by (intro emits_intros) simp

definition gone :: "goerr option \<Rightarrow> bool" where
  "gone r = (case r of None \<Rightarrow> True | Some e \<Rightarrow> IsNotFound e)"

lemma wp_deleteNetworkPolicy:
  "wp (deleteNetworkPolicy E n) (\<lambda>r s'. r = None \<longrightarrow>
     (\<exists>err. gone err \<and> Ev (DeleteReq KNetworkPolicy OperatorNamespace n) err \<in> set (trace s'))) s"
  unfolding deleteNetworkPolicy_def by (auto simp: wp_simps gone_def split: option.splits)

text \<open>A loop that returns no error has established the goal of each iteration.\<close>

lemma forEach_all:
  fixes f :: "'a \<Rightarrow> ('z, goerr option) op"
  assumes "\<And>x s. wp (f x) (\<lambda>r s'. r = None \<longrightarrow> (\<exists>e \<in> set (trace s'). G x e)) s"
    and "\<And>x. emits (\<lambda>_. True) (f x)"
  shows "wp (forEach f xs) (\<lambda>r s'. r = None \<longrightarrow> (\<forall>x \<in> set xs. \<exists>e \<in> set (trace s'). G x e)) s"
proof (induction xs arbitrary: s)
  case Nil
  then show ?case by (simp add: wp_simps)
next
  case (Cons x xs)
  have mono: "\<exists>new. trace (exec (forEach f xs) s') = trace s' @ new" for s'
    using emits_forEach[of "\<lambda>_. True" f xs] assms(2) by (auto simp: emits_def)
  have "wp (forEach f xs) (\<lambda>r s''. r = None \<longrightarrow> (\<forall>y \<in> set (x # xs). \<exists>e \<in> set (trace s''). G y e)) s'"
    if "\<exists>e \<in> set (trace s'). G x e" for s'
    using that Cons[of s'] mono[of s'] by (auto simp: wp_def)
  then show ?case unfolding forEach.simps wp_onErr
    by (intro wp_conseq[OF assms(1)[of x s]]) (auto simp: wp_simps)
qed

locale operand_policies =
  fixes create delete :: "env \<Rightarrow> (rstate, goerr option) state"
    and policies :: "(string \<times> npSpec) list"
    and podLabels :: labels
  assumes create_policies: "create E = forEach (\<lambda>(n, sp). ensureNetworkPolicy E n Map.empty sp) policies"
    and delete_policies: "delete E = deleteNetworkPolicies E (map fst policies)"
    and selects_operand: "list_all (\<lambda>(n, sp). npPodSelector sp = podLabels) policies"
    and denies_first: "map snd (take 1 policies) = [defaultDenySpec podLabels]"
begin

lemma created_only:
  "emits (\<lambda>e. readOnly e \<or> (\<exists>(n, sp) \<in> set policies. \<exists>np. isPolicy n sp np \<and>
     evRequest e = CreateOrUpdateReq (ONetworkPolicy np))) (create E)"
  unfolding create_policies
  by (rule emits_forEach_set) (auto intro!: emits_mono[OF emits_ensureNetworkPolicy])

lemma created_all:
  "wp (create E) (\<lambda>r s'. r = None \<longrightarrow> (\<forall>(n, sp) \<in> set policies. \<exists>np. isPolicy n sp np \<and>
     Ev (CreateOrUpdateReq (ONetworkPolicy np)) None \<in> set (trace s'))) s"
  unfolding create_policies
  by (rule wp_conseq[OF forEach_all[where G = "\<lambda>(n, sp) e. \<exists>np. isPolicy n sp np \<and>
        e = Ev (CreateOrUpdateReq (ONetworkPolicy np)) None"]])
    (auto intro!: wp_conseq[OF wp_ensureNetworkPolicy] emits_mono[OF emits_ensureNetworkPolicy])

lemma deleted_only:
  "emits (\<lambda>e. \<exists>n \<in> fst ` set policies. evRequest e = DeleteReq KNetworkPolicy OperatorNamespace n)
     (delete E)"
  unfolding delete_policies deleteNetworkPolicies_def
  by (rule emits_forEach_set) (auto intro!: emits_mono[OF emits_deleteNetworkPolicy])

lemma deleted_all:
  "wp (delete E) (\<lambda>r s'. r = None \<longrightarrow> (\<forall>n \<in> fst ` set policies. \<exists>err. gone err \<and>
     Ev (DeleteReq KNetworkPolicy OperatorNamespace n) err \<in> set (trace s'))) s"
  unfolding delete_policies deleteNetworkPolicies_def
  by (rule wp_conseq[OF forEach_all[where G = "\<lambda>n e. \<exists>err. gone err \<and>
        e = Ev (DeleteReq KNetworkPolicy OperatorNamespace n) err"]])
    (auto intro!: wp_conseq[OF wp_deleteNetworkPolicy] emits_mono[OF emits_deleteNetworkPolicy])

lemma preserves_create:
  "(\<And>s t. f (s\<lparr>trace := t\<rparr>) = f s) \<Longrightarrow> preserves f (create E)"
  unfolding create_policies by (intro preserves_intros) simp

lemma preserves_delete:
  "(\<And>s t. f (s\<lparr>trace := t\<rparr>) = f s) \<Longrightarrow> preserves f (delete E)"
  unfolding delete_policies deleteNetworkPolicies_def deleteNetworkPolicy_def
  by (intro preserves_intros) simp

end

definition monitorPolicies :: "(string \<times> npSpec) list" where
  "monitorPolicies = (let ls = [''name'' \<mapsto> ''openshift-sandboxed-containers-monitor''] in
     [(''kata-monitor-deny-all'', defaultDenySpec ls),
      (''kata-monitor-allow-metrics-ingress'', allowIngressSpec ls 8443),
      (''kata-monitor-allow-dns-egress'', allowDNSEgressSpec ls)])"

definition webhookPolicies :: "(string \<times> npSpec) list" where
  "webhookPolicies = (let ls = [''app'' \<mapsto> ''peer-pods-webhook''] in
     [(''peer-pods-webhook-deny-all'', defaultDenySpec ls),
      (''peer-pods-webhook-allow-webhook-ingress'', allowHostNetworkIngressSpec ls 9443),
      (''peer-pods-webhook-allow-metrics-ingress'', allowIngressSpec ls 8443),
      (''peer-pods-webhook-allow-dns-egress'', allowDNSEgressSpec ls),
      (''peer-pods-webhook-allow-apiserver-egress'', allowAllEgressSpec ls)])"

text \<open>The operands with a default deny and unrestricted egress.\<close>

definition egressPolicies :: "string \<Rightarrow> labels \<Rightarrow> (string \<times> npSpec) list" where
  "egressPolicies p ls =
     [(p @ ''-deny-all'', defaultDenySpec ls), (p @ ''-allow-egress'', allowAllEgressSpec ls)]"

lemmas np_policy_defs = monitorPolicies_def webhookPolicies_def egressPolicies_def

interpretation monitorNp: operand_policies createKataMonitorNetworkPolicies
  deleteKataMonitorNetworkPolicies monitorPolicies
  "[''name'' \<mapsto> ''openshift-sandboxed-containers-monitor'']"
  by unfold_locales (simp_all add: createKataMonitorNetworkPolicies_def
      deleteKataMonitorNetworkPolicies_def np_policy_defs Let_def)

interpretation webhookNp: operand_policies createPeerPodsWebhookNetworkPolicies
  deletePeerPodsWebhookNetworkPolicies webhookPolicies "[''app'' \<mapsto> ''peer-pods-webhook'']"
  by unfold_locales (simp_all add: createPeerPodsWebhookNetworkPolicies_def
      deletePeerPodsWebhookNetworkPolicies_def np_policy_defs Let_def)

interpretation installNp: operand_policies createKataInstallNetworkPolicies
  deleteKataInstallNetworkPolicies
  "egressPolicies ''kata-install'' [''name'' \<mapsto> ''osc-rpm-install'']" "[''name'' \<mapsto> ''osc-rpm-install'']"
  by unfold_locales (simp_all add: createKataInstallNetworkPolicies_def
      deleteKataInstallNetworkPolicies_def np_policy_defs Let_def)

interpretation uninstallNp: operand_policies createKataUninstallNetworkPolicies
  deleteKataUninstallNetworkPolicies
  "egressPolicies ''kata-uninstall'' [''name'' \<mapsto> ''osc-rpm-uninstall'']"
  "[''name'' \<mapsto> ''osc-rpm-uninstall'']"
  by unfold_locales (simp_all add: createKataUninstallNetworkPolicies_def
      deleteKataUninstallNetworkPolicies_def np_policy_defs Let_def)

interpretation imageCreationNp: operand_policies createPodVMImageCreationNetworkPolicies
  deletePodVMImageCreationNetworkPolicies
  "egressPolicies ''podvm-image-creation'' [''job-name'' \<mapsto> ''osc-podvm-image-creation'']"
  "[''job-name'' \<mapsto> ''osc-podvm-image-creation'']"
  by unfold_locales (simp_all add: createPodVMImageCreationNetworkPolicies_def
      deletePodVMImageCreationNetworkPolicies_def np_policy_defs Let_def)

interpretation imageDeletionNp: operand_policies createPodVMImageDeletionNetworkPolicies
  deletePodVMImageDeletionNetworkPolicies
  "egressPolicies ''podvm-image-deletion'' [''job-name'' \<mapsto> ''osc-podvm-image-deletion'']"
  "[''job-name'' \<mapsto> ''osc-podvm-image-deletion'']"
  by unfold_locales (simp_all add: createPodVMImageDeletionNetworkPolicies_def
      deletePodVMImageDeletionNetworkPolicies_def np_policy_defs Let_def)

section \<open>Frames\<close>

definition npWrite :: "event \<Rightarrow> bool" where
  "npWrite e \<longleftrightarrow> readOnly e \<or> (\<exists>np. evRequest e = CreateOrUpdateReq (ONetworkPolicy np)) \<or>
     (\<exists>n. evRequest e = DeleteReq KNetworkPolicy OperatorNamespace n)"

lemma npWrite_only: "npWrite e \<Longrightarrow> writesOnly {KNetworkPolicy} e"
  by (cases e) (auto simp: npWrite_def writesOnly_def dest!: readOnly_writesOnly[where K = "{KNetworkPolicy}"])

lemma emits_operand_create:
  assumes "operand_policies c d ps ls" shows "emits npWrite (c E)"
  by (rule emits_mono[OF operand_policies.created_only[OF assms]]) (auto simp: npWrite_def)

lemma emits_operand_delete:
  assumes "operand_policies c d ps ls" shows "emits npWrite (d E)"
  by (rule emits_mono[OF operand_policies.deleted_only[OF assms]]) (auto simp: npWrite_def)

lemmas np_axioms =
  monitorNp.operand_policies_axioms webhookNp.operand_policies_axioms
  installNp.operand_policies_axioms uninstallNp.operand_policies_axioms
  imageCreationNp.operand_policies_axioms imageDeletionNp.operand_policies_axioms

lemmas np_emits [emits_intros] =
  np_axioms[THEN emits_operand_create, THEN emits_mono]
  np_axioms[THEN emits_operand_delete, THEN emits_mono]

lemmas np_preserves [preserves_intros] =
  np_axioms[THEN operand_policies.preserves_create]
  np_axioms[THEN operand_policies.preserves_delete]

section \<open>Isolation of workloads\<close>

text \<open>
  A workload is isolated from the start: an object of the workload is only written after all the
  policies of its operand were ensured.
\<close>

definition policiesEnsured :: "(string \<times> npSpec) list \<Rightarrow> history \<Rightarrow> bool" where
  "policiesEnsured ps h = list_all (\<lambda>(n, sp). \<exists>np. isPolicy n sp np \<and>
     Ev (CreateOrUpdateReq (ONetworkPolicy np)) None \<in> set h) ps"

fun writtenObj :: "request \<Rightarrow> kobj option" where
  "writtenObj (CreateReq obj) = Some obj"
| "writtenObj (UpdateReq obj) = Some obj"
| "writtenObj (PatchReq obj) = Some obj"
| "writtenObj (CreateOrUpdateReq obj) = Some obj"
| "writtenObj _ = None"

definition isDaemonSet :: "string \<Rightarrow> kobj \<Rightarrow> bool" where
  "isDaemonSet n obj = (case obj of ODaemonSet ds \<Rightarrow> Name (dsMeta ds) = n | _ \<Rightarrow> False)"

definition isDeployment :: "string \<Rightarrow> kobj \<Rightarrow> bool" where
  "isDeployment n obj = (case obj of ODeployment d \<Rightarrow> Name (depMeta d) = n | _ \<Rightarrow> False)"

lemma workload_kinds [simp]:
  "isDaemonSet n (ODaemonSet ds) \<longleftrightarrow> Name (dsMeta ds) = n" "\<not> isDeployment n (ODaemonSet ds)"
  "isDeployment n (ODeployment d) \<longleftrightarrow> Name (depMeta d) = n" "\<not> isDaemonSet n (ODeployment d)"
  by (simp_all add: isDaemonSet_def isDeployment_def)

lemma workload_kind_only:
  "isDaemonSet n obj \<Longrightarrow> kindOf obj = KDaemonSet" "isDeployment n obj \<Longrightarrow> kindOf obj = KDeployment"
  by (auto simp: isDaemonSet_def isDeployment_def split: kobj.splits)

definition isolated :: "(kobj \<Rightarrow> bool) \<Rightarrow> (string \<times> npSpec) list \<Rightarrow> history \<Rightarrow> event \<Rightarrow> bool" where
  "isolated W ps h e = (case writtenObj (evRequest e) of
     None \<Rightarrow> True | Some obj \<Rightarrow> W obj \<longrightarrow> policiesEnsured ps h)"

lemma policiesEnsured_mono: "policiesEnsured ps h \<Longrightarrow> set h \<subseteq> set h' \<Longrightarrow> policiesEnsured ps h'"
  by (fastforce simp: policiesEnsured_def list_all_iff)

text \<open>An operation that does not write the kinds of the workload cannot violate its isolation.\<close>

lemma isolated_frame:
  assumes "writesOnly K e" and "\<And>obj. W obj \<Longrightarrow> kindOf obj \<notin> K"
  shows "isolated W ps h e"
proof (cases e)
  case (Ev q r)
  then show ?thesis using assms by (cases q) (auto simp: isolated_def)
qed

lemma isolated_readOnly: "readOnly e \<Longrightarrow> isolated W ps h e"
  by (rule isolated_frame[where K = "{}"]) (auto intro: readOnly_writesOnly)

section \<open>Properties\<close>

definition operands ::
  "((env \<Rightarrow> (rstate, goerr option) state) \<times> (env \<Rightarrow> (rstate, goerr option) state) \<times>
    (string \<times> npSpec) list \<times> labels) list" where
  "operands = [
     (createKataMonitorNetworkPolicies, deleteKataMonitorNetworkPolicies, monitorPolicies,
      [''name'' \<mapsto> ''openshift-sandboxed-containers-monitor'']),
     (createPeerPodsWebhookNetworkPolicies, deletePeerPodsWebhookNetworkPolicies, webhookPolicies,
      [''app'' \<mapsto> ''peer-pods-webhook'']),
     (createKataInstallNetworkPolicies, deleteKataInstallNetworkPolicies,
      egressPolicies ''kata-install'' [''name'' \<mapsto> ''osc-rpm-install''], [''name'' \<mapsto> ''osc-rpm-install'']),
     (createKataUninstallNetworkPolicies, deleteKataUninstallNetworkPolicies,
      egressPolicies ''kata-uninstall'' [''name'' \<mapsto> ''osc-rpm-uninstall''],
      [''name'' \<mapsto> ''osc-rpm-uninstall'']),
     (createPodVMImageCreationNetworkPolicies, deletePodVMImageCreationNetworkPolicies,
      egressPolicies ''podvm-image-creation'' [''job-name'' \<mapsto> ''osc-podvm-image-creation''],
      [''job-name'' \<mapsto> ''osc-podvm-image-creation'']),
     (createPodVMImageDeletionNetworkPolicies, deletePodVMImageDeletionNetworkPolicies,
      egressPolicies ''podvm-image-deletion'' [''job-name'' \<mapsto> ''osc-podvm-image-deletion''],
      [''job-name'' \<mapsto> ''osc-podvm-image-deletion''])]"

lemma operands_contract:
  assumes "(c, d, ps, ls) \<in> set operands" shows "operand_policies c d ps ls"
proof -
  have "list_all (\<lambda>(c, d, ps, ls). operand_policies c d ps ls) operands"
    unfolding operands_def list.pred_inject prod.case by (intro conjI np_axioms) simp
  then show ?thesis using assms by (auto simp: list_all_iff)
qed



end
