(* ===== verification/Go_Base64.thy ===== *)
theory Go_Base64
  imports Go_Strings
begin

text \<open>
  \<open>base64.StdEncoding\<close> of Go's standard library, used for the contents of Ignition files: encoding
  with padding and its decoder. The lemma is the round trip.
\<close>

definition b64char :: "nat \<Rightarrow> char" where
  "b64char n = (if n < 26 then char_of (65 + n) else if n < 52 then char_of (71 + n)
     else if n < 62 then char_of (n - 4) else if n = 62 then CHR ''+'' else CHR ''/'')"

definition b64val :: "char \<Rightarrow> nat option" where
  "b64val c = (let n = of_char c :: nat in
     if 65 \<le> n \<and> n \<le> 90 then Some (n - 65) else if 97 \<le> n \<and> n \<le> 122 then Some (n - 71)
     else if 48 \<le> n \<and> n \<le> 57 then Some (n + 4) else if n = 43 then Some 62
     else if n = 47 then Some 63 else None)"

abbreviation byte :: "char \<Rightarrow> nat" where "byte \<equiv> of_char"

fun b64encode :: "string \<Rightarrow> string" where
  "b64encode [] = []"
| "b64encode [a] = (let n = byte a * 16 in [b64char (n div 64), b64char (n mod 64), CHR ''='', CHR ''='']) "
| "b64encode [a, b] = (let n = (byte a * 256 + byte b) * 4 in
     [b64char (n div 4096), b64char (n div 64 mod 64), b64char (n mod 64), CHR ''=''])"
| "b64encode (a # b # c # s) = (let n = byte a * 65536 + byte b * 256 + byte c in
     [b64char (n div 262144), b64char (n div 4096 mod 64), b64char (n div 64 mod 64), b64char (n mod 64)]
       @ b64encode s)"

text \<open>The decoder, refusing everything that is not a canonical padded encoding.\<close>

fun b64decode :: "string \<Rightarrow> string option" where
  "b64decode [] = Some []"
| "b64decode (w # x # y # z # s) =
     (case (b64val w, b64val x, b64val y, b64val z) of
        (Some p, Some q, None, None) \<Rightarrow>
          if y = CHR ''='' \<and> z = CHR ''='' \<and> s = [] \<and> q mod 16 = 0 then Some [char_of ((p * 64 + q) div 16)]
          else None
      | (Some p, Some q, Some r, None) \<Rightarrow>
          if z = CHR ''='' \<and> s = [] \<and> r mod 4 = 0 then
            (let n = (p * 4096 + q * 64 + r) div 4 in Some [char_of (n div 256), char_of (n mod 256)])
          else None
      | (Some p, Some q, Some r, Some t) \<Rightarrow>
          (let n = p * 262144 + q * 4096 + r * 64 + t in
             map_option (\<lambda>s'. char_of (n div 65536) # char_of (n div 256 mod 256) # char_of (n mod 256) # s')
               (b64decode s))
      | _ \<Rightarrow> None)"
| "b64decode _ = None"

lemma b64val_b64char: "n < 64 \<Longrightarrow> b64val (b64char n) = Some n"
  by (auto simp: b64val_def b64char_def Let_def of_char_of split: if_splits)

lemma b64val_pad [simp]: "b64val (CHR ''='') = None"
  by (simp add: b64val_def)

lemma byte_less [simp]: "byte c < 256"
  using mod_less_divisor[of 256 "byte c"] by simp

lemma byte_le: "byte c \<le> 255"
  using byte_less[of c] by linarith

lemma split3:
  fixes a b c :: nat
  assumes "b < 256" "c < 256"
  shows "(a * 65536 + b * 256 + c) div 65536 = a" "(a * 65536 + b * 256 + c) div 256 mod 256 = b"
    "(a * 65536 + b * 256 + c) mod 256 = c"
proof -
  have n: "a * 65536 + b * 256 + c = (a * 256 + b) * 256 + c" by simp
  have d: "((a * 256 + b) * 256 + c) div 256 = a * 256 + b" using assms(2) by simp
  have "(a * 65536 + b * 256 + c) div 256 div 256 = a" using d assms(1) by (simp only: n)
  then show "(a * 65536 + b * 256 + c) div 65536 = a" by (simp only: div_mult2_eq[symmetric]) simp
  show "(a * 65536 + b * 256 + c) div 256 mod 256 = b" using assms(1) by (simp only: n d) simp
  show "(a * 65536 + b * 256 + c) mod 256 = c"
    using assms(2) mod_mult_self3[of "a * 256 + b" 256 c] by (simp only: n mod_less)
qed

lemma join4:
  fixes n :: nat
  shows "n div 4096 * 4096 + n div 64 mod 64 * 64 + n mod 64 = n"
    "n div 262144 * 262144 + n div 4096 mod 64 * 4096 + n div 64 mod 64 * 64 + n mod 64 = n"
proof -
  have a: "n div 64 * 64 + n mod 64 = n" by simp
  have b: "n div 4096 * 64 + n div 64 mod 64 = n div 64"
    using div_mult_mod_eq[of "n div 64" 64] by (simp add: div_mult2_eq[symmetric])
  have c: "n div 262144 * 64 + n div 4096 mod 64 = n div 4096"
    using div_mult_mod_eq[of "n div 4096" 64] by (simp add: div_mult2_eq[symmetric])
  show "n div 4096 * 4096 + n div 64 mod 64 * 64 + n mod 64 = n" using a b by linarith
  then show "n div 262144 * 262144 + n div 4096 mod 64 * 4096 + n div 64 mod 64 * 64 + n mod 64 = n"
    using c by linarith
qed

lemma b64decode_encode: "b64decode (b64encode s) = Some s"
proof (induction s rule: b64encode.induct)
  case (2 a)
  have "byte a * 16 div 64 < 64" using byte_less[of a] by linarith
  moreover have "byte a * 16 mod 64 mod 16 = 0" by (simp add: mod_mod_cancel)
  moreover have "(byte a * 16 div 64 * 64 + byte a * 16 mod 64) div 16 = byte a"
    by (simp only: div_mult_mod_eq)
  ultimately show ?case by (simp add: Let_def b64val_b64char del: div_mult_mod_eq)
next
  case (3 a b)
  let ?m = "byte a * 256 + byte b"
  have "?m * 4 div 4096 < 64"
    using byte_le[of a] byte_le[of b]
    by (intro div_less_iff_less_mult[THEN iffD2]) (simp_all add: algebra_simps)
  moreover have "?m * 4 mod 64 mod 4 = 0" by (simp add: mod_mod_cancel)
  moreover have "(?m * 4 div 4096 * 4096 + ?m * 4 div 64 mod 64 * 64 + ?m * 4 mod 64) div 4 = ?m"
    by (simp only: join4) simp
  ultimately show ?case by (simp only: b64encode.simps Let_def b64decode.simps b64val_b64char
        mod_less_divisor zero_less_numeral b64val_pad option.case prod.case) simp
next
  case (4 a b c s)
  let ?n = "byte a * 65536 + byte b * 256 + byte c"
  have "?n div 262144 < 64"
    using byte_le[of a] byte_le[of b] byte_le[of c]
    by (intro div_less_iff_less_mult[THEN iffD2]) linarith+
  then show ?case using 4
    by (simp only: b64encode.simps Let_def append.simps b64decode.simps b64val_b64char
        mod_less_divisor zero_less_numeral b64val_pad option.case prod.case join4 split3 byte_less
        char_of_char option.map)
qed simp

end
