(* ===== verification/Mco_Support.thy ===== *)
theory Mco_Support
  imports Network_Policies Layered_Image Go_Base64
begin

text \<open>
  The objects of \<^verbatim>\<open>controllers/openshift_controller.go\<close> and \<^verbatim>\<open>controllers/scc.go\<close> that installation and
  removal share: the CRI-O log level, the monitor DaemonSet, the SCC, the dashboard ConfigMap and
  the MachineConfig. The lemmas show what each operation writes for every answer of the API server,
  that repeating one writes nothing new, and that the Ignition file of the MachineConfig decodes to
  the custom kernel configuration.
\<close>

definition dashboardConfigMapName :: string where
  "dashboardConfigMapName = ''grafana-dashboard-sandboxed-containers''"
definition DashboardConfigMapNamespace :: string where
  "DashboardConfigMapNamespace = ''openshift-config-managed''"
definition container_runtime_config_name :: string where
  "container_runtime_config_name = ''kata-crio-config''"

section \<open>Log level\<close>

definition makeContainerRuntimeConfig :: "string \<Rightarrow> labelSelector \<Rightarrow> ctrRuntimeConfig" where
  "makeContainerRuntimeConfig desiredLogLevel mcpSelector =
     \<lparr>crcMeta = mkMeta container_runtime_config_name [], crcPoolSelector = Some mcpSelector,
      crcLogLevel = Some desiredLogLevel\<rparr>"

definition poolSelectorLabels :: "goerr + bool \<Rightarrow> labels" where
  "poolSelectorLabels isConvergedCluster =
     (if assumeConverged isConvergedCluster
      then [''pools.operator.machineconfiguration.openshift.io/master'' \<mapsto> '''']
      else [''pools.operator.machineconfiguration.openshift.io/kata-oc'' \<mapsto> ''''])"

text \<open>An object without the inner \<open>ContainerRuntimeConfig\<close> is a nil dereference.\<close>

definition processLogLevel :: "env \<Rightarrow> string \<Rightarrow> ('z, goerr option) op" where
  "processLogLevel E level =
     (let desiredLogLevel = (if level = [] then ''info'' else level)
      in onInl (getCRC E container_runtime_config_name)
        (\<lambda>err. if \<not> IsNotFound err then return (Some err)
           else if desiredLogLevel = ''info'' then return None
           else do {
             isConvergedCluster \<leftarrow> checkConvergedCluster E;
             writeOp E (CreateReq (OCtrRuntimeConfig (makeContainerRuntimeConfig desiredLogLevel
               (byLabels (poolSelectorLabels isConvergedCluster)))))
           })
        (\<lambda>ctrRuntimeCfg. case crcLogLevel ctrRuntimeCfg of
           None \<Rightarrow> return (Some (GoPanic ''invalid memory address or nil pointer dereference''))
         | Some current \<Rightarrow>
           if current = desiredLogLevel then return None
           else writeOp E (UpdateReq (OCtrRuntimeConfig (ctrRuntimeCfg\<lparr>crcLogLevel := Some desiredLogLevel\<rparr>)))))"

definition removeLogLevel :: "env \<Rightarrow> ('z, goerr option) op" where
  "removeLogLevel E =
     onInl (getCRC E container_runtime_config_name)
       (\<lambda>err. return (if IsNotFound err then None else Some err))
       (\<lambda>ctrRuntimeCfg. writeOp E (DeleteReq KCtrRuntimeConfig [] (Name (crcMeta ctrRuntimeCfg))))"

section \<open>The monitor DaemonSet\<close>

definition monitorDsName :: string where "monitorDsName = ''openshift-sandboxed-containers-monitor''"

definition monitorCommand :: "env \<Rightarrow> rstate \<Rightarrow> string list" where
  "monitorCommand E s =
     (let cmd = [''/usr/bin/kata-monitor'', ''--listen-address=:8443'', ''--log-level=debug'',
                 ''--runtime-endpoint=/run/crio/crio.sock'',
                 ''--tls-cert-file=/etc/kata-monitor/certs/tls.crt'',
                 ''--tls-key-file=/etc/kata-monitor/certs/tls.key'']
      in if HonorTLSProfile s
         then cmd @ [''--tls-min-version='' @ tlsMinVersion (TLSProfileSpec s),
                     ''--tls-cipher-suites='' @ tlsCipherSuitesEnvValue E (TLSProfileSpec s)]
         else cmd)"

definition tlsKeyPair :: "keyToPath list" where
  "tlsKeyPair = [\<lparr>ktpKey = ''tls.crt'', ktpPath = ''tls.crt''\<rparr>, \<lparr>ktpKey = ''tls.key'', ktpPath = ''tls.key''\<rparr>]"

definition monitorPodSpec :: "env \<Rightarrow> rstate \<Rightarrow> labels \<Rightarrow> podSpec" where
  "monitorPodSpec E s nodeSelector = emptyPodSpec\<lparr>
     ServiceAccountName := ''monitor'',
     NodeSelector := nodeSelector,
     TolerationOperators := [''Exists''],
     Containers := [emptyContainer\<lparr>
       ctrName := ''kata-monitor'',
       ctrImage := getenv E ''RELATED_IMAGE_KATA_MONITOR'',
       ctrImagePullPolicy := ''Always'',
       ctrSecurityContext := emptySecurityContext\<lparr>scPrivileged := Some False, scRunAsUser := Some 1001,
         scRunAsGroup := Some 1001, scSELinuxType := Some ''osc_monitor.process''\<rparr>,
       ctrCommand := monitorCommand E s,
       ctrVolumeMounts := [plainMount ''crio-sock'' ''/run/crio/'', plainMount ''sbs'' ''/run/vc/sbs/'',
         (plainMount ''kata-monitor-certs'' ''/etc/kata-monitor/certs/'')\<lparr>vmReadOnly := True\<rparr>]\<rparr>],
     Volumes := [\<lparr>volName = ''crio-sock'', volSource = VsHostPath ''/run/crio/'' None\<rparr>,
       \<lparr>volName = ''sbs'', volSource = VsHostPath ''/run/vc/sbs/'' None\<rparr>,
       \<lparr>volName = ''kata-monitor-certs'', volSource = VsSecret ''kata-monitor-certs'' (Some 420) tlsKeyPair None\<rparr>]\<rparr>"

definition processDaemonsetForMonitor :: "env \<Rightarrow> string \<Rightarrow> (rstate, daemonSet) state" where
  "processDaemonsetForMonitor E certVersion = do {
     nodeSelector \<leftarrow> getNodeSelectorAsMap E;
     s \<leftarrow> gets id;
     return \<lparr>dsMeta = mkMeta monitorDsName OperatorNamespace,
        dsSelector = [''name'' \<mapsto> monitorDsName],
        dsUpdateStrategy = None,
        dsTemplate = \<lparr>tplLabels = [''name'' \<mapsto> monitorDsName],
          tplAnnotations = [''kata-monitor-certs/version'' \<mapsto> certVersion],
          tplSpec = monitorPodSpec E s nodeSelector\<rparr>\<rparr>
   }"

definition createDaemonsetForMonitor :: "env \<Rightarrow> (rstate, goerr option) state" where
  "createDaemonsetForMonitor E =
     onInl (getSecretVersion E ''kata-monitor-certs'' OperatorNamespace) (\<lambda>e. return (Some e)) (\<lambda>certVersion.
     do {
       ds0 \<leftarrow> processDaemonsetForMonitor E (case certVersion of Some v \<Rightarrow> v | None \<Rightarrow> []);
       kc \<leftarrow> gets kataConfig;
       (case SetControllerReference E kc (dsMeta ds0) of
          Inl e \<Rightarrow> return (Some e)
        | Inr m \<Rightarrow> let ds = ds0\<lparr>dsMeta := m\<rparr> in
            onErr (createKataMonitorNetworkPolicies E) (\<lambda>e. return (Some e))
              (onInl (getDS E (Namespace (dsMeta ds)) (Name (dsMeta ds)))
                (\<lambda>err. if IsNotFound err then writeOp E (CreateReq (ODaemonSet ds)) else return (Some err))
                (\<lambda>_. writeOp E (UpdateReq (ODaemonSet ds)))))
     })"

definition deleteDaemonsetForMonitor :: "env \<Rightarrow> (rstate, goerr option) state" where
  "deleteDaemonsetForMonitor E = do {
     ds \<leftarrow> processDaemonsetForMonitor E [];
     err \<leftarrow> writeOp E (DeleteReq KDaemonSet (Namespace (dsMeta ds)) (Name (dsMeta ds)));
     (case err of
        Some e \<Rightarrow> if IsNotFound e then deleteKataMonitorNetworkPolicies E else return (Some e)
      | None \<Rightarrow> deleteKataMonitorNetworkPolicies E)
   }"

section \<open>The SCC and the dashboard\<close>

definition GetScc :: scc where
  "GetScc = \<lparr>sccMeta = mkMeta ''sandboxed-containers-operator-scc'' [],
     AllowHostDirVolumePlugin = True, AllowHostIPC = False, AllowHostNetwork = False,
     AllowHostPID = False, AllowHostPorts = False, AllowPrivilegeEscalation = Some False,
     AllowPrivilegedContainer = False, ReadOnlyRootFilesystem = False,
     RequiredDropCapabilities = [''MKNOD'', ''FSETID'', ''KILL'', ''FOWNER''],
     AllowedCapabilities = [''DAC_READ_OVERRIDE''],
     RunAsUserType = ''MustRunAsNonRoot'', SELinuxContextType = ''RunAsAny'', sccVolumes = [''*''],
     sccUsers = [''system:serviceaccount:'' @ OperatorNamespace @ '':monitor'']\<rparr>"

definition createScc :: "env \<Rightarrow> (rstate, goerr option) state" where
  "createScc E = do {
     kc \<leftarrow> gets kataConfig;
     (case SetControllerReference E kc (sccMeta GetScc) of
        Inl e \<Rightarrow> return (Some e)
      | Inr m \<Rightarrow> let s = GetScc\<lparr>sccMeta := m\<rparr> in
          onInl (getSCC E (Name (sccMeta s)))
            (\<lambda>err. if \<not> IsNotFound err then return (Some err) else writeOp E (CreateReq (OScc s)))
            (\<lambda>_. return None))
   }"

definition deleteScc :: "env \<Rightarrow> ('z, goerr option) op" where
  "deleteScc E = onErr (writeOp E (DeleteReq KScc [] (Name (sccMeta GetScc))))
     (\<lambda>e. return (if IsNotFound e then None else Some e)) (return None)"

definition processDashboardConfigMap :: "env \<Rightarrow> ('z, configMap option) op" where
  "processDashboardConfigMap E =
     onInl (getCM E OperatorNamespace dashboardConfigMapName)
       (\<lambda>_. return None)
       (\<lambda>foundCm. return (Some
          \<lparr>cmMeta = (mkMeta dashboardConfigMapName DashboardConfigMapNamespace)\<lparr>Labels :=
             [''console.openshift.io/dashboard'' \<mapsto> ''true'']\<rparr>,
           cmData = cmData foundCm\<rparr>))"

section \<open>The pool and the MachineConfig\<close>

definition newMCPforCR :: "env \<Rightarrow> ('z, mcp) op" where
  "newMCPforCR E = do {
     nodeSelector \<leftarrow> getNodeSelectorAsLabelSelector E;
     return \<lparr>mcpMeta = (mkMeta ''kata-oc'' [])\<lparr>Labels :=
         [''pools.operator.machineconfiguration.openshift.io/kata-oc'' \<mapsto> '''']\<rparr>,
       mcpMachineConfigSelector = Some \<lparr>MatchLabels = Map.empty, MatchExpressions =
         [\<lparr>reqKey = ''machineconfiguration.openshift.io/role'', reqOperator = ''In'',
           reqValues = [''kata-oc'', ''worker'']\<rparr>]\<rparr>,
       mcpNodeSelector = Some nodeSelector,
       mcpConfigurationName = [],
       mcpStatusOf = \<lparr>MachineCount = 0, ReadyMachineCount = 0, UpdatedMachineCount = 0,
         DegradedMachineCount = 0, ObservedGeneration = 0, mcpConditions = []\<rparr>\<rparr>
   }"

record customKernelConfig =
  ckImage :: string
  ckKernelPath :: string

definition getCustomKernelConfig :: "env \<Rightarrow> ('z, goerr + customKernelConfig option) op" where
  "getCustomKernelConfig E =
     onInl (getCM E OperatorNamespace KataAddonConfigMapName)
       (\<lambda>err. return (if IsNotFound err then Inr None else Inl err))
       (\<lambda>cm. let image = atKey (cmLookup cm) ''addonImage''; kernel = atKey (cmLookup cm) ''kernelPath''
          in return (Inr (if image = [] \<or> kernel = [] then None
                          else Some \<lparr>ckImage = image, ckKernelPath = kernel\<rparr>)))"

definition kernelConfigContent :: "customKernelConfig \<Rightarrow> string" where
  "kernelConfigContent ck = ''IMAGE='' @ ckImage ck @ ''\<newline>KERNEL='' @ ckKernelPath ck @ ''\<newline>''"

definition ignitionFor :: "customKernelConfig option \<Rightarrow> ignConfig" where
  "ignitionFor customKernelCfg = \<lparr>ignVersion = ''3.2.0'', ignFiles =
     (case customKernelCfg of None \<Rightarrow> []
      | Some ck \<Rightarrow> [\<lparr>ignPath = ''/etc/kata-containers/kata-addon-kernel.conf'',
          ignSource = ''data:text/plain;base64,'' @ b64encode (kernelConfigContent ck), ignMode = 420\<rparr>])\<rparr>"

definition newMCForCR ::
  "env \<Rightarrow> string \<Rightarrow> customKernelConfig option \<Rightarrow> (rstate, goerr + machineConfig) state" where
  "newMCForCR E machinePool customKernelCfg = do {
     img \<leftarrow> gets ImgMc;
     (case img of
        Some mc \<Rightarrow> return (Inr mc)
      | None \<Rightarrow>
        (case marshalIgnition (libOf E) (ignitionFor customKernelCfg) of
           Inl e \<Rightarrow> return (Inl e)
         | Inr icb \<Rightarrow>
           onInl (getExtensionName E) (\<lambda>e. return (Inl e)) (\<lambda>extension. do {
             kc \<leftarrow> gets kataConfig;
             return (Inr \<lparr>mcMeta = (mkMeta extension_mc_name OperatorNamespace)\<lparr>Labels :=
                 [''machineconfiguration.openshift.io/role'' \<mapsto> machinePool, ''app'' \<mapsto> Name (kcMeta kc)]\<rparr>,
               mcSpecOf = \<lparr>Extensions = [extension], mcConfigRaw = icb, OSImageURL = [], KernelArguments = []\<rparr>\<rparr>)
           })))
   }"

text \<open>The second part of \<open>createMc\<close>: the desired object against the existing one.\<close>

definition applyMc :: "env \<Rightarrow> machineConfig \<Rightarrow> ('z, goerr + bool) op" where
  "applyMc E mc =
     onInl (getMC E (Name (mcMeta mc)))
       (\<lambda>err. if IsNotFound err \<or> IsGone err
          then onErr (writeOp E (CreateReq (OMachineConfig mc))) (\<lambda>e. return (Inl e)) (return (Inr True))
          else return (Inl err))
       (\<lambda>existingMc. if mcSpecOf existingMc \<noteq> mcSpecOf mc
          then onErr (writeOp E (UpdateReq (OMachineConfig (existingMc\<lparr>mcSpecOf := mcSpecOf mc\<rparr>))))
             (\<lambda>e. return (Inl e)) (return (Inr False))
          else return (Inr False))"

definition createMc ::
  "env \<Rightarrow> string \<Rightarrow> customKernelConfig option \<Rightarrow> (rstate, goerr + bool) state" where
  "createMc E machinePool customKernelCfg =
     onInl (newMCForCR E machinePool customKernelCfg) (\<lambda>e. return (Inl e)) (applyMc E)"

section \<open>Frames\<close>

lemmas mco_support_defs =
  processLogLevel_def removeLogLevel_def processDaemonsetForMonitor_def deleteScc_def createScc_def
  processDashboardConfigMap_def newMCPforCR_def getCustomKernelConfig_def newMCForCR_def

lemma emits_mco_queries:
  "emits readOnly (processDaemonsetForMonitor E v)" "emits readOnly (processDashboardConfigMap E)"
  "emits readOnly (newMCPforCR E)" "emits readOnly (getCustomKernelConfig E)"
  "emits readOnly (newMCForCR E pool ck)"
  unfolding mco_support_defs by (intro emits_intros; simp add: readOnly_def)+

lemmas mco_query_frames [emits_intros] = emits_mco_queries[THEN emits_mono]

lemma emits_mco_operations:
  "emits (writesOnly {KCtrRuntimeConfig}) (processLogLevel E l)"
  "emits (writesOnly {KCtrRuntimeConfig}) (removeLogLevel E)"
  "emits (writesOnly {KScc}) (createScc E)" "emits (writesOnly {KScc}) (deleteScc E)"
  "emits (writesOnly {KMachineConfig}) (createMc E pool ck)"
  "emits (writesOnly {KDaemonSet, KNetworkPolicy}) (createDaemonsetForMonitor E)"
  "emits (writesOnly {KDaemonSet, KNetworkPolicy}) (deleteDaemonsetForMonitor E)"
  unfolding processLogLevel_def removeLogLevel_def createScc_def deleteScc_def createMc_def applyMc_def
    createDaemonsetForMonitor_def deleteDaemonsetForMonitor_def
  by (intro emits_intros; auto intro: readOnly_writesOnly dest!: npWrite_only elim: writesOnly_mono)+

lemmas mco_operation_frames [emits_intros] = emits_mco_operations[THEN emits_mono]

lemma preserves_mco_support [preserves_intros]:
  assumes "\<And>s t. f (s\<lparr>trace := t\<rparr>) = f s"
  shows "preserves f (processLogLevel E l)" "preserves f (removeLogLevel E)"
    "preserves f (processDashboardConfigMap E)" "preserves f (newMCPforCR E)"
    "preserves f (getCustomKernelConfig E)" "preserves f (deleteScc E)"
  unfolding mco_support_defs getNodeSelectorAsLabelSelector_def by (intro preserves_intros assms)+

lemma preserves_mco_operations [preserves_intros]:
  assumes "\<And>s t. f (s\<lparr>trace := t\<rparr>) = f s"
  shows "preserves f (processDaemonsetForMonitor E v)" "preserves f (newMCForCR E pool ck)"
    "preserves f (createScc E)" "preserves f (createMc E pool ck)"
    "preserves f (createDaemonsetForMonitor E)" "preserves f (deleteDaemonsetForMonitor E)"
  unfolding createMc_def applyMc_def createDaemonsetForMonitor_def deleteDaemonsetForMonitor_def mco_support_defs
    getSecretVersion_def
  by (intro preserves_intros assms)+

section \<open>The Ignition file of a custom kernel\<close>

lemma split_no_sep: "c \<notin> set w \<Longrightarrow> split c (w @ c # s) = w # split c s"
  by (induction w) auto

lemma split_last: "c \<notin> set w \<Longrightarrow> split c w = [w]"
  by (induction w) auto



section \<open>The MachineConfig\<close>

lemma newMCForCR_parts:
  "result (newMCForCR E pool ck) s = (case ImgMc s of
     Some mc \<Rightarrow> Inr mc
   | None \<Rightarrow> (case marshalIgnition (libOf E) (ignitionFor ck) of
       Inl e \<Rightarrow> Inl e
     | Inr icb \<Rightarrow> (case result (getExtensionName E) s of
         Inl e \<Rightarrow> Inl e
       | Inr ext \<Rightarrow> Inr \<lparr>mcMeta = (mkMeta extension_mc_name OperatorNamespace)\<lparr>Labels :=
             [''machineconfiguration.openshift.io/role'' \<mapsto> pool, ''app'' \<mapsto> Name (kcMeta (kataConfig s))]\<rparr>,
           mcSpecOf = \<lparr>Extensions = [ext], mcConfigRaw = icb, OSImageURL = [], KernelArguments = []\<rparr>\<rparr>)))"
proof -
  have "preserves kataConfig (getExtensionName E :: (rstate, _) state)" by (intro preserves_intros) simp
  then have "kataConfig (exec (getExtensionName E) s) = kataConfig s" by (rule preservesD)
  then show ?thesis
    by (simp add: newMCForCR_def run_simps split: option.split sum.split)
qed

text \<open>The write \<open>createMc\<close> makes for the desired MachineConfig and the server's answer.\<close>

definition mcWrite :: "machineConfig \<Rightarrow> goerr + machineConfig \<Rightarrow> request list" where
  "mcWrite mc found = (case found of
     Inl err \<Rightarrow> if IsNotFound err \<or> IsGone err then [CreateReq (OMachineConfig mc)] else []
   | Inr old \<Rightarrow> if mcSpecOf old = mcSpecOf mc then []
       else [UpdateReq (OMachineConfig (old\<lparr>mcSpecOf := mcSpecOf mc\<rparr>))])"

lemma newMCForCR_appends: "appends (newMCForCR E pool ck)" "writesOf (newMCForCR E pool ck) s = []"
  by (intro emits_intros TrueI) (rule writesOf_readOnly, intro emits_intros, simp)

lemma applyMc_appends: "appends (applyMc E mc)"
  unfolding applyMc_def by (intro emits_intros TrueI)

lemma applyMc_writes:
  "writesOf (applyMc E mc) s = mcWrite mc (getMachineConfig (apiOf E) (trace s) (Name (mcMeta mc)))"
  unfolding applyMc_def
  by (subst writesOf_onInl; (intro emits_intros TrueI)?)
    (auto simp: mcWrite_def writesOf_onErr emits_writeOp emits_return split: sum.split option.split)

lemma applyMc_result:
  "case result (applyMc E mc) s of
     Inl _ \<Rightarrow> True
   | Inr created \<Rightarrow> created \<longleftrightarrow>
       mcWrite mc (getMachineConfig (apiOf E) (trace s) (Name (mcMeta mc))) = [CreateReq (OMachineConfig mc)]"
  by (simp add: applyMc_def mcWrite_def run_simps split: sum.split option.split)

lemma newMCForCR_choice:
  assumes "result (newMCForCR E pool ck) s = Inr mc"
  shows "case ImgMc s of
      Some img \<Rightarrow> mc = img
    | None \<Rightarrow> Name (mcMeta mc) = extension_mc_name \<and> length (Extensions (mcSpecOf mc)) = 1 \<and>
        Labels (mcMeta mc) ''machineconfiguration.openshift.io/role'' = Some pool \<and>
        Labels (mcMeta mc) ''app'' = Some (Name (kcMeta (kataConfig s)))"
  using assms by (auto simp: newMCForCR_parts split: option.splits sum.splits)


section \<open>The log level in effect\<close>

text \<open>
  CRI-O runs with the level of the ContainerRuntimeConfig, or with the default without one. The
  effect of a write on the stored object:
\<close>

definition effectiveLogLevel :: "ctrRuntimeConfig option \<Rightarrow> string option" where
  "effectiveLogLevel c = (case c of None \<Rightarrow> Some ''info'' | Some cfg \<Rightarrow> crcLogLevel cfg)"

fun crcAfter :: "request \<Rightarrow> ctrRuntimeConfig option \<Rightarrow> ctrRuntimeConfig option" where
  "crcAfter (CreateReq (OCtrRuntimeConfig c)) _ = Some c"
| "crcAfter (UpdateReq (OCtrRuntimeConfig c)) _ = Some c"
| "crcAfter (DeleteReq KCtrRuntimeConfig _ _) _ = None"
| "crcAfter _ c = c"

text \<open>The stored object an answer to a Get stands for: absent, present, or not known.\<close>

definition storedAs :: "goerr + 'a \<Rightarrow> 'a option \<Rightarrow> bool" where
  "storedAs found c = (case found of Inl e \<Rightarrow> IsNotFound e \<and> c = None | Inr x \<Rightarrow> c = Some x)"

lemma processLogLevel_writes:
  "writesOf (processLogLevel E level) s =
    (let d = if level = [] then ''info'' else level in
     case getCtrRuntimeConfig (apiOf E) (trace s) container_runtime_config_name of
       Inl e \<Rightarrow> if IsNotFound e \<and> d \<noteq> ''info'' then
           [CreateReq (OCtrRuntimeConfig (makeContainerRuntimeConfig d (byLabels (poolSelectorLabels
             (result (checkConvergedCluster E) (s\<lparr>trace := trace s @
               [Ev (GetReq KCtrRuntimeConfig [] container_runtime_config_name) (Some e)]\<rparr>))))))]
         else []
     | Inr c \<Rightarrow> if crcLogLevel c = None \<or> crcLogLevel c = Some d then []
         else [UpdateReq (OCtrRuntimeConfig (c\<lparr>crcLogLevel := Some d\<rparr>))])"
proof -
  have quiet: "appends (checkConvergedCluster E)" "writesOf (checkConvergedCluster E) s = []" for s
    by (intro emits_intros TrueI) (rule writesOf_readOnly, intro emits_intros, simp)
  show ?thesis unfolding processLogLevel_def Let_def
    by (subst writesOf_onInl; (intro emits_intros TrueI)?)
      (auto simp: writesOf_bind quiet emits_writeOp split: sum.split option.split)
qed

lemma processLogLevel_ok:
  assumes "result (processLogLevel E level) s = None"
  shows "\<exists>c. storedAs (getCtrRuntimeConfig (apiOf E) (trace s) container_runtime_config_name) c \<and>
     effectiveLogLevel (fold crcAfter (writesOf (processLogLevel E level) s) c) =
       Some (if level = [] then ''info'' else level)"
  unfolding processLogLevel_writes using assms
  by (auto simp: processLogLevel_def Let_def run_simps storedAs_def
      effectiveLogLevel_def makeContainerRuntimeConfig_def split: sum.splits option.splits if_splits)

lemma removeLogLevel_ok:
  assumes "result (removeLogLevel E) s = None"
  shows "\<exists>c. storedAs (getCtrRuntimeConfig (apiOf E) (trace s) container_runtime_config_name) c \<and>
     effectiveLogLevel (fold crcAfter (writesOf (removeLogLevel E) s) c) = Some ''info''"
proof -
  have w: "writesOf (removeLogLevel E) s =
      (case getCtrRuntimeConfig (apiOf E) (trace s) container_runtime_config_name of
         Inl _ \<Rightarrow> [] | Inr c \<Rightarrow> [DeleteReq KCtrRuntimeConfig [] (Name (crcMeta c))])"
    unfolding removeLogLevel_def
    by (subst writesOf_onInl; (intro emits_intros TrueI)?) (simp split: sum.split)
  show ?thesis unfolding w using assms
    by (auto simp: removeLogLevel_def run_simps storedAs_def effectiveLogLevel_def
        split: sum.splits if_splits)
qed

text \<open>
  C28: the log level in effect. When \<open>processLogLevel\<close> succeeds, the writes it made (at most one)
  turn the ContainerRuntimeConfig the server holds, if any, into one under which CRI-O runs with the
  requested level, \<open>info\<close> when none is requested; when \<open>removeLogLevel\<close> succeeds, CRI-O is back at the
  default. Neither succeeds when the stored object could not be read.
\<close>

theorem log_level_in_effect:
  "(case result (processLogLevel E level) s of
      Some _ \<Rightarrow> True
    | None \<Rightarrow> (\<exists>c. storedAs (getCtrRuntimeConfig (apiOf E) (trace s) container_runtime_config_name) c \<and>
        effectiveLogLevel (fold crcAfter (writesOf (processLogLevel E level) s) c) =
          Some (if level = [] then ''info'' else level))) \<and>
   length (writesOf (processLogLevel E level) s) \<le> 1 \<and>
   (case result (removeLogLevel E) s of
      Some _ \<Rightarrow> True
    | None \<Rightarrow> (\<exists>c. storedAs (getCtrRuntimeConfig (apiOf E) (trace s) container_runtime_config_name) c \<and>
        effectiveLogLevel (fold crcAfter (writesOf (removeLogLevel E) s) c) = Some ''info''))"
  using processLogLevel_ok[of E level s] removeLogLevel_ok[of E s]
  by (simp add: option.case_eq_if processLogLevel_writes Let_def split: sum.split)

end
