(* ===== verification/Nfd_Handler.thy ===== *)
theory Nfd_Handler
  imports Runtime_Classes
begin

text \<open>
  \<^verbatim>\<open>controllers/nfd_handler.go\<close>: the NodeFeatureRule that labels nodes for mixed clusters. The
  lemmas give the labels a node receives for every set of CPUID features and what the operations
  on the rule write.
\<close>

definition nfdNamespace :: string where "nfdNamespace = ''openshift-nfd''"
definition oscNodeTypeRuleName :: string where "oscNodeTypeRuleName = ''osc-node-type''"
definition nodeTypeLabelBM :: string where "nodeTypeLabelBM = ''bare-metal''"
definition nodeTypeLabelVirtual :: string where "nodeTypeLabelVirtual = ''virtual''"

definition oscNodeTypeRule :: nodeFeatureRule where
  "oscNodeTypeRule = \<lparr>nfrMeta = mkMeta oscNodeTypeRuleName nfdNamespace, nfrRules =
     [\<lparr>frName = ''osc-bare-metal-node'',
        frLabels = [(nodeTypeLabelKey, nodeTypeLabelBM), (kataCapableLabelKey, ''true'')],
        frMatchFeatures = [\<lparr>fmFeature = ''cpu.cpuid'',
          fmExpressions = [(''HYPERVISOR'', ''DoesNotExist'')]\<rparr>]\<rparr>,
      \<lparr>frName = ''osc-virtual-node'',
        frLabels = [(nodeTypeLabelKey, nodeTypeLabelVirtual)],
        frMatchFeatures = [\<lparr>fmFeature = ''cpu.cpuid'',
          fmExpressions = [(''HYPERVISOR'', ''Exists'')]\<rparr>]\<rparr>,
      \<lparr>frName = ''osc-nested-virt-intel'',
        frLabels = [(kataCapableLabelKey, ''true''), (nestedVirtLabelKey, ''true'')],
        frMatchFeatures = [\<lparr>fmFeature = ''cpu.cpuid'',
          fmExpressions = [(''HYPERVISOR'', ''Exists''), (''VMX'', ''Exists'')]\<rparr>]\<rparr>,
      \<lparr>frName = ''osc-nested-virt-amd'',
        frLabels = [(kataCapableLabelKey, ''true''), (nestedVirtLabelKey, ''true'')],
        frMatchFeatures = [\<lparr>fmFeature = ''cpu.cpuid'',
          fmExpressions = [(''HYPERVISOR'', ''Exists''), (''SVM'', ''Exists'')]\<rparr>]\<rparr>]\<rparr>"

definition ensureNodeFeatureRule :: "env \<Rightarrow> (rstate, goerr option) state" where
  "ensureNodeFeatureRule E = do {
     kc \<leftarrow> gets kataConfig;
     createOrUpdate E (GetReq KNodeFeatureRule nfdNamespace oscNodeTypeRuleName)
       (\<lambda>h. mutableNodeFeatureRule (apiOf E) h nfdNamespace oscNodeTypeRuleName) ONodeFeatureRule
       (\<lambda>existing. let ex = existing\<lparr>nfrRules := nfrRules oscNodeTypeRule\<rparr>
          in (case SetControllerReference E kc (nfrMeta ex) of
                Inl e \<Rightarrow> Inl e
              | Inr m \<Rightarrow> Inr (ex\<lparr>nfrMeta := m\<rparr>)))
   }"

definition isNoKindMatchError :: "goerr option \<Rightarrow> bool" where
  "isNoKindMatchError err = (case err of None \<Rightarrow> False | Some e \<Rightarrow> IsNoMatchError e)"

definition nodeFeatureRuleExists :: "env \<Rightarrow> ('z, goerr + bool) op" where
  "nodeFeatureRuleExists E = do {
     err \<leftarrow> probeOp E KNodeFeatureRule nfdNamespace oscNodeTypeRuleName;
     return (case err of
        None \<Rightarrow> Inr True
      | Some e \<Rightarrow> if IsNotFound e \<or> isNoKindMatchError err then Inr False else Inl e)
   }"

definition deleteNodeFeatureRule :: "env \<Rightarrow> ('z, goerr option) op" where
  "deleteNodeFeatureRule E = do {
     err \<leftarrow> writeOp E (DeleteReq KNodeFeatureRule nfdNamespace oscNodeTypeRuleName);
     return (case err of
        None \<Rightarrow> None
      | Some e \<Rightarrow> if IsNotFound e \<or> isNoKindMatchError err then None else Some e)
   }"

definition checkNFDInstalled :: "env \<Rightarrow> ('z, goerr option) op" where
  "checkNFDInstalled E =
     onInl (readOp (ListReq KNodeFeatureDiscovery) (listNfdCount (apiOf E)))
       (\<lambda>err. if IsNotFound err \<or> isNoKindMatchError (Some err)
          then return (Some (Errorf ''NFD Operator is not installed: enableMixedCluster requires the Node Feature Discovery Operator and a NodeFeatureDiscovery CR''))
          else return (Some err))
       (\<lambda>n. if n = 0
          then return (Some (Errorf (''NFD Operator is installed but no NodeFeatureDiscovery CR found: create a NodeFeatureDiscovery CR in '' @ nfdNamespace)))
          else return None)"

section \<open>Frames\<close>

lemma emits_nfd:
  "emits readOnly (nodeFeatureRuleExists E)" "emits readOnly (checkNFDInstalled E)"
  "emits (writesOnly {KNodeFeatureRule}) (deleteNodeFeatureRule E)"
  "emits (writesOnly {KNodeFeatureRule}) (ensureNodeFeatureRule E)"
  unfolding nodeFeatureRuleExists_def checkNFDInstalled_def deleteNodeFeatureRule_def ensureNodeFeatureRule_def
  by (intro emits_intros emits_createOrUpdate; simp add: readOnly_def)+

lemmas nfd_frames [emits_intros] = emits_nfd[THEN emits_mono]

lemma preserves_nfd [preserves_intros]:
  assumes "\<And>s t. f (s\<lparr>trace := t\<rparr>) = f s"
  shows "preserves f (nodeFeatureRuleExists E)" "preserves f (checkNFDInstalled E)"
    "preserves f (deleteNodeFeatureRule E)"
  unfolding nodeFeatureRuleExists_def checkNFDInstalled_def deleteNodeFeatureRule_def
  by (intro preserves_intros assms)+

lemma preserves_ensureNodeFeatureRule [preserves_intros]:
  assumes "\<And>s t. f (s\<lparr>trace := t\<rparr>) = f s"
  shows "preserves f (ensureNodeFeatureRule E)"
  unfolding ensureNodeFeatureRule_def by (intro preserves_intros assms)

section \<open>The labels of a node\<close>

text \<open>
  Node Feature Discovery evaluates an operator on a feature (\<open>holds\<close>, a parameter) and adds the
  labels of every rule whose expressions all hold.
\<close>

definition ruleHolds :: "(string \<Rightarrow> string \<Rightarrow> bool) \<Rightarrow> featureRule \<Rightarrow> bool" where
  "ruleHolds holds r = list_all (\<lambda>m. list_all (\<lambda>(f, p). holds p f) (fmExpressions m)) (frMatchFeatures r)"

definition nodeLabelsOf :: "(string \<Rightarrow> string \<Rightarrow> bool) \<Rightarrow> nodeFeatureRule \<Rightarrow> (string \<times> string) set" where
  "nodeLabelsOf holds nfr = (\<Union>r \<in> set (filter (ruleHolds holds) (nfrRules nfr)). set (frLabels r))"

lemma label_keys_distinct [simp]:
  "nodeTypeLabelKey \<noteq> kataCapableLabelKey" "kataCapableLabelKey \<noteq> nodeTypeLabelKey"
  "nodeTypeLabelKey \<noteq> nestedVirtLabelKey" "nestedVirtLabelKey \<noteq> nodeTypeLabelKey"
  "nestedVirtLabelKey \<noteq> kataCapableLabelKey" "kataCapableLabelKey \<noteq> nestedVirtLabelKey"
  "nodeTypeLabelBM \<noteq> nodeTypeLabelVirtual" "nodeTypeLabelVirtual \<noteq> nodeTypeLabelBM"
  by (simp_all add: nodeTypeLabelKey_def kataCapableLabelKey_def nestedVirtLabelKey_def
      nodeTypeLabelBM_def nodeTypeLabelVirtual_def)

text \<open>
  The labels the NodeFeatureRule gives a node, for every set of CPUID features, provided that
  the operators mean what Node Feature Discovery documents: \<open>Exists\<close> that the feature is present
  and \<open>DoesNotExist\<close> that it is absent. Exactly one node type is assigned, bare metal when there is
  no hypervisor and virtual otherwise; a node is Kata capable exactly when it is bare metal or has
  nested virtualisation (VMX or SVM); and nested virtualisation is only claimed under a hypervisor.
\<close>

theorem node_type_labels:
  assumes "\<And>f. holds ''Exists'' f \<longleftrightarrow> f \<in> cpuid"
    and "\<And>f. holds ''DoesNotExist'' f \<longleftrightarrow> f \<notin> cpuid"
  shows "nodeLabelsOf holds oscNodeTypeRule =
     {(nodeTypeLabelKey, if ''HYPERVISOR'' \<in> cpuid then nodeTypeLabelVirtual else nodeTypeLabelBM)} \<union>
     (if ''HYPERVISOR'' \<in> cpuid \<and> ''VMX'' \<notin> cpuid \<and> ''SVM'' \<notin> cpuid then {}
      else {(kataCapableLabelKey, ''true'')}) \<union>
     (if ''HYPERVISOR'' \<in> cpuid \<and> (''VMX'' \<in> cpuid \<or> ''SVM'' \<in> cpuid)
      then {(nestedVirtLabelKey, ''true'')} else {})"
  by (auto simp: nodeLabelsOf_def oscNodeTypeRule_def ruleHolds_def assms)

theorem node_type_labels_witness:
  "nodeLabelsOf (\<lambda>p f. if p = ''Exists'' then f \<in> {''HYPERVISOR'', ''SVM''} else f \<notin> {''HYPERVISOR'', ''SVM''})
     oscNodeTypeRule =
   {(nodeTypeLabelKey, nodeTypeLabelVirtual), (kataCapableLabelKey, ''true''), (nestedVirtLabelKey, ''true'')}"
  by (subst node_type_labels[where cpuid = "{''HYPERVISOR'', ''SVM''}"]) auto

end
