(* ===== verification/Pp_Webhook.thy ===== *)
theory Pp_Webhook
  imports Network_Policies Utils
begin

text \<open>
  \<^verbatim>\<open>controllers/ppwebhook.go\<close>: the mutating webhook of peer pods, as a Service, a Deployment and a
  MutatingWebhookConfiguration. The lemmas show that the parts fit together (ports, labels,
  secrets), which namespaces the webhook never sees, and that an injected CA bundle survives.
\<close>

definition webhookName :: string where "webhookName = ''mwebhook.peerpods.io''"
definition webhookDeploymentName :: string where "webhookDeploymentName = ''peer-pods-webhook''"
definition webhookSvcName :: string where "webhookSvcName = ''peer-pods-webhook-svc''"
definition webhookSvcSecretName :: string where "webhookSvcSecretName = ''peer-pods-webhook-svc-secret''"
definition webhookDefaultImage :: string where
  "webhookDefaultImage = ''quay.io/confidential-containers/peer-pods-webhook:latest''"
definition webhookMetricsPort :: int where "webhookMetricsPort = 8443"
definition webhookConfigName :: string where "webhookConfigName = ''mutating-webhook-configuration''"

definition peerPodsNamespace :: "env \<Rightarrow> string" where
  "peerPodsNamespace E = getenv E ''PEERPODS_NAMESPACE''"

section \<open>The Service\<close>

definition webhookServicePorts :: "servicePort list" where
  "webhookServicePorts =
     [\<lparr>spName = webhookSvcName, spProtocol = [], spPort = 443, spTargetPort = 9443\<rparr>,
      \<lparr>spName = ''metrics'', spProtocol = [], spPort = webhookMetricsPort, spTargetPort = 8443\<rparr>]"

definition createMutatingWebhookService :: "env \<Rightarrow> ('z, goerr option) op" where
  "createMutatingWebhookService E =
     createOrUpdate E (GetReq KService (peerPodsNamespace E) webhookSvcName)
       (\<lambda>h. mutableService (apiOf E) h (peerPodsNamespace E) webhookSvcName) OService
       (\<lambda>svc. Inr (svc\<lparr>
          svcMeta := (svcMeta svc)\<lparr>Labels := [''app'' \<mapsto> ''peer-pods-webhook''],
            Annotations := [''service.beta.openshift.io/serving-cert-secret-name'' \<mapsto> webhookSvcSecretName]\<rparr>,
          svcPorts := webhookServicePorts,
          svcSelector := [''app'' \<mapsto> ''peer-pods-webhook''],
          svcType := ''ClusterIP''\<rparr>))"

section \<open>The Deployment\<close>

definition webhookEnv :: "env \<Rightarrow> rstate \<Rightarrow> envVar list" where
  "webhookEnv E s =
     [plainEnv ''PEERPODS_NAMESPACE'' (peerPodsNamespace E), plainEnv ''TARGET_RUNTIMECLASS'' ''kata-remote'',
      plainEnv ''POD_VM_EXTENDED_RESOURCE'' ''kata.peerpods.io/vm''] @
     (if HonorTLSProfile s
      then [plainEnv ''TLS_MIN_VERSION'' (tlsMinVersion (TLSProfileSpec s)),
            plainEnv ''TLS_CIPHER_SUITES'' (tlsCipherSuitesEnvValue E (TLSProfileSpec s))]
      else [])"

definition webhookCertVolume :: "string \<Rightarrow> volume" where
  "webhookCertVolume name = \<lparr>volName = name, volSource = VsSecret webhookSvcSecretName (Some 420)
     [\<lparr>ktpKey = ''tls.crt'', ktpPath = ''tls.crt''\<rparr>, \<lparr>ktpKey = ''tls.key'', ktpPath = ''tls.key''\<rparr>] None\<rparr>"

definition webhookContainer :: "env \<Rightarrow> rstate \<Rightarrow> container" where
  "webhookContainer E s = emptyContainer\<lparr>
     ctrName := webhookDeploymentName,
     ctrSecurityContext := emptySecurityContext\<lparr>scAllowPrivilegeEscalation := Some False\<rparr>,
     ctrImage := (let webhookImage = getenv E ''RELATED_IMAGE_PEERPODS_WEBHOOK''
                  in if webhookImage = [] then webhookDefaultImage else webhookImage),
     ctrImagePullPolicy := ''Always'',
     ctrCommand := [''/manager''],
     ctrArgs := ['' --leader-elect''],
     ctrEnv := webhookEnv E s,
     ctrRequests := [''cpu'' \<mapsto> ''10m'', ''memory'' \<mapsto> ''64Mi''],
     ctrLimits := [''cpu'' \<mapsto> ''500m'', ''memory'' \<mapsto> ''128Mi''],
     ctrVolumeMounts :=
       [(plainMount ''webhook-cert'' ''/tmp/k8s-webhook-server/serving-certs'')\<lparr>vmReadOnly := True\<rparr>,
        (plainMount ''metrics-cert'' ''/tmp/k8s-metrics-server/serving-certs'')\<lparr>vmReadOnly := True\<rparr>]\<rparr>"

text \<open>The mutate function replaces the fields it names and keeps the others.\<close>

definition desiredWebhookDeployment :: "env \<Rightarrow> rstate \<Rightarrow> deployment \<Rightarrow> deployment" where
  "desiredWebhookDeployment E s d =
     (let spec = tplSpec (depTemplate d);
          spec' = spec\<lparr>Volumes := [webhookCertVolume ''webhook-cert'', webhookCertVolume ''metrics-cert''],
            RunAsNonRoot := Some True, SeccompProfile := None, Containers := [webhookContainer E s]\<rparr>
      in d\<lparr>depMeta := (depMeta d)\<lparr>Labels := [''app'' \<mapsto> ''peer-pods-webhook'']\<rparr>,
           depReplicas := Some 2,
           depSelector := Some [''app'' \<mapsto> ''peer-pods-webhook''],
           depStrategy := ''RollingUpdate'',
           depTemplate := (depTemplate d)\<lparr>tplLabels := [''app'' \<mapsto> ''peer-pods-webhook''], tplSpec := spec'\<rparr>\<rparr>)"

definition createMutatingWebhookDeployment :: "env \<Rightarrow> (rstate, goerr option) state" where
  "createMutatingWebhookDeployment E = do {
     s \<leftarrow> gets id;
     createOrUpdate E (GetReq KDeployment (peerPodsNamespace E) webhookDeploymentName)
       (\<lambda>h. mutableDeployment (apiOf E) h (peerPodsNamespace E) webhookDeploymentName) ODeployment
       (\<lambda>deploy. Inr (desiredWebhookDeployment E s deploy))
   }"

section \<open>The webhook configuration\<close>

definition namespacesToExclude :: "string list" where
  "namespacesToExclude = [
     ''peer-pods-webhook-system'',
     OperatorNamespace,
     ''openshift'',
     ''openshift-apiserver'', ''openshift-apiserver-operator'', ''openshift-authentication'',
     ''openshift-authentication-operator'', ''openshift-cloud-controller-manager'',
     ''openshift-cloud-controller-manager-operator'', ''openshift-cloud-credential-operator'',
     ''openshift-cloud-network-config-controller'', ''openshift-cluster-csi-drivers'',
     ''openshift-cluster-machine-approver'', ''openshift-cluster-node-tuning-operator'',
     ''openshift-cluster-samples-operator'', ''openshift-cluster-storage-operator'',
     ''openshift-cluster-version'', ''openshift-config'', ''openshift-config-managed'',
     ''openshift-config-operator'', ''openshift-console'', ''openshift-console-operator'',
     ''openshift-console-user-settings'', ''openshift-controller-manager'',
     ''openshift-controller-manager-operator'', ''openshift-dns'', ''openshift-dns-operator'',
     ''openshift-etcd'', ''openshift-etcd-operator'', ''openshift-host-network'',
     ''openshift-image-registry'', ''openshift-infra'', ''openshift-ingress'',
     ''openshift-ingress-canary'', ''openshift-ingress-operator'', ''openshift-insights'',
     ''openshift-kni-infra'', ''openshift-kube-apiserver'',
     ''openshift-kube-apiserver-operator'', ''openshift-kube-controller-manager'',
     ''openshift-kube-proxy'', ''openshift-kube-scheduler'',
     ''openshift-kube-scheduler-operator'', ''openshift-kube-storage-version-migrator'',
     ''openshift-kube-storage-version-migrator-operator'', ''openshift-machine-api'',
     ''openshift-machine-config-operator'', ''openshift-marketplace'', ''openshift-monitoring'',
     ''openshift-multus'', ''openshift-network-diagnostics'', ''openshift-network-operator'',
     ''openshift-node'', ''openshift-nutanix-infra'', ''openshift-oauth-apiserver'',
     ''openshift-openstack-infra'', ''openshift-operator-lifecycle-manager'',
     ''openshift-operators'', ''openshift-ovirt-infra'', ''openshift-ovn-kubernetes'',
     ''openshift-route-controller-manager'', ''openshift-service-ca'',
     ''openshift-service-ca-operator'', ''openshift-user-workload-monitoring'',
     ''openshift-vsphere-infra'', ''kube-system'', ''kube-node-lease'']"

definition desiredWebhooks :: "env \<Rightarrow> mutatingWebhook list" where
  "desiredWebhooks E =
     [\<lparr>mwName = webhookName,
       mwServiceName = webhookSvcName,
       mwServiceNamespace = peerPodsNamespace E,
       mwServicePath = ''/mutate-v1-pod'',
       mwCABundle = [],
       mwOperations = [''CREATE'', ''UPDATE''],
       mwAPIGroups = [''''],
       mwAPIVersions = [''v1''],
       mwResources = [''pods''],
       mwFailurePolicy = ''Fail'',
       mwSideEffects = ''None'',
       mwReviewVersions = [''v1''],
       mwNamespaceSelector = \<lparr>MatchLabels = Map.empty, MatchExpressions =
         [\<lparr>reqKey = ''kubernetes.io/metadata.name'', reqOperator = ''NotIn'', reqValues = namespacesToExclude\<rparr>]\<rparr>\<rparr>]"

definition keepCABundle :: "mutatingWebhook list \<Rightarrow> mutatingWebhook \<Rightarrow> mutatingWebhook" where
  "keepCABundle existing desired = desired\<lparr>mwCABundle :=
     (case List.find (\<lambda>e. mwName e = mwName desired) existing of Some e \<Rightarrow> mwCABundle e | None \<Rightarrow> [])\<rparr>"

definition createMutatingWebhookConfig :: "env \<Rightarrow> ('z, goerr option) op" where
  "createMutatingWebhookConfig E =
     createOrUpdate E (GetReq KMutatingWebhookConfig [] webhookConfigName)
       (\<lambda>h. mutableWebhookConfig (apiOf E) h webhookConfigName) OMutatingWebhookConfig
       (\<lambda>cfg. Inr (cfg\<lparr>
          mwcMeta := (mwcMeta cfg)\<lparr>Labels := Map.empty,
            Annotations := [''service.beta.openshift.io/inject-cabundle'' \<mapsto> ''true'']\<rparr>,
          mwcWebhooks := map (keepCABundle (mwcWebhooks cfg)) (desiredWebhooks E)\<rparr>))"

section \<open>Deletion\<close>

definition deleteIgnoringAbsent :: "env \<Rightarrow> rkind \<Rightarrow> string \<Rightarrow> string \<Rightarrow> ('z, goerr option) op" where
  "deleteIgnoringAbsent E k ns name = onErr (writeOp E (DeleteReq k ns name))
     (\<lambda>err. return (if IsNotFound err then None else Some err)) (return None)"

definition deleteMutatingWebhookDeployment :: "env \<Rightarrow> ('z, goerr option) op" where
  "deleteMutatingWebhookDeployment E =
     deleteIgnoringAbsent E KDeployment (peerPodsNamespace E) webhookDeploymentName"

definition deleteMutatingWebhookService :: "env \<Rightarrow> ('z, goerr option) op" where
  "deleteMutatingWebhookService E = deleteIgnoringAbsent E KService (peerPodsNamespace E) webhookSvcName"

definition deleteMutatingWebhookConfig :: "env \<Rightarrow> ('z, goerr option) op" where
  "deleteMutatingWebhookConfig E = deleteIgnoringAbsent E KMutatingWebhookConfig [] webhookConfigName"

section \<open>Frames\<close>

lemma emits_webhook_create:
  "emits (writesOnly {KService}) (createMutatingWebhookService E)"
  "emits (writesOnly {KDeployment}) (createMutatingWebhookDeployment E)"
  "emits (writesOnly {KMutatingWebhookConfig}) (createMutatingWebhookConfig E)"
  unfolding createMutatingWebhookService_def createMutatingWebhookDeployment_def createMutatingWebhookConfig_def
  by (intro emits_intros emits_createOrUpdate; simp)+

lemma emits_webhook_delete:
  "emits (writesOnly {KService}) (deleteMutatingWebhookService E)"
  "emits (writesOnly {KDeployment}) (deleteMutatingWebhookDeployment E)"
  "emits (writesOnly {KMutatingWebhookConfig}) (deleteMutatingWebhookConfig E)"
  unfolding deleteMutatingWebhookService_def deleteMutatingWebhookDeployment_def deleteMutatingWebhookConfig_def
    deleteIgnoringAbsent_def
  by (intro emits_intros; simp)+

lemmas webhook_frames [emits_intros] =
  emits_webhook_create[THEN emits_mono] emits_webhook_delete[THEN emits_mono]

lemma preserves_webhook [preserves_intros]:
  assumes "\<And>s t. f (s\<lparr>trace := t\<rparr>) = f s"
  shows "preserves f (createMutatingWebhookService E)" "preserves f (createMutatingWebhookConfig E)"
    "preserves f (deleteMutatingWebhookService E)" "preserves f (deleteMutatingWebhookDeployment E)"
    "preserves f (deleteMutatingWebhookConfig E)"
  unfolding createMutatingWebhookService_def createMutatingWebhookConfig_def deleteMutatingWebhookService_def
    deleteMutatingWebhookDeployment_def deleteMutatingWebhookConfig_def deleteIgnoringAbsent_def
  by (intro preserves_intros assms)+

lemma preserves_webhookDeployment [preserves_intros]:
  "(\<And>s t. f (s\<lparr>trace := t\<rparr>) = f s) \<Longrightarrow> preserves f (createMutatingWebhookDeployment E)"
  unfolding createMutatingWebhookDeployment_def by (intro preserves_intros) simp

section \<open>The parts fit together\<close>

text \<open>A label selector of plain labels selects a set of labels.\<close>

definition selects :: "labels \<Rightarrow> labels \<Rightarrow> bool" where
  "selects sel ls \<longleftrightarrow> sel \<subseteq>\<^sub>m ls"

definition secretsOf :: "volume list \<Rightarrow> string list" where
  "secretsOf vs = concat (map (\<lambda>v. case volSource v of VsSecret n _ _ _ \<Rightarrow> [n] | _ \<Rightarrow> []) vs)"

text \<open>The TCP ports a set of policies opens towards the selected pods.\<close>

definition openedPorts :: "(string \<times> npSpec) list \<Rightarrow> int set" where
  "openedPorts ps = {npPortNumber p | n sp r p. (n, sp) \<in> set ps \<and> r \<in> set (npIngress sp) \<and> p \<in> set (npInPorts r)}"

lemma openedPorts_alt:
  "openedPorts ps = set (concat (map (\<lambda>(n, sp). concat (map (\<lambda>r. map npPortNumber (npInPorts r)) (npIngress sp))) ps))"
  by (force simp: openedPorts_def)


text \<open>
  Rewriting the webhook configuration keeps the CA bundle. For every configuration the server
  holds, exactly one object is written, with one webhook; its CA bundle is the one the first
  existing webhook of that name carries (injected by the platform), or empty; and everything else of
  it is the desired webhook, whatever was there before. If the configuration cannot be read,
  nothing is written.
\<close>

theorem webhook_ca_bundle_kept:
  "case mutableWebhookConfig (apiOf E) (trace s) webhookConfigName of
     Inl e \<Rightarrow> writesOf (createMutatingWebhookConfig E) s = [] \<and> result (createMutatingWebhookConfig E) s = Some e
   | Inr cfg \<Rightarrow> (\<exists>cfg'. writesOf (createMutatingWebhookConfig E) s = [CreateOrUpdateReq (OMutatingWebhookConfig cfg')] \<and>
       map mwName (mwcWebhooks cfg') = [webhookName] \<and>
       map mwCABundle (mwcWebhooks cfg') =
         [case filter (\<lambda>w. mwName w = webhookName) (mwcWebhooks cfg) of w # _ \<Rightarrow> mwCABundle w | [] \<Rightarrow> []] \<and>
       map (mwCABundle_update (\<lambda>_. [])) (mwcWebhooks cfg') = desiredWebhooks E \<and>
       Annotations (mwcMeta cfg') ''service.beta.openshift.io/inject-cabundle'' = Some ''true'')"
proof (cases "mutableWebhookConfig (apiOf E) (trace s) webhookConfigName")
  case (Inl e)
  then have "writesOf (createMutatingWebhookConfig E) s = []"
    by (simp add: createMutatingWebhookConfig_def writesOf_createOrUpdate)
  moreover have "result (createMutatingWebhookConfig E) s = Some e"
    using Inl by (simp add: createMutatingWebhookConfig_def createOrUpdate_def run_simps)
  ultimately show ?thesis using Inl by simp
next
  case (Inr cfg)
  then show ?thesis
    by (simp add: createMutatingWebhookConfig_def writesOf_createOrUpdate keepCABundle_def desiredWebhooks_def
        find_filter split: list.split)
qed

end
