(* ===== verification/Peer_Pods.thy ===== *)
theory Peer_Pods
  imports Pp_Webhook Runtime_Classes Image_Generator
begin

text \<open>
  \<^verbatim>\<open>controllers/peerpods.go\<close>: the cloud-api-adaptor DaemonSet, the objects around it, and enabling
  and disabling peer pods. The lemmas show how the DaemonSet is configured for every provider, that
  it is created only when \<open>peer-pods-cm\<close> exists, what enabling and disabling may write, and in which
  cases they ask for another reconciliation.
\<close>

definition caaDsName :: string where "caaDsName = ''osc-caa-ds''"

section \<open>The cloud-api-adaptor DaemonSet\<close>

definition caaEnv :: "env \<Rightarrow> rstate \<Rightarrow> envVar list \<Rightarrow> envVar list" where
  "caaEnv E s effectiveProxyEnvVars =
     effectiveProxyEnvVars @ [\<lparr>envName = ''NODE_NAME'', envValue = [], envFieldPath = Some ''spec.nodeName''\<rparr>] @
     (if HonorTLSProfile s
      then [plainEnv ''TLS_MIN_VERSION'' (tlsMinVersion (TLSProfileSpec s)),
            plainEnv ''TLS_CIPHER_SUITES'' (tlsCipherSuitesEnvValue E (TLSProfileSpec s))]
      else [])"

definition caaContainer :: "env \<Rightarrow> rstate \<Rightarrow> envVar list \<Rightarrow> container" where
  "caaContainer E s proxyVars = emptyContainer\<lparr>
     ctrName := ''caa-pod'',
     ctrImage := getenv E ''RELATED_IMAGE_CAA'',
     ctrImagePullPolicy := ''Always'',
     ctrSecurityContext := emptySecurityContext\<lparr>scPrivileged := Some True, scRunAsUser := Some 0\<rparr>,
     ctrCommand := [''/usr/local/bin/entrypoint.sh''],
     ctrEnv := caaEnv E s proxyVars,
     ctrEnvFrom := [SecretRef ''peer-pods-secret'', ConfigMapRef ''peer-pods-cm''],
     ctrVolumeMounts :=
       [(plainMount ''auth-json-volume'' ''/root/containers/'')\<lparr>vmReadOnly := True\<rparr>,
        (plainMount ''ssh'' ''/root/.ssh'')\<lparr>vmReadOnly := True\<rparr>,
        plainMount ''pods-dir'' ''/run/peerpod'',
        (plainMount ''netns'' ''/run/netns'')\<lparr>vmPropagation := Some ''HostToContainer''\<rparr>]\<rparr>"

definition caaVolumes :: "volume list" where
  "caaVolumes =
     [\<lparr>volName = ''auth-json-volume'', volSource = VsSecret ''auth-json-secret'' (Some 384) [] (Some True)\<rparr>,
      \<lparr>volName = ''ssh'', volSource = VsSecret ''ssh-key-secret'' (Some 384) [] (Some True)\<rparr>,
      \<lparr>volName = ''pods-dir'', volSource = VsHostPath ''/run/peerpod'' None\<rparr>,
      \<lparr>volName = ''netns'', volSource = VsHostPath ''/run/netns'' None\<rparr>]"

definition caaSpec :: "env \<Rightarrow> rstate \<Rightarrow> labels \<Rightarrow> envVar list \<Rightarrow> string \<Rightarrow> daemonSet \<Rightarrow> daemonSet" where
  "caaSpec E s nodeSelector proxyVars cmVersion ds = ds\<lparr>
     dsSelector := [''name'' \<mapsto> caaDsName],
     dsUpdateStrategy := Some (''RollingUpdate'', 1),
     dsTemplate := \<lparr>tplLabels = [''name'' \<mapsto> caaDsName],
       tplAnnotations = [peerpodsCMName @ ''/version'' \<mapsto> cmVersion],
       tplSpec = emptyPodSpec\<lparr>ServiceAccountName := ''default'', NodeSelector := nodeSelector,
         HostNetwork := True, Containers := [caaContainer E s proxyVars], Volumes := caaVolumes\<rparr>\<rparr>\<rparr>"

definition onPodSpec :: "(podSpec \<Rightarrow> podSpec) \<Rightarrow> daemonSet \<Rightarrow> daemonSet" where
  "onPodSpec f ds = ds\<lparr>dsTemplate := (dsTemplate ds)\<lparr>tplSpec := f (tplSpec (dsTemplate ds))\<rparr>\<rparr>"

text \<open>Appending a volume, and its mount to the first container.\<close>

definition addTrustedCA :: "volume \<times> volumeMount \<Rightarrow> podSpec \<Rightarrow> podSpec" where
  "addTrustedCA vm ps = ps\<lparr>Volumes := Volumes ps @ [fst vm],
     Containers := (case Containers ps of [] \<Rightarrow> []
       | c # cs \<Rightarrow> c\<lparr>ctrVolumeMounts := ctrVolumeMounts c @ [snd vm]\<rparr> # cs)\<rparr>"

text \<open>Appending a volume, and its mount to the containers named \<open>caa-pod\<close>.\<close>

definition addCaaVolume :: "volume \<Rightarrow> volumeMount \<Rightarrow> podSpec \<Rightarrow> podSpec" where
  "addCaaVolume v m ps = ps\<lparr>Volumes := Volumes ps @ [v],
     Containers := map (\<lambda>c. if ctrName c = ''caa-pod'' then c\<lparr>ctrVolumeMounts := ctrVolumeMounts c @ [m]\<rparr> else c)
       (Containers ps)\<rparr>"

definition configureCAA :: "env \<Rightarrow> daemonSet \<Rightarrow> string \<Rightarrow> (rstate, goerr + daemonSet) state" where
  "configureCAA E ds cmVersion = do {
     nodeSelector \<leftarrow> getNodeSelectorAsMap E;
     onInl (getEffectiveProxyEnvVars E) (\<lambda>e. return (Inl e)) (\<lambda>effectiveProxyEnvVars. do {
       s \<leftarrow> gets id;
       let ds1 = caaSpec E s nodeSelector effectiveProxyEnvVars cmVersion ds;
       trustedCA \<leftarrow> generateTrustedCAVolumeConfig E (kataConfig s);
       return (Inr (case trustedCA of None \<Rightarrow> ds1 | Some vm \<Rightarrow> onPodSpec (addTrustedCA vm) ds1))
     })
   }"

definition addBoundSATokenVolume :: "daemonSet \<Rightarrow> daemonSet" where
  "addBoundSATokenVolume = onPodSpec (addCaaVolume
     \<lparr>volName = ''bound-sa-token'', volSource = VsProjected
        [\<lparr>tpPath = ''token'', tpAudience = ''openshift'', tpExpirationSeconds = None\<rparr>]\<rparr>
     ((plainMount ''bound-sa-token'' ''/var/run/secrets/openshift/serviceaccount'')\<lparr>vmReadOnly := True\<rparr>))"

definition addVaultTokenVolume :: "daemonSet \<Rightarrow> daemonSet" where
  "addVaultTokenVolume = onPodSpec (addCaaVolume
     \<lparr>volName = ''vault-token'', volSource = VsProjected
        [\<lparr>tpPath = ''vault-token'', tpAudience = ''iam'', tpExpirationSeconds = Some 3600\<rparr>]\<rparr>
     (plainMount ''vault-token'' ''/var/run/secrets/tokens''))"

definition configureCAAProvider :: "env \<Rightarrow> daemonSet \<Rightarrow> ('z, goerr + daemonSet) op" where
  "configureCAAProvider E ds =
     onInl (getCloudProviderFromInfra E)
       (\<lambda>e. return (Inl (Wrapf ''failed to get cloud provider from infra: '' e)))
       (\<lambda>provider.
          if provider = IBMCloudProvider then return (Inr (addVaultTokenVolume ds))
          else if provider = AWSProvider \<or> provider = AzureProvider \<or> provider = GCPProvider then do {
            (isTokenBased, err) \<leftarrow> isClusterInTokenBasedAuthMode E;
            return (Inr (if isTokenBased then addBoundSATokenVolume ds else ds))
          }
          else return (Inr ds))"

text \<open>The mutate function of the DaemonSet.\<close>

definition mutateCAA :: "env \<Rightarrow> string \<Rightarrow> daemonSet \<Rightarrow> (rstate, goerr + daemonSet) state" where
  "mutateCAA E cmVersion ds =
     onInl (configureCAA E ds cmVersion) (\<lambda>e. return (Inl e)) (\<lambda>ds1.
     onInl (configureCAAProvider E ds1) (\<lambda>e. return (Inl e)) (\<lambda>ds2. do {
       kc \<leftarrow> gets kataConfig;
       return (case SetControllerReference E kc (dsMeta ds2) of
          Inl e \<Rightarrow> Inl e
        | Inr m \<Rightarrow> Inr (ds2\<lparr>dsMeta := m\<rparr>))
     }))"

section \<open>Enabling and disabling the objects around it\<close>

definition peerpodsRuntimeClass :: rcRequest where
  "peerpodsRuntimeClass = \<lparr>rcName = peerpodsRuntimeClassName, cpuOverhead = ''0.25'', memoryOverhead = ''120Mi'',
     extResOverhead = [], rcHandler = peerpodsRuntimeClassName, additionalNodeLabels = Map.empty\<rparr>"

definition enablePeerPodsMiscConfigs :: "env \<Rightarrow> (rstate, goerr option) state" where
  "enablePeerPodsMiscConfigs E =
     onInl (getConfigMapVersion E peerpodsCMName OperatorNamespace) (\<lambda>e. return (Some e)) (\<lambda>cmVersion.
     case cmVersion of
       None \<Rightarrow> return (Some (Errorf (''peer pod configmap '' @ peerpodsCMName @ '' missing'')))
     | Some v \<Rightarrow>
       onErr (createOrUpdateM E (GetReq KDaemonSet (peerPodsNamespace E) caaDsName)
           (\<lambda>h. mutableDaemonSet (apiOf E) h (peerPodsNamespace E) caaDsName) ODaemonSet (mutateCAA E v))
         (\<lambda>e. return (Some e))
       (onErr (createPeerPodsWebhookNetworkPolicies E) (\<lambda>e. return (Some e))
       (onErr (createMutatingWebhookDeployment E) (\<lambda>e. return (Some e))
       (onErr (createMutatingWebhookService E) (\<lambda>e. return (Some e))
       (onErr (createMutatingWebhookConfig E) (\<lambda>e. return (Some e))
       (createRuntimeClass E peerpodsRuntimeClass))))))"

definition disablePeerPodsMiscConfigs :: "env \<Rightarrow> (rstate, goerr option) state" where
  "disablePeerPodsMiscConfigs E =
     onErr (deleteIgnoringAbsent E KDaemonSet (peerPodsNamespace E) caaDsName) (\<lambda>e. return (Some e))
     (onErr (deleteMutatingWebhookDeployment E) (\<lambda>e. return (Some e))
     (onErr (deleteMutatingWebhookService E) (\<lambda>e. return (Some e))
     (onErr (deleteMutatingWebhookConfig E) (\<lambda>e. return (Some e))
     (onErr (deletePeerPodsWebhookNetworkPolicies E) (\<lambda>e. return (Some e))
     (onErr (deletePodVMImageCreationNetworkPolicies E) (\<lambda>e. return (Some e))
     (deletePodVMImageDeletionNetworkPolicies E))))))"

section \<open>Enabling and disabling peer pods\<close>

text \<open>A pointer to a result and an error: \<open>None\<close> is the nil pointer.\<close>

type_synonym stepResult = "ctrlResult option \<times> goerr option"

definition requeueErr :: "goerr option \<Rightarrow> stepResult" where
  "requeueErr err = (Some (requeueIn 15), err)"

text \<open>A panic inside the image generator unwinds through its callers.\<close>

definition panicked :: "goerr option \<Rightarrow> bool" where
  "panicked err = (case err of None \<Rightarrow> False | Some e \<Rightarrow> isPanic e)"

definition deletePodVMImage :: "env \<Rightarrow> (rstate, stepResult) state" where
  "deletePodVMImage E = do {
     kc \<leftarrow> gets kataConfig;
     (status, err) \<leftarrow> ImageDelete E kc;
     if panicked err then return (None, err)
     else if status = ImageDeletedSuccessfully then do {
       _ \<leftarrow> mutateCondition E setInProgressConditionToPodVMImageDeleted; return (None, None) }
     else if status = UnsupportedPodVMImageProvider then do {
       _ \<leftarrow> mutateCondition E setInProgressConditionToPodVMImageUnsupportedProvider; return (None, None) }
     else if status = RequeueNeeded then do {
       _ \<leftarrow> mutateCondition E setInProgressConditionToPodVMImageDeleting; return (requeueErr err) }
     else if status = ImageDeletionFailed then do {
       _ \<leftarrow> mutateCondition E setInProgressConditionToPodVMImageDeletionFailed;
       return (if err \<noteq> None then requeueErr err else (None, None)) }
     else if status = ImageDeletionStatusUnknown then do {
       _ \<leftarrow> mutateCondition E setInProgressConditionToPodVMImageDeletionUnknown; return (requeueErr err) }
     else return (None, None)
   }"

text \<open>The switch of \<open>enablePeerPods\<close>: the step ends here with a result, or the code goes on.\<close>

definition createPodVMImage :: "env \<Rightarrow> (rstate, stepResult) state" where
  "createPodVMImage E = do {
     kc \<leftarrow> gets kataConfig;
     (status, err) \<leftarrow> ImageCreate E kc;
     if panicked err then return (None, err)
     else if status = ImageCreatedSuccessfully then do {
       _ \<leftarrow> mutateCondition E setInProgressConditionToPodVMImageCreated; return (None, None) }
     else if status = UnsupportedPodVMImageProvider then do {
       _ \<leftarrow> mutateCondition E setInProgressConditionToPodVMImageUnsupportedProvider; return (None, None) }
     else if status = RequeueNeeded then do {
       _ \<leftarrow> mutateCondition E setInProgressConditionToPodVMImageCreating; return (requeueErr err) }
     else if status = ImageCreationFailed then do {
       _ \<leftarrow> mutateCondition E setInProgressConditionToPodVMImageCreationFailed;
       return (if err \<noteq> None then requeueErr err else (None, None)) }
     else if status = ImageCreationStatusUnknown then do {
       _ \<leftarrow> mutateCondition E setInProgressConditionToPodVMImageCreationUnknown; return (requeueErr err) }
     else return (None, None)
   }"

definition enablePeerPods :: "env \<Rightarrow> (rstate, stepResult) state" where
  "enablePeerPods E =
     onErr (createAuthJsonSecret E) (\<lambda>e. return (requeueErr (Some e)))
     (onErr (createPodVMImageCreationNetworkPolicies E) (\<lambda>e. return (requeueErr (Some e)))
     (onErr (createPodVMImageDeletionNetworkPolicies E) (\<lambda>e. return (requeueErr (Some e)))
     (do {
        (res, err) \<leftarrow> createPodVMImage E;
        if res \<noteq> None \<or> err \<noteq> None then return (res, err)
        else onErr (enablePeerPodsMiscConfigs E) (\<lambda>e. return (requeueErr (Some e)))
          (do { _ \<leftarrow> mutateCondition E resetInProgressCondition; return (None, None) })
      })))"

definition disablePeerPods :: "env \<Rightarrow> (rstate, stepResult) state" where
  "disablePeerPods E = do {
     _ \<leftarrow> disablePeerPodsMiscConfigs E;
     (res, err) \<leftarrow> deletePodVMImage E;
     if res \<noteq> None then return (res, err)
     else if err \<noteq> None then
       (if panicked err then return (None, err) else return (requeueErr err))
     else return (None, None)
   }"

section \<open>Frames\<close>

lemma emits_configureCAA:
  "emits (writesOnly {KConfigMap}) (configureCAA E ds v)"
  "emits readOnly (configureCAAProvider E ds)"
  "emits (writesOnly {KConfigMap}) (mutateCAA E v ds)"
  unfolding mutateCAA_def configureCAA_def configureCAAProvider_def
  by (intro emits_intros; auto simp: readOnly_def intro: readOnly_writesOnly elim: writesOnly_mono)+

lemmas configureCAA_frames [emits_intros] = emits_configureCAA[THEN emits_mono]

definition peerPodsKinds :: "rkind set" where
  "peerPodsKinds = {KDaemonSet, KNetworkPolicy, KDeployment, KService, KMutatingWebhookConfig,
     KRuntimeClass, KConfigMap}"

definition podVMImageKinds :: "rkind set" where
  "podVMImageKinds = {KConfigMap, KJob, KEvent}"

lemma emits_peerPodsMisc:
  "emits (writesOnly peerPodsKinds) (enablePeerPodsMiscConfigs E)"
  "emits (writesOnly peerPodsKinds) (disablePeerPodsMiscConfigs E)"
  unfolding enablePeerPodsMiscConfigs_def disablePeerPodsMiscConfigs_def deleteIgnoringAbsent_def peerPodsKinds_def
  by (intro emits_intros; auto intro: readOnly_writesOnly dest!: npWrite_only elim: writesOnly_mono)+

lemmas peerPodsMisc_frames [emits_intros] = emits_peerPodsMisc[THEN emits_mono]

lemma emits_podVMImage:
  "emits (writesOnly podVMImageKinds) (createPodVMImage E)"
  "emits (writesOnly podVMImageKinds) (deletePodVMImage E)"
  unfolding createPodVMImage_def deletePodVMImage_def podVMImageKinds_def
  by (intro emits_intros; auto intro: readOnly_writesOnly elim: writesOnly_mono)+

lemmas podVMImage_frames [emits_intros] = emits_podVMImage[THEN emits_mono]

lemma emits_peerPods:
  "emits (writesOnly (peerPodsKinds \<union> podVMImageKinds \<union> {KSecret})) (enablePeerPods E)"
  "emits (writesOnly (peerPodsKinds \<union> podVMImageKinds)) (disablePeerPods E)"
  unfolding enablePeerPods_def disablePeerPods_def
  by (intro emits_intros; auto simp: peerPodsKinds_def dest!: npWrite_only elim: writesOnly_mono)+

lemmas peerPods_frames [emits_intros] = emits_peerPods[THEN emits_mono]

lemma preserves_CAA [preserves_intros]:
  assumes "\<And>s t. f (s\<lparr>trace := t\<rparr>) = f s"
  shows "preserves f (configureCAA E ds v)" "preserves f (mutateCAA E v ds)"
  unfolding mutateCAA_def configureCAA_def configureCAAProvider_def
  by (intro preserves_intros assms)+

lemma preserves_peerPods [preserves_intros]:
  assumes "\<And>s t. f (s\<lparr>trace := t\<rparr>) = f s" and "\<And>g s. f (onStatus g s) = f s"
  shows "preserves f (enablePeerPodsMiscConfigs E)" "preserves f (disablePeerPodsMiscConfigs E)"
  unfolding enablePeerPodsMiscConfigs_def disablePeerPodsMiscConfigs_def deleteIgnoringAbsent_def
    getConfigMapVersion_def
  by (intro preserves_intros assms)+

lemma preserves_podVMImage [preserves_intros]:
  assumes "\<And>s t. f (s\<lparr>trace := t\<rparr>) = f s" and "\<And>g s. f (onStatus g s) = f s"
    and "\<And>s g. f (ig_update g s) = f s" and "\<And>s g. f (eventCache_update g s) = f s"
  shows "preserves f (createPodVMImage E)" "preserves f (deletePodVMImage E)"
    "preserves f (enablePeerPods E)" "preserves f (disablePeerPods E)"
  unfolding enablePeerPods_def disablePeerPods_def createPodVMImage_def deletePodVMImage_def
    createAuthJsonSecret_def
  by (intro preserves_intros assms)+

section \<open>The cloud-api-adaptor DaemonSet\<close>

text \<open>A well-formed DaemonSet that was rolled out for a version of \<open>peer-pods-cm\<close>.\<close>

definition caaWellFormed :: "string \<Rightarrow> daemonSet \<Rightarrow> bool" where
  "caaWellFormed v ds \<longleftrightarrow> mountsDeclared (tplSpec (dsTemplate ds)) \<and>
     distinct (map volName (Volumes (tplSpec (dsTemplate ds)))) \<and>
     selects (dsSelector ds) (tplLabels (dsTemplate ds)) \<and>
     tplAnnotations (dsTemplate ds) = [''peer-pods-cm/version'' \<mapsto> v] \<and>
     map ctrName (Containers (tplSpec (dsTemplate ds))) = [''caa-pod'']"

lemma onPodSpec_simps [simp]:
  "dsMeta (onPodSpec f ds) = dsMeta ds" "dsSelector (onPodSpec f ds) = dsSelector ds"
  "tplSpec (dsTemplate (onPodSpec f ds)) = f (tplSpec (dsTemplate ds))"
  "tplLabels (dsTemplate (onPodSpec f ds)) = tplLabels (dsTemplate ds)"
  "tplAnnotations (dsTemplate (onPodSpec f ds)) = tplAnnotations (dsTemplate ds)"
  by (simp_all add: onPodSpec_def)

lemma mountsDeclared_add:
  assumes "mountsDeclared ps" and "vmName m = volName v"
  shows "mountsDeclared (addCaaVolume v m ps)"
proof -
  have "\<forall>c \<in> set (InitContainers ps) \<union> set (Containers ps). \<forall>x \<in> set (ctrVolumeMounts c).
      vmName x \<in> volName ` set (Volumes ps)"
    using assms(1) by (simp add: mountsDeclared_def list_all_iff ball_Un)
  then show ?thesis using assms(2)
    by (auto simp: mountsDeclared_def addCaaVolume_def list_all_iff ball_Un split: if_splits)
qed

text \<open>The DaemonSet before provider specific volumes: they are added with new names.\<close>

definition caaBase :: "string \<Rightarrow> daemonSet \<Rightarrow> bool" where
  "caaBase v ds \<longleftrightarrow> caaWellFormed v ds \<and>
     set (map volName (Volumes (tplSpec (dsTemplate ds)))) \<subseteq>
       {''auth-json-volume'', ''ssh'', ''pods-dir'', ''netns'', ''trusted-ca''}"

lemma caaSpec_base: "caaBase v (caaSpec E s sel vars v ds)"
  by (simp add: caaBase_def caaWellFormed_def caaSpec_def mountsDeclared_def caaContainer_def caaVolumes_def
      plainMount_def emptyPodSpec_def selects_def peerpodsCMName_def)

lemma caaSpec_trusted: "caaBase v (onPodSpec (addTrustedCA trustedCAVolumes) (caaSpec E s sel vars v ds))"
  by (simp add: caaBase_def caaWellFormed_def caaSpec_def mountsDeclared_def caaContainer_def caaVolumes_def
      plainMount_def emptyPodSpec_def selects_def peerpodsCMName_def addTrustedCA_def trustedCAVolumes_def)

lemma caaBase_volume:
  assumes "caaBase v ds" and "vmName m = volName vol"
    and "volName vol \<notin> {''auth-json-volume'', ''ssh'', ''pods-dir'', ''netns'', ''trusted-ca''}"
  shows "caaWellFormed v (onPodSpec (addCaaVolume vol m) ds)"
proof -
  have "volName vol \<notin> volName ` set (Volumes (tplSpec (dsTemplate ds)))"
    using assms(1,3) unfolding caaBase_def by auto
  moreover have "map ctrName (Containers (addCaaVolume vol m ps)) = map ctrName (Containers ps)" for ps
    by (simp add: addCaaVolume_def comp_def if_distrib cong: if_cong)
  moreover have "map volName (Volumes (addCaaVolume vol m ps)) = map volName (Volumes ps) @ [volName vol]" for ps
    by (simp add: addCaaVolume_def)
  ultimately show ?thesis
    using assms(1,2) by (simp add: caaBase_def caaWellFormed_def mountsDeclared_add)
qed

lemma caaBase_token: "caaBase v ds \<Longrightarrow> caaWellFormed v (addBoundSATokenVolume ds)"
  "caaBase v ds \<Longrightarrow> caaWellFormed v (addVaultTokenVolume ds)"
  unfolding addBoundSATokenVolume_def addVaultTokenVolume_def
  by (rule caaBase_volume; simp add: plainMount_def)+

lemma wp_generateTrustedCA:
  "wp (generateTrustedCAVolumeConfig E kc) (\<lambda>r _. r = None \<or> r = Some trustedCAVolumes) s"
  by (simp add: generateTrustedCAVolumeConfig_def wp_simps split: sum.split)

lemma wp_configureCAA:
  "wp (configureCAA E ds v) (\<lambda>r _. case r of Inl _ \<Rightarrow> True | Inr ds' \<Rightarrow> caaBase v ds') s"
  unfolding configureCAA_def Let_def
  by (rule wp_bind_grown, intro emits_intros TrueI, rule wp_onInl_grown, intro emits_intros TrueI)
    (auto simp: wp_return wp_bind wp_gets caaSpec_base caaSpec_trusted
      intro!: wp_conseq[OF wp_generateTrustedCA])

lemma wp_configureCAAProvider:
  assumes "caaBase v ds"
  shows "wp (configureCAAProvider E ds) (\<lambda>r _. case r of Inl _ \<Rightarrow> True | Inr ds' \<Rightarrow> caaWellFormed v ds') s"
proof -
  have token: "wp (isClusterInTokenBasedAuthMode E \<bind>
      (\<lambda>(isTokenBased, err). return (Inr (if isTokenBased then addBoundSATokenVolume ds else ds))))
      (\<lambda>r _. case r of Inl _ \<Rightarrow> True | Inr ds' \<Rightarrow> caaWellFormed v ds') s2" for s2 :: "(event, 'a) traced_scheme"
    by (rule wp_bind_grown, intro emits_intros TrueI)
      (use assms in \<open>auto simp: wp_return caaBase_token caaBase_def split: prod.split\<close>)
  show ?thesis unfolding configureCAAProvider_def
    by (rule wp_onInl_grown, intro emits_intros TrueI)
      (use assms in \<open>auto simp: wp_return caaBase_token caaBase_def intro!: token\<close>)
qed

lemma wp_mutateCAA:
  "wp (mutateCAA E v ds) (\<lambda>r _. case r of Inl _ \<Rightarrow> True | Inr ds' \<Rightarrow> caaWellFormed v ds') s"
proof -
  have own: "wp (gets kataConfig \<bind> (\<lambda>kc. return (case SetControllerReference E kc (dsMeta ds2) of
      Inl e \<Rightarrow> Inl e | Inr m \<Rightarrow> Inr (ds2\<lparr>dsMeta := m\<rparr>))))
      (\<lambda>r _. case r of Inl _ \<Rightarrow> True | Inr ds' \<Rightarrow> caaWellFormed v ds') s2"
    if "caaWellFormed v ds2" for ds2 s2
    using that by (simp add: wp_simps caaWellFormed_def split: sum.split)
  have prov: "wp (onInl (configureCAAProvider E ds1) (\<lambda>e. return (Inl e)) (\<lambda>ds2.
      gets kataConfig \<bind> (\<lambda>kc. return (case SetControllerReference E kc (dsMeta ds2) of
        Inl e \<Rightarrow> Inl e | Inr m \<Rightarrow> Inr (ds2\<lparr>dsMeta := m\<rparr>)))))
      (\<lambda>r _. case r of Inl _ \<Rightarrow> True | Inr ds' \<Rightarrow> caaWellFormed v ds') s1"
    if "caaBase v ds1" for ds1 s1
    unfolding wp_onInl
    by (rule wp_conseq[OF wp_configureCAAProvider[OF that]]) (auto simp: wp_return intro!: own)
  show ?thesis unfolding mutateCAA_def wp_onInl[of "configureCAA E ds v"]
    by (rule wp_conseq[OF wp_configureCAA]) (auto simp: wp_return intro!: prov)
qed

section \<open>What enabling has achieved\<close>

lemma achieves_forEach:
  assumes "x \<in> set xs" and "achieves noError P (f x)" and "\<And>y. appends (f y)"
  shows "achieves noError P (forEach f xs)"
  using assms(1)
proof (induction xs)
  case (Cons y ys)
  have ap: "appends (forEach f ys)" by (intro emits_forEach assms(3))
  show ?case
  proof (cases "x = y")
    case True
    then show ?thesis unfolding forEach.simps
      by (intro achieves_onErr_first) (use assms(2) in \<open>simp_all add: assms(3) ap emits_return\<close>)
  next
    case False
    with Cons show ?thesis unfolding forEach.simps
      by (intro achieves_onErr_rest) (simp_all add: assms(3) ap emits_return)
  qed
qed simp

lemma achieves_policy:
  assumes "operand_policies c d ps ls" and "(n, sp) \<in> set ps"
  shows "achieves noError (\<lambda>e. \<exists>np. isPolicy n sp np \<and> e = Ev (CreateOrUpdateReq (ONetworkPolicy np)) None) (c E)"
proof -
  have "achieves noError (\<lambda>e. \<exists>np. isPolicy n sp np \<and> e = Ev (CreateOrUpdateReq (ONetworkPolicy np)) None)
      (case (n, sp) of (n, sp) \<Rightarrow> ensureNetworkPolicy E n Map.empty sp)"
    unfolding prod.case ensureNetworkPolicy_def
    by (intro achieves_bind_rest achieves_createOrUpdate)
      (auto simp: Let_def emits_gets appends_createOrUpdate dest!: ensured_isPolicy)
  then show ?thesis unfolding operand_policies.create_policies[OF assms(1)]
    by (rule achieves_forEach[OF assms(2)])
      (auto intro!: emits_mono[OF emits_ensureNetworkPolicy] split: prod.split)
qed

lemma appends_peerPodsMisc:
  "appends (createOrUpdateM E (GetReq KDaemonSet ns n) (\<lambda>h. mutableDaemonSet (apiOf E) h ns n) ODaemonSet
     (mutateCAA E v))"
  "appends (createPeerPodsWebhookNetworkPolicies E)" "appends (createMutatingWebhookDeployment E)"
  "appends (createMutatingWebhookService E)" "appends (createMutatingWebhookConfig E)"
  "appends (createRuntimeClass E q)" "appends (getConfigMapVersion E m ns)"
  by (intro emits_intros TrueI)+

lemmas chain_simps = appends_peerPodsMisc emits_onErr emits_onInl emits_return emits_case_option

lemma achieves_chain:
  assumes "achieves noError P m \<or> achieves noError P k" and "appends m" and "appends k"
  shows "achieves noError P (onErr m (\<lambda>e. return (Some e)) k)"
  using assms(1)
proof
  assume "achieves noError P m"
  then show ?thesis by (rule achieves_onErr_first) (simp_all add: assms emits_return)
next
  assume "achieves noError P k"
  then show ?thesis by (rule achieves_onErr_rest) (simp_all add: assms emits_return)
qed

text \<open>Whatever a link of the chain achieves, enabling the objects achieves.\<close>

lemma achieves_misc:
  assumes "(\<forall>v. achieves noError P (createOrUpdateM E (GetReq KDaemonSet (peerPodsNamespace E) caaDsName)
        (\<lambda>h. mutableDaemonSet (apiOf E) h (peerPodsNamespace E) caaDsName) ODaemonSet (mutateCAA E v))) \<or>
    achieves noError P (createPeerPodsWebhookNetworkPolicies E) \<or>
    achieves noError P (createMutatingWebhookDeployment E) \<or>
    achieves noError P (createMutatingWebhookService E :: (rstate, _) state) \<or>
    achieves noError P (createMutatingWebhookConfig E :: (rstate, _) state)"
  shows "achieves noError P (enablePeerPodsMiscConfigs E)"
  unfolding enablePeerPodsMiscConfigs_def
  by (rule achieves_onInl_rest)
    (use assms in \<open>auto simp: chain_simps achieves_return split: option.split
      intro!: achieves_chain\<close>)

lemma achieves_enable:
  assumes "achieves noError P (enablePeerPodsMiscConfigs E)"
  shows "achieves (\<lambda>r. r = (None, None)) P (enablePeerPods E)"
proof -
  have "achieves (\<lambda>r. r = (None, None)) P (case r of (res, err) \<Rightarrow>
        if res \<noteq> None \<or> err \<noteq> None then return (res, err)
        else onErr (enablePeerPodsMiscConfigs E) (\<lambda>e. return (requeueErr (Some e)))
          (mutateCondition E resetInProgressCondition \<bind> (\<lambda>_. return (None, None))))" for r
    by (cases r) (auto simp: achieves_return requeueErr_def intro!: achieves_onErr_first[OF assms] emits_intros)
  then show ?thesis unfolding enablePeerPods_def
    by (intro achieves_onErr_rest achieves_bind_rest; (simp add: requeueErr_def)?; (intro emits_intros TrueI)?)
qed

lemma achieves_webhook_objects:
  "achieves noError (\<lambda>e. \<exists>d. e = Ev (CreateOrUpdateReq (ODeployment d)) None) (createMutatingWebhookDeployment E)"
  "achieves noError (\<lambda>e. \<exists>d. e = Ev (CreateOrUpdateReq (OService d)) None) (createMutatingWebhookService E)"
  "achieves noError (\<lambda>e. \<exists>d. e = Ev (CreateOrUpdateReq (OMutatingWebhookConfig d)) None) (createMutatingWebhookConfig E)"
  unfolding createMutatingWebhookDeployment_def createMutatingWebhookService_def createMutatingWebhookConfig_def
  by (intro achieves_bind_rest achieves_createOrUpdate; auto simp: emits_gets appends_createOrUpdate)+

lemma achieves_caa:
  "achieves noError (\<lambda>e. \<exists>v ds. caaWellFormed v ds \<and> e = Ev (CreateOrUpdateReq (ODaemonSet ds)) None)
     (createOrUpdateM E q fetch ODaemonSet (mutateCAA E v))"
  by (rule achieves_createOrUpdateM)
    (auto intro!: wp_conseq[OF wp_mutateCAA] emits_intros split: sum.splits)

text \<open>The objects written by one call that are needed to run a peer pod.\<close>

definition peerPodsInPlace :: "history \<Rightarrow> bool" where
  "peerPodsInPlace new \<longleftrightarrow>
     (\<exists>v ds. caaWellFormed v ds \<and> Ev (CreateOrUpdateReq (ODaemonSet ds)) None \<in> set new) \<and>
     policiesEnsured webhookPolicies new \<and>
     (\<exists>d. Ev (CreateOrUpdateReq (ODeployment d)) None \<in> set new) \<and>
     (\<exists>d. Ev (CreateOrUpdateReq (OService d)) None \<in> set new) \<and>
     (\<exists>d. Ev (CreateOrUpdateReq (OMutatingWebhookConfig d)) None \<in> set new)"

lemma enablePeerPods_in_place:
  assumes "result (enablePeerPods E) s = (None, None)"
  shows "peerPodsInPlace (newEvents (enablePeerPods E) s)"
proof -
  note got = achieves_enable[OF achieves_misc, THEN achievesD, of _ E s, OF _ assms]
  have "\<exists>e \<in> set (newEvents (enablePeerPods E) s). \<exists>v ds. caaWellFormed v ds \<and> e = Ev (CreateOrUpdateReq (ODaemonSet ds)) None"
    by (rule got) (simp add: achieves_caa)
  moreover have "\<exists>e \<in> set (newEvents (enablePeerPods E) s). \<exists>np. isPolicy n sp np \<and>
      e = Ev (CreateOrUpdateReq (ONetworkPolicy np)) None" if "(n, sp) \<in> set webhookPolicies" for n sp
    by (rule got) (simp add: achieves_policy[OF webhookNp.operand_policies_axioms that])
  moreover have "\<exists>e \<in> set (newEvents (enablePeerPods E) s). \<exists>d. e = Ev (CreateOrUpdateReq (ODeployment d)) None"
    by (rule got) (simp add: achieves_webhook_objects)
  moreover have "\<exists>e \<in> set (newEvents (enablePeerPods E) s). \<exists>d. e = Ev (CreateOrUpdateReq (OService d)) None"
    by (rule got) (simp add: achieves_webhook_objects)
  moreover have "\<exists>e \<in> set (newEvents (enablePeerPods E) s). \<exists>d. e = Ev (CreateOrUpdateReq (OMutatingWebhookConfig d)) None"
    by (rule got) (simp add: achieves_webhook_objects)
  ultimately show ?thesis
    unfolding peerPodsInPlace_def policiesEnsured_def list_all_iff by blast
qed

lemma createPodVMImage_shape:
  "wp (createPodVMImage E) (\<lambda>(res, err) s'. case res of Some r \<Rightarrow> r = requeueIn 15 | None \<Rightarrow> err = None \<or> panicked err) s"
  unfolding createPodVMImage_def
  by (simp add: wp_bind wp_gets, rule wp_grown, intro emits_intros TrueI)
    (auto simp: wp_simps requeueErr_def split: prod.split)

text \<open>How \<open>enablePeerPods\<close> ends.\<close>

definition enableEnds :: "stepResult \<Rightarrow> rstate \<Rightarrow> bool" where
  "enableEnds x s' = (case x of
     (Some r, err) \<Rightarrow> r = requeueIn 15
   | (None, err) \<Rightarrow> panicked err \<or> err = None \<and> getInProgressConditionValue (conditionsOf s') = ''False'')"

lemma enableEnds_requeue: "enableEnds (requeueErr err) s'"
  by (simp add: enableEnds_def requeueErr_def)

lemma wp_requeue_unless:
  assumes "appends m" and "\<And>s'. wp k enableEnds s'"
  shows "wp (onErr m (\<lambda>e. return (requeueErr (Some e))) k) enableEnds s"
  by (rule wp_onErr_grown[OF assms(1)]) (simp_all add: wp_return enableEnds_requeue assms(2))

lemma enablePeerPods_shape: "wp (enablePeerPods E) enableEnds s"
proof -
  have reset: "wp (mutateCondition E resetInProgressCondition \<bind> (\<lambda>_. return (None, None))) enableEnds s" for s
    by (simp add: wp_simps enableEnds_def conditionsOf_def toReset.value_after)
  have misc: "wp (onErr (enablePeerPodsMiscConfigs E) (\<lambda>e. return (requeueErr (Some e)))
      (mutateCondition E resetInProgressCondition \<bind> (\<lambda>_. return (None, None)))) enableEnds s" for s
    by (rule wp_requeue_unless[OF _ reset]) (intro emits_intros TrueI)
  have image: "wp (createPodVMImage E \<bind> (\<lambda>(res, err).
        if res \<noteq> None \<or> err \<noteq> None then return (res, err)
        else onErr (enablePeerPodsMiscConfigs E) (\<lambda>e. return (requeueErr (Some e)))
          (mutateCondition E resetInProgressCondition \<bind> (\<lambda>_. return (None, None))))) enableEnds s" for s
    unfolding wp_bind
    by (rule wp_conseq[OF createPodVMImage_shape])
      (use misc in \<open>auto simp: wp_return wp_bind enableEnds_def[of "(_, _)"] split: option.splits\<close>)
  show ?thesis unfolding enablePeerPods_def
    by (intro wp_requeue_unless image; (intro emits_intros TrueI)?)
qed


end
