(* ===== verification/Finalizers.thy ===== *)
theory Finalizers
  imports Mco_Support Nfd_Handler Peer_Pods
begin

text \<open>
  What the two deployment modes share: the finalizer of the KataConfig is added before anything is
  installed and removed after everything is gone. The theory holds the parts of the install and delete
  requests both modes have, the statements \<open>finalizerFirst\<close> and \<open>finalizerLast\<close> about the requests a
  call sends, and rules that step through a request handler: \<open>stage\<close> collects the facts a removal has
  established so far in the call, \<open>atStart\<close> describes the part of an installation before the finalizer.
\<close>

definition requeueNow :: ctrlResult where
  "requeueNow = \<lparr>Requeue = True, RequeueAfter = 0\<rparr>"

text \<open>An error of labelling nodes: a conflict is retried after 10 seconds.\<close>

definition labellingRetry :: "goerr \<Rightarrow> ctrlResult \<times> goerr option" where
  "labellingRetry err = (if IsConflict err then (requeueIn 10, None) else (requeueNow, None))"

definition ensureFinalizer :: "env \<Rightarrow> (rstate, goerr option) state" where
  "ensureFinalizer E = do {
     finalizers \<leftarrow> gets (\<lambda>s. Finalizers (kcMeta (kataConfig s)));
     if \<not> contains finalizers kataConfigFinalizer then addFinalizer E else return None
   }"

section \<open>Frames\<close>

lemma emits_labelling_loops:
  "emits (writesOnly {KNode}) (updateNodeLabelsLoop E sel ws ch)"
  "emits (writesOnly {KNode}) (unlabelNodesLoop E ws ch)"
  by (induction ws arbitrary: ch; auto intro!: emits_intros)+

lemma emits_labelling:
  "emits (writesOnly {KNode}) (updateNodeLabels E)" "emits (writesOnly {KNode}) (unlabelNodes E sel)"
  unfolding updateNodeLabels_def unlabelNodes_def
  by (intro emits_intros emits_labelling_loops; auto intro: readOnly_writesOnly)+

definition statusOnly :: "event \<Rightarrow> bool" where
  "statusOnly e = (case evRequest e of StatusUpdateReq (OKataConfig _) \<Rightarrow> True | q \<Rightarrow> \<not> isWrite q)"

lemma emits_checkDeletionEligibility: "emits statusOnly (checkDeletionEligibility E)"
  unfolding checkDeletionEligibility_def listKataPods_def
  by (intro emits_intros; simp add: statusOnly_def)

lemma emits_removeFinalizer: "emits (writesOnly {KKataConfig}) (removeFinalizer E)"
  unfolding removeFinalizer_def by (intro emits_intros) simp_all

lemmas labelling_frames [emits_intros] = emits_labelling[THEN emits_mono]
  emits_checkDeletionEligibility[THEN emits_mono] emits_removeFinalizer[THEN emits_mono]

lemma statusOnly_kinds: "statusOnly e \<Longrightarrow> writesOnly {KKataConfig} e"
  by (cases e, rename_tac q r, case_tac q) (auto simp: statusOnly_def split: kobj.splits)

lemma emits_ensureFinalizer: "emits (writesOnly {KKataConfig}) (ensureFinalizer E)"
  unfolding ensureFinalizer_def addFinalizer_def
  by (intro emits_intros; auto intro: readOnly_writesOnly elim: writesOnly_mono)

lemmas ensureFinalizer_frame [emits_intros] = emits_ensureFinalizer[THEN emits_mono]

section \<open>The finalizer is removed last\<close>

text \<open>What must have happened in a call before an Update of the KataConfig, which drops the finalizer.\<close>

definition deletionSeen :: "rkind \<Rightarrow> string \<Rightarrow> string \<Rightarrow> event \<Rightarrow> bool" where
  "deletionSeen k ns n e \<longleftrightarrow> (\<exists>r. e = Ev (DeleteReq k ns n) r \<and>
     (case r of None \<Rightarrow> True | Some err \<Rightarrow> IsNotFound err \<or> IsNoMatchError err))"

definition dropsFinalizer :: "event \<Rightarrow> bool" where
  "dropsFinalizer e = (case evRequest e of UpdateReq (OKataConfig _) \<Rightarrow> True | _ \<Rightarrow> False)"

lemma dropsFinalizer_frame: "writesOnly K e \<Longrightarrow> KKataConfig \<notin> K \<Longrightarrow> \<not> dropsFinalizer e"
  by (cases e) (auto simp: dropsFinalizer_def split: request.splits kobj.splits)

lemma dropsFinalizer_statusOnly: "statusOnly e \<Longrightarrow> \<not> dropsFinalizer e"
  by (auto simp: dropsFinalizer_def statusOnly_def split: request.splits kobj.splits)

lemma achieves_ignoringAbsent:
  "achieves noError (deletionSeen k ns n) (deleteIgnoringAbsent E k ns n)"
  "achieves noError (deletionSeen KScc [] (Name (sccMeta GetScc))) (deleteScc E)"
  "achieves noError (deletionSeen KNodeFeatureRule nfdNamespace oscNodeTypeRuleName) (deleteNodeFeatureRule E)"
  by (auto simp: achieves_def deleteIgnoringAbsent_def deleteScc_def deleteNodeFeatureRule_def run_simps newEvents_def
      deletionSeen_def isNoKindMatchError_def split: option.splits if_splits)

lemma monitorDs_meta [simp]:
  "dsMeta (result (processDaemonsetForMonitor E v) s) = mkMeta monitorDsName OperatorNamespace"
  by (simp add: processDaemonsetForMonitor_def run_simps)

lemma newEvents_writeOp [simp]: "newEvents (writeOp E q) s = [Ev q (writeError (apiOf E) (trace s) q)]"
  by (simp add: newEvents_def)

lemma achieves_monitorDeleted:
  "achieves noError (deletionSeen KDaemonSet OperatorNamespace monitorDsName) (deleteDaemonsetForMonitor E)"
  unfolding achieves_def deleteDaemonsetForMonitor_def
proof (intro allI impI, subst newEvents_bind)
  let ?k = "\<lambda>ds. writeOp E (DeleteReq KDaemonSet (Namespace (dsMeta ds)) (Name (dsMeta ds))) \<bind> (\<lambda>err.
     case err of Some e \<Rightarrow> if IsNotFound e then deleteKataMonitorNetworkPolicies E else return (Some e)
     | None \<Rightarrow> deleteKataMonitorNetworkPolicies E)"
  fix s assume "result (processDaemonsetForMonitor E [] \<bind> ?k) s = None"
  then show "\<exists>e \<in> set (newEvents (processDaemonsetForMonitor E []) s @
      newEvents (?k (result (processDaemonsetForMonitor E []) s)) (exec (processDaemonsetForMonitor E []) s)).
      deletionSeen KDaemonSet OperatorNamespace monitorDsName e"
    by (subst newEvents_bind; (intro emits_intros TrueI)?)
      (auto simp: run_simps deletionSeen_def split: option.splits if_splits)
qed (intro emits_intros TrueI)+

text \<open>The guarantee: an Update of the KataConfig happens only after a history that permits it.\<close>

definition finalizerLast :: "(history \<Rightarrow> bool) \<Rightarrow> history \<Rightarrow> event \<Rightarrow> bool" where
  "finalizerLast cleaned h e = (case evRequest e of UpdateReq (OKataConfig _) \<Rightarrow> cleaned h | _ \<Rightarrow> True)"

text \<open>No pod used a runtime class of the KataConfig when the pods were listed in the call.\<close>

definition noKataPods :: "env \<Rightarrow> history \<Rightarrow> string list \<Rightarrow> history \<Rightarrow> bool" where
  "noKataPods E t rcs h \<longleftrightarrow> (\<exists>h0 h1 pods. h = h0 @ Ev (ListReq KPod) None # h1 \<and>
     listPods (apiOf E) (t @ h0) = Inr pods \<and> list_all (\<lambda>p. \<not> usesRuntimeClass rcs p) pods)"

definition podsClear :: "env \<Rightarrow> rstate \<Rightarrow> history \<Rightarrow> bool" where
  "podsClear E s h \<longleftrightarrow> \<not> contains (Finalizers (kcMeta (kataConfig s))) kataConfigFinalizer \<or>
     noKataPods E (trace s) (RuntimeClasses (Status (kataConfig s))) h"

lemma noKataPods_append: "noKataPods E t rcs h \<Longrightarrow> noKataPods E t rcs (h @ h')"
  by (fastforce simp: noKataPods_def)

lemma find_None_list_all: "List.find P xs = None \<longleftrightarrow> list_all (\<lambda>x. \<not> P x) xs"
  by (induction xs) auto

lemma wp_checkDeletionEligibility:
  "wp (checkDeletionEligibility E) (\<lambda>r s'. snd r = None \<longrightarrow>
     kataConfig s' = kataConfig s \<and> grown s s' \<and> (contains (Finalizers (kcMeta (kataConfig s))) kataConfigFinalizer \<longrightarrow>
       (\<exists>pods. listPods (apiOf E) (trace s) = Inr pods \<and> trace s' = trace s @ [Ev (ListReq KPod) None] \<and>
          list_all (\<lambda>p. \<not> usesRuntimeClass (RuntimeClasses (Status (kataConfig s))) p) pods))) s"
proof -
  have q: "wp (onErr (statusUpdateKataConfig E) (\<lambda>u. return (emptyResult, Some u)) (return (requeueIn 15, Some err)))
      (\<lambda>r s'. snd r \<noteq> None) s" for err s
    by (rule wp_onErr_grown, intro emits_intros TrueI) (simp_all add: wp_return)
  show ?thesis
    unfolding checkDeletionEligibility_def listKataPods_def
    by (auto simp: wp_bind wp_gets wp_if wp_return wp_onErr wp_onInl wp_readOp grown_def find_None_list_all
        mutateCondition_def wp_modify split: option.splits intro!: wp_conseq[OF q[unfolded wp_onErr]])
qed

text \<open>Inside a call that began at \<open>s0\<close>.\<close>

definition inCall :: "rstate \<Rightarrow> (history \<Rightarrow> event \<Rightarrow> bool) \<Rightarrow> history \<Rightarrow> event \<Rightarrow> bool" where
  "inCall s0 G h e = G (drop (length (trace s0)) h) e"

lemma inCall_quiet:
  "writesOnly K e \<Longrightarrow> KKataConfig \<notin> K \<Longrightarrow> inCall s0 (finalizerLast C) h e"
  "statusOnly e \<Longrightarrow> inCall s0 (finalizerLast C) h e" "readOnly e \<Longrightarrow> inCall s0 (finalizerLast C) h e"
  using dropsFinalizer_frame[of K e] dropsFinalizer_statusOnly[of e] dropsFinalizer_frame[of "{}" e, OF readOnly_writesOnly]
  by (auto simp: inCall_def finalizerLast_def dropsFinalizer_def split: request.splits kobj.splits)

lemma guarded_removeFinalizer:
  assumes "C (drop (length (trace s0)) (trace s))"
  shows "guarded (inCall s0 (finalizerLast C)) (removeFinalizer E) (\<lambda>_ _. True) s"
  unfolding removeFinalizer_def writeKataConfig_def
  by (intro guarded_intros) (use assms in \<open>simp_all add: inCall_def finalizerLast_def\<close>)

text \<open>
  The stages of a removal. A fact about the requests of a call so far is lasting if later requests
  cannot undo it; a stage is a set of lasting facts that have been established in this call.
\<close>

type_synonym fact = "history \<Rightarrow> bool"

definition lasting :: "fact \<Rightarrow> bool" where
  "lasting F \<longleftrightarrow> (\<forall>h h'. F h \<longrightarrow> F (h @ h'))"

definition wasDeleted :: "rkind \<Rightarrow> string \<Rightarrow> string \<Rightarrow> fact" where
  "wasDeleted k ns n = since 0 (deletionSeen k ns n)"

definition cleaned :: "fact set \<Rightarrow> fact" where
  "cleaned R h \<longleftrightarrow> (\<forall>F \<in> R. F h)"

definition stage :: "rstate \<Rightarrow> fact set \<Rightarrow> rstate \<Rightarrow> bool" where
  "stage s0 A s \<longleftrightarrow> grown s0 s \<and> (\<forall>F \<in> A. lasting F \<and> F (drop (length (trace s0)) (trace s)))"

abbreviation removalGuard :: "rstate \<Rightarrow> fact set \<Rightarrow> history \<Rightarrow> event \<Rightarrow> bool" where
  "removalGuard s0 R \<equiv> inCall s0 (finalizerLast (cleaned R))"

lemma since_call: "since n A h = since 0 A (drop n h)"
  by (simp add: since_def)

lemma lasting_wasDeleted: "lasting (wasDeleted k ns n)"
  by (simp add: lasting_def wasDeleted_def since_append)

lemma lasting_podsClear: "lasting (podsClear E s)"
  by (auto simp: lasting_def podsClear_def intro: noKataPods_append)

lemma lasting_grown:
  assumes "lasting F" "F (drop (length (trace s0)) (trace s))" "grown s0 s" "grown s s'"
  shows "F (drop (length (trace s0)) (trace s'))"
  using assms by (auto simp: lasting_def grown_def)

lemma stage_grown: "stage s0 A s \<Longrightarrow> grown s s' \<Longrightarrow> stage s0 A s'"
  unfolding stage_def by (auto intro: grown_trans lasting_grown)

lemma stage_insert:
  "stage s0 A s \<Longrightarrow> lasting F \<Longrightarrow> F (drop (length (trace s0)) (trace s)) \<Longrightarrow> stage s0 (insert F A) s"
  unfolding stage_def by blast

lemma stage_onErr:
  assumes "stage s0 A s" and "emits (writesOnly K) m" and "KKataConfig \<notin> K"
    and "\<And>e s'. guarded (removalGuard s0 R) (h e) Q s'"
    and "\<And>s'. stage s0 A s' \<Longrightarrow> guarded (removalGuard s0 R) k Q s'"
  shows "guarded (removalGuard s0 R) (onErr m h k) Q s"
  by (rule guarded_onErr_grown[OF assms(2)])
    (use assms(3-5) stage_grown[OF assms(1)] in \<open>auto intro: inCall_quiet\<close>)

lemma stage_onInl:
  assumes "stage s0 A s" and "emits (writesOnly K) m" and "KKataConfig \<notin> K"
    and "\<And>e s'. stage s0 A s' \<Longrightarrow> guarded (removalGuard s0 R) (h e) Q s'"
    and "\<And>x s'. stage s0 A s' \<Longrightarrow> guarded (removalGuard s0 R) (k x) Q s'"
  shows "guarded (removalGuard s0 R) (onInl m h k) Q s"
  by (rule guarded_onInl_grown[OF assms(2)])
    (use assms(3-5) stage_grown[OF assms(1)] in \<open>auto intro: inCall_quiet\<close>)

lemma stage_bind:
  assumes "stage s0 A s" and "emits (writesOnly K) m" and "KKataConfig \<notin> K"
    and "\<And>x s'. stage s0 A s' \<Longrightarrow> guarded (removalGuard s0 R) (k x) Q s'"
  shows "guarded (removalGuard s0 R) (State_Monad.bind m k) Q s"
  by (rule guarded_bind_grown[OF assms(2)])
    (use assms(3-4) stage_grown[OF assms(1)] in \<open>auto intro: inCall_quiet\<close>)

lemma stage_delete:
  assumes "stage s0 A s" and "emits (writesOnly K) m" and "KKataConfig \<notin> K"
    and "achieves noError (deletionSeen kd ns n) m"
    and "\<And>e s'. guarded (removalGuard s0 R) (h e) Q s'"
    and "\<And>s'. stage s0 (insert (wasDeleted kd ns n) A) s' \<Longrightarrow> guarded (removalGuard s0 R) k Q s'"
  shows "guarded (removalGuard s0 R) (onErr m h k) Q s"
proof (rule guarded_onErr_achieves[OF assms(2) _ assms(4)])
  fix s' assume "grown s s'" "since (length (trace s)) (deletionSeen kd ns n) (trace s')"
  moreover have "length (trace s0) \<le> length (trace s)" using assms(1) by (auto simp: stage_def grown_def)
  ultimately have "stage s0 (insert (wasDeleted kd ns n) A) s'"
    unfolding since_call[of "length (trace s0)"] wasDeleted_def
    by (intro stage_insert[OF stage_grown[OF assms(1)]] lasting_wasDeleted[unfolded wasDeleted_def])
      (simp_all add: since_le flip: since_call)
  then show "guarded (removalGuard s0 R) k Q s'" by (rule assms(6))
qed (use assms(3,5) in \<open>auto intro: inCall_quiet\<close>)

text \<open>An operation that only reads may establish a fact that depends on its result.\<close>

lemma stage_observe:
  assumes "stage s0 A s" and "emits readOnly m" and "\<And>x. lasting (F x)"
    and "wp m (\<lambda>x s'. F x (drop (length (trace s0)) (trace s'))) s"
    and "\<And>x s'. stage s0 (insert (F x) A) s' \<Longrightarrow> guarded (removalGuard s0 R) (k x) Q s'"
  shows "guarded (removalGuard s0 R) (State_Monad.bind m k) Q s"
proof (rule guarded_bind, rule guarded_emits_wp[OF assms(2)])
  have "appends m" using assms(2) by (rule emits_mono) simp
  then show "wp m (\<lambda>x s'. grown s s' \<and> F x (drop (length (trace s0)) (trace s'))) s"
    using assms(4) grown_exec[of m s] by (simp add: wp_def)
  show "guarded (removalGuard s0 R) (k x) Q s'"
    if "grown s s' \<and> F x (drop (length (trace s0)) (trace s'))" for x s'
    using that by (intro assms(5) stage_insert[OF stage_grown[OF assms(1)]]) (simp_all add: assms(3))
qed (rule inCall_quiet)

lemma stage_final:
  assumes "stage s0 A s" and "R \<subseteq> A"
  shows "guarded (removalGuard s0 R) (onErr (removeFinalizer E) (\<lambda>_. return x) (return y)) (\<lambda>_ _. True) s"
proof (rule guarded_onErr, rule guarded_conseq[OF guarded_removeFinalizer])
  show "cleaned R (drop (length (trace s0)) (trace s))"
    using assms by (auto simp: stage_def cleaned_def)
qed (auto intro: guarded_return)

text \<open>A removal starts by checking that no pod uses the runtime classes.\<close>

lemma stage_start:
  assumes "grown s0 s" and "kataConfig s = kataConfig s0"
    and "\<And>e s'. guarded (removalGuard s0 R) (bad e) Q s'"
    and "\<And>s'. stage s0 {podsClear E s0} s' \<Longrightarrow> guarded (removalGuard s0 R) k Q s'"
  shows "guarded (removalGuard s0 R) (checkDeletionEligibility E \<bind>
    (\<lambda>(res, err). if err \<noteq> None then bad (res, err) else k)) Q s"
proof (rule guarded_bind, rule guarded_emits_wp[OF emits_checkDeletionEligibility _ wp_checkDeletionEligibility])
  fix r :: "ctrlResult \<times> goerr option" and s' :: rstate
  assume ok: "snd r = None \<longrightarrow> kataConfig s' = kataConfig s \<and> grown s s' \<and>
    (contains (Finalizers (kcMeta (kataConfig s))) kataConfigFinalizer \<longrightarrow>
       (\<exists>pods. listPods (apiOf E) (trace s) = Inr pods \<and> trace s' = trace s @ [Ev (ListReq KPod) None] \<and>
          list_all (\<lambda>p. \<not> usesRuntimeClass (RuntimeClasses (Status (kataConfig s))) p) pods))"
  have "stage s0 {podsClear E s0} s'" if "snd r = None"
    using ok that assms(1,2)
    by (fastforce simp: stage_def lasting_podsClear podsClear_def noKataPods_def grown_def)
  then show "guarded (removalGuard s0 R) (case r of (res, err) \<Rightarrow> if err \<noteq> None then bad (res, err) else k) Q s'"
    using assms(3,4) by (cases r) auto
qed (rule inCall_quiet)

section \<open>Work that has to wait for a fact\<close>

text \<open>Objects of the kinds \<open>K\<close> are written only after the fact \<open>F\<close> was established in the call.\<close>

definition onlyAfter :: "rkind set \<Rightarrow> fact \<Rightarrow> history \<Rightarrow> event \<Rightarrow> bool" where
  "onlyAfter K F h e = (case writesKind (evRequest e) of None \<Rightarrow> True | Some k \<Rightarrow> k \<notin> K \<or> F h)"

lemma onlyAfter_frame: "writesOnly L e \<Longrightarrow> L \<inter> K = {} \<Longrightarrow> inCall s0 (onlyAfter K F) h e"
  by (cases e) (auto simp: inCall_def onlyAfter_def split: option.splits)

lemma onlyAfter_readOnly: "readOnly e \<Longrightarrow> inCall s0 (onlyAfter K F) h e"
  by (rule onlyAfter_frame[OF readOnly_writesOnly[where K = "{}"]]) simp_all

lemma guarded_onlyAfter:
  assumes "F (drop (length (trace s0)) (trace s))" and "lasting F" and "grown s0 s" and "appends m"
  shows "guarded (inCall s0 (onlyAfter K F)) m (\<lambda>_ _. True) s"
proof -
  have "permitted (inCall s0 (onlyAfter K F)) (trace s @ h) new" for h new
  proof (induction new arbitrary: h)
    case (Cons e new)
    have "F (drop (length (trace s0)) (trace s @ h))"
      using assms(1-3) by (auto simp: lasting_def grown_def)
    with Cons[of "h @ [e]"] show ?case by (simp add: inCall_def onlyAfter_def split: option.split)
  qed simp
  from this[of "[]"] show ?thesis
    using emits_newEvents(1)[OF assms(4), of s] by (auto simp: guarded_def)
qed

text \<open>Steps before the fact is established.\<close>

lemma before_emits:
  "grown s0 s \<Longrightarrow> emits (writesOnly L) m \<Longrightarrow> L \<inter> K = {} \<Longrightarrow>
   guarded (inCall s0 (onlyAfter K F)) m (\<lambda>_ _. True) s"
  by (rule guarded_emits[OF _ onlyAfter_frame]) auto

lemma before_bind:
  assumes "grown s0 s" and "emits (writesOnly L) m" and "L \<inter> K = {}"
    and "\<And>x s'. grown s0 s' \<Longrightarrow> guarded (inCall s0 (onlyAfter K F)) (k x) Q s'"
  shows "guarded (inCall s0 (onlyAfter K F)) (State_Monad.bind m k) Q s"
  by (rule guarded_bind_grown[OF assms(2)])
    (use assms(3,4) grown_trans[OF assms(1)] in \<open>auto intro: onlyAfter_frame\<close>)

lemma before_onErr:
  assumes "grown s0 s" and "emits (writesOnly L) m" and "L \<inter> K = {}"
    and "\<And>e s'. guarded (inCall s0 (onlyAfter K F)) (h e) Q s'"
    and "\<And>s'. grown s0 s' \<Longrightarrow> guarded (inCall s0 (onlyAfter K F)) k Q s'"
  shows "guarded (inCall s0 (onlyAfter K F)) (onErr m h k) Q s"
  unfolding onErr_def by (rule before_bind[OF assms(1-3)]) (auto intro: assms(4,5) split: option.split)

lemma before_onInl:
  assumes "grown s0 s" and "emits (writesOnly L) m" and "L \<inter> K = {}"
    and "\<And>e s'. guarded (inCall s0 (onlyAfter K F)) (h e) Q s'"
    and "\<And>x s'. grown s0 s' \<Longrightarrow> guarded (inCall s0 (onlyAfter K F)) (k x) Q s'"
  shows "guarded (inCall s0 (onlyAfter K F)) (onInl m h k) Q s"
  unfolding onInl_def by (rule before_bind[OF assms(1-3)]) (auto intro: assms(4,5) split: sum.split)

text \<open>The step that establishes it, for some results.\<close>

lemma before_observe:
  assumes "grown s0 s" and "emits readOnly m"
    and "wp m (\<lambda>x s'. (if ok x then F else (\<lambda>_. True)) (drop (length (trace s0)) (trace s'))) s"
    and "lasting F" and "\<And>x. ok x \<Longrightarrow> appends (k x)"
    and "\<And>x. \<not> ok x \<Longrightarrow> emits (writesOnly L) (k x)" and "L \<inter> K = {}"
  shows "guarded (inCall s0 (onlyAfter K F)) (State_Monad.bind m k) (\<lambda>_ _. True) s"
proof (rule guarded_bind, rule guarded_emits_wp[OF assms(2) onlyAfter_readOnly])
  have "appends m" using assms(2) by (rule emits_mono) simp
  then show "wp m (\<lambda>x s'. grown s0 s' \<and> (if ok x then F else (\<lambda>_. True)) (drop (length (trace s0)) (trace s'))) s"
    using assms(3) grown_trans[OF assms(1) grown_exec[of m s]] by (simp add: wp_def)
  show "guarded (inCall s0 (onlyAfter K F)) (k x) (\<lambda>_ _. True) s'"
    if "grown s0 s' \<and> (if ok x then F else (\<lambda>_. True)) (drop (length (trace s0)) (trace s'))" for x s'
    using that assms(4-7) by (cases "ok x") (auto intro: guarded_onlyAfter before_emits)
qed

section \<open>The finalizer is added first\<close>

definition finalized :: "env \<Rightarrow> rstate \<Rightarrow> fact" where
  "finalized E s0 h \<longleftrightarrow> contains (Finalizers (kcMeta (kataConfig s0))) kataConfigFinalizer \<or>
     since 0 (\<lambda>e. \<exists>kc. e = Ev (UpdateReq (OKataConfig kc)) None \<and>
       kcMeta kc = AddFinalizer E kataConfigFinalizer (kcMeta (kataConfig s0))) h"

abbreviation finalizerFirst :: "rkind set \<Rightarrow> env \<Rightarrow> rstate \<Rightarrow> history \<Rightarrow> event \<Rightarrow> bool" where
  "finalizerFirst K E s0 \<equiv> onlyAfter K (finalized E s0)"

lemma lasting_finalized: "lasting (finalized E s0)"
  by (auto simp: lasting_def finalized_def intro: since_append)

lemma wp_ensureFinalizer:
  assumes "kataConfig s = kataConfig s0" and "grown s0 s"
  shows "wp (ensureFinalizer E) (\<lambda>r s'. grown s0 s' \<and>
    (r = None \<longrightarrow> finalized E s0 (drop (length (trace s0)) (trace s')))) s"
  using assms unfolding ensureFinalizer_def addFinalizer_def writeKataConfig_def
  by (auto simp: wp_simps finalized_def since_def grown_def split: option.split)

lemma guarded_ensureFinalizer:
  assumes "kataConfig s = kataConfig s0" and "grown s0 s" and "KKataConfig \<notin> K"
    and "\<And>e s'. guarded (inCall s0 (finalizerFirst K E s0)) (h e) (\<lambda>_ _. True) s'" and "appends k"
  shows "guarded (inCall s0 (finalizerFirst K E s0)) (onErr (ensureFinalizer E) h k) (\<lambda>_ _. True) s"
  by (rule guarded_onErr, rule guarded_emits_wp[OF emits_ensureFinalizer _ wp_ensureFinalizer])
    (use assms in \<open>auto intro: onlyAfter_frame guarded_onlyAfter lasting_finalized\<close>)

text \<open>A first part of a call that keeps the KataConfig and writes only kinds outside \<open>K\<close>.\<close>

definition atStart :: "rstate \<Rightarrow> rstate \<Rightarrow> bool" where
  "atStart s0 s \<longleftrightarrow> kataConfig s = kataConfig s0 \<and> grown s0 s"

lemma guarded_start:
  assumes "atStart s0 s" and "emits (writesOnly L) m" and "L \<inter> K = {}" and "preserves kataConfig m"
    and "\<And>x s'. atStart s0 s' \<Longrightarrow> guarded (inCall s0 (finalizerFirst K E s0)) (k x) Q s'"
  shows "guarded (inCall s0 (finalizerFirst K E s0)) (State_Monad.bind m k) Q s"
proof (rule guarded_bind, rule guarded_emits_wp[OF assms(2) onlyAfter_frame])
  have "appends m" using assms(2) by (rule emits_mono) simp
  then show "wp m (\<lambda>_ s'. atStart s0 s') s"
    using assms(1,4) grown_exec[of m s]
    by (auto simp: wp_def atStart_def preserves_def intro: grown_trans)
qed (use assms(3,5) in auto)

end
