(* ===== verification/Mco_Reconcile.thy ===== *)
theory Mco_Reconcile
  imports Finalizers
begin

text \<open>
  Installation and removal by the Machine Config Operator
  (\<^verbatim>\<open>controllers/openshift_controller.go\<close>): \<open>postKataInstallation\<close>, \<open>processKataConfigInstallRequest\<close> and
  \<open>processKataConfigDeleteRequest\<close>, the latter two cut into the phases the code goes through. The
  lemmas show when each phase is reached: the work after installation only when the pool is idle,
  the removal of the finalizer only after everything else is gone.
\<close>

definition setWaitingForMcoToStart :: "bool \<Rightarrow> (rstate, unit) state" where
  "setWaitingForMcoToStart b = modify (onStatus (\<lambda>st. st\<lparr>WaitingForMcoToStart := b\<rparr>))"

definition waitingForMco :: "rstate \<Rightarrow> bool" where
  "waitingForMco s = WaitingForMcoToStart (Status (kataConfig s))"

section \<open>After the installation\<close>

definition kataRuntimeClass :: "kataconfig \<Rightarrow> rcRequest" where
  "kataRuntimeClass kc = \<lparr>rcName = kataRuntimeClassName, cpuOverhead = ''0.25'', memoryOverhead = ''350Mi'',
     extResOverhead = [], rcHandler = kataRuntimeClassName,
     additionalNodeLabels = (if CheckNodeEligibility (Spec kc)
       then [''feature.node.kubernetes.io/runtime.kata'' \<mapsto> ''true''] else Map.empty)\<rparr>"

definition kataNvidiaGPURuntimeClass :: rcRequest where
  "kataNvidiaGPURuntimeClass = \<lparr>rcName = kataNvidiaGPURuntimeClassName, cpuOverhead = ''1'',
     memoryOverhead = ''4096Mi'', extResOverhead = [], rcHandler = kataNvidiaGPURuntimeClassName,
     additionalNodeLabels = nvidiaGPUNodeLabels\<rparr>"

definition postKataInstallation :: "env \<Rightarrow> (rstate, stepResult) state" where
  "postKataInstallation E = do {
     _ \<leftarrow> mutateCondition E resetInProgressCondition;
     kc \<leftarrow> gets kataConfig;
     onErr (createRuntimeClass E (kataRuntimeClass kc)) (\<lambda>e. return (requeueErr (Some e)))
     (onErr (if goArch (procOf E) \<noteq> ''s390x'' then createRuntimeClass E kataNvidiaGPURuntimeClass else return None)
        (\<lambda>e. return (requeueErr (Some e)))
     (onErr (createScc E) (\<lambda>e. return (requeueErr (Some e)))
     (onErr (createDaemonsetForMonitor E) (\<lambda>e. return (requeueErr (Some e)))
     (do {
        peerPods \<leftarrow> gets (\<lambda>s. EnablePeerPods (Spec (kataConfig s)));
        if peerPods then enablePeerPods E else return (None, None)
      }))))
   }"

section \<open>Installation\<close>

text \<open>The NodeFeatureRule of mixed clusters: ensured, or removed when it exists.\<close>

definition reconcileMixedCluster :: "env \<Rightarrow> (rstate, ctrlResult option \<times> goerr option) state" where
  "reconcileMixedCluster E = do {
     mixed \<leftarrow> gets (\<lambda>s. EnableMixedCluster (Spec (kataConfig s)));
     if mixed then
       onErr (checkNFDInstalled E) (\<lambda>e. return (Some (requeueIn 30), Some e))
       (onErr (ensureNodeFeatureRule E) (\<lambda>e. return (Some requeueNow, Some e)) (return (None, None)))
     else onInl (nodeFeatureRuleExists E) (\<lambda>e. return (Some requeueNow, Some e)) (\<lambda>exists.
       if exists then onErr (deleteNodeFeatureRule E) (\<lambda>e. return (Some requeueNow, Some e)) (return (None, None))
       else return (None, None))
   }"

text \<open>Creating the pool \<open>kata-oc\<close> when it does not exist.\<close>

definition ensurePool :: "env \<Rightarrow> string \<Rightarrow> ('z, goerr option) op" where
  "ensurePool E machinePool =
     onInl (getMCP E machinePool)
       (\<lambda>err. if IsNotFound err then do {
            m \<leftarrow> newMCPforCR E;
            writeOp E (CreateReq (OMachineConfigPool m))
          } else return (Some err))
       (\<lambda>_. return None)"

definition finishInstall :: "env \<Rightarrow> (rstate, ctrlResult \<times> goerr option) state" where
  "finishInstall E = do {
     (res, err) \<leftarrow> postKataInstallation E;
     (case res of
        Some r \<Rightarrow> return (r, err)
      | None \<Rightarrow> if err \<noteq> None
          then (if panicked err then return (emptyResult, err) else return (requeueIn 15, err))
          else return (emptyResult, None))
   }"

text \<open>
  The end of the installation: waiting for the MCO to start and to finish. The work after the
  installation is done when it is neither expected to start nor updating.
\<close>

definition installPhase :: "env \<Rightarrow> string \<Rightarrow> (rstate, ctrlResult \<times> goerr option) state" where
  "installPhase E machinePool = do {
     isMcoUpdating \<leftarrow> isMcpUpdating E machinePool;
     inProgress \<leftarrow> gets (\<lambda>s. getInProgressConditionValue (conditionsOf s));
     _ \<leftarrow> (if isMcoUpdating \<and> inProgress = ''False''
          then mutateCondition E setInProgressConditionToUpdating else return ());
     waiting \<leftarrow> gets waitingForMco;
     if \<not> isMcoUpdating \<and> waiting then return (emptyResult, None)
     else do {
       _ \<leftarrow> setWaitingForMcoToStart False;
       _ \<leftarrow> updateStatus E;
       if \<not> isMcoUpdating then finishInstall E else return (emptyResult, None)
     }
   }"

text \<open>Labelling the nodes and creating the pool on a regular cluster.\<close>

definition preparePool :: "env \<Rightarrow> string \<Rightarrow> bool \<Rightarrow> (rstate, ctrlResult \<times> goerr option) state" where
  "preparePool E machinePool wasMcJustCreated =
     (if machinePool \<noteq> ''master'' then do {
        (labelingChanged, err) \<leftarrow> updateNodeLabels E;
        (case err of
           Some e \<Rightarrow> return (labellingRetry e)
         | None \<Rightarrow> do {
             updating \<leftarrow> (if labelingChanged then isMcpUpdating E machinePool else return True);
             _ \<leftarrow> (if \<not> updating then setWaitingForMcoToStart True else return ());
             onErr (ensurePool E machinePool) (\<lambda>e. return (emptyResult, Some e)) (installPhase E machinePool)
           })
      } else do {
        _ \<leftarrow> (if wasMcJustCreated then setWaitingForMcoToStart True else return ());
        installPhase E machinePool
      })"

definition checkEligibility :: "env \<Rightarrow> (rstate, goerr option) state" where
  "checkEligibility E = do {
     check \<leftarrow> gets (\<lambda>s. CheckNodeEligibility (Spec (kataConfig s)));
     if check then checkNodeEligibility E else return None
   }"

definition processKataConfigInstallRequest :: "env \<Rightarrow> (rstate, ctrlResult \<times> goerr option) state" where
  "processKataConfigInstallRequest E =
     onErr (checkEligibility E) (\<lambda>e. return (requeueIn 20, Some e))
     (do {
        (res, err) \<leftarrow> reconcileMixedCluster E;
        (case res of
           Some r \<Rightarrow> return (r, err)
         | None \<Rightarrow>
           onInl (getMcpName E) (\<lambda>e. return (emptyResult, Some e)) (\<lambda>machinePool.
           onErr (ensureFinalizer E) (\<lambda>e. return (emptyResult, Some e))
           (onInl (getCustomKernelConfig E) (\<lambda>e. return (emptyResult, Some e)) (\<lambda>customKernelCfg.
            onInl (createMc E machinePool customKernelCfg) (\<lambda>e. return (requeueNow, None)) (\<lambda>wasMcJustCreated. do {
              _ \<leftarrow> (if wasMcJustCreated then mutateCondition E setInProgressConditionToInstalling else return ());
              preparePool E machinePool wasMcJustCreated
            })))))
      })"

section \<open>Removal\<close>

definition deleteKataOcPool :: "env \<Rightarrow> ('z, goerr option) op" where
  "deleteKataOcPool E =
     onInl (getMCP E ''kata-oc'')
       (\<lambda>err. return (if IsNotFound err then None else Some err))
       (\<lambda>kataOcMcp. writeOp E (DeleteReq KMachineConfigPool [] (Name (mcpMeta kataOcMcp))))"

definition removePeerPods :: "env \<Rightarrow> (rstate, stepResult) state" where
  "removePeerPods E = do {
     peerPods \<leftarrow> gets (\<lambda>s. EnablePeerPods (Spec (kataConfig s)));
     if peerPods then disablePeerPods E else return (None, None)
   }"

text \<open>The last phase; \<open>*res\<close> dereferences a pointer that is nil only if there is an error.\<close>

definition cleanupPhase :: "env \<Rightarrow> bool \<Rightarrow> (rstate, ctrlResult \<times> goerr option) state" where
  "cleanupPhase E isConvergedCluster =
     onErr (if \<not> isConvergedCluster then deleteKataOcPool E else return None) (\<lambda>e. return (emptyResult, Some e))
     (onErr (deleteDaemonsetForMonitor E) (\<lambda>e. return (requeueIn 15, Some e))
     (do {
        (res, err) \<leftarrow> removePeerPods E;
        (case (res, err) of
           (Some r, _) \<Rightarrow> return (r, err)
         | (None, Some e) \<Rightarrow> return (emptyResult, Some (if isPanic e then e else GoPanic ''nil pointer dereference''))
         | (None, None) \<Rightarrow>
           onErr (deleteNodeFeatureRule E) (\<lambda>e. return (requeueNow, Some e))
           (onErr (deleteScc E) (\<lambda>e. return (requeueIn 15, Some e))
           (onErr (removeLogLevel E) (\<lambda>_. return (requeueNow, None))
           (onErr (removeFinalizer E) (\<lambda>_. return (requeueNow, None)) (return (emptyResult, None))))))
      }))"

text \<open>Waiting for the MCO to start and to finish.\<close>

definition uninstallPhase :: "env \<Rightarrow> bool \<Rightarrow> (rstate, ctrlResult \<times> goerr option) state" where
  "uninstallPhase E isConvergedCluster = do {
     isMcoUpdating \<leftarrow> isMcpUpdating E (if isConvergedCluster then ''master'' else ''worker'');
     waiting \<leftarrow> gets waitingForMco;
     if \<not> isMcoUpdating \<and> waiting then return (emptyResult, None)
     else do {
       _ \<leftarrow> setWaitingForMcoToStart False;
       _ \<leftarrow> updateStatus E;
       if isMcoUpdating then return (emptyResult, None)
       else do {
         _ \<leftarrow> mutateCondition E resetInProgressCondition;
         cleanupPhase E isConvergedCluster
       }
     }
   }"

text \<open>
  Removing the MachineConfig; the result says whether it was already gone. The Get decodes into the
  object at hand, which is the reconciler's image MachineConfig when there is one.
\<close>

definition removeMc :: "env \<Rightarrow> machineConfig \<Rightarrow> (rstate, goerr + bool) state" where
  "removeMc E mc = do {
     img \<leftarrow> gets ImgMc;
     onInl (getMC E (Name (mcMeta mc)))
       (\<lambda>err. if IsNotFound err then do { _ \<leftarrow> setImgMc None; return (Inr True) } else return (Inl err))
       (\<lambda>found. do {
          _ \<leftarrow> (if img \<noteq> None then setImgMc (Some found) else return ());
          _ \<leftarrow> writeOp E (DeleteReq KMachineConfig [] (Name (mcMeta found)));
          return (Inr False)
        })
   }"

text \<open>From unlabelling the nodes to waiting for the MCO.\<close>

definition removalPhase :: "env \<Rightarrow> string \<Rightarrow> (rstate, ctrlResult \<times> goerr option) state" where
  "removalPhase E machinePool =
     onInl (getKataConfigNodeSelectorAsSelector E) (\<lambda>_. return (requeueNow, None)) (\<lambda>kataNodeSelector. do {
       (labelingChanged, err) \<leftarrow> unlabelNodes E kataNodeSelector;
       (case err of
          Some e \<Rightarrow> return (labellingRetry e)
        | None \<Rightarrow> do {
            _ \<leftarrow> mutateCondition E setInProgressConditionToUninstalling;
            onInl (newMCForCR E machinePool None) (\<lambda>e. return (emptyResult, Some e)) (\<lambda>mc.
            onInl (removeMc E mc) (\<lambda>e. return (emptyResult, Some e)) (\<lambda>isMcDeleted. do {
              r \<leftarrow> checkConvergedCluster E;
              let isConvergedCluster = assumeConverged r;
              _ \<leftarrow> (if isConvergedCluster \<and> \<not> isMcDeleted \<or> \<not> isConvergedCluster \<and> labelingChanged
                   then setWaitingForMcoToStart True else return ());
              uninstallPhase E isConvergedCluster
            }))
          })
     })"

definition processKataConfigDeleteRequest :: "env \<Rightarrow> (rstate, ctrlResult \<times> goerr option) state" where
  "processKataConfigDeleteRequest E =
     onInl (getMcpName E) (\<lambda>e. return (requeueIn 15, Some e)) (\<lambda>machinePool. do {
       (res, err) \<leftarrow> checkDeletionEligibility E;
       if err \<noteq> None then return (res, err) else removalPhase E machinePool
     })"

section \<open>Frames\<close>

lemma emits_setWaiting [emits_intros]: "emits P (setWaitingForMcoToStart b)"
  unfolding setWaitingForMcoToStart_def by (intro emits_intros) simp

definition postKinds :: "rkind set" where
  "postKinds = {KRuntimeClass, KScc} \<union> peerPodsKinds \<union> podVMImageKinds \<union> {KSecret}"

lemma emits_postKataInstallation: "emits (writesOnly postKinds) (postKataInstallation E)"
  unfolding postKataInstallation_def postKinds_def
  by (intro emits_intros; auto simp: peerPodsKinds_def elim: writesOnly_mono)

lemmas postKataInstallation_frame [emits_intros] = emits_postKataInstallation[THEN emits_mono]

lemma emits_mixed: "emits (writesOnly {KNodeFeatureRule}) (reconcileMixedCluster E)"
  unfolding reconcileMixedCluster_def by (intro emits_intros; auto intro: readOnly_writesOnly elim: writesOnly_mono)

lemma emits_install_steps:
  "emits (writesOnly {KMachineConfigPool}) (ensurePool E pool)"
  "emits readOnly (checkEligibility E)"
  unfolding ensurePool_def checkEligibility_def
  by (intro emits_intros; auto intro: readOnly_writesOnly elim: writesOnly_mono)+

lemmas install_frames [emits_intros] = emits_mixed[THEN emits_mono] emits_install_steps[THEN emits_mono]

definition installKinds :: "rkind set" where
  "installKinds = postKinds \<union> {KMachineConfig, KMachineConfigPool, KNode}"

lemma emits_installPhase: "emits (writesOnly installKinds) (installPhase E pool)"
  unfolding installPhase_def finishInstall_def installKinds_def
  by (intro emits_intros; auto intro: readOnly_writesOnly elim: writesOnly_mono)

lemmas installPhase_frame [emits_intros] = emits_installPhase[THEN emits_mono]

lemma emits_removal_steps:
  "emits (writesOnly {KMachineConfigPool}) (deleteKataOcPool E)"
  "emits (writesOnly (peerPodsKinds \<union> podVMImageKinds)) (removePeerPods E)"
  "emits (writesOnly {KMachineConfig}) (removeMc E mc)"
  unfolding deleteKataOcPool_def removePeerPods_def removeMc_def setImgMc_def
  by (intro emits_intros; auto intro: readOnly_writesOnly elim: writesOnly_mono)+

lemmas removal_frames [emits_intros] = emits_removal_steps[THEN emits_mono]

text \<open>
  In the call the pods were found clear, the machine config pool was seen at rest (a pool that cannot be
  read counts as such), and the monitor, the NodeFeatureRule and the SCC were deleted.
\<close>

definition poolUpdating :: "env \<Rightarrow> history \<Rightarrow> string \<Rightarrow> bool" where
  "poolUpdating E h pool = (case getMachineConfigPool (apiOf E) h pool of Inl _ \<Rightarrow> False
     | Inr m \<Rightarrow> isMcpConditionTrue (libOf E) (mcpConditions (mcpStatusOf m)) ''Updating'')"

definition poolSettled :: "env \<Rightarrow> rstate \<Rightarrow> fact" where
  "poolSettled E s0 h \<longleftrightarrow> (\<exists>h0 h1. h = h0 @ h1 \<and>
     (\<not> poolUpdating E (trace s0 @ h0) ''worker'' \<or> \<not> poolUpdating E (trace s0 @ h0) ''master''))"

definition mcoFacts :: "env \<Rightarrow> rstate \<Rightarrow> fact set" where
  "mcoFacts E s0 = {podsClear E s0, poolSettled E s0, wasDeleted KDaemonSet OperatorNamespace monitorDsName,
     wasDeleted KNodeFeatureRule nfdNamespace oscNodeTypeRuleName, wasDeleted KScc [] (Name (sccMeta GetScc))}"

lemma lasting_poolSettled: "lasting (poolSettled E s0)"
  unfolding lasting_def poolSettled_def by (metis append.assoc)

lemma wp_isMcpUpdating_settled:
  assumes "grown s0 s" and "pool = ''worker'' \<or> pool = ''master''"
  shows "wp (isMcpUpdating E pool) (\<lambda>x s'. (if x then (\<lambda>_. True) else poolSettled E s0)
    (drop (length (trace s0)) (trace s'))) s"
  using assms unfolding isMcpUpdating_def
  by (auto simp: wp_simps grown_def poolSettled_def poolUpdating_def split: sum.split)

lemma cleanupPhase_guarded:
  assumes "stage s0 {poolSettled E s0, podsClear E s0} s"
  shows "guarded (removalGuard s0 (mcoFacts E s0)) (cleanupPhase E conv) (\<lambda>_ _. True) s"
proof -
  note ops = emits_mco_operations emits_nfd(3)
  have tail: "guarded (removalGuard s0 (mcoFacts E s0)) (onErr (deleteNodeFeatureRule E) (\<lambda>e. return (requeueNow, Some e))
       (onErr (deleteScc E) (\<lambda>e. return (requeueIn 15, Some e))
       (onErr (removeLogLevel E) (\<lambda>_. return (requeueNow, None))
       (onErr (removeFinalizer E) (\<lambda>_. return (requeueNow, None)) (return (emptyResult, None)))))) (\<lambda>_ _. True) s"
    if "stage s0 {wasDeleted KDaemonSet OperatorNamespace monitorDsName, poolSettled E s0, podsClear E s0} s" for s
    apply (rule stage_delete[OF that ops(8) _ achieves_ignoringAbsent(3)], simp, intro guarded_intros, simp)
    apply (erule stage_delete[OF _ ops(4) _ achieves_ignoringAbsent(2)], simp, intro guarded_intros, simp)
    apply (erule stage_onErr[OF _ ops(2)], simp, intro guarded_intros, simp)
    by (erule stage_final) (simp add: mcoFacts_def)
  have pool: "emits (writesOnly {KMachineConfigPool}) (if \<not> conv then deleteKataOcPool E else return None :: (rstate, _) state)"
    by (intro emits_intros) simp_all
  show ?thesis unfolding cleanupPhase_def
    apply (rule stage_onErr[OF assms pool], simp, intro guarded_intros, simp)
    apply (erule stage_delete[OF _ ops(7) _ achieves_monitorDeleted], simp, intro guarded_intros, simp)
    apply (erule stage_bind[OF _ emits_removal_steps(2)], simp add: peerPodsKinds_def podVMImageKinds_def)
    by (auto intro!: guarded_return tail split: prod.split option.split)
qed

lemma quiet_phases:
  "emits (writesOnly {}) (isMcpUpdating E p :: (rstate, _) state)" "emits (writesOnly {}) (updateStatus E)"
  "emits (writesOnly {}) (setWaitingForMcoToStart b)" "emits (writesOnly {}) (mutateCondition E c)"
  "emits (writesOnly {}) (newMCForCR E pool ck)"
  "emits (writesOnly {}) (checkConvergedCluster E :: (rstate, _) state)"
  "emits (writesOnly {}) (getKataConfigNodeSelectorAsSelector E)"
  "emits (writesOnly {}) (if b then setWaitingForMcoToStart True else return ())"
  by (intro emits_intros; auto intro: readOnly_writesOnly)+

lemma uninstallPhase_guarded:
  assumes "stage s0 {podsClear E s0} s"
  shows "guarded (removalGuard s0 (mcoFacts E s0)) (uninstallPhase E conv) (\<lambda>_ _. True) s"
  unfolding uninstallPhase_def
  apply (rule stage_observe[OF assms emits_isMcpUpdating _ wp_isMcpUpdating_settled])
     apply (simp add: lasting_poolSettled lasting_def[of "\<lambda>_. True"])
    apply (use assms in \<open>simp_all add: stage_def\<close>)[2]
  apply (rule guarded_bind, rule guarded_gets, rule guarded_if, rule guarded_return, rule TrueI)
  apply (erule stage_bind[OF _ quiet_phases(3)], simp)
  apply (erule stage_bind[OF _ quiet_phases(2)], simp)
  apply (rule guarded_if, rule guarded_return, rule TrueI)
  apply (erule stage_bind[OF _ quiet_phases(4)], simp)
  by (rule cleanupPhase_guarded) simp

lemma removalPhase_guarded:
  assumes "stage s0 {podsClear E s0} s"
  shows "guarded (removalGuard s0 (mcoFacts E s0)) (removalPhase E pool) (\<lambda>_ _. True) s"
proof -
  have mc: "guarded (removalGuard s0 (mcoFacts E s0)) (onInl (removeMc E mc) (\<lambda>e. return (emptyResult, Some e))
      (\<lambda>isMcDeleted. checkConvergedCluster E \<bind> (\<lambda>r. (if assumeConverged r \<and> \<not> isMcDeleted \<or>
          \<not> assumeConverged r \<and> labelingChanged then setWaitingForMcoToStart True else return ()) \<bind>
        (\<lambda>_. uninstallPhase E (assumeConverged r))))) (\<lambda>_ _. True) s"
    if "stage s0 {podsClear E s0} s" for mc labelingChanged s
    apply (rule stage_onInl[OF that emits_removal_steps(3)], simp, rule guarded_return, rule TrueI)
    apply (erule stage_bind[OF _ quiet_phases(6)], simp)
    apply (erule stage_bind[OF _ quiet_phases(8)], simp)
    by (rule uninstallPhase_guarded)
  show ?thesis unfolding removalPhase_def Let_def
    apply (rule stage_onInl[OF assms quiet_phases(7)], simp, rule guarded_return, rule TrueI)
    apply (erule stage_bind[OF _ emits_labelling(2)], simp)
    apply (auto intro!: guarded_return guarded_case_prod guarded_case_option)
    apply (erule stage_bind[OF _ quiet_phases(4)], simp)
    apply (erule stage_onInl[OF _ quiet_phases(5)], simp, rule guarded_return, rule TrueI)
    by (rule mc)
qed

lemma deleteRequest_guarded:
  "guarded (removalGuard s (mcoFacts E s)) (processKataConfigDeleteRequest E) (\<lambda>_ _. True) s"
  unfolding processKataConfigDeleteRequest_def
proof (rule guarded_onInl, rule guarded_emits_wp)
  show ro: "emits readOnly (getMcpName E :: (rstate, _) state)" by (intro emits_intros) simp
  have "preserves kataConfig (getMcpName E :: (rstate, _) state)" by (intro preserves_intros) simp
  then show "wp (getMcpName E) (\<lambda>_ s'. grown s s' \<and> kataConfig s' = kataConfig s) s"
    using grown_exec[of "getMcpName E" s] emits_mono[OF ro] by (simp add: wp_def preserves_def)
next
  fix r and s1 :: rstate
  assume s1: "grown s s1 \<and> kataConfig s1 = kataConfig s"
  have "guarded (removalGuard s (mcoFacts E s)) (checkDeletionEligibility E \<bind> (\<lambda>(res, err).
       if err \<noteq> None then return (res, err) else removalPhase E x)) (\<lambda>_ _. True) s1" for x
    by (rule stage_start) (use s1 in \<open>auto intro: guarded_return removalPhase_guarded\<close>)
  then show "(\<forall>e. r = Inl e \<longrightarrow> guarded (removalGuard s (mcoFacts E s)) (return (requeueIn 15, Some e)) (\<lambda>_ _. True) s1) \<and>
    (\<forall>x. r = Inr x \<longrightarrow> guarded (removalGuard s (mcoFacts E s)) (checkDeletionEligibility E \<bind> (\<lambda>(res, err).
       if err \<noteq> None then return (res, err) else removalPhase E x)) (\<lambda>_ _. True) s1)"
    by (auto intro: guarded_return)
qed (rule inCall_quiet)

section \<open>The finalizer is added first\<close>

lemma preserves_install_start:
  "preserves kataConfig (checkEligibility E)" "preserves kataConfig (reconcileMixedCluster E)"
  "preserves kataConfig (getMcpName E :: (rstate, _) state)"
  unfolding checkEligibility_def reconcileMixedCluster_def by (intro preserves_intros; simp)+

lemma installRequest_guarded:
  "guarded (inCall s (finalizerFirst (- {KNodeFeatureRule, KKataConfig}) E s)) (processKataConfigInstallRequest E) (\<lambda>_ _. True) s"
proof -
  let ?G = "inCall s (finalizerFirst (- {KNodeFeatureRule, KKataConfig}) E s)"
  have kinds: "KKataConfig \<notin> - {KNodeFeatureRule, KKataConfig}"
    "{KNodeFeatureRule} \<inter> - {KNodeFeatureRule, KKataConfig} = {}" by auto
  have frames: "emits (writesOnly {}) (checkEligibility E)" "emits (writesOnly {}) (getMcpName E :: (rstate, _) state)"
    by (intro emits_intros; auto intro: readOnly_writesOnly)+
  have rest: "guarded ?G (onErr (ensureFinalizer E) (\<lambda>e. return (emptyResult, Some e))
      (onInl (getCustomKernelConfig E) (\<lambda>e. return (emptyResult, Some e)) (\<lambda>customKernelCfg.
       onInl (createMc E pool customKernelCfg) (\<lambda>e. return (requeueNow, None)) (\<lambda>wasMcJustCreated. do {
         _ \<leftarrow> (if wasMcJustCreated then mutateCondition E setInProgressConditionToInstalling else return ());
         preparePool E pool wasMcJustCreated
       })))) (\<lambda>_ _. True) s1" if "atStart s s1" for pool s1
    using that kinds unfolding atStart_def preparePool_def
    by (intro guarded_ensureFinalizer) (auto intro!: guarded_return emits_intros)
  have start: "atStart s s" by (simp add: atStart_def)
  show ?thesis
    unfolding processKataConfigInstallRequest_def onErr_def[of "checkEligibility E"] onInl_def[of "getMcpName E"]
    apply (rule guarded_start[OF start frames(1) _ preserves_install_start(1)], simp)
    apply (rule guarded_case_option)
     apply (erule guarded_start[OF _ emits_mixed kinds(2) preserves_install_start(2)])
     apply (intro guarded_case_prod guarded_case_option)
      apply (erule guarded_start[OF _ frames(2) _ preserves_install_start(3)], simp)
      apply (intro guarded_case_sum guarded_return TrueI)
      apply (erule rest)
    by (intro guarded_return TrueI)+
qed

section \<open>Work after the installation\<close>

definition monitorWritten :: "event \<Rightarrow> bool" where
  "monitorWritten e \<longleftrightarrow> (\<exists>ds. Name (dsMeta ds) = monitorDsName \<and>
     (e = Ev (CreateReq (ODaemonSet ds)) None \<or> e = Ev (UpdateReq (ODaemonSet ds)) None))"

definition sccThere :: "event \<Rightarrow> bool" where
  "sccThere e \<longleftrightarrow> e = Ev (GetReq KScc [] (Name (sccMeta GetScc))) None \<or>
     (\<exists>s. Name (sccMeta s) = Name (sccMeta GetScc) \<and> e = Ev (CreateReq (OScc s)) None)"

lemma newEvents_readOp [simp]: "newEvents (readOp q f) s = [Ev q (outcome (f (trace s)))]"
  by (simp add: newEvents_def)

lemma achieves_bind_result:
  assumes "\<And>s. achieves ok P (k (result m s))" and "appends m" "\<And>x. appends (k x)"
  shows "achieves ok P (State_Monad.bind m k)"
  using assms(1) unfolding achieves_def
  by (simp add: newEvents_bind[OF assms(2-3)] run_simps bex_Un)

lemma achieves_onInl:
  assumes "\<And>x. achieves ok P (k x)" and "\<And>e. achieves ok P (h e)"
    and "appends m" "\<And>e. appends (h e)" "\<And>x. appends (k x)"
  shows "achieves ok P (onInl m h k)"
  using assms(1,2) unfolding achieves_def
  by (simp add: newEvents_onInl[OF assms(3-5)] run_simps bex_Un split: sum.split)

lemma achieves_getOrCreate:
  assumes "P (Ev (GetReq k ns n) None)" and "P (Ev (CreateReq obj) None)"
  shows "achieves noError P (onInl (readOp (GetReq k ns n) f)
    (\<lambda>err. if \<not> IsNotFound err then return (Some err) else writeOp E (CreateReq obj)) (\<lambda>_. return None))"
  unfolding achieves_def
  by (subst newEvents_onInl; (intro emits_intros TrueI)?)
    (use assms in \<open>auto simp: run_simps split: sum.splits if_splits\<close>)

lemma achieves_createScc: "achieves noError sccThere (createScc E)"
  unfolding createScc_def Let_def
proof (rule achieves_bind_rest)
  fix kc
  show "achieves noError sccThere (case SetControllerReference E kc (sccMeta GetScc) of Inl e \<Rightarrow> return (Some e)
     | Inr m \<Rightarrow> onInl (getSCC E (Name (sccMeta (GetScc\<lparr>sccMeta := m\<rparr>))))
         (\<lambda>err. if \<not> IsNotFound err then return (Some err) else writeOp E (CreateReq (OScc (GetScc\<lparr>sccMeta := m\<rparr>))))
         (\<lambda>_. return None))"
    by (auto simp: achieves_return sccThere_def split: sum.split dest!: SetControllerReference_Inr
        intro!: achieves_getOrCreate)
qed (intro emits_intros TrueI)+

lemma achieves_createMonitor: "achieves noError monitorWritten (createDaemonsetForMonitor E)"
proof -
  have put: "achieves noError monitorWritten (onInl (getDS E ns n)
      (\<lambda>err. if IsNotFound err then writeOp E (CreateReq (ODaemonSet ds)) else return (Some err))
      (\<lambda>_. writeOp E (UpdateReq (ODaemonSet ds))))" if "Name (dsMeta ds) = monitorDsName" for ds ns n
    by (rule achieves_onInl)
      (use that in \<open>auto simp: monitorWritten_def achieves_return intro!: achieves_writeOp emits_intros\<close>)
  have own: "achieves noError monitorWritten (gets kataConfig \<bind> (\<lambda>kc.
      case SetControllerReference E kc (dsMeta ds0) of
        Inl e \<Rightarrow> return (Some e)
      | Inr m \<Rightarrow> onErr (createKataMonitorNetworkPolicies E) (\<lambda>e. return (Some e))
          (onInl (getDS E (Namespace (dsMeta (ds0\<lparr>dsMeta := m\<rparr>))) (Name (dsMeta (ds0\<lparr>dsMeta := m\<rparr>))))
            (\<lambda>err. if IsNotFound err then writeOp E (CreateReq (ODaemonSet (ds0\<lparr>dsMeta := m\<rparr>))) else return (Some err))
            (\<lambda>_. writeOp E (UpdateReq (ODaemonSet (ds0\<lparr>dsMeta := m\<rparr>)))))))"
    if "dsMeta ds0 = mkMeta monitorDsName OperatorNamespace" for ds0
    by (rule achieves_bind_rest)
      (use that in \<open>auto simp: achieves_return split: sum.split dest!: SetControllerReference_Inr
        intro!: achieves_onErr_rest[OF put] emits_intros\<close>)
  show ?thesis unfolding createDaemonsetForMonitor_def Let_def
    by (intro achieves_onInl_rest achieves_bind_result own; (simp; fail)?; (intro emits_intros TrueI)?)
qed

lemma achieves_post:
  assumes "achieves noError P (createScc E) \<or> achieves noError P (createDaemonsetForMonitor E)"
  shows "achieves (\<lambda>r. r = (None, None)) P (postKataInstallation E)"
proof -
  have last: "appends (gets (\<lambda>s. EnablePeerPods (Spec (kataConfig s))) \<bind>
      (\<lambda>peerPods. if peerPods then enablePeerPods E else return (None, None)))"
    by (intro emits_intros TrueI)
  have aps: "appends (createScc E)" "appends (createDaemonsetForMonitor E)" by (intro emits_intros TrueI)+
  have "achieves (\<lambda>r. r = (None, None)) P (onErr (createScc E) (\<lambda>e. return (requeueErr (Some e)))
     (onErr (createDaemonsetForMonitor E) (\<lambda>e. return (requeueErr (Some e)))
       (gets (\<lambda>s. EnablePeerPods (Spec (kataConfig s))) \<bind>
         (\<lambda>peerPods. if peerPods then enablePeerPods E else return (None, None)))))"
    using assms
    by (elim disjE; intro achieves_onErr_first achieves_onErr_rest[OF achieves_onErr_first];
        simp add: requeueErr_def aps last emits_onErr emits_return)
  note chain = this
  show ?thesis unfolding postKataInstallation_def
  proof (intro achieves_bind_rest)
    fix kc
    show "achieves (\<lambda>r. r = (None, None)) P
      (onErr (createRuntimeClass E (kataRuntimeClass kc)) (\<lambda>e. return (requeueErr (Some e)))
      (onErr (if goArch (procOf E) \<noteq> ''s390x'' then createRuntimeClass E kataNvidiaGPURuntimeClass else return None)
        (\<lambda>e. return (requeueErr (Some e)))
      (onErr (createScc E) (\<lambda>e. return (requeueErr (Some e)))
      (onErr (createDaemonsetForMonitor E) (\<lambda>e. return (requeueErr (Some e)))
      (gets (\<lambda>s. EnablePeerPods (Spec (kataConfig s))) \<bind>
         (\<lambda>peerPods. if peerPods then enablePeerPods E else return (None, None)))))))"
      by (rule achieves_onErr_rest[OF achieves_onErr_rest[OF chain]]) (auto simp: requeueErr_def intro!: emits_intros)
  qed (intro emits_intros TrueI)+
qed

lemma postKataInstallation_shape:
  "wp (postKataInstallation E) (\<lambda>(res, err) s'. case res of Some r \<Rightarrow> r = requeueIn 15 | None \<Rightarrow> err = None \<or> panicked err) s"
proof -
  have "wp (onErr m (\<lambda>e. return (requeueErr (Some e))) k)
      (\<lambda>(res, err) s'. case res of Some r \<Rightarrow> r = requeueIn 15 | None \<Rightarrow> err = None \<or> panicked err) s"
    if "appends m" "\<And>s. wp k (\<lambda>(res, err) s'. case res of Some r \<Rightarrow> r = requeueIn 15 | None \<Rightarrow> err = None \<or> panicked err) s"
    for m k s
    by (rule wp_onErr_grown[OF that(1)]) (simp_all add: wp_return requeueErr_def that(2))
  note step = this
  have last: "wp (gets (\<lambda>s. EnablePeerPods (Spec (kataConfig s))) \<bind>
      (\<lambda>peerPods. if peerPods then enablePeerPods E else return (None, None)))
      (\<lambda>(res, err) s'. case res of Some r \<Rightarrow> r = requeueIn 15 | None \<Rightarrow> err = None \<or> panicked err) s" for s
    by (auto simp: wp_bind wp_gets wp_return intro!: wp_conseq[OF enablePeerPods_shape]
        simp: enableEnds_def split: option.splits)
  show ?thesis unfolding postKataInstallation_def
    by (rule wp_bind_grown, intro emits_intros TrueI, rule wp_bind_grown, intro emits_intros TrueI)
      (intro step last; (intro emits_intros TrueI)?)
qed

lemma placeNode_waiting [simp]: "WaitingForMcoToStart (placeNode t ob st) = WaitingForMcoToStart st"
proof -
  have "WaitingForMcoToStart (appendNode l n st) = WaitingForMcoToStart st" for l n
    by (cases l) simp_all
  then show ?thesis by (simp add: placeNode_def Let_def)
qed

lemma waitingForMco_simps [simp]:
  "waitingForMco (s\<lparr>trace := t\<rparr>) = waitingForMco s"
  "waitingForMco (onStatus g s) = WaitingForMcoToStart (g (Status (kataConfig s)))"
  by (simp_all add: waitingForMco_def)

lemma preserves_updateStatus_waiting: "preserves waitingForMco (updateStatus E)"
  unfolding updateStatus_def putNodeOnStatusList_def putObservedNode_def kataEnabledOnMaster_def
  by (intro preserves_intros)
    (simp_all add: clearNodeStatusLists_def setNodeCount_def setReadyNodeCount_def waitingForMco_def)

text \<open>What a complete run of \<open>installPhase\<close> leaves behind.\<close>

definition installEnds :: "ctrlResult \<times> goerr option \<Rightarrow> event list \<Rightarrow> bool" where
  "installEnds x evs = (case x of (r, err) \<Rightarrow>
     if r = emptyResult \<and> err = None then since 0 sccThere evs \<and> since 0 monitorWritten evs
     else r = requeueIn 15 \<or> panicked err)"

lemma finishInstall_ends: "installEnds (result (finishInstall E) s) (newEvents (finishInstall E) s)"
proof -
  obtain res err where r: "result (postKataInstallation E) s = (res, err)" by fastforce
  have ap: "appends (postKataInstallation E)" by (intro emits_intros TrueI)
  have shape: "case res of Some r \<Rightarrow> r = requeueIn 15 | None \<Rightarrow> err = None \<or> panicked err"
    using postKataInstallation_shape[of E s] r by (simp add: wp_def)
  have got: "since 0 P (newEvents (postKataInstallation E) s)" if "res = None" "err = None"
    "achieves noError P (createScc E) \<or> achieves noError P (createDaemonsetForMonitor E)" for P
    using achievesD[OF achieves_post[OF that(3)], of s] r that by (auto simp: since_def)
  have evs: "newEvents (finishInstall E) s = newEvents (postKataInstallation E) s"
    unfolding finishInstall_def by (subst newEvents_bind) (auto simp: r ap newEvents_def exec_def split: option.split intro: emits_return)
  have res: "result (finishInstall E) s = (case res of Some r \<Rightarrow> (r, err)
      | None \<Rightarrow> if err = None \<or> panicked err then (emptyResult, err) else (requeueIn 15, err))"
    unfolding finishInstall_def by (auto simp: run_simps r split: option.split)
  show ?thesis unfolding installEnds_def evs res
    using shape got[of sccThere] got[of monitorWritten] achieves_createScc achieves_createMonitor
    by (auto simp: emptyResult_def requeueIn_def split: option.splits)
qed

lemma appends_finishInstall: "appends (finishInstall E)" "appends (updateStatus E)"
  unfolding finishInstall_def by (auto intro!: emits_intros split: prod.splits)

lemma installEnds_append: "installEnds x new \<Longrightarrow> installEnds x (old @ new)"
  by (auto simp: installEnds_def since_def split: prod.splits if_splits)

lemma installEnds_bind:
  assumes "appends m" "appends k" "\<And>s. installEnds (result k s) (newEvents k s)"
  shows "installEnds (result (m \<bind> (\<lambda>_. k)) s) (newEvents (m \<bind> (\<lambda>_. k)) s)"
  by (simp add: newEvents_bind[OF assms(1,2)] run_simps installEnds_append assms(3))

lemma installPhase_unfold:
  fixes E pool s
  defines "updating \<equiv> result (isMcpUpdating E pool) s"
  defines "s1 \<equiv> exec (isMcpUpdating E pool) s"
  defines "s2 \<equiv> if updating \<and> getInProgressConditionValue (conditionsOf s1) = ''False''
     then exec (mutateCondition E setInProgressConditionToUpdating) s1 else s1"
  defines "k \<equiv> if \<not> updating \<and> waitingForMco s2 then return (emptyResult, None)
     else setWaitingForMcoToStart False \<bind> (\<lambda>_. updateStatus E \<bind> (\<lambda>_.
       if \<not> updating then finishInstall E else return (emptyResult, None)))"
  shows "result (installPhase E pool) s = result k s2" "exec (installPhase E pool) s = exec k s2"
    "newEvents (installPhase E pool) s = newEvents (isMcpUpdating E pool) s @ newEvents k s2"
proof -
  have same: "trace s2 = trace s1" by (simp add: s2_def mutateCondition_def)
  show run: "result (installPhase E pool) s = result k s2" "exec (installPhase E pool) s = exec k s2"
    unfolding installPhase_def k_def s2_def s1_def updating_def by (simp_all add: run_simps run_gets_parts)
  have ap: "appends (isMcpUpdating E pool)" "appends k"
    unfolding k_def setWaitingForMcoToStart_def
    by (auto intro!: emits_intros appends_finishInstall)
  show "newEvents (installPhase E pool) s = newEvents (isMcpUpdating E pool) s @ newEvents k s2"
  proof -
    obtain xs ys where "trace s1 = trace s @ xs" "trace (exec k s2) = trace s2 @ ys"
      using ap unfolding emits_def s1_def by blast
    then show ?thesis using same run(2) by (simp add: newEvents_def flip: s1_def)
  qed
qed

lemma installPhase_rests:
  fixes E and s :: rstate
  assumes "updating \<or> waitingForMco s"
  defines "k \<equiv> if \<not> updating \<and> waitingForMco s then return (emptyResult, None)
     else setWaitingForMcoToStart False \<bind> (\<lambda>_. updateStatus E \<bind> (\<lambda>_.
       if \<not> updating then finishInstall E else return (emptyResult, None)))"
  shows "writesOf k s = [] \<and> result k s = (emptyResult, None) \<and> (waitingForMco (exec k s) \<longleftrightarrow> \<not> updating)"
proof (cases updating)
  case True
  then have k: "k = setWaitingForMcoToStart False \<bind> (\<lambda>_. updateStatus E \<bind> (\<lambda>_. return (emptyResult, None)))"
    by (simp add: k_def)
  have "writesOf k s = []" unfolding k setWaitingForMcoToStart_def
    by (rule writesOf_readOnly) (intro emits_intros; simp add: emits_updateStatus)
  moreover have "result k s = (emptyResult, None)" "\<not> waitingForMco (exec k s)"
    unfolding k setWaitingForMcoToStart_def
    by (simp_all add: run_simps preservesD[OF preserves_updateStatus_waiting])
  ultimately show ?thesis using True by simp
next
  case False
  with assms(1) show ?thesis by (simp add: k_def)
qed

text \<open>
  C7: While the pool is updating, or the machine-config-operator has been asked for an update it has not started,
  \<open>installPhase\<close> writes nothing and asks for no requeue; the waiting mark is kept until an update is seen.
  Otherwise it ends with the SecurityContextConstraints in place and the monitor DaemonSet written, or asks to be run
  again in fifteen seconds, or has panicked.
\<close>

theorem install_waits_for_mco:
  "(if result (isMcpUpdating E pool) s \<or> waitingForMco s
    then writesOf (installPhase E pool) s = [] \<and> result (installPhase E pool) s = (emptyResult, None) \<and>
      (waitingForMco (exec (installPhase E pool) s) \<longleftrightarrow> \<not> result (isMcpUpdating E pool) s)
    else installEnds (result (installPhase E pool) s) (newEvents (installPhase E pool) s))"
proof -
  define updating s1 where "updating = result (isMcpUpdating E pool) s" and "s1 = exec (isMcpUpdating E pool) s"
  define s2 where "s2 = (if updating \<and> getInProgressConditionValue (conditionsOf s1) = ''False''
     then exec (mutateCondition E setInProgressConditionToUpdating) s1 else s1)"
  note run = installPhase_unfold[of E pool s, folded updating_def, folded s1_def, folded s2_def]
  have wait: "waitingForMco s2 = waitingForMco s"
  proof -
    have "waitingForMco s1 = waitingForMco s"
      unfolding s1_def by (simp add: preservesD[OF preserves_isMcpUpdating])
    then show ?thesis by (simp add: s2_def mutateCondition_def waitingForMco_def)
  qed
  show ?thesis
  proof (cases "updating \<or> waitingForMco s")
    case True
    define k where "k = (if \<not> updating \<and> waitingForMco s2 then return (emptyResult, None)
      else setWaitingForMcoToStart False \<bind> (\<lambda>_. updateStatus E \<bind> (\<lambda>_.
       if \<not> updating then finishInstall E else return (emptyResult, None))))"
    have "writesOf k s2 = [] \<and> result k s2 = (emptyResult, None) \<and> (waitingForMco (exec k s2) \<longleftrightarrow> \<not> updating)"
      unfolding k_def using True by (intro installPhase_rests) (simp add: wait)
    moreover have "writesOf (installPhase E pool) s = writesOf (isMcpUpdating E pool) s @ writesOf k s2"
      by (simp add: writesOf_def run(3)[folded k_def])
    ultimately show ?thesis
      using True by (simp add: run(1,2)[folded k_def] writesOf_readOnly[OF emits_isMcpUpdating] flip: updating_def)
  next
    case False
    define k where "k = setWaitingForMcoToStart False \<bind> (\<lambda>_. updateStatus E \<bind> (\<lambda>_. finishInstall E))"
    have kk: "(if \<not> updating \<and> waitingForMco s2 then return (emptyResult, None)
      else setWaitingForMcoToStart False \<bind> (\<lambda>_. updateStatus E \<bind> (\<lambda>_.
       if \<not> updating then finishInstall E else return (emptyResult, None)))) = k"
      using False wait by (simp add: k_def)
    have "installEnds (result k s2) (newEvents k s2)"
      unfolding k_def
      by (intro installEnds_bind finishInstall_ends appends_finishInstall emits_bind)
        (simp add: setWaitingForMcoToStart_def emits_modify)
    then show ?thesis using False
      by (simp add: run[unfolded kk] installEnds_append flip: updating_def)
  qed
qed

section \<open>No RuntimeClass before the pool is at rest\<close>

text \<open>The kinds that only the work after the installation writes.\<close>

definition readyKinds :: "rkind set" where
  "readyKinds = {KRuntimeClass, KDeployment, KService, KMutatingWebhookConfig, KJob}"

lemma readyKinds_disjoint [simp]:
  "{KMachineConfigPool} \<inter> readyKinds = {}" "{KMachineConfig} \<inter> readyKinds = {}" "{KNode} \<inter> readyKinds = {}"
  "{KKataConfig} \<inter> readyKinds = {}" "{KNodeFeatureRule} \<inter> readyKinds = {}" "{KSecret} \<inter> readyKinds = {}"
  "{KScc} \<inter> readyKinds = {}" "{KDaemonSet, KNetworkPolicy, KNode} \<inter> readyKinds = {}"
  by (simp_all add: readyKinds_def)

definition kataPool :: "string \<Rightarrow> bool" where
  "kataPool pool \<longleftrightarrow> pool = ''kata-oc'' \<or> pool = ''master''"

definition poolIdle :: "env \<Rightarrow> rstate \<Rightarrow> fact" where
  "poolIdle E s0 h \<longleftrightarrow> (\<exists>h0 h1 pool. h = h0 @ h1 \<and> kataPool pool \<and>
     \<not> poolUpdating E (trace s0 @ h0) pool)"

lemma lasting_poolIdle: "lasting (poolIdle E s0)"
  unfolding lasting_def poolIdle_def by (metis append.assoc)

lemma poolIdleI:
  "\<not> poolUpdating E (trace s0 @ new) pool \<Longrightarrow> kataPool pool \<Longrightarrow> poolIdle E s0 (new @ rest)"
  unfolding poolIdle_def by blast

lemma wp_poolIdle:
  assumes "grown s0 s" and "kataPool pool"
  shows "wp (isMcpUpdating E pool) (\<lambda>x s'. (if \<not> x then poolIdle E s0 else (\<lambda>_. True))
    (drop (length (trace s0)) (trace s'))) s"
  using assms unfolding isMcpUpdating_def
  by (auto simp: wp_simps grown_def poolUpdating_def split: sum.split intro!: poolIdleI)

lemma installPhase_waits:
  assumes "grown s0 s" and "kataPool pool"
  shows "guarded (inCall s0 (onlyAfter readyKinds (poolIdle E s0))) (installPhase E pool) (\<lambda>_ _. True) s"
  unfolding installPhase_def
  by (rule before_observe[OF assms(1) emits_isMcpUpdating wp_poolIdle[OF assms] lasting_poolIdle, where L = "{}"])
    (auto intro!: emits_intros appends_finishInstall intro: readOnly_writesOnly)

lemma preparePool_waits:
  assumes "grown s0 s" and "kataPool pool"
  shows "guarded (inCall s0 (onlyAfter readyKinds (poolIdle E s0))) (preparePool E pool c) (\<lambda>_ _. True) s"
proof -
  have probe: "emits (writesOnly {}) (if b then isMcpUpdating E pool else return True :: (rstate, _) state)" for b
    by (intro emits_intros; auto intro: readOnly_writesOnly)
  have mark: "emits (writesOnly {}) (if b then setWaitingForMcoToStart True else return ())" for b
    by (intro emits_intros)
  have pool: "guarded (inCall s0 (onlyAfter readyKinds (poolIdle E s0)))
      (onErr (ensurePool E pool) (\<lambda>e. return (emptyResult, Some e)) (installPhase E pool)) (\<lambda>_ _. True) s"
    if "grown s0 s" for s
    by (rule before_onErr[OF that emits_install_steps(1)])
      (use assms(2) in \<open>auto intro: guarded_return installPhase_waits\<close>)
  have work: "guarded (inCall s0 (onlyAfter readyKinds (poolIdle E s0)))
      ((if b then isMcpUpdating E pool else return True) \<bind> (\<lambda>updating.
        (if \<not> updating then setWaitingForMcoToStart True else return ()) \<bind> (\<lambda>_.
        onErr (ensurePool E pool) (\<lambda>e. return (emptyResult, Some e)) (installPhase E pool)))) (\<lambda>_ _. True) s"
    if "grown s0 s" for b s
    apply (rule before_bind[OF that probe], simp)
    apply (erule before_bind[OF _ mark], simp)
    by (rule pool)
  show ?thesis unfolding preparePool_def
    apply (rule guarded_if)
     apply (rule before_bind[OF assms(1) emits_labelling(1)], simp)
     apply (intro guarded_case_prod guarded_case_option)
      apply (erule work)
     apply (rule guarded_return, rule TrueI)
    apply (rule before_bind[OF assms(1) mark], simp)
    by (erule installPhase_waits[OF _ assms(2)])
qed

lemma installRequest_waits:
  "guarded (inCall s (onlyAfter readyKinds (poolIdle E s))) (processKataConfigInstallRequest E) (\<lambda>_ _. True) s"
proof -
  let ?G = "inCall s (onlyAfter readyKinds (poolIdle E s))"
  have frames: "emits (writesOnly {}) (checkEligibility E)" "emits (writesOnly {}) (getCustomKernelConfig E :: (rstate, _) state)"
    "emits (writesOnly {}) (if b then mutateCondition E c else return ())" for b c
    by (intro emits_intros; auto intro: readOnly_writesOnly)+
  have name: "wp (getMcpName E) (\<lambda>r s'. grown s s' \<and> (\<forall>x. r = Inr x \<longrightarrow> kataPool x)) s1" if "grown s s1" for s1
    unfolding getMcpName_def
    by (rule wp_onInl_grown, intro emits_intros TrueI)
      (use grown_trans[OF that] in \<open>auto simp: wp_return kataPool_def\<close>)
  have mc: "guarded ?G (onErr (ensureFinalizer E) (\<lambda>e. return (emptyResult, Some e))
      (onInl (getCustomKernelConfig E) (\<lambda>e. return (emptyResult, Some e)) (\<lambda>customKernelCfg.
       onInl (createMc E pool customKernelCfg) (\<lambda>e. return (requeueNow, None)) (\<lambda>wasMcJustCreated. do {
         _ \<leftarrow> (if wasMcJustCreated then mutateCondition E setInProgressConditionToInstalling else return ());
         preparePool E pool wasMcJustCreated
       })))) (\<lambda>_ _. True) s1" if "grown s s1" "kataPool pool" for pool s1
    apply (rule before_onErr[OF that(1) emits_ensureFinalizer], simp, intro guarded_intros, simp)
    apply (erule before_onInl[OF _ frames(2)], simp, intro guarded_intros, simp)
    apply (erule before_onInl[OF _ emits_mco_operations(5)], simp, intro guarded_intros, simp)
    apply (erule before_bind[OF _ frames(3)], simp)
    by (erule preparePool_waits[OF _ that(2)])
  have pool: "guarded ?G (onInl (getMcpName E) (\<lambda>e. return (emptyResult, Some e)) k) (\<lambda>_ _. True) s1"
    if "grown s s1" "\<And>x s'. grown s s' \<Longrightarrow> kataPool x \<Longrightarrow> guarded ?G (k x) (\<lambda>_ _. True) s'" for k s1
    by (rule guarded_onInl, rule guarded_emits_wp[OF emits_getMcpName _ name])
      (use that in \<open>auto intro: onlyAfter_readOnly guarded_return\<close>)
  show ?thesis unfolding processKataConfigInstallRequest_def
    apply (rule before_onErr[OF grown_refl frames(1)], simp, intro guarded_intros, simp)
    apply (erule before_bind[OF _ emits_mixed], simp)
    apply (intro guarded_case_prod guarded_case_option)
     apply (erule pool, erule (1) mc)
    by (rule guarded_return, rule TrueI)
qed

end
