(* ===== verification/Daemonset_Reconcile.thy ===== *)
theory Daemonset_Reconcile
  imports Mco_Reconcile "HOL-Library.List_Lexorder" "HOL-Library.Char_ord"
begin

text \<open>
  Installation and removal by DaemonSets (\<^verbatim>\<open>controllers/daemonset_reconcile.go\<close>): the SCC of the
  installation pods, the DaemonSet that installs or uninstalls kata on the nodes, the node labels it
  reports its progress with, the status computed from them, and the two request handlers, cut into
  phases. The properties are those of the MachineConfig mode: the finalizer is added before and removed
  after everything else; in addition the status lists are exactly what the node labels say.
\<close>

section \<open>Names, states and actions\<close>

definition kataInstallDaemonSetName :: string where "kataInstallDaemonSetName = ''osc-rpm''"
definition kataInstallationDaemonSetLabel :: string where
  "kataInstallationDaemonSetLabel = ''kataconfiguration.openshift.io/kata-ds-rpm-install''"

definition KataWaitingToInstall :: string where "KataWaitingToInstall = ''waiting_to_install''"
definition KataInstalled :: string where "KataInstalled = ''installed''"
definition KataInstalling :: string where "KataInstalling = ''installing''"
definition KataWaitingToUninstall :: string where "KataWaitingToUninstall = ''waiting_to_uninstall''"
definition KataUninstalling :: string where "KataUninstalling = ''uninstalling''"
definition KataUninstalled :: string where "KataUninstalled = ''uninstalled''"

lemmas kata_states = KataWaitingToInstall_def KataInstalled_def KataInstalling_def
  KataWaitingToUninstall_def KataUninstalling_def KataUninstalled_def

datatype kataDaemonSetAction = InstallKata | UninstallKata

fun actionName :: "kataDaemonSetAction \<Rightarrow> string" where
  "actionName InstallKata = ''install''"
| "actionName UninstallKata = ''uninstall''"

section \<open>The SCC of the installation pods\<close>

definition kataInstallSccName :: string where "kataInstallSccName = ''kata-install-scc''"

definition kataInstallScc :: "scc \<Rightarrow> scc" where
  "kataInstallScc c = c\<lparr>AllowPrivilegedContainer := True, AllowHostDirVolumePlugin := True, AllowHostPID := True,
     AllowHostNetwork := False, AllowHostPorts := False, AllowHostIPC := False, ReadOnlyRootFilesystem := False,
     RunAsUserType := ''RunAsAny'', SELinuxContextType := ''RunAsAny'',
     sccUsers := [''system:serviceaccount:'' @ OperatorNamespace @ '':kata-install''],
     sccVolumes := [''hostPath'', ''secret'', ''configMap'']\<rparr>"

definition ensureKataInstallSCC :: "env \<Rightarrow> ('z, goerr option) op" where
  "ensureKataInstallSCC E =
     onErr (createOrUpdate E (GetReq KScc [] kataInstallSccName) (\<lambda>h. mutableScc (apiOf E) h kataInstallSccName) OScc
         (\<lambda>c. Inr (kataInstallScc c)))
       (\<lambda>e. return (Some (Wrapf ''failed to create or update SecurityContextConstraints: '' e)))
       (return None)"

definition deleteKataInstallScc :: "env \<Rightarrow> ('z, goerr option) op" where
  "deleteKataInstallScc E = deleteIgnoringAbsent E KScc [] kataInstallSccName"

section \<open>The DaemonSet\<close>

definition volumesForRegistries :: "volume list" where
  "volumesForRegistries =
     [\<lparr>volName = ''host-root'', volSource = VsHostPath ''/'' None\<rparr>,
      \<lparr>volName = ''auth-json-volume'', volSource = VsSecret ''auth-json-secret'' (Some 384) [] None\<rparr>,
      \<lparr>volName = ''registries-conf'',
        volSource = VsHostPath ''/etc/containers/registries.conf'' (Some ''FileOrCreate'')\<rparr>,
      \<lparr>volName = ''registries-conf-d'',
        volSource = VsHostPath ''/etc/containers/registries.conf.d'' (Some ''DirectoryOrCreate'')\<rparr>,
      \<lparr>volName = ''containers-auth'', volSource = VsHostPath ''/var/lib/kubelet/config.json'' (Some ''File'')\<rparr>,
      \<lparr>volName = ''containers-policy'',
        volSource = VsHostPath ''/etc/containers/policy.json'' (Some ''FileOrCreate'')\<rparr>]"

definition volumeMountsForRegistries :: "volumeMount list" where
  "volumeMountsForRegistries =
     [plainMount ''host-root'' ''/host'',
      (plainMount ''auth-json-volume'' ''/tmp/regauth'')\<lparr>vmReadOnly := True\<rparr>,
      (plainMount ''registries-conf'' ''/etc/containers/registries.conf'')\<lparr>vmReadOnly := True\<rparr>,
      (plainMount ''registries-conf-d'' ''/etc/containers/registries.conf.d'')\<lparr>vmReadOnly := True\<rparr>,
      (plainMount ''containers-auth'' ''/root/.config/containers/auth.json'')\<lparr>vmReadOnly := True\<rparr>,
      (plainMount ''containers-policy'' ''/etc/containers/policy.json'')\<lparr>vmReadOnly := True\<rparr>]"

text \<open>The loop over the mandatory variables; an absent or empty value is left out.\<close>

fun addonEnv :: "labels \<Rightarrow> (string \<times> string) list \<Rightarrow> envVar list" where
  "addonEnv data [] = []"
| "addonEnv data ((key, env) # rest) =
     (if atKey data key = [] then addonEnv data rest else plainEnv env (atKey data key) # addonEnv data rest)"

definition getAddonEnvVars :: "env \<Rightarrow> ('z, envVar list) op" where
  "getAddonEnvVars E = onInl (getCM E OperatorNamespace ''kata-addon-artifacts'') (\<lambda>_. return [])
     (\<lambda>cm. return (addonEnv (cmLookup cm) [(''addonImage'', ''ADDON_IMAGE''), (''kernelPath'', ''ADDON_KERNEL_PATH'')]))"

definition kataInstallContainers ::
  "env \<Rightarrow> kataDaemonSetAction \<Rightarrow> string \<Rightarrow> envVar list \<Rightarrow> container list" where
  "kataInstallContainers E action logLevel vars =
     (let dsImage = getenv E ''RELATED_IMAGE_KATA_DAEMONSET'';
          root = emptySecurityContext\<lparr>scPrivileged := Some True, scRunAsUser := Some 0\<rparr>
      in [emptyContainer\<lparr>ctrName := ''kata-install'', ctrImage := dsImage, ctrImagePullPolicy := ''IfNotPresent'',
            ctrSecurityContext := root, ctrCommand := [''/bin/bash'', ''/scripts/osc-kata-install.sh''],
            ctrArgs := [actionName action], ctrVolumeMounts := volumeMountsForRegistries, ctrEnv := vars\<rparr>,
          emptyContainer\<lparr>ctrName := ''set-log-level'', ctrImage := dsImage, ctrImagePullPolicy := ''IfNotPresent'',
            ctrSecurityContext := root, ctrCommand := [''/bin/bash'', ''/scripts/osc-log-level.sh''],
            ctrArgs := [actionName action, logLevel], ctrVolumeMounts := [plainMount ''host-root'' ''/host'']\<rparr>])"

definition kataInstallEnv :: "string \<Rightarrow> string \<Rightarrow> string \<Rightarrow> envVar list" where
  "kataInstallEnv extensionImage cliImage cloudProvider =
     [\<lparr>envName = ''NODE_NAME'', envValue = [], envFieldPath = Some ''spec.nodeName''\<rparr>,
      plainEnv ''EXTENSION_IMAGE'' extensionImage, plainEnv ''CLI_IMAGE'' cliImage,
      plainEnv ''NODE_LABEL'' kataInstallationDaemonSetLabel, plainEnv ''CLOUD_PROVIDER'' cloudProvider]"

definition installDsName :: "kataDaemonSetAction \<Rightarrow> string" where
  "installDsName action = kataInstallDaemonSetName @ ''-'' @ actionName action"

definition installDaemonSet ::
  "env \<Rightarrow> kataDaemonSetAction \<Rightarrow> labels \<Rightarrow> string \<Rightarrow> envVar list \<Rightarrow> daemonSet" where
  "installDaemonSet E action nodeSelector logLevel vars =
     \<lparr>dsMeta = mkMeta (installDsName action) OperatorNamespace,
      dsSelector = [''name'' \<mapsto> installDsName action],
      dsUpdateStrategy = Some (''RollingUpdate'', 1),
      dsTemplate = \<lparr>tplLabels = [''name'' \<mapsto> installDsName action], tplAnnotations = Map.empty,
        tplSpec = emptyPodSpec\<lparr>ServiceAccountName := ''kata-install'', NodeSelector := nodeSelector,
          HostPID := True, Containers := kataInstallContainers E action logLevel vars,
          Volumes := volumesForRegistries\<rparr>\<rparr>\<rparr>"

definition daemonSetForKataInstall :: "env \<Rightarrow> kataDaemonSetAction \<Rightarrow> (rstate, goerr + daemonSet) state" where
  "daemonSetForKataInstall E action =
     onInl (GetImageForComponent E ''rhel-coreos-extensions'') (\<lambda>e. return (Inl e)) (\<lambda>extensionImage.
     onInl (GetImageForComponent E ''cli'') (\<lambda>e. return (Inl e)) (\<lambda>cliImage. do {
       nodeSelector \<leftarrow> getNodeSelectorAsMap E;
       level \<leftarrow> gets (\<lambda>s. LogLevel (Spec (kataConfig s)));
       provider \<leftarrow> getCloudProviderFromInfra E;
       addons \<leftarrow> getAddonEnvVars E;
       return (Inr (installDaemonSet E action nodeSelector (if level = [] then ''info'' else level)
         (kataInstallEnv extensionImage cliImage (case provider of Inl _ \<Rightarrow> [] | Inr p \<Rightarrow> p) @ addons)))
     }))"

section \<open>Progress from the node labels\<close>

definition kataState :: "node \<Rightarrow> string" where
  "kataState n = atKey (nodeLabels n) kataInstallationDaemonSetLabel"

text \<open>The nodes of the kata pool.\<close>

definition poolNodes :: "env \<Rightarrow> ('z, goerr + node list) op" where
  "poolNodes E = do { m \<leftarrow> getNodeSelectorAsMap E; getNodesWithLabels E m }"

fun countMatching :: "string \<Rightarrow> string \<Rightarrow> node list \<Rightarrow> nat \<Rightarrow> nat" where
  "countMatching labelName matchingState [] matchedNodeCount = matchedNodeCount"
| "countMatching labelName matchingState (n # ns) matchedNodeCount =
     countMatching labelName matchingState ns
       (if atKey (nodeLabels n) labelName = matchingState then Suc matchedNodeCount else matchedNodeCount)"

definition isKataNodePoolInState :: "env \<Rightarrow> string \<Rightarrow> string \<Rightarrow> ('z, goerr + bool) op" where
  "isKataNodePoolInState E labelName matchingState =
     onInl (poolNodes E) (\<lambda>e. return (Inl e))
       (\<lambda>nodes. return (Inr (countMatching labelName matchingState nodes 0 = length nodes)))"

definition kataInstallationDaemonSetAllNodeInState :: "env \<Rightarrow> string \<Rightarrow> ('z, goerr + bool) op" where
  "kataInstallationDaemonSetAllNodeInState E matchingState =
     isKataNodePoolInState E kataInstallationDaemonSetLabel matchingState"

definition isKataUninstallDaemonSetUninstalling :: "env \<Rightarrow> ('z, goerr + bool) op" where
  "isKataUninstallDaemonSetUninstalling E =
     onInl (kataInstallationDaemonSetAllNodeInState E KataUninstalled) (\<lambda>e. return (Inl e))
       (\<lambda>allNodeUninstalled. return (Inr (\<not> allNodeUninstalled)))"

definition isKataInstallDaemonSetInstalling :: "env \<Rightarrow> ('z, goerr + bool) op" where
  "isKataInstallDaemonSetInstalling E =
     onInl (kataInstallationDaemonSetAllNodeInState E KataInstalled) (\<lambda>e. return (Inl e))
       (\<lambda>allNodeInstalled. return (Inr (\<not> allNodeInstalled)))"

definition putNodeOnStatusListDaemonSetInstall :: "node \<Rightarrow> kataConfigStatus \<Rightarrow> kataConfigStatus" where
  "putNodeOnStatusListDaemonSetInstall n =
     (if kataState n = KataWaitingToInstall then appendNode LWaitingToInstall (Name (nodeMeta n))
      else if kataState n = KataInstalling then appendNode LInstalling (Name (nodeMeta n))
      else if kataState n = KataInstalled then appendNode LInstalled (Name (nodeMeta n))
      else appendNode LWaitingToInstall (Name (nodeMeta n)))"

text \<open>The empty case of the \<open>switch\<close>: a node that is done is on no list.\<close>

definition putNodeOnStatusListDaemonSetUninstall :: "node \<Rightarrow> kataConfigStatus \<Rightarrow> kataConfigStatus" where
  "putNodeOnStatusListDaemonSetUninstall n =
     (if kataState n = KataWaitingToUninstall then appendNode LWaitingToUninstall (Name (nodeMeta n))
      else if kataState n = KataUninstalling then appendNode LUninstalling (Name (nodeMeta n))
      else if kataState n = KataUninstalled then id
      else appendNode LWaitingToUninstall (Name (nodeMeta n)))"

definition putNodeDaemonSet :: "kataDaemonSetAction \<Rightarrow> node \<Rightarrow> kataConfigStatus \<Rightarrow> kataConfigStatus" where
  "putNodeDaemonSet action =
     (if action = InstallKata then putNodeOnStatusListDaemonSetInstall else putNodeOnStatusListDaemonSetUninstall)"

definition sortStatusLists :: "kataConfigStatus \<Rightarrow> kataConfigStatus" where
  "sortStatusLists st = st\<lparr>KataNodes := (KataNodes st)\<lparr>
     WaitingToInstall := sort (WaitingToInstall (KataNodes st)), Installing := sort (Installing (KataNodes st)),
     Installed := sort (Installed (KataNodes st)), WaitingToUninstall := sort (WaitingToUninstall (KataNodes st)),
     Uninstalling := sort (Uninstalling (KataNodes st)), FailedToInstall := sort (FailedToInstall (KataNodes st))\<rparr>\<rparr>"

definition updateStatusDaemonSet :: "env \<Rightarrow> kataDaemonSetAction \<Rightarrow> (rstate, goerr option) state" where
  "updateStatusDaemonSet E action =
     onInl (poolNodes E) (\<lambda>e. return (Some e)) (\<lambda>nodes. do {
       _ \<leftarrow> modify (onStatus clearNodeStatusLists);
       _ \<leftarrow> modify (onStatus (setNodeCount (int (length nodes))));
       _ \<leftarrow> modify (onStatus (fold (putNodeDaemonSet action) nodes));
       _ \<leftarrow> modify (onStatus sortStatusLists);
       _ \<leftarrow> modify (onStatus setReadyNodeCount);
       return None
     })"

fun unlabelNodesDaemonSetLoop :: "env \<Rightarrow> node list \<Rightarrow> ('z, goerr option) op" where
  "unlabelNodesDaemonSetLoop E [] = return None"
| "unlabelNodesDaemonSetLoop E (n # ns) =
     (if nodeLabels n kataOcLabel \<noteq> None
      then onErr (writeOp E (UpdateReq (ONode (setNodeLabels
               ((nodeLabels n)(kataOcLabel := None, kataInstallationDaemonSetLabel := None)) n))))
             (\<lambda>e. return (Some e)) (unlabelNodesDaemonSetLoop E ns)
      else unlabelNodesDaemonSetLoop E ns)"

definition unlabelNodesDaemonSet :: "env \<Rightarrow> (labels \<Rightarrow> bool) \<Rightarrow> ('z, goerr option) op" where
  "unlabelNodesDaemonSet E nodeSelector =
     onInl (listNodesOp E (bySelector nodeSelector)) (\<lambda>e. return (Some e)) (unlabelNodesDaemonSetLoop E)"

section \<open>Removal\<close>

text \<open>Giving the kata nodes their first state; an error is only logged.\<close>

definition labelKataNodes :: "env \<Rightarrow> string \<Rightarrow> (rstate, unit) state" where
  "labelKataNodes E v = onInl (getKataConfigNodeSelectorAsSelector E) (\<lambda>_. return ()) (\<lambda>kataSelector. do {
     _ \<leftarrow> labelNodes E kataSelector [kataInstallationDaemonSetLabel \<mapsto> v];
     return ()
   })"

definition deleteInstallDaemonSet :: "env \<Rightarrow> (rstate, goerr option) state" where
  "deleteInstallDaemonSet E =
     onInl (daemonSetForKataInstall E InstallKata) (\<lambda>e. return (Some e)) (\<lambda>ds.
     onErr (deleteIgnoringAbsent E KDaemonSet (Namespace (dsMeta ds)) (Name (dsMeta ds))) (\<lambda>e. return (Some e))
       (deleteKataInstallNetworkPolicies E))"

text \<open>The result says whether the uninstallation DaemonSet was just created.\<close>

definition startUninstall :: "env \<Rightarrow> (rstate, goerr + bool) state" where
  "startUninstall E =
     onInl (daemonSetForKataInstall E UninstallKata) (\<lambda>e. return (Inl e)) (\<lambda>ds0. do {
       kc \<leftarrow> gets kataConfig;
       (case SetControllerReference E kc (dsMeta ds0) of
          Inl e \<Rightarrow> return (Inl e)
        | Inr m \<Rightarrow> let ds = ds0\<lparr>dsMeta := m\<rparr> in
            onErr (createKataUninstallNetworkPolicies E) (\<lambda>e. return (Inl e))
              (onInl (getDS E (Namespace (dsMeta ds)) (Name (dsMeta ds)))
                (\<lambda>err. if IsNotFound err
                   then onErr (writeOp E (CreateReq (ODaemonSet ds))) (\<lambda>e. return (Inl e))
                     (do { _ \<leftarrow> labelKataNodes E KataWaitingToUninstall; return (Inr True) })
                   else return (Inl err))
                (\<lambda>_. return (Inr False))))
     })"

definition removePeerPodsDaemonSet :: "env \<Rightarrow> (rstate, stepResult) state" where
  "removePeerPodsDaemonSet E = do {
     peerPods \<leftarrow> gets (\<lambda>s. EnablePeerPods (Spec (kataConfig s)));
     if peerPods then onErr (disablePeerPodsMiscConfigs E) (\<lambda>e. return (None, Some e)) (deletePodVMImage E)
     else return (None, None)
   }"

definition cleanupDaemonSet :: "env \<Rightarrow> (rstate, ctrlResult \<times> goerr option) state" where
  "cleanupDaemonSet E =
     onErr (deleteDaemonsetForMonitor E) (\<lambda>e. return (emptyResult, Some e))
     (onErr (deleteKataUninstallNetworkPolicies E) (\<lambda>e. return (emptyResult, Some e))
     (do {
        (res, err) \<leftarrow> removePeerPodsDaemonSet E;
        (case (res, err) of
           (Some r, _) \<Rightarrow> return (r, err)
         | (None, Some e) \<Rightarrow> return (emptyResult, Some e)
         | (None, None) \<Rightarrow>
           onErr (deleteScc E) (\<lambda>e. return (emptyResult, Some e))
           (onErr (deleteKataInstallScc E) (\<lambda>e. return (emptyResult, Some e))
           (onInl (getKataConfigNodeSelectorAsSelector E) (\<lambda>_. return (requeueNow, None)) (\<lambda>kataNodeSelector.
            onErr (unlabelNodesDaemonSet E kataNodeSelector) (\<lambda>e. return (labellingRetry e))
            (onErr (removeFinalizer E) (\<lambda>_. return (requeueNow, None)) (return (emptyResult, None)))))))
      }))"

definition uninstallDaemonSetPhase :: "env \<Rightarrow> (rstate, ctrlResult \<times> goerr option) state" where
  "uninstallDaemonSetPhase E = do {
     _ \<leftarrow> mutateCondition E setInProgressConditionToUninstalling;
     onErr (deleteInstallDaemonSet E) (\<lambda>e. return (emptyResult, Some e))
     (onInl (startUninstall E) (\<lambda>e. return (emptyResult, Some e)) (\<lambda>isUninstallDaemonSetJustCreated. do {
       _ \<leftarrow> updateStatusDaemonSet E UninstallKata;
       onInl (isKataUninstallDaemonSetUninstalling E) (\<lambda>e. return (emptyResult, Some e)) (\<lambda>uninstallInProgress.
         if isUninstallDaemonSetJustCreated \<or> uninstallInProgress then return (emptyResult, None)
         else do {
           _ \<leftarrow> mutateCondition E resetInProgressCondition;
           cleanupDaemonSet E
         })
     }))
   }"

definition processKataConfigDeleteRequestDaemonSet :: "env \<Rightarrow> (rstate, ctrlResult \<times> goerr option) state" where
  "processKataConfigDeleteRequestDaemonSet E = do {
     (res, err) \<leftarrow> checkDeletionEligibility E;
     if err \<noteq> None then return (res, err) else uninstallDaemonSetPhase E
   }"

section \<open>Installation\<close>

definition applyInstallDaemonSet :: "env \<Rightarrow> (rstate, goerr option) state" where
  "applyInstallDaemonSet E =
     onInl (daemonSetForKataInstall E InstallKata) (\<lambda>e. return (Some e)) (\<lambda>ds0. do {
       kc \<leftarrow> gets kataConfig;
       (case SetControllerReference E kc (dsMeta ds0) of
          Inl e \<Rightarrow> return (Some e)
        | Inr m \<Rightarrow> let ds = ds0\<lparr>dsMeta := m\<rparr> in
            onErr (createKataInstallNetworkPolicies E) (\<lambda>e. return (Some e))
              (onInl (getDS E (Namespace (dsMeta ds)) (Name (dsMeta ds)))
                (\<lambda>err. if IsNotFound err
                   then onErr (writeOp E (CreateReq (ODaemonSet ds))) (\<lambda>e. return (Some e))
                     (do {
                        _ \<leftarrow> mutateCondition E setInProgressConditionToInstalling;
                        _ \<leftarrow> labelKataNodes E KataWaitingToInstall;
                        return None
                      })
                   else return (Some err))
                (\<lambda>_. writeOp E (UpdateReq (ODaemonSet ds)))))
     })"

definition finishInstallDaemonSet :: "env \<Rightarrow> (rstate, ctrlResult \<times> goerr option) state" where
  "finishInstallDaemonSet E =
     onInl (isKataInstallDaemonSetInstalling E) (\<lambda>e. return (emptyResult, Some e)) (\<lambda>installInProgress. do {
       inProgress \<leftarrow> gets (\<lambda>s. getInProgressConditionValue (conditionsOf s));
       _ \<leftarrow> (if installInProgress \<and> inProgress = ''False''
            then mutateCondition E setInProgressConditionToUpdating else return ());
       _ \<leftarrow> updateStatusDaemonSet E InstallKata;
       if \<not> installInProgress then do {
         (res, err) \<leftarrow> postKataInstallation E;
         return (case res of Some r \<Rightarrow> (r, err) | None \<Rightarrow> (emptyResult, err))
       } else return (emptyResult, None)
     })"

definition processKataConfigInstallRequestDaemonSet :: "env \<Rightarrow> (rstate, ctrlResult \<times> goerr option) state" where
  "processKataConfigInstallRequestDaemonSet E = do {
     mixed \<leftarrow> gets (\<lambda>s. EnableMixedCluster (Spec (kataConfig s)));
     if mixed then return (emptyResult, Some (Errorf
       ''enableMixedCluster is not supported in DaemonSet deployment mode: mixed cluster support requires MachineConfig deployment mode for NFD NodeFeatureRule lifecycle management''))
     else
       onErr (checkEligibility E) (\<lambda>e. return (emptyResult, Some e)) (do {
         (labelingChanged, err) \<leftarrow> updateNodeLabels E;
         (case err of
            Some e \<Rightarrow> return (labellingRetry e)
          | None \<Rightarrow>
              onErr (createAuthJsonSecret E) (\<lambda>e. return (emptyResult, Some e))
              (onErr (ensureFinalizer E) (\<lambda>e. return (emptyResult, Some e))
              (onErr (ensureKataInstallSCC E) (\<lambda>e. return (emptyResult, Some e))
              (onErr (applyInstallDaemonSet E) (\<lambda>e. return (emptyResult, Some e))
                (finishInstallDaemonSet E)))))
       })
   }"

section \<open>Frames\<close>

lemma emits_ds_queries:
  "emits readOnly (getAddonEnvVars E)" "emits readOnly (daemonSetForKataInstall E a)"
  "emits readOnly (poolNodes E)" "emits readOnly (isKataNodePoolInState E l v)"
  "emits readOnly (kataInstallationDaemonSetAllNodeInState E v)"
  "emits readOnly (isKataUninstallDaemonSetUninstalling E)" "emits readOnly (isKataInstallDaemonSetInstalling E)"
  "emits readOnly (updateStatusDaemonSet E a)"
  unfolding getAddonEnvVars_def daemonSetForKataInstall_def poolNodes_def isKataNodePoolInState_def
    kataInstallationDaemonSetAllNodeInState_def isKataUninstallDaemonSetUninstalling_def
    isKataInstallDaemonSetInstalling_def updateStatusDaemonSet_def
  by (intro emits_intros; simp)+

lemmas ds_query_frames [emits_intros] = emits_ds_queries[THEN emits_mono]

lemma emits_deleteIgnoringAbsent [emits_intros]:
  "(\<And>r. P (Ev (DeleteReq k ns n) r)) \<Longrightarrow> emits P (deleteIgnoringAbsent E k ns n)"
  unfolding deleteIgnoringAbsent_def by (intro emits_intros)

lemma emits_unlabelLoop: "emits (writesOnly {KNode}) (unlabelNodesDaemonSetLoop E ns)"
  by (induction ns) (auto intro!: emits_intros)

lemma emits_ds_steps:
  "emits (writesOnly {KScc}) (ensureKataInstallSCC E)" "emits (writesOnly {KScc}) (deleteKataInstallScc E)"
  "emits (writesOnly {KNode}) (unlabelNodesDaemonSet E sel)" "emits (writesOnly {KNode}) (labelKataNodes E v)"
  "emits (writesOnly (peerPodsKinds \<union> podVMImageKinds)) (removePeerPodsDaemonSet E)"
  unfolding ensureKataInstallSCC_def deleteKataInstallScc_def unlabelNodesDaemonSet_def
    labelKataNodes_def removePeerPodsDaemonSet_def
  by (intro emits_intros emits_createOrUpdate emits_unlabelLoop; auto simp: peerPodsKinds_def podVMImageKinds_def
      intro: readOnly_writesOnly elim: writesOnly_mono)+

lemmas ds_step_frames [emits_intros] = emits_ds_steps[THEN emits_mono]

lemma emits_ds_phases:
  "emits (writesOnly {KDaemonSet, KNetworkPolicy}) (deleteInstallDaemonSet E)"
  "emits (writesOnly {KDaemonSet, KNetworkPolicy, KNode}) (startUninstall E)"
  "emits (writesOnly {KDaemonSet, KNetworkPolicy, KNode}) (applyInstallDaemonSet E)"
  "emits (writesOnly postKinds) (finishInstallDaemonSet E)"
  unfolding deleteInstallDaemonSet_def startUninstall_def applyInstallDaemonSet_def finishInstallDaemonSet_def
  by (intro emits_intros; auto simp: postKinds_def intro: readOnly_writesOnly dest!: npWrite_only elim: writesOnly_mono)+

lemmas ds_phase_frames [emits_intros] = emits_ds_phases[THEN emits_mono]

section \<open>The status lists\<close>

lemma countMatching_iff:
  "countMatching l v ns c = c + length (filter (\<lambda>n. atKey (nodeLabels n) l = v) ns)"
  by (induction ns arbitrary: c) simp_all

lemma all_in_state_iff:
  "countMatching l v ns 0 = length ns \<longleftrightarrow> list_all (\<lambda>n. atKey (nodeLabels n) l = v) ns"
  using length_filter_less[of _ ns "\<lambda>n. atKey (nodeLabels n) l = v"]
  by (fastforce simp: countMatching_iff list_all_iff)

text \<open>The list a node belongs on, as a table of its state.\<close>

fun dsSlot :: "kataDaemonSetAction \<Rightarrow> string \<Rightarrow> statusList option" where
  "dsSlot InstallKata v = Some (if v = ''installed'' then LInstalled
     else if v = ''installing'' then LInstalling else LWaitingToInstall)"
| "dsSlot UninstallKata v = (if v = ''uninstalled'' then None
     else Some (if v = ''uninstalling'' then LUninstalling else LWaitingToUninstall))"

interpretation dsPlacement: node_placement "putNodeDaemonSet a" "\<lambda>n. Name (nodeMeta n)" "\<lambda>n. dsSlot a (kataState n)" for a
proof
  have put: "putNodeDaemonSet a n = (case dsSlot a (kataState n) of None \<Rightarrow> id | Some l \<Rightarrow> appendNode l (Name (nodeMeta n)))"
    for n by (cases a) (simp_all add: putNodeDaemonSet_def putNodeOnStatusListDaemonSetInstall_def
      putNodeOnStatusListDaemonSetUninstall_def kata_states)
  show "nodesOn l (putNodeDaemonSet a n st) = nodesOn l st @ (if dsSlot a (kataState n) = Some l then [Name (nodeMeta n)] else [])"
    "NodeCount (KataNodes (putNodeDaemonSet a n st)) = NodeCount (KataNodes st)" for l n st
    by (simp_all add: put split: option.split)
qed

lemma nodesOn_sorted:
  "nodesOn l (sortStatusLists st) = (if l = LFailedToUninstall then nodesOn l st else sort (nodesOn l st))"
  by (cases l) (simp_all add: sortStatusLists_def)

text \<open>The same status, computed from the labels at once.\<close>

definition statusFromLabels :: "kataDaemonSetAction \<Rightarrow> node list \<Rightarrow> kataConfigStatus \<Rightarrow> bool" where
  "statusFromLabels a nodes st \<longleftrightarrow>
     NodeCount (KataNodes st) = int (length nodes) \<and>
     ReadyNodeCount (KataNodes st) = int (length (filter (\<lambda>n. dsSlot a (kataState n) = Some LInstalled) nodes)) \<and>
     (\<forall>l. nodesOn l st = sort (map (\<lambda>n. Name (nodeMeta n)) (filter (\<lambda>n. dsSlot a (kataState n) = Some l) nodes))) \<and>
     sum_list (map (\<lambda>l. length (nodesOn l st)) statusLists) =
       length (filter (\<lambda>n. dsSlot a (kataState n) \<noteq> None) nodes)"

lemma statusFromLabels_computed:
  "statusFromLabels a nodes (setReadyNodeCount (sortStatusLists (fold (putNodeDaemonSet a) nodes
     (setNodeCount (int (length nodes)) (clearNodeStatusLists st)))))" (is "statusFromLabels a nodes ?st")
proof -
  have none: "dsSlot a v \<noteq> Some LFailedToUninstall" for v by (cases a) auto
  have lists: "nodesOn l ?st = sort (map (\<lambda>n. Name (nodeMeta n)) (filter (\<lambda>n. dsSlot a (kataState n) = Some l) nodes))" for l
    using none by (simp add: nodesOn_sorted dsPlacement.fold_place)
  have "length (nodesOn l ?st) = length (nodesOn l (fold (putNodeDaemonSet a) nodes (clearNodeStatusLists st)))" for l
    unfolding lists dsPlacement.fold_place_cleared by simp
  then have "sum_list (map (\<lambda>l. length (nodesOn l ?st)) statusLists) =
      length (filter (\<lambda>n. dsSlot a (kataState n) \<noteq> None) nodes)"
    by (simp add: dsPlacement.lists_total)
  moreover have "NodeCount (KataNodes ?st) = int (length nodes)"
    using dsPlacement.fold_count[of a nodes "setNodeCount (int (length nodes)) (clearNodeStatusLists st)"]
    by (simp add: setReadyNodeCount_def sortStatusLists_def setNodeCount_def)
  moreover have "ReadyNodeCount (KataNodes ?st) = int (length (nodesOn LInstalled ?st))"
    by (simp add: setReadyNodeCount_def)
  ultimately show ?thesis unfolding statusFromLabels_def lists by simp
qed

text \<open>
  C8: the status of the DaemonSet mode is what the node labels say. \<open>updateStatusDaemonSet\<close> reports the error of
  listing the kata nodes and leaves the KataConfig alone; otherwise it leaves the status that is read off
  the labels at once: the numbers of nodes and of installed nodes, every list the sorted names of the
  nodes whose label belongs on it, and no node lost or counted twice (in a removal the nodes that are
  done are on no list).
\<close>

theorem ds_status_from_labels:
  "case result (poolNodes E) s of
     Inl e \<Rightarrow> result (updateStatusDaemonSet E a) s = Some e \<and>
       kataConfig (exec (updateStatusDaemonSet E a) s) = kataConfig s
   | Inr nodes \<Rightarrow> result (updateStatusDaemonSet E a) s = None \<and>
       statusFromLabels a nodes (Status (kataConfig (exec (updateStatusDaemonSet E a) s)))"
proof -
  have same: "kataConfig (exec (poolNodes E) s) = kataConfig s"
    unfolding poolNodes_def getNodesWithLabels_def by (rule preservesD) (intro preserves_intros; simp)
  show ?thesis
    unfolding updateStatusDaemonSet_def
    by (auto simp: run_simps same statusFromLabels_computed split: sum.split)
qed

section \<open>The finalizer\<close>

text \<open>In the call the nodes of the kata pool were listed, and all of them reported the state \<open>v\<close>.\<close>

definition nodesInState :: "env \<Rightarrow> string \<Rightarrow> rstate \<Rightarrow> fact" where
  "nodesInState E v s0 h \<longleftrightarrow> (\<exists>h0 h1 pool nodes. h = h0 @ h1 \<and>
     (pool = ''node-role.kubernetes.io/master'' \<or> pool = ''node-role.kubernetes.io/kata-oc'') \<and>
     listNodes (apiOf E) (trace s0 @ h0) (byNodeLabels [pool \<mapsto> '''']) = Inr nodes \<and>
     list_all (\<lambda>n. kataState n = v) nodes)"

lemma lasting_nodesInState: "lasting (nodesInState E v s0)"
  unfolding lasting_def nodesInState_def by (metis append.assoc)

lemma nodesInStateI:
  "listNodes (apiOf E) (trace s0 @ new) (byNodeLabels [pool \<mapsto> '''']) = Inr nodes \<Longrightarrow>
   pool = ''node-role.kubernetes.io/master'' \<or> pool = ''node-role.kubernetes.io/kata-oc'' \<Longrightarrow>
   list_all (\<lambda>n. kataState n = v) nodes \<Longrightarrow> nodesInState E v s0 (new @ rest)"
  unfolding nodesInState_def by blast

lemma wp_allInState:
  assumes "grown s0 s"
  shows "wp (kataInstallationDaemonSetAllNodeInState E v) (\<lambda>x s'. (if x = Inr True then nodesInState E v s0 else (\<lambda>_. True))
    (drop (length (trace s0)) (trace s'))) s"
proof -
  have sel: "wp (getNodeSelectorAsMap E) (\<lambda>m s'. grown s0 s' \<and>
      (m = [''node-role.kubernetes.io/master'' \<mapsto> ''''] \<or> m = [''node-role.kubernetes.io/kata-oc'' \<mapsto> ''''])) s"
    unfolding getNodeSelectorAsMap_def
    by (rule wp_bind_grown, intro emits_intros TrueI) (use assms grown_trans in \<open>auto simp: wp_return\<close>)
  show ?thesis
    unfolding kataInstallationDaemonSetAllNodeInState_def isKataNodePoolInState_def poolNodes_def getNodesWithLabels_def
    apply (simp add: wp_onInl wp_bind)
    apply (rule wp_conseq[OF sel])
    by (auto simp: wp_simps grown_def all_in_state_iff kataState_def split: sum.split intro!: nodesInStateI)
qed

lemma wp_uninstalled:
  assumes "grown s0 s"
  shows "wp (isKataUninstallDaemonSetUninstalling E)
    (\<lambda>x s'. (if x = Inr False then nodesInState E KataUninstalled s0 else (\<lambda>_. True)) (drop (length (trace s0)) (trace s'))) s"
  unfolding isKataUninstallDaemonSetUninstalling_def
  by (simp add: wp_onInl) (rule wp_conseq[OF wp_allInState[OF assms]], auto simp: wp_return split: if_splits)

definition dsFacts :: "env \<Rightarrow> rstate \<Rightarrow> fact set" where
  "dsFacts E s0 = {podsClear E s0, nodesInState E KataUninstalled s0,
     wasDeleted KDaemonSet OperatorNamespace (installDsName InstallKata), wasDeleted KDaemonSet OperatorNamespace monitorDsName,
     wasDeleted KScc [] (Name (sccMeta GetScc)), wasDeleted KScc [] kataInstallSccName}"

lemma installDs_meta:
  "result (daemonSetForKataInstall E a) s = Inr ds \<Longrightarrow> dsMeta ds = mkMeta (installDsName a) OperatorNamespace"
  unfolding daemonSetForKataInstall_def by (auto simp: run_simps installDaemonSet_def split: sum.splits)

lemma emits_npDeletes:
  "emits (writesOnly {KNetworkPolicy}) (deleteKataInstallNetworkPolicies E :: (rstate, _) state)"
  "emits (writesOnly {KNetworkPolicy}) (deleteKataUninstallNetworkPolicies E :: (rstate, _) state)"
  by (intro emits_intros; auto dest!: npWrite_only elim: writesOnly_mono)+

lemma achieves_installDsDeleted:
  "achieves noError (deletionSeen KDaemonSet OperatorNamespace (installDsName InstallKata)) (deleteInstallDaemonSet E)"
proof -
  have "achieves noError (deletionSeen KDaemonSet OperatorNamespace (installDsName InstallKata))
      (case result (daemonSetForKataInstall E InstallKata) s of Inl e \<Rightarrow> return (Some e) | Inr ds \<Rightarrow>
        onErr (deleteIgnoringAbsent E KDaemonSet (Namespace (dsMeta ds)) (Name (dsMeta ds))) (\<lambda>e. return (Some e))
       (deleteKataInstallNetworkPolicies E :: (rstate, _) state))" for s
    using installDs_meta[of E InstallKata s] emits_npDeletes(1)[THEN emits_mono, OF TrueI]
    by (auto intro!: achieves_return achieves_onErr_first achieves_ignoringAbsent emits_intros split: sum.split)
  then show ?thesis unfolding deleteInstallDaemonSet_def onInl_def
    by (rule achieves_bind_result) (auto intro!: emits_intros)
qed

lemma achieves_installSccDeleted:
  "achieves noError (deletionSeen KScc [] kataInstallSccName) (deleteKataInstallScc E)"
  unfolding deleteKataInstallScc_def by (rule achieves_ignoringAbsent)

lemma cleanupDaemonSet_guarded:
  assumes "stage s0 {nodesInState E KataUninstalled s0, wasDeleted KDaemonSet OperatorNamespace (installDsName InstallKata),
    podsClear E s0} s"
  shows "guarded (removalGuard s0 (dsFacts E s0)) (cleanupDaemonSet E) (\<lambda>_ _. True) s"
proof -
  have tail: "guarded (removalGuard s0 (dsFacts E s0)) (onErr (deleteScc E) (\<lambda>e. return (emptyResult, Some e))
           (onErr (deleteKataInstallScc E) (\<lambda>e. return (emptyResult, Some e))
           (onInl (getKataConfigNodeSelectorAsSelector E) (\<lambda>_. return (requeueNow, None)) (\<lambda>kataNodeSelector.
            onErr (unlabelNodesDaemonSet E kataNodeSelector) (\<lambda>e. return (labellingRetry e))
            (onErr (removeFinalizer E) (\<lambda>_. return (requeueNow, None)) (return (emptyResult, None))))))) (\<lambda>_ _. True) s"
    if "stage s0 {wasDeleted KDaemonSet OperatorNamespace monitorDsName, nodesInState E KataUninstalled s0,
      wasDeleted KDaemonSet OperatorNamespace (installDsName InstallKata), podsClear E s0} s" for s
    apply (rule stage_delete[OF that emits_mco_operations(4) _ achieves_ignoringAbsent(2)], simp, intro guarded_intros, simp)
    apply (erule stage_delete[OF _ emits_ds_steps(2) _ achieves_installSccDeleted],
        simp, intro guarded_intros, simp)
    apply (erule stage_onInl[OF _ quiet_phases(7)], simp, intro guarded_intros, simp)
    apply (erule stage_onErr[OF _ emits_ds_steps(3)], simp, intro guarded_intros, simp)
    by (erule stage_final) (auto simp: dsFacts_def)
  show ?thesis unfolding cleanupDaemonSet_def
    apply (rule stage_delete[OF assms emits_mco_operations(7) _ achieves_monitorDeleted], simp, intro guarded_intros, simp)
    apply (erule stage_onErr[OF _ emits_npDeletes(2)], simp, intro guarded_intros, simp)
    apply (erule stage_bind[OF _ emits_ds_steps(5)], simp add: peerPodsKinds_def podVMImageKinds_def)
    by (auto intro!: guarded_return tail split: prod.split option.split)
qed

lemma uninstallDaemonSetPhase_guarded:
  assumes "stage s0 {podsClear E s0} s"
  shows "guarded (removalGuard s0 (dsFacts E s0)) (uninstallDaemonSetPhase E) (\<lambda>_ _. True) s"
proof -
  let ?A = "{wasDeleted KDaemonSet OperatorNamespace (installDsName InstallKata), podsClear E s0}"
  have observe: "guarded (removalGuard s0 (dsFacts E s0)) (onInl (isKataUninstallDaemonSetUninstalling E)
      (\<lambda>e. return (emptyResult, Some e)) (\<lambda>uninstallInProgress.
         if created \<or> uninstallInProgress then return (emptyResult, None)
         else mutateCondition E resetInProgressCondition \<bind> (\<lambda>_. cleanupDaemonSet E))) (\<lambda>_ _. True) s"
    if "stage s0 ?A s" for created s
    unfolding onInl_def
    apply (rule stage_observe[OF that emits_ds_queries(6) _ wp_uninstalled])
      apply (simp add: lasting_nodesInState lasting_def[of "\<lambda>_. True"])
     apply (use that in \<open>simp add: stage_def\<close>)
    apply (auto intro!: guarded_return split: sum.split)
    apply (erule stage_bind[OF _ quiet_phases(4)], simp)
    by (rule cleanupDaemonSet_guarded) simp
  show ?thesis
    unfolding uninstallDaemonSetPhase_def
    apply (rule stage_bind[OF assms quiet_phases(4)], simp)
    apply (erule stage_delete[OF _ emits_ds_phases(1) _ achieves_installDsDeleted], simp, intro guarded_intros, simp)
    apply (erule stage_onInl[OF _ emits_ds_phases(2)], simp, intro guarded_intros, simp)
    apply (erule stage_bind[OF _ emits_mono[OF emits_ds_queries(8) readOnly_writesOnly[where K = "{}"]]], simp, simp)
    by (erule observe)
qed

lemma deleteRequestDaemonSet_guarded:
  "guarded (removalGuard s (dsFacts E s)) (processKataConfigDeleteRequestDaemonSet E) (\<lambda>_ _. True) s"
  unfolding processKataConfigDeleteRequestDaemonSet_def
  by (rule stage_start) (auto intro: guarded_return uninstallDaemonSetPhase_guarded)

lemma installRequestDaemonSet_guarded:
  "guarded (inCall s (finalizerFirst (- {KNode, KSecret, KKataConfig}) E s)) (processKataConfigInstallRequestDaemonSet E)
     (\<lambda>_ _. True) s"
proof -
  let ?K = "- {KNode, KSecret, KKataConfig}"
  have frames: "emits (writesOnly {}) (checkEligibility E)" "emits (writesOnly {KSecret}) (createAuthJsonSecret E :: (rstate, _) state)"
    by (intro emits_intros; auto intro: readOnly_writesOnly)+
  have keeps: "preserves kataConfig (updateNodeLabels E :: (rstate, _) state)"
    "preserves kataConfig (createAuthJsonSecret E :: (rstate, _) state)"
    unfolding createAuthJsonSecret_def by (intro preserves_intros; simp)+
  have kinds: "KKataConfig \<notin> ?K" "{KNode} \<inter> ?K = {}" "{KSecret} \<inter> ?K = {}" by auto
  have rest: "guarded (inCall s (finalizerFirst ?K E s)) (onErr (ensureFinalizer E) (\<lambda>e. return (emptyResult, Some e))
      (onErr (ensureKataInstallSCC E) (\<lambda>e. return (emptyResult, Some e))
      (onErr (applyInstallDaemonSet E) (\<lambda>e. return (emptyResult, Some e)) (finishInstallDaemonSet E)))) (\<lambda>_ _. True) s1"
    if "atStart s s1" for s1
    using that kinds(1) unfolding atStart_def
    by (intro guarded_ensureFinalizer) (auto intro!: guarded_return emits_intros)
  have start: "atStart s s" by (simp add: atStart_def)
  show ?thesis
    unfolding processKataConfigInstallRequestDaemonSet_def onErr_def[of "checkEligibility E"] onErr_def[of "createAuthJsonSecret E"]
    apply (rule guarded_start[OF start emits_gets _ preserves_gets, where L = "{}"], simp)
    apply (rule guarded_if, rule guarded_return, rule TrueI)
    apply (erule guarded_start[OF _ frames(1) _ preserves_install_start(1)], simp)
    apply (rule guarded_case_option)
     apply (erule guarded_start[OF _ emits_labelling(1) kinds(2) keeps(1)])
     apply (intro guarded_case_prod guarded_case_option)
      apply (erule guarded_start[OF _ frames(2) kinds(3) keeps(2)])
      apply (rule guarded_case_option)
       apply (erule rest)
    by (rule guarded_return, rule TrueI)+
qed

section \<open>Waiting for the nodes\<close>

lemma wp_installed:
  assumes "grown s0 s"
  shows "wp (isKataInstallDaemonSetInstalling E)
    (\<lambda>x s'. (if x = Inr False then nodesInState E KataInstalled s0 else (\<lambda>_. True)) (drop (length (trace s0)) (trace s'))) s"
  unfolding isKataInstallDaemonSetInstalling_def
  by (simp add: wp_onInl) (rule wp_conseq[OF wp_allInState[OF assms]], auto simp: wp_return split: if_splits)

lemma finishInstallDaemonSet_waits:
  assumes "grown s0 s"
  shows "guarded (inCall s0 (onlyAfter readyKinds (nodesInState E KataInstalled s0))) (finishInstallDaemonSet E) (\<lambda>_ _. True) s"
  unfolding finishInstallDaemonSet_def onInl_def
  by (rule before_observe[OF assms emits_ds_queries(7) wp_installed[OF assms] lasting_nodesInState, where L = "{}"])
    (auto intro!: emits_intros intro: readOnly_writesOnly split: sum.split)

lemma installRequestDaemonSet_waits:
  "guarded (inCall s (onlyAfter readyKinds (nodesInState E KataInstalled s))) (processKataConfigInstallRequestDaemonSet E)
     (\<lambda>_ _. True) s"
proof -
  have frames: "emits (writesOnly {}) (checkEligibility E)" "emits (writesOnly {KSecret}) (createAuthJsonSecret E :: (rstate, _) state)"
    by (intro emits_intros; auto intro: readOnly_writesOnly)+
  show ?thesis unfolding processKataConfigInstallRequestDaemonSet_def
    apply (rule guarded_bind, rule guarded_gets)
    apply (rule guarded_if, rule guarded_return, rule TrueI)
    apply (rule before_onErr[OF grown_refl frames(1)], simp, intro guarded_intros, simp)
    apply (erule before_bind[OF _ emits_labelling(1)], simp)
    apply (intro guarded_case_prod guarded_case_option)
     apply (erule before_onErr[OF _ frames(2)], simp, intro guarded_intros, simp)
     apply (erule before_onErr[OF _ emits_ensureFinalizer], simp, intro guarded_intros, simp)
     apply (erule before_onErr[OF _ emits_ds_steps(1)], simp, intro guarded_intros, simp)
     apply (erule before_onErr[OF _ emits_ds_phases(3)], simp, intro guarded_intros, simp)
     apply (erule finishInstallDaemonSet_waits)
    by (rule guarded_return, rule TrueI)
qed

end
