(* ===== verification/Isolation.thy ===== *)
theory Isolation
  imports Daemonset_Reconcile
begin

text \<open>
  Pods of the operator's operands are isolated from the start: in the call that writes the workload,
  its default-deny policy and its allow rules have all been ensured before. The rule
  \<open>isolated_after_policies\<close> covers the operands of \<open>Network_Policies\<close>; the theory applies it to the kata
  monitor, the peer-pods webhook and the installation and removal DaemonSets.
\<close>

lemma lasting_policiesEnsured: "lasting (policiesEnsured ps)"
  unfolding lasting_def by (auto elim: policiesEnsured_mono)

lemma isolated_quiet:
  assumes "emits (writesOnly L) m" and "\<And>obj. W obj \<Longrightarrow> kindOf obj \<notin> L"
  shows "guarded (inCall s0 (isolated W ps)) m (\<lambda>_ s'. grown s s') s"
proof (rule guarded_emits_wp[OF assms(1)])
  have "appends m" using assms(1) by (rule emits_mono) simp
  then show "wp m (\<lambda>_ s'. grown s s') s" using grown_exec[of m s] by (simp add: wp_def)
  show "inCall s0 (isolated W ps) h e" if "writesOnly L e" for h e
    unfolding inCall_def using that assms(2) by (rule isolated_frame)
qed

text \<open>Once the policies are in place, everything is permitted.\<close>

lemma guarded_ensured:
  assumes "policiesEnsured ps (drop (length (trace s0)) (trace s))" and "grown s0 s" and "appends m"
  shows "guarded (inCall s0 (isolated W ps)) m (\<lambda>_ _. True) s"
proof -
  have "permitted (inCall s0 (isolated W ps)) (trace s @ h) new" for h new
  proof (induction new arbitrary: h)
    case (Cons e new)
    have "policiesEnsured ps (drop (length (trace s0)) (trace s @ h))"
      using assms(1,2) lasting_policiesEnsured[of ps] by (auto simp: lasting_def grown_def)
    with Cons[of "h @ [e]"] show ?case by (simp add: inCall_def isolated_def split: option.split)
  qed simp
  from this[of "[]"] show ?thesis
    using emits_newEvents(1)[OF assms(3), of s] by (auto simp: guarded_def)
qed

lemma policies_in_call:
  assumes "operand_policies c d ps ls" and "grown s0 s"
  shows "wp (c E) (\<lambda>r s'. grown s0 s' \<and> (r = None \<longrightarrow> policiesEnsured ps (drop (length (trace s0)) (trace s')))) s"
proof -
  have ap: "appends (c E)" using emits_operand_create[OF assms(1)] by (rule emits_mono) simp
  have "policiesEnsured ps (newEvents (c E) s)" if "result (c E) s = None"
    using achievesD[OF achieves_policy[OF assms(1)], of _ _ E s] that
    by (fastforce simp: policiesEnsured_def list_all_iff)
  moreover have "set (newEvents (c E) s) \<subseteq> set (drop (length (trace s0)) (trace (exec (c E) s)))"
    using emits_newEvents(1)[OF ap, of s] assms(2) by (auto simp: grown_def)
  ultimately show ?thesis
    using grown_trans[OF assms(2) grown_exec[OF ap]] policiesEnsured_mono by (fastforce simp: wp_def)
qed

lemma isolated_after_policies:
  assumes "operand_policies c d ps ls" and "grown s0 s" and "\<And>obj. W obj \<Longrightarrow> kindOf obj \<noteq> KNetworkPolicy"
    and "\<And>e s'. guarded (inCall s0 (isolated W ps)) (h e) (\<lambda>_ _. True) s'" and "appends k"
  shows "guarded (inCall s0 (isolated W ps)) (onErr (c E) h k) (\<lambda>_ _. True) s"
proof (rule guarded_onErr, rule guarded_emits_wp[OF emits_operand_create[OF assms(1)] _ policies_in_call[OF assms(1,2)]])
  show "inCall s0 (isolated W ps) hist e" if "npWrite e" for hist e
    unfolding inCall_def using npWrite_only[OF that] by (rule isolated_frame) (use assms(3) in auto)
qed (use assms(4,5) guarded_ensured in auto)

text \<open>Steps before the policies.\<close>

lemma isolated_bind:
  assumes "grown s0 s" and "emits (writesOnly L) m" and "\<And>obj. W obj \<Longrightarrow> kindOf obj \<notin> L"
    and "\<And>x s'. grown s0 s' \<Longrightarrow> guarded (inCall s0 (isolated W ps)) (k x) (\<lambda>_ _. True) s'"
  shows "guarded (inCall s0 (isolated W ps)) (State_Monad.bind m k) (\<lambda>_ _. True) s"
  by (rule guarded_bind, rule guarded_conseq[OF isolated_quiet[OF assms(2,3)]])
    (use assms(4) grown_trans[OF assms(1)] in auto)

lemma isolated_onInl:
  assumes "grown s0 s" and "emits (writesOnly L) m" and "\<And>obj. W obj \<Longrightarrow> kindOf obj \<notin> L"
    and "\<And>e s'. guarded (inCall s0 (isolated W ps)) (h e) (\<lambda>_ _. True) s'"
    and "\<And>x s'. grown s0 s' \<Longrightarrow> guarded (inCall s0 (isolated W ps)) (k x) (\<lambda>_ _. True) s'"
  shows "guarded (inCall s0 (isolated W ps)) (onInl m h k) (\<lambda>_ _. True) s"
  unfolding onInl_def by (rule isolated_bind[OF assms(1-3)]) (auto intro: assms(4,5) split: sum.split)

lemma workload_not_policy:
  "isDaemonSet n obj \<Longrightarrow> kindOf obj \<noteq> KNetworkPolicy" "isDeployment n obj \<Longrightarrow> kindOf obj \<noteq> KNetworkPolicy"
  by (simp_all add: workload_kind_only)

lemmas daemonSet_after = isolated_after_policies[OF _ _ workload_not_policy(1)]
lemmas deployment_after = isolated_after_policies[OF _ _ workload_not_policy(2)]

section \<open>The workloads\<close>

lemma monitor_isolated:
  "guarded (inCall s (isolated (isDaemonSet monitorDsName) monitorPolicies)) (createDaemonsetForMonitor E) (\<lambda>_ _. True) s"
proof -
  have quiet: "emits (writesOnly {}) (getSecretVersion E n ns :: (rstate, _) state)"
    "emits (writesOnly {}) (processDaemonsetForMonitor E v)" for n ns v
    by (intro emits_intros; auto intro: readOnly_writesOnly)+
  show ?thesis
    unfolding createDaemonsetForMonitor_def Let_def
    apply (rule isolated_onInl[OF grown_refl quiet(1)], simp, intro guarded_intros, simp)
    apply (erule isolated_bind[OF _ quiet(2)], simp)
    by (auto intro!: guarded_bind guarded_gets guarded_return daemonSet_after[OF monitorNp.operand_policies_axioms]
        emits_intros dest: workload_kind_only split: sum.split)
qed

lemma webhook_isolated:
  "guarded (inCall s (isolated (isDeployment webhookDeploymentName) webhookPolicies)) (enablePeerPodsMiscConfigs E)
     (\<lambda>_ _. True) s"
proof -
  have quiet: "emits (writesOnly {}) (getConfigMapVersion E n ns :: (rstate, _) state)"
    "emits (writesOnly {KDaemonSet, KConfigMap}) (createOrUpdateM E (GetReq k ns n) fetch ODaemonSet (mutateCAA E v))"
    for n ns v k fetch
    by (intro emits_intros; auto intro: readOnly_writesOnly elim: writesOnly_mono)+
  show ?thesis
    unfolding enablePeerPodsMiscConfigs_def
    apply (rule isolated_onInl[OF grown_refl quiet(1)], simp, intro guarded_intros, simp)
    apply (auto intro!: guarded_return split: option.split)
    apply (unfold onErr_def[of "createOrUpdateM _ _ _ _ _"])
    apply (erule isolated_bind[OF _ quiet(2)], force dest: workload_kind_only)
    by (auto intro!: guarded_return deployment_after[OF webhookNp.operand_policies_axioms] emits_intros
        dest: workload_kind_only split: option.split)
qed

lemma quiet_installDs: "emits (writesOnly {}) (daemonSetForKataInstall E a)"
  by (intro emits_intros; auto intro: readOnly_writesOnly)

abbreviation installPolicies :: "kataDaemonSetAction \<Rightarrow> (string \<times> npSpec) list" where
  "installPolicies a \<equiv> egressPolicies (''kata-'' @ actionName a) [''name'' \<mapsto> installDsName a]"

lemma installDs_isolated:
  "guarded (inCall s (isolated (isDaemonSet (installDsName InstallKata)) (installPolicies InstallKata)))
     (applyInstallDaemonSet E) (\<lambda>_ _. True) s"
  "guarded (inCall s (isolated (isDaemonSet (installDsName UninstallKata)) (installPolicies UninstallKata)))
     (startUninstall E) (\<lambda>_ _. True) s"
  unfolding applyInstallDaemonSet_def startUninstall_def Let_def
  by (rule isolated_onInl[OF grown_refl quiet_installDs];
      force intro!: guarded_bind guarded_gets guarded_return emits_intros
        daemonSet_after[OF installNp.operand_policies_axioms]
        daemonSet_after[OF uninstallNp.operand_policies_axioms]
        simp: installDsName_def kataInstallDaemonSetName_def
        dest: workload_kind_only split: sum.split)+

text \<open>
  C3: workloads are isolated from the start. For every state and every behaviour of the API server, whenever
  the operator writes the kata monitor DaemonSet, the peer-pods webhook Deployment or the DaemonSet that installs
  or removes kata, the default-deny policy of its pods and all their allow rules have been ensured
  successfully earlier in the same call.
\<close>

theorem workloads_isolated:
  "permitted (isolated (isDaemonSet monitorDsName) monitorPolicies) [] (newEvents (createDaemonsetForMonitor E) s) \<and>
   permitted (isolated (isDeployment webhookDeploymentName) webhookPolicies) []
     (newEvents (enablePeerPodsMiscConfigs E) s) \<and>
   permitted (isolated (isDaemonSet (installDsName InstallKata)) (installPolicies InstallKata)) []
     (newEvents (applyInstallDaemonSet E) s) \<and>
   permitted (isolated (isDaemonSet (installDsName UninstallKata)) (installPolicies UninstallKata)) []
     (newEvents (startUninstall E) s)"
  using monitor_isolated[of s E] webhook_isolated[of s E] installDs_isolated[of s E]
  unfolding inCall_def by (auto dest!: guarded_call)

section \<open>The image deletion job\<close>

text \<open>
  The exception: \<open>disablePeerPodsMiscConfigs\<close> deletes the policies of the image deletion job, and
  \<open>deletePodVMImage\<close>, which starts that job afterwards, never writes a policy.
\<close>

lemma achieves_deletedPolicy:
  assumes "operand_policies c d ps ls" and "n \<in> fst ` set ps"
  shows "achieves noError (deletionSeen KNetworkPolicy OperatorNamespace n) (d E)"
proof -
  have "achieves noError (deletionSeen KNetworkPolicy OperatorNamespace n) (deleteNetworkPolicy E n :: (rstate, _) state)"
    unfolding deleteNetworkPolicy_def
    by (auto simp: achieves_def run_simps newEvents_def deletionSeen_def split: option.splits if_splits)
  then show ?thesis using assms(2)
    unfolding operand_policies.delete_policies[OF assms(1)] deleteNetworkPolicies_def
    by (intro achieves_forEach[of n]) (auto simp: deleteNetworkPolicy_def intro!: emits_intros)
qed

theorem image_deletion_job_unprotected:
  "(case result (disablePeerPodsMiscConfigs E) s of Some _ \<Rightarrow> True
    | None \<Rightarrow> since 0 (deletionSeen KNetworkPolicy OperatorNamespace ''podvm-image-deletion-deny-all'')
        (newEvents (disablePeerPodsMiscConfigs E) s)) \<and>
   emits (\<lambda>e. writesKind (evRequest e) \<noteq> Some KNetworkPolicy) (deletePodVMImage E)"
proof -
  have "achieves noError (deletionSeen KNetworkPolicy OperatorNamespace ''podvm-image-deletion-deny-all'')
      (deletePodVMImageDeletionNetworkPolicies E :: (rstate, _) state)"
    by (rule achieves_deletedPolicy[OF imageDeletionNp.operand_policies_axioms]) (simp add: egressPolicies_def)
  then have "achieves noError (deletionSeen KNetworkPolicy OperatorNamespace ''podvm-image-deletion-deny-all'')
      (disablePeerPodsMiscConfigs E :: (rstate, _) state)"
    unfolding disablePeerPodsMiscConfigs_def
    by (intro achieves_chain disjI2) (auto intro!: emits_intros)
  from achievesD[OF this, of s] show ?thesis
    by (auto simp: since_def writesOnly_def podVMImageKinds_def split: option.splits intro!: emits_mono[OF emits_podVMImage(2)])
qed

end
