(* ===== verification/Reconcile_Loop.thy ===== *)
theory Reconcile_Loop
  imports Feature_Gates Isolation
begin

text \<open>
  The reconcile function of the KataConfig controller (\<^verbatim>\<open>controllers/openshift_controller.go\<close>): reading the
  KataConfig, the steps before every reconciliation, the choice between installation and removal and
  between the two deployment modes, and the work at the end. What a deployment mode promises is the
  locale \<open>deployment_mode\<close>, interpreted for the MachineConfig and the DaemonSet mode; the properties of
  the reconcile function rest on its lemmas.
\<close>

section \<open>The reconcile function\<close>

definition intDigits :: "int \<Rightarrow> string" where
  "intDigits n = (if n < 0 then ''-'' @ natDigits (nat (- n)) else natDigits (nat n))"

definition unknownMode :: "int \<Rightarrow> ctrlResult \<times> goerr option" where
  "unknownMode n = (requeueIn 15, Some (Errorf (''unknown deployment mode: '' @ intDigits n)))"

definition deleteRequest :: "env \<Rightarrow> (rstate, ctrlResult \<times> goerr option) state" where
  "deleteRequest E = do {
     mode \<leftarrow> gets DeploymentMode;
     (case mode of
        MachineConfigMode \<Rightarrow> processKataConfigDeleteRequest E
      | DaemonSetMode \<Rightarrow> processKataConfigDeleteRequestDaemonSet E
      | UnknownMode n \<Rightarrow> return (unknownMode n))
   }"

definition installRequest :: "env \<Rightarrow> (rstate, ctrlResult \<times> goerr option) state" where
  "installRequest E = do {
     mode \<leftarrow> gets DeploymentMode;
     (case mode of
        MachineConfigMode \<Rightarrow> processKataConfigInstallRequest E
      | DaemonSetMode \<Rightarrow> processKataConfigInstallRequestDaemonSet E
      | UnknownMode n \<Rightarrow> return (unknownMode n))
   }"

text \<open>A panic of a handler unwinds: nothing after it is executed.\<close>

definition reconcileDelete :: "env \<Rightarrow> (rstate, ctrlResult \<times> goerr option) state" where
  "reconcileDelete E = do {
     (res, err) \<leftarrow> deleteRequest E;
     if panicked err then return (res, err)
     else do {
       updateErr \<leftarrow> statusUpdateKataConfig E;
       m \<leftarrow> gets (\<lambda>s. kcMeta (kataConfig s));
       return (if updateErr \<noteq> None \<and> ContainsFinalizer E m kataConfigFinalizer then (emptyResult, updateErr)
         else (res, err))
     }
   }"

definition ensureDashboard :: "env \<Rightarrow> configMap \<Rightarrow> ctrlResult \<Rightarrow> ('z, ctrlResult \<times> goerr option) op" where
  "ensureDashboard E cMap res =
     onInl (getCM E (Namespace (cmMeta cMap)) (Name (cmMeta cMap)))
       (\<lambda>err. if IsNotFound err
          then onErr (writeOp E (CreateReq (OConfigMap cMap))) (\<lambda>e. return (requeueIn 15, Some e)) (return (res, None))
          else return (requeueIn 15, Some err))
       (\<lambda>_. return (res, None))"

text \<open>In MachineConfig mode the error of the dashboard is overwritten by the one of the log level.\<close>

definition finishReconcile :: "env \<Rightarrow> ctrlResult \<Rightarrow> (rstate, ctrlResult \<times> goerr option) state" where
  "finishReconcile E res = do {
     cMap \<leftarrow> processDashboardConfigMap E;
     (case cMap of
        None \<Rightarrow> return (requeueIn 15, None)
      | Some cm \<Rightarrow> do {
          (res', err) \<leftarrow> ensureDashboard E cm res;
          mode \<leftarrow> gets DeploymentMode;
          if mode = MachineConfigMode then do {
            level \<leftarrow> gets (\<lambda>s. LogLevel (Spec (kataConfig s)));
            levelErr \<leftarrow> processLogLevel E level;
            return (if levelErr \<noteq> None then requeueIn 15 else res', levelErr)
          } else return (res', err)
        })
   }"

definition reconcileInstall :: "env \<Rightarrow> kataConfigStatus \<Rightarrow> (rstate, ctrlResult \<times> goerr option) state" where
  "reconcileInstall E oldObjStatus = do {
     (res, err) \<leftarrow> installRequest E;
     if err \<noteq> None then return (res, err)
     else do {
       newStatus \<leftarrow> gets (\<lambda>s. Status (kataConfig s));
       onErr (if IsKataConfigStatusChanged oldObjStatus newStatus then statusUpdateKataConfig E else return None)
         (\<lambda>updateErr. return (emptyResult, Some updateErr))
         (finishReconcile E res)
     }
   }"

definition zeroKataConfig :: kataconfig where
  "zeroKataConfig = \<lparr>kcMeta = mkMeta [] [],
     Spec = \<lparr>KataConfigPoolSelector = None, CheckNodeEligibility = False, LogLevel = [],
       EnablePeerPods = False, EnableMixedCluster = False\<rparr>,
     Status = \<lparr>RuntimeClasses = [],
       KataNodes = \<lparr>NodeCount = 0, ReadyNodeCount = 0, Installed = [], Installing = [], WaitingToInstall = [],
         FailedToInstall = [], Uninstalling = [], WaitingToUninstall = [], FailedToUninstall = []\<rparr>,
       Conditions = [], WaitingForMcoToStart = False\<rparr>\<rparr>"

text \<open>
  The steps before the decision. The result is the status the KataConfig was read with, or what the
  reconcile function returns at once.
\<close>

definition prepareReconcile :: "env \<Rightarrow> string \<Rightarrow> (rstate, (ctrlResult \<times> goerr option) + kataConfigStatus) state" where
  "prepareReconcile E name = do {
     _ \<leftarrow> modify (kataConfig_update (\<lambda>_. zeroKataConfig));
     onInl (readOp (GetReq KKataConfig [] name) (\<lambda>h. getKataConfig (apiOf E) h name))
       (\<lambda>err. return (Inl (emptyResult, if IsNotFound err then None else Some err)))
       (\<lambda>kc. do {
          _ \<leftarrow> modify (kataConfig_update (\<lambda>_. kc));
          onErr (migratePeerPodsLimit E) (\<lambda>e. return (Inl (emptyResult, Some e)))
          (onErr (ensureRuntimeClassFinalizers E) (\<lambda>e. return (Inl (emptyResult, Some e)))
          (onErr (processFeatureGates E) (\<lambda>e. return (Inl (emptyResult, Some e)))
          (onInl (getKataConfigNodeSelectorAsSelector E) (\<lambda>_. return (Inl (emptyResult, None)))
            (\<lambda>_. return (Inr (Status kc))))))
        })
   }"

text \<open>The KataConfig is marked for deletion and no other operation is under way.\<close>

definition removalDue :: "kataconfig \<Rightarrow> bool" where
  "removalDue kc \<longleftrightarrow> DeletionTimestamp (kcMeta kc) \<noteq> None \<and> \<not> isInstalling (Conditions (Status kc)) \<and>
     \<not> isUpdating (Conditions (Status kc))"

definition reconcileBody :: "env \<Rightarrow> kataConfigStatus \<Rightarrow> (rstate, ctrlResult \<times> goerr option) state" where
  "reconcileBody E oldObjStatus = do {
     kc \<leftarrow> gets kataConfig;
     if removalDue kc then reconcileDelete E else reconcileInstall E oldObjStatus
   }"

definition Reconcile :: "env \<Rightarrow> string \<Rightarrow> (rstate, ctrlResult \<times> goerr option) state" where
  "Reconcile E name = do {
     r \<leftarrow> prepareReconcile E name;
     (case r of Inl early \<Rightarrow> return early | Inr oldObjStatus \<Rightarrow> reconcileBody E oldObjStatus)
   }"

section \<open>Deployment modes\<close>

text \<open>
  What a deployment mode promises: an installation writes nothing outside the kinds \<open>early\<close> before the
  finalizer is in place, no object of the work after the installation before the nodes are \<open>ready\<close>, and
  updates the KataConfig only to add the finalizer; a removal drops the finalizer only when all its
  \<open>facts\<close> hold.
\<close>

definition addsFinalizer :: "env \<Rightarrow> event \<Rightarrow> bool" where
  "addsFinalizer E e = (case evRequest e of
     UpdateReq (OKataConfig kc) \<Rightarrow> \<exists>m. kcMeta kc = AddFinalizer E kataConfigFinalizer m | _ \<Rightarrow> True)"

lemma permitted_conj: "permitted (\<lambda>h e. G h e \<and> H h e) h new \<longleftrightarrow> permitted G h new \<and> permitted H h new"
  by (induction new arbitrary: h) auto

locale deployment_mode =
  fixes install uninstall :: "env \<Rightarrow> (rstate, ctrlResult \<times> goerr option) state"
    and early :: "rkind set"
    and ready :: "env \<Rightarrow> rstate \<Rightarrow> fact"
    and facts :: "env \<Rightarrow> rstate \<Rightarrow> fact set"
  assumes installs: "guarded (inCall s (finalizerFirst (- early) E s)) (install E) (\<lambda>_ _. True) s"
    and waits: "guarded (inCall s (onlyAfter readyKinds (ready E s))) (install E) (\<lambda>_ _. True) s"
    and adds: "emits (addsFinalizer E) (install E)"
    and removes: "guarded (removalGuard s (facts E s)) (uninstall E) (\<lambda>_ _. True) s"
begin

lemma install_ordered:
  "permitted (\<lambda>h e. finalizerFirst (- early) E s h e \<and> onlyAfter readyKinds (ready E s) h e) [] (newEvents (install E) s)"
  using guarded_call[OF installs[of s E, unfolded inCall_def]] guarded_call[OF waits[of s E, unfolded inCall_def]]
  by (simp add: permitted_conj)

end

lemma addsFinalizer_frame: "writesOnly K e \<Longrightarrow> KKataConfig \<notin> K \<Longrightarrow> addsFinalizer E e"
  by (cases e) (auto simp: addsFinalizer_def split: request.splits kobj.splits)

lemma addsFinalizer_readOnly: "readOnly e \<Longrightarrow> addsFinalizer E e"
  by (rule addsFinalizer_frame[OF readOnly_writesOnly[where K = "{}"]]) simp_all

lemma emits_adds_ensureFinalizer: "emits (addsFinalizer E) (ensureFinalizer E)"
  unfolding emits_def ensureFinalizer_def addFinalizer_def writeKataConfig_def
  by (auto simp: run_simps addsFinalizer_def split: option.splits)

lemmas adds_intros = emits_return emits_bind emits_if emits_case_option emits_case_prod emits_case_sum emits_onErr emits_onInl
  emits_gets emits_adds_ensureFinalizer

lemma post_quiet: "writesOnly installKinds e \<Longrightarrow> addsFinalizer E e" "writesOnly postKinds e \<Longrightarrow> addsFinalizer E e"
  by (erule addsFinalizer_frame; simp add: installKinds_def postKinds_def peerPodsKinds_def podVMImageKinds_def)+

lemma mco_adds: "emits (addsFinalizer E) (processKataConfigInstallRequest E)"
  unfolding processKataConfigInstallRequest_def preparePool_def
  by (intro adds_intros emits_mono[OF emits_installPhase post_quiet(1)]
      emits_mono[OF emits_install_steps(2)] emits_mono[OF emits_mixed] emits_mono[OF emits_getMcpName]
      emits_mono[OF emits_mco_queries(4)] emits_mono[OF emits_mco_operations(5)] emits_mono[OF emits_labelling(1)]
      emits_mono[OF emits_install_steps(1)] emits_mono[OF emits_isMcpUpdating] emits_mutateCondition emits_setWaiting;
      auto intro: addsFinalizer_readOnly addsFinalizer_frame)

lemma ds_adds: "emits (addsFinalizer E) (processKataConfigInstallRequestDaemonSet E)"
proof -
  have auth: "emits (addsFinalizer E) (createAuthJsonSecret E :: (rstate, _) state)"
    by (intro emits_intros) (auto intro: addsFinalizer_frame)
  show ?thesis unfolding processKataConfigInstallRequestDaemonSet_def
  by (intro adds_intros auth emits_mono[OF emits_ds_phases(4) post_quiet(2)] emits_mono[OF emits_ds_phases(3)]
      emits_mono[OF emits_ds_steps(1)] emits_mono[OF emits_labelling(1)] emits_mono[OF emits_install_steps(2)];
      auto intro: addsFinalizer_readOnly addsFinalizer_frame)
qed

interpretation mcoMode: deployment_mode processKataConfigInstallRequest processKataConfigDeleteRequest
  "{KNodeFeatureRule, KKataConfig}" poolIdle mcoFacts
  by unfold_locales (rule installRequest_guarded installRequest_waits mco_adds deleteRequest_guarded)+

interpretation dsMode: deployment_mode processKataConfigInstallRequestDaemonSet processKataConfigDeleteRequestDaemonSet
  "{KNode, KSecret, KKataConfig}" "\<lambda>E. nodesInState E KataInstalled" dsFacts
  by unfold_locales (rule installRequestDaemonSet_guarded installRequestDaemonSet_waits ds_adds
      deleteRequestDaemonSet_guarded)+

section \<open>Properties of the reconcile function\<close>

fun modeFacts :: "deploymentMode \<Rightarrow> env \<Rightarrow> rstate \<Rightarrow> fact set" where
  "modeFacts MachineConfigMode = mcoFacts"
| "modeFacts DaemonSetMode = dsFacts"
| "modeFacts (UnknownMode n) = (\<lambda>E s. {\<lambda>_. False})"

fun earlyKinds :: "deploymentMode \<Rightarrow> rkind set" where
  "earlyKinds MachineConfigMode = {KNodeFeatureRule, KKataConfig}"
| "earlyKinds DaemonSetMode = {KNode, KSecret, KKataConfig}"
| "earlyKinds (UnknownMode n) = {}"

fun nodesReady :: "deploymentMode \<Rightarrow> env \<Rightarrow> rstate \<Rightarrow> fact" where
  "nodesReady MachineConfigMode = poolIdle"
| "nodesReady DaemonSetMode = (\<lambda>E. nodesInState E KataInstalled)"
| "nodesReady (UnknownMode n) = (\<lambda>E s h. False)"

lemma installRequest_run:
  "newEvents (installRequest E) s = (case DeploymentMode s of
     MachineConfigMode \<Rightarrow> newEvents (processKataConfigInstallRequest E) s
   | DaemonSetMode \<Rightarrow> newEvents (processKataConfigInstallRequestDaemonSet E) s
   | UnknownMode n \<Rightarrow> [])"
  "newEvents (deleteRequest E) s = (case DeploymentMode s of
     MachineConfigMode \<Rightarrow> newEvents (processKataConfigDeleteRequest E) s
   | DaemonSetMode \<Rightarrow> newEvents (processKataConfigDeleteRequestDaemonSet E) s
   | UnknownMode n \<Rightarrow> [])"
  by (auto simp: installRequest_def deleteRequest_def newEvents_def run_simps run_gets_parts split: deploymentMode.split)


lemma emits_prepare: "emits (writesOnly {KConfigMap, KRuntimeClass, KPeerPodConfig}) (prepareReconcile E name)"
  unfolding prepareReconcile_def
  by (intro emits_intros; auto intro: readOnly_writesOnly elim: writesOnly_mono)

text \<open>The request that drops the finalizer, and when it may be sent.\<close>

definition releaseOnly :: "env \<Rightarrow> fact \<Rightarrow> history \<Rightarrow> event \<Rightarrow> bool" where
  "releaseOnly E F h e \<longleftrightarrow> addsFinalizer E e \<or> F h"

lemma permitted_releaseOnly: "list_all (addsFinalizer E) new \<Longrightarrow> permitted (releaseOnly E F) h new"
  by (induction new arbitrary: h) (auto simp: releaseOnly_def)

lemma permitted_weaken:
  "permitted G h new \<Longrightarrow> (\<And>h e. G h e \<Longrightarrow> H h e) \<Longrightarrow> permitted H h new"
  by (induction new arbitrary: h) auto

lemma finalizerLast_releaseOnly: "finalizerLast F h e \<Longrightarrow> releaseOnly E F h e"
  by (auto simp: finalizerLast_def releaseOnly_def addsFinalizer_def split: request.splits kobj.splits)

lemma releases: "permitted (finalizerLast F) h new \<Longrightarrow> permitted (releaseOnly E F) h new"
  by (erule permitted_weaken) (rule finalizerLast_releaseOnly)

lemma deleteRequest_releases:
  "permitted (releaseOnly E (cleaned (modeFacts (DeploymentMode s) E s))) [] (newEvents (deleteRequest E) s)"
  using releases[OF guarded_call[OF mcoMode.removes[of s E, unfolded inCall_def]]]
    releases[OF guarded_call[OF dsMode.removes[of s E, unfolded inCall_def]]]
  by (simp add: installRequest_run split: deploymentMode.split)

lemma emits_adds_reconcile:
  "emits (addsFinalizer E) (statusUpdateKataConfig E)" "emits (addsFinalizer E) (finishReconcile E res)"
  "emits (addsFinalizer E) (installRequest E)" "emits (addsFinalizer E) (reconcileInstall E old)"
proof -
  show status: "emits (addsFinalizer E) (statusUpdateKataConfig E)"
    by (intro emits_intros) (simp add: addsFinalizer_def)
  show finish: "emits (addsFinalizer E) (finishReconcile E res)" for res
    unfolding finishReconcile_def ensureDashboard_def
    by (intro emits_intros; auto intro: addsFinalizer_frame addsFinalizer_readOnly)
  show install: "emits (addsFinalizer E) (installRequest E)"
    unfolding installRequest_def
    by (rule emits_bind, rule emits_gets)
      (auto intro: mcoMode.adds dsMode.adds emits_return split: deploymentMode.split)
  show "emits (addsFinalizer E) (reconcileInstall E old)"
    unfolding reconcileInstall_def by (intro adds_intros status finish install)
qed

lemma guarded_appends: "(\<And>s. guarded (G s) m Q s) \<Longrightarrow> appends m"
  unfolding guarded_def emits_def by (metis list.pred_True)

lemma appends_deleteRequest: "appends (deleteRequest E)"
  unfolding deleteRequest_def
  by (rule emits_bind, rule emits_gets)
    (auto intro: guarded_appends[OF mcoMode.removes] guarded_appends[OF dsMode.removes] emits_return split: deploymentMode.split)

lemma reconcileDelete_releases:
  "permitted (releaseOnly E (cleaned (modeFacts (DeploymentMode s) E s))) [] (newEvents (reconcileDelete E) s)"
proof -
  let ?k = "\<lambda>(res, err). if panicked err then return (res, err)
     else do {
       updateErr \<leftarrow> statusUpdateKataConfig E;
       m \<leftarrow> gets (\<lambda>s. kcMeta (kataConfig s));
       return (if updateErr \<noteq> None \<and> ContainsFinalizer E m kataConfigFinalizer then (emptyResult, updateErr)
         else (res, err))
     }"
  have k: "emits (addsFinalizer E) (?k x)" for x
    by (cases x) (auto intro!: adds_intros emits_adds_reconcile(1))
  have "newEvents (reconcileDelete E) s = newEvents (deleteRequest E) s @
      newEvents (?k (result (deleteRequest E) s)) (exec (deleteRequest E) s)"
    unfolding reconcileDelete_def
    by (rule newEvents_bind[OF appends_deleteRequest]) (rule emits_mono[OF k TrueI])
  then show ?thesis
    using deleteRequest_releases[of E s] permitted_releaseOnly[OF emits_newEvents(2)[OF k]]
    by (simp add: permitted_append)
qed

text \<open>
  The requests of a reconciliation: those of the preparation, which drop no finalizer, and then those of an
  installation or a removal, in which the finalizer is dropped only when a removal is due and all its facts hold.
\<close>

lemma Reconcile_releases:
  fixes E name s
  defines "prep \<equiv> prepareReconcile E name"
  defines "s1 \<equiv> exec prep s"
  obtains rest where "trace s1 = trace s @ newEvents prep s"
    "trace (exec (Reconcile E name) s) = trace s1 @ rest" "list_all (addsFinalizer E) (newEvents prep s)"
    "permitted (releaseOnly E (\<lambda>h. removalDue (kataConfig s1) \<and> cleaned (modeFacts (DeploymentMode s1) E s1) h)) [] rest"
proof -
  define F where "F = (\<lambda>h. removalDue (kataConfig s1) \<and> cleaned (modeFacts (DeploymentMode s1) E s1) h)"
  let ?k = "\<lambda>r. case r of Inl early \<Rightarrow> return early | Inr oldObjStatus \<Rightarrow> reconcileBody E oldObjStatus"
  have prep: "emits (addsFinalizer E) prep" unfolding prep_def
    by (rule emits_mono[OF emits_prepare]) (erule addsFinalizer_frame, simp)
  have body: "appends (reconcileBody E old)" for old
    unfolding reconcileBody_def reconcileDelete_def
    by (intro adds_intros appends_deleteRequest emits_mono[OF emits_adds_reconcile(4) TrueI] emits_mono[OF emits_adds_reconcile(1) TrueI])
  have rest: "permitted (releaseOnly E F) [] (newEvents (?k r) s1)" for r
  proof (cases r)
    case (Inr old)
    have "newEvents (reconcileBody E old) s1 = (if removalDue (kataConfig s1)
        then newEvents (reconcileDelete E) s1 else newEvents (reconcileInstall E old) s1)"
      by (simp add: reconcileBody_def newEvents_def run_simps run_gets_parts)
    then show ?thesis
      using Inr reconcileDelete_releases[of E s1] permitted_releaseOnly[OF emits_newEvents(2)[OF emits_adds_reconcile(4)]]
      by (simp add: F_def)
  qed (simp add: newEvents_def)
  have "appends (?k r)" for r by (cases r) (simp_all add: body emits_return)
  then have "trace (exec (?k r) s1) = trace s1 @ newEvents (?k r) s1" for r
    by (rule emits_newEvents(1))
  then have "trace (exec (Reconcile E name) s) = trace s1 @ newEvents (?k (result prep s)) s1"
    unfolding Reconcile_def prep_def[symmetric] by (simp add: run_bind s1_def)
  then show thesis
    using that emits_newEvents[OF prep, of s] rest[of "result prep s"] by (simp add: F_def s1_def)
qed


end
