(* ===== verification/Status_Invariant.thy ===== *)
theory Status_Invariant
  imports Reconcile_Loop
begin

text \<open>
  The status of the KataConfig stays well-formed through a whole reconciliation: at most one InProgress condition,
  with one of the states the operator reports; RuntimeClasses of the operator, each listed once; no node on two
  status lists and a ready count that fits them. \<open>keeps I m\<close> says that the operation \<open>m\<close> maintains the
  invariant \<open>I\<close> of the state; every operation that changes the status has a rule, and the other ones keep the
  invariant because they leave the KataConfig alone.
\<close>

named_theorems keeps_intros "introduction rules for the keeps predicate"

section \<open>Invariants of operations\<close>

definition keeps :: "('s \<Rightarrow> bool) \<Rightarrow> ('s, 'a) state \<Rightarrow> bool" where
  "keeps I m \<longleftrightarrow> (\<forall>s. I s \<longrightarrow> I (exec m s))"

lemma keepsD: "keeps I m \<Longrightarrow> I s \<Longrightarrow> I (exec m s)"
  by (simp add: keeps_def)

lemma keeps_wp: "(\<And>s. I s \<Longrightarrow> wp m (\<lambda>_. I) s) \<Longrightarrow> keeps I m"
  by (simp add: keeps_def wp_def)

lemma keeps_return [keeps_intros]: "keeps I (return x)"
  by (simp add: keeps_def exec_def)

lemma keeps_gets [keeps_intros]: "keeps I (gets g)"
  by (simp add: keeps_def run_simps run_gets_parts)

lemma keeps_modify: "(\<And>s. I s \<Longrightarrow> I (g s)) \<Longrightarrow> keeps I (modify g)"
  by (simp add: keeps_def exec_modify)

lemma keeps_bind [keeps_intros]:
  "keeps I m \<Longrightarrow> (\<And>x. keeps I (k x)) \<Longrightarrow> keeps I (State_Monad.bind m k)"
  by (simp add: keeps_def run_simps)

lemma keeps_if [keeps_intros]: "(b \<Longrightarrow> keeps I m) \<Longrightarrow> (\<not> b \<Longrightarrow> keeps I n) \<Longrightarrow> keeps I (if b then m else n)"
  by simp

lemma keeps_let [keeps_intros]: "(\<And>y. keeps I (k y)) \<Longrightarrow> keeps I (Let x k)"
  by simp

lemma keeps_case_sum [keeps_intros]:
  "(\<And>e. keeps I (h e)) \<Longrightarrow> (\<And>x. keeps I (k x)) \<Longrightarrow> keeps I (case_sum h k r)"
  by (cases r) simp_all

lemma keeps_case_option [keeps_intros]:
  "keeps I m \<Longrightarrow> (\<And>x. keeps I (k x)) \<Longrightarrow> keeps I (case_option m k r)"
  by (cases r) simp_all

lemma keeps_case_prod [keeps_intros]: "(\<And>x y. keeps I (k x y)) \<Longrightarrow> keeps I (case_prod k r)"
  by (cases r) simp

lemma keeps_case_mode [keeps_intros]:
  "keeps I m \<Longrightarrow> keeps I n \<Longrightarrow> (\<And>x. keeps I (k x)) \<Longrightarrow> keeps I (case_deploymentMode m n k r)"
  by (cases r) simp_all

lemma keeps_onErr [keeps_intros]:
  "keeps I m \<Longrightarrow> (\<And>e. keeps I (h e)) \<Longrightarrow> keeps I k \<Longrightarrow> keeps I (onErr m h k)"
  unfolding onErr_def by (intro keeps_intros)

lemma keeps_onInl [keeps_intros]:
  "keeps I m \<Longrightarrow> (\<And>e. keeps I (h e)) \<Longrightarrow> (\<And>x. keeps I (k x)) \<Longrightarrow> keeps I (onInl m h k)"
  unfolding onInl_def by (intro keeps_intros)

section \<open>Well-formed status\<close>

text \<open>The RuntimeClasses of the operator, and the status and reason of every InProgress condition it sets.\<close>

definition operatorRuntimeClasses :: "string list" where
  "operatorRuntimeClasses = [kataRuntimeClassName, kataNvidiaGPURuntimeClassName, peerpodsRuntimeClassName,
     kataCCRuntimeClassName, kataNvidiaGPUCCRuntimeClassName]"

definition inProgressStates :: "(string \<times> string) list" where
  "inProgressStates = [
     (''True'', ''Installing''), (''True'', ''Uninstalling''), (''True'', ''Updating''), (''True'', ''Failed''),
     (''False'', ''BlockedByExistingKataPods''), (''False'', []),
     (''True'', ''PodVMImageJobRunning''), (''True'', ''PodVMImageJobCompleted''), (''True'', ''PodVMImageJobFailed''),
     (''Unknown'', ''PodVMImageJobStatusUnknown''), (''True'', ''PodVMImageUnsupportedProvider'')]"

definition conditionsOk :: "conditions \<Rightarrow> bool" where
  "conditionsOk cs \<longleftrightarrow> length (filter isInProgress cs) \<le> 1 \<and>
     list_all (\<lambda>c. (condStatus c, condReason c) \<in> set inProgressStates) (filter isInProgress cs)"

definition classesOk :: "string list \<Rightarrow> bool" where
  "classesOk rcs \<longleftrightarrow> distinct rcs \<and> set rcs \<subseteq> set operatorRuntimeClasses"

definition nodesOk :: "kataConfigStatus \<Rightarrow> bool" where
  "nodesOk st \<longleftrightarrow> distinct (concat (map (\<lambda>l. nodesOn l st) statusLists)) \<and>
     ReadyNodeCount (KataNodes st) = int (length (nodesOn LInstalled st))"

definition statusOk :: "kataConfigStatus \<Rightarrow> bool" where
  "statusOk st \<longleftrightarrow> conditionsOk (Conditions st) \<and> classesOk (RuntimeClasses st) \<and> nodesOk st"

definition reported :: "event \<Rightarrow> bool" where
  "reported e = (case evRequest e of StatusUpdateReq (OKataConfig kc) \<Rightarrow> statusOk (Status kc) | _ \<Rightarrow> True)"

text \<open>The invariant: the status in memory and every status sent to the API server are well-formed.\<close>

definition sound :: "rstate \<Rightarrow> bool" where
  "sound s \<longleftrightarrow> statusOk (Status (kataConfig s)) \<and> list_all reported (trace s)"

section \<open>The API server\<close>

text \<open>
  The status of a KataConfig is a subresource: \<open>Update\<close> does not change it, and the server answers with a status
  it had when the operator started or one that the operator has sent. Names of nodes are unique.
\<close>

definition sentStatus :: "history \<Rightarrow> kataConfigStatus set" where
  "sentStatus h = {st. \<exists>kc r. Ev (StatusUpdateReq (OKataConfig kc)) r \<in> set h \<and> st = Status kc}"

definition statusSubresource :: "env \<Rightarrow> kataConfigStatus set \<Rightarrow> bool" where
  "statusSubresource E S \<longleftrightarrow>
     (\<forall>h name kc. getKataConfig (apiOf E) h name = Inr kc \<longrightarrow> Status kc \<in> S \<union> sentStatus h) \<and>
     (\<forall>h q. Status (writtenKataConfig (apiOf E) h q) \<in> S \<union> sentStatus (h @ [Ev q None]))"

definition uniqueNodeNames :: "env \<Rightarrow> bool" where
  "uniqueNodeNames E \<longleftrightarrow> (\<forall>h q ns. listNodes (apiOf E) h q = Inr ns \<longrightarrow> distinct (map (\<lambda>n. Name (nodeMeta n)) ns))"

definition serverLaw :: "env \<Rightarrow> bool" where
  "serverLaw E \<longleftrightarrow> uniqueNodeNames E \<and> (\<exists>S. statusSubresource E S \<and> (\<forall>st \<in> S. statusOk st))"

lemma sentStatus_ok: "list_all reported h \<Longrightarrow> st \<in> sentStatus h \<Longrightarrow> statusOk st"
  by (auto simp: sentStatus_def list_all_iff reported_def dest!: bspec)

lemma server_read:
  "serverLaw E \<Longrightarrow> list_all reported h \<Longrightarrow> getKataConfig (apiOf E) h name = Inr kc \<Longrightarrow> statusOk (Status kc)"
  unfolding serverLaw_def statusSubresource_def using sentStatus_ok by blast

lemma server_written:
  "serverLaw E \<Longrightarrow> list_all reported (h @ [Ev q None]) \<Longrightarrow> statusOk (Status (writtenKataConfig (apiOf E) h q))"
  unfolding serverLaw_def statusSubresource_def using sentStatus_ok by blast

section \<open>Operations that leave the KataConfig alone\<close>

definition quiet :: "event \<Rightarrow> bool" where
  "quiet e \<longleftrightarrow> writesOnly (- {KKataConfig}) e"

lemma quiet_writesOnly: "writesOnly K e \<Longrightarrow> KKataConfig \<notin> K \<Longrightarrow> quiet e"
  unfolding quiet_def by (erule writesOnly_mono) auto

lemma quiet_readOnly: "readOnly e \<Longrightarrow> quiet e"
  unfolding quiet_def by (rule readOnly_writesOnly)

lemma quiet_reported: "quiet e \<Longrightarrow> reported e"
  by (cases e) (auto simp: quiet_def reported_def split: request.splits kobj.splits)

lemma keeps_quiet:
  assumes "emits quiet m" and "preserves kataConfig m"
  shows "keeps sound m"
proof -
  have "list_all reported (newEvents m s)" for s
    using emits_newEvents(2)[OF assms(1), of s] by (rule list.pred_mono_strong) (rule quiet_reported)
  then show ?thesis
    by (simp add: keeps_def sound_def preservesD[OF assms(2)] emits_newEvents(1)[OF assms(1)])
qed

section \<open>Operations that change the status\<close>

lemma keeps_onStatus:
  "(\<And>s. statusOk (Status (kataConfig s)) \<Longrightarrow> statusOk (g s (Status (kataConfig s)))) \<Longrightarrow>
   keeps sound (modify (\<lambda>s. onStatus (g s) s))"
  by (rule keeps_modify) (simp add: sound_def)

lemma putInProgress_ok:
  assumes "conditionsOk cs" "(st, rs) \<in> set inProgressStates"
  shows "conditionsOk (putInProgress (inProgressCondition st rs msg t) cs)"
  using assms
proof (induction cs)
  case (Cons c cs)
  then show ?case by (cases "isInProgress c") (auto simp: conditionsOk_def filter_empty_conv)
qed (simp add: conditionsOk_def)

lemma setCondition_ok:
  "(st, rs) \<in> set inProgressStates \<Longrightarrow> conditionsOk cs \<Longrightarrow>
   conditionsOk (setCondition st rs msg (retrieveInProgressConditionForChange t cs))"
  by (simp add: setCondition_refines putInProgress_ok)

definition goodMutator :: "(nat \<Rightarrow> conditions \<Rightarrow> conditions) \<Rightarrow> bool" where
  "goodMutator f \<longleftrightarrow> (\<forall>t cs. conditionsOk cs \<longrightarrow> conditionsOk (f t cs))"

lemma goodMutators [simp]:
  "goodMutator setInProgressConditionToInstalling" "goodMutator setInProgressConditionToUninstalling"
  "goodMutator setInProgressConditionToUpdating" "goodMutator (setInProgressConditionToFailed n)"
  "goodMutator (setInProgressConditionToBlockedByExistingKataPods m)" "goodMutator resetInProgressCondition"
  "goodMutator setInProgressConditionToPodVMImageCreating" "goodMutator setInProgressConditionToPodVMImageCreated"
  "goodMutator setInProgressConditionToPodVMImageCreationFailed"
  "goodMutator setInProgressConditionToPodVMImageCreationUnknown"
  "goodMutator setInProgressConditionToPodVMImageDeleting" "goodMutator setInProgressConditionToPodVMImageDeleted"
  "goodMutator setInProgressConditionToPodVMImageDeletionFailed"
  "goodMutator setInProgressConditionToPodVMImageDeletionUnknown"
  "goodMutator setInProgressConditionToPodVMImageUnsupportedProvider"
  unfolding goodMutator_def setInProgressConditionToInstalling_def setInProgressConditionToUninstalling_def
    setInProgressConditionToUpdating_def setInProgressConditionToFailed_def
    setInProgressConditionToBlockedByExistingKataPods_def resetInProgressCondition_def
    setInProgressConditionToPodVMImageCreating_def setInProgressConditionToPodVMImageCreated_def
    setInProgressConditionToPodVMImageCreationFailed_def setInProgressConditionToPodVMImageCreationUnknown_def
    setInProgressConditionToPodVMImageDeleting_def setInProgressConditionToPodVMImageDeleted_def
    setInProgressConditionToPodVMImageDeletionFailed_def setInProgressConditionToPodVMImageDeletionUnknown_def
    setInProgressConditionToPodVMImageUnsupportedProvider_def
  by (simp_all add: setCondition_ok inProgressStates_def)

lemma nodesOk_Conditions [simp]: "nodesOk (Conditions_update g st) = nodesOk st"
  by (simp add: nodesOk_def statusLists_def)

lemma keeps_mutateCondition [keeps_intros]: "goodMutator f \<Longrightarrow> keeps sound (mutateCondition E f)"
  unfolding mutateCondition_def
  by (rule keeps_onStatus) (simp add: statusOk_def goodMutator_def)

lemma keeps_setWaiting [keeps_intros]: "keeps sound (setWaitingForMcoToStart b)"
  unfolding setWaitingForMcoToStart_def
  by (rule keeps_onStatus) (simp add: statusOk_def nodesOk_def statusLists_def)

lemma addRuntimeClass_ok:
  "statusOk st \<Longrightarrow> name \<in> set operatorRuntimeClasses \<Longrightarrow> statusOk (addRuntimeClass name st)"
  by (auto simp: statusOk_def classesOk_def addRuntimeClass_def nodesOk_def statusLists_def)

lemma keeps_createRuntimeClass [keeps_intros]:
  assumes "rcName q \<in> set operatorRuntimeClasses"
  shows "keeps sound (createRuntimeClass E q)"
  unfolding createRuntimeClass_def Let_def
  by (intro keeps_intros keeps_onStatus addRuntimeClass_ok assms;
      (assumption | (rule keeps_quiet; (intro preserves_intros emits_intros; auto intro: quiet_readOnly quiet_writesOnly))))

lemma keeps_deleteRuntimeClass [keeps_intros]: "keeps sound (deleteRuntimeClass E name)"
  unfolding deleteRuntimeClass_def
  by (intro keeps_intros keeps_onStatus;
      ((rule keeps_quiet; (intro preserves_intros emits_intros; auto intro: quiet_readOnly quiet_writesOnly; fail)) |
       (auto simp: statusOk_def classesOk_def nodesOk_def statusLists_def dest: notin_set_remove1 set_remove1_subset[THEN subsetD])))

section \<open>Reading and writing the KataConfig\<close>

lemma keeps_writeKataConfig:
  assumes "serverLaw E" and "\<And>kc r. statusOk (Status kc) \<Longrightarrow> reported (Ev (mk kc) r)"
  shows "keeps sound (writeKataConfig E mk)"
proof (rule keeps_wp)
  fix s assume s: "sound s"
  have rep: "list_all reported (trace s @ [Ev (mk (kataConfig s)) r])" for r
    using s assms(2) by (simp add: sound_def)
  then show "wp (writeKataConfig E mk) (\<lambda>_. sound) s"
    using s server_written[OF assms(1) rep[of None]]
    unfolding writeKataConfig_def by (auto simp: wp_simps sound_def split: option.split)
qed

lemma keeps_writes [keeps_intros]:
  assumes "serverLaw E"
  shows "keeps sound (updateKataConfig E)" "keeps sound (statusUpdateKataConfig E)"
    "keeps sound (addFinalizer E)" "keeps sound (removeFinalizer E)" "keeps sound (ensureFinalizer E)"
proof -
  show w: "keeps sound (updateKataConfig E)" "keeps sound (statusUpdateKataConfig E)"
    by (rule keeps_writeKataConfig[OF assms], simp add: reported_def)+
  have meta: "keeps sound (modify (kataConfig_update (kcMeta_update g)))" for g
    by (rule keeps_modify) (simp add: sound_def)
  show "keeps sound (addFinalizer E)" "keeps sound (removeFinalizer E)" "keeps sound (ensureFinalizer E)"
    unfolding ensureFinalizer_def addFinalizer_def removeFinalizer_def by (intro keeps_intros w meta)+
qed

section \<open>Status lists\<close>

lemma distinct_lists:
  assumes "\<And>l. distinct (nodesOn l st)" "\<And>l k. l = k \<or> set (nodesOn l st) \<inter> set (nodesOn k st) = {}"
  shows "distinct (concat (map (\<lambda>l. nodesOn l st) statusLists))"
proof -
  have "distinct (concat (map (\<lambda>l. nodesOn l st) ls))" if "distinct ls" for ls
    using that
  proof (induction ls)
    case (Cons l ls)
    have "set (nodesOn l st) \<inter> set (nodesOn k st) = {}" if "k \<in> set ls" for k
      using assms(2)[of l k] that Cons.prems by auto
    then show ?case using Cons assms(1) by (simp add: disjoint_iff)
  qed simp
  moreover have "distinct statusLists" by (simp add: statusLists_def)
  ultimately show ?thesis by blast
qed

lemma placeNode_rest:
  "conditionsOk (Conditions st) \<Longrightarrow> conditionsOk (Conditions (placeNode t ob st))"
  "RuntimeClasses (placeNode t ob st) = RuntimeClasses st"
  using goodMutators(4) by (auto simp: placeNode_def Let_def goodMutator_def)

lemma placeAll_rest:
  "conditionsOk (Conditions st) \<Longrightarrow> conditionsOk (Conditions (placeAll obs st))"
  "RuntimeClasses (placeAll obs st) = RuntimeClasses st"
  by (induction obs arbitrary: st) (auto simp: placeNode_rest)

lemma getNodes_distinct:
  "uniqueNodeNames E \<Longrightarrow> result (getNodes E) s = Inr ws \<Longrightarrow> distinct (map (\<lambda>n. Name (nodeMeta n)) ws)"
  by (auto simp: uniqueNodeNames_def getNodes_def run_simps split: sum.splits)

lemma placed_ok:
  assumes "statusOk st" and "placementRun ws None r obs" and "distinct (map (\<lambda>n. Name (nodeMeta n)) ws)"
  shows "statusOk (setReadyNodeCount (placeAll obs (setNodeCount c (clearNodeStatusLists st))))" (is "statusOk ?st")
proof -
  have rest: "Conditions (setNodeCount c (clearNodeStatusLists st)) = Conditions st"
    "RuntimeClasses (setNodeCount c (clearNodeStatusLists st)) = RuntimeClasses st"
    "Conditions ?st = Conditions (placeAll obs (setNodeCount c (clearNodeStatusLists st)))"
    "RuntimeClasses ?st = RuntimeClasses (placeAll obs (setNodeCount c (clearNodeStatusLists st)))"
    by (simp_all add: setNodeCount_def clearNodeStatusLists_def setReadyNodeCount_def)
  have names: "distinct (map (\<lambda>(t, ob). Name (nodeMeta (obsNode ob))) obs)"
    using assms(2,3) by (intro obs_distinct) (simp_all add: placementRun_def)
  have "distinct (nodesOn l ?st)" for l
    unfolding placed_lists(1)[OF assms(2,3)] by (rule distinct_map_filter[OF names])
  then have "nodesOk ?st"
    unfolding nodesOk_def using placed_lists(2)[OF assms(2,3)]
    by (intro conjI distinct_lists ready_setReadyNodeCount) auto
  then show ?thesis
    using assms(1) placeAll_rest[where obs = obs and st = "setNodeCount c (clearNodeStatusLists st)"]
    by (simp add: statusOk_def rest)
qed

lemma keeps_updateStatus [keeps_intros]:
  assumes "serverLaw E"
  shows "keeps sound (updateStatus E)"
proof (rule keeps_wp)
  fix s assume s: "sound s"
  have "list_all reported (newEvents (updateStatus E) s)"
    using emits_newEvents(2)[OF emits_updateStatus, of E s]
    by (rule list.pred_mono_strong) (rule quiet_reported[OF quiet_readOnly])
  then have tr: "list_all reported (trace (exec (updateStatus E) s))"
    using s by (simp add: sound_def emits_newEvents(1)[OF emits_updateStatus])
  have "statusOk (Status (kataConfig (exec (updateStatus E) s)))"
  proof (cases "result (getNodes E) s")
    case (Inl e)
    then have "kataConfig (exec (updateStatus E) s) = kataConfig s"
      using preservesD[OF preserves_getNodes[of kataConfig E], of s]
      by (simp add: updateStatus_def run_onInl run_simps)
    then show ?thesis using s by (simp add: sound_def)
  next
    case (Inr ws)
    then have "distinct (map (\<lambda>n. Name (nodeMeta n)) ws)"
      using assms getNodes_distinct by (auto simp: serverLaw_def)
    then show ?thesis
      using updateStatus_placed[OF Inr] placed_ok s by (auto simp: wp_def sound_def)
  qed
  with tr show "wp (updateStatus E) (\<lambda>_. sound) s" by (simp add: wp_def sound_def)
qed

lemma poolNodes_distinct:
  "uniqueNodeNames E \<Longrightarrow> result (poolNodes E) s = Inr ns \<Longrightarrow> distinct (map (\<lambda>n. Name (nodeMeta n)) ns)"
  by (auto simp: uniqueNodeNames_def poolNodes_def getNodesWithLabels_def run_simps split: sum.splits)

lemma putNodeDaemonSet_rest:
  "Conditions (fold (putNodeDaemonSet a) ns st) = Conditions st"
  "RuntimeClasses (fold (putNodeDaemonSet a) ns st) = RuntimeClasses st"
proof -
  have "Conditions (putNodeDaemonSet a n st) = Conditions st \<and> RuntimeClasses (putNodeDaemonSet a n st) = RuntimeClasses st"
    for n st by (cases a) (simp_all add: putNodeDaemonSet_def putNodeOnStatusListDaemonSetInstall_def
      putNodeOnStatusListDaemonSetUninstall_def)
  then show "Conditions (fold (putNodeDaemonSet a) ns st) = Conditions st"
    "RuntimeClasses (fold (putNodeDaemonSet a) ns st) = RuntimeClasses st"
    by (induction ns arbitrary: st) simp_all
qed

lemma labelled_ok:
  assumes "statusOk st" and "distinct (map (\<lambda>n. Name (nodeMeta n)) nodes)"
  shows "statusOk (setReadyNodeCount (sortStatusLists (fold (putNodeDaemonSet a) nodes
    (setNodeCount (int (length nodes)) (clearNodeStatusLists st)))))" (is "statusOk ?st")
proof -
  have rest: "Conditions ?st = Conditions st" "RuntimeClasses ?st = RuntimeClasses st"
    by (simp_all add: setReadyNodeCount_def sortStatusLists_def putNodeDaemonSet_rest setNodeCount_def
        clearNodeStatusLists_def)
  have lists: "nodesOn l ?st = sort (map (\<lambda>n. Name (nodeMeta n)) (filter (\<lambda>n. dsSlot a (kataState n) = Some l) nodes))"
    for l using statusFromLabels_computed[of a nodes st] by (simp only: statusFromLabels_def)
  have "inj_on (\<lambda>n. Name (nodeMeta n)) (set nodes)" using assms(2) by (simp add: distinct_map)
  then have "l = k \<or> set (nodesOn l ?st) \<inter> set (nodesOn k ?st) = {}" for l k
    unfolding lists by (auto dest!: inj_onD)
  moreover have "distinct (nodesOn l ?st)" for l
    unfolding lists distinct_sort by (rule distinct_map_filter[OF assms(2)])
  ultimately have "nodesOk ?st"
    unfolding nodesOk_def by (intro conjI distinct_lists ready_setReadyNodeCount)
  then show ?thesis using assms(1) by (simp add: statusOk_def rest)
qed

lemma keeps_updateStatusDaemonSet [keeps_intros]:
  assumes "serverLaw E"
  shows "keeps sound (updateStatusDaemonSet E a)"
proof (rule keeps_wp)
  fix s assume s: "sound s"
  have same: "kataConfig (exec (poolNodes E) s) = kataConfig s"
    unfolding poolNodes_def getNodesWithLabels_def by (rule preservesD) (intro preserves_intros; simp)
  have reads: "emits readOnly (updateStatusDaemonSet E a)" by (intro emits_intros) simp
  have "list_all reported (newEvents (updateStatusDaemonSet E a) s)"
    using emits_newEvents(2)[OF reads]
    by (rule list.pred_mono_strong) (rule quiet_reported[OF quiet_readOnly])
  then have tr: "list_all reported (trace (exec (updateStatusDaemonSet E a) s))"
    using s by (simp add: sound_def emits_newEvents(1)[OF reads])
  have "statusOk (Status (kataConfig (exec (updateStatusDaemonSet E a) s)))"
    using s labelled_ok[of "Status (kataConfig s)"] assms poolNodes_distinct[of E s]
    by (auto simp: updateStatusDaemonSet_def run_simps same sound_def serverLaw_def split: sum.split)
  with tr show "wp (updateStatusDaemonSet E a) (\<lambda>_. sound) s" by (simp add: wp_def sound_def)
qed

section \<open>Features and peer pods\<close>

lemma operator_classes [simp]:
  "kataRuntimeClassName \<in> set operatorRuntimeClasses" "kataNvidiaGPURuntimeClassName \<in> set operatorRuntimeClasses"
  "peerpodsRuntimeClassName \<in> set operatorRuntimeClasses" "kataCCRuntimeClassName \<in> set operatorRuntimeClasses"
  "kataNvidiaGPUCCRuntimeClassName \<in> set operatorRuntimeClasses"
  by (simp_all add: operatorRuntimeClasses_def)

lemma keeps_confidential [keeps_intros]:
  "keeps sound (handleConfidentialPeerPods E state)" "keeps sound (handleConfidentialBaremetal E state)"
  "keeps sound (handleFeatureConfidential E state)"
proof -
  have tee: "keeps sound (computeTEE E)"
    by (rule keeps_quiet) (intro preserves_intros emits_intros; auto intro: quiet_readOnly)+
  show pp: "keeps sound (handleConfidentialPeerPods E state)" for state
    by (rule keeps_quiet; (unfold handleConfidentialPeerPods_def InitializeImageGenerator_def)?;
        intro preserves_intros emits_intros; auto intro: quiet_readOnly quiet_writesOnly)
  show bm: "keeps sound (handleConfidentialBaremetal E state)" for state
    unfolding handleConfidentialBaremetal_def
    by (intro keeps_intros tee; simp add: kataCCRequest_def kataCCGPURequest_def)
  show "keeps sound (handleFeatureConfidential E state)"
    unfolding handleFeatureConfidential_def by (intro keeps_intros pp bm)
qed

lemma keeps_processFeatureGates [keeps_intros]: "keeps sound (processFeatureGates E)"
proof -
  have q: "keeps sound (NewFeatureGateStatus E)" "keeps sound (handleDeploymentModeFeature E opt)"
    "keeps sound (handleLayeredImageDeploymentFeature E state)" for opt state
    by (rule keeps_quiet; intro preserves_intros emits_intros; auto intro: quiet_readOnly)+
  show ?thesis unfolding processFeatureGates_def processModeAndImage_def by (intro keeps_intros q)
qed

lemma keeps_peerPodsMisc [keeps_intros]:
  "keeps sound (enablePeerPodsMiscConfigs E)" "keeps sound (disablePeerPodsMiscConfigs E)"
proof -
  have q: "keeps sound (getConfigMapVersion E n ns)"
    "keeps sound (createOrUpdateM E (GetReq KDaemonSet (peerPodsNamespace E) caaDsName)
       (\<lambda>h. mutableDaemonSet (apiOf E) h (peerPodsNamespace E) caaDsName) ODaemonSet (mutateCAA E v))"
    "keeps sound (createPeerPodsWebhookNetworkPolicies E)" "keeps sound (createMutatingWebhookDeployment E)"
    "keeps sound (createMutatingWebhookService E)" "keeps sound (createMutatingWebhookConfig E)"
    "keeps sound (deleteIgnoringAbsent E KDaemonSet m k)" "keeps sound (deleteMutatingWebhookDeployment E)"
    "keeps sound (deleteMutatingWebhookService E)" "keeps sound (deleteMutatingWebhookConfig E)"
    "keeps sound (deletePeerPodsWebhookNetworkPolicies E)" "keeps sound (deletePodVMImageCreationNetworkPolicies E)"
    "keeps sound (deletePodVMImageDeletionNetworkPolicies E)" for n ns v m k
    by (rule keeps_quiet; (unfold deleteIgnoringAbsent_def)?; intro preserves_intros emits_intros emits_createOrUpdateM;
        auto intro: quiet_readOnly quiet_writesOnly dest!: npWrite_only)+
  show "keeps sound (enablePeerPodsMiscConfigs E)" unfolding enablePeerPodsMiscConfigs_def
    by (intro keeps_intros q; simp add: peerpodsRuntimeClass_def)
  show "keeps sound (disablePeerPodsMiscConfigs E)" unfolding disablePeerPodsMiscConfigs_def
    by (intro keeps_intros q)
qed

lemma keeps_peerPods [keeps_intros]:
  "keeps sound (createPodVMImage E)" "keeps sound (deletePodVMImage E)"
  "keeps sound (enablePeerPods E)" "keeps sound (disablePeerPods E)"
proof -
  have ops: "keeps sound (ImageCreate E kc)" "keeps sound (ImageDelete E kc)" "keeps sound (createAuthJsonSecret E)"
    "keeps sound (createPodVMImageCreationNetworkPolicies E)"
    "keeps sound (createPodVMImageDeletionNetworkPolicies E)" for kc
    by (rule keeps_quiet; intro preserves_intros emits_intros;
        auto intro: quiet_readOnly quiet_writesOnly dest!: npWrite_only)+
  show vm: "keeps sound (createPodVMImage E)" "keeps sound (deletePodVMImage E)"
    unfolding createPodVMImage_def deletePodVMImage_def by (intro keeps_intros ops; simp)+
  show "keeps sound (enablePeerPods E)" "keeps sound (disablePeerPods E)"
    unfolding enablePeerPods_def disablePeerPods_def by (intro keeps_intros ops vm; simp)+
qed

section \<open>Installation and removal\<close>

lemma keeps_shared [keeps_intros]:
  "keeps sound (createScc E)" "keeps sound (deleteScc E)" "keeps sound (createDaemonsetForMonitor E)"
  "keeps sound (deleteDaemonsetForMonitor E)" "keeps sound (isMcpUpdating E pool)" "keeps sound (getMcpName E)"
  "keeps sound (checkConvergedCluster E)" "keeps sound (getKataConfigNodeSelectorAsSelector E)"
  "keeps sound (updateNodeLabels E)" "keeps sound (deleteNodeFeatureRule E)" "keeps sound (removeLogLevel E)"
  "keeps sound (processLogLevel E level)" "keeps sound (listKataPods E)" "keeps sound (checkEligibility E)"
  unfolding checkEligibility_def
  by (rule keeps_quiet; intro preserves_intros emits_intros;
      auto intro: quiet_readOnly quiet_writesOnly dest!: npWrite_only)+

lemma keeps_checkDeletionEligibility [keeps_intros]:
  "serverLaw E \<Longrightarrow> keeps sound (checkDeletionEligibility E)"
  unfolding checkDeletionEligibility_def by (intro keeps_intros; simp)

lemma keeps_postKataInstallation [keeps_intros]: "keeps sound (postKataInstallation E)"
  unfolding postKataInstallation_def
  by (intro keeps_intros; simp add: kataRuntimeClass_def kataNvidiaGPURuntimeClass_def)

lemma keeps_mcoInstall [keeps_intros]:
  assumes "serverLaw E"
  shows "keeps sound (processKataConfigInstallRequest E)"
proof -
  have q: "keeps sound (reconcileMixedCluster E)" "keeps sound (ensurePool E pool)"
    "keeps sound (getCustomKernelConfig E)" "keeps sound (createMc E pool ck)" for pool ck
    unfolding reconcileMixedCluster_def ensurePool_def
    by (rule keeps_quiet; intro preserves_intros emits_intros; auto intro: quiet_readOnly quiet_writesOnly)+
  have "keeps sound (installPhase E pool)" for pool
    unfolding installPhase_def finishInstall_def by (intro keeps_intros assms; simp)
  then show ?thesis
    unfolding processKataConfigInstallRequest_def preparePool_def
    by (intro keeps_intros assms q; simp)
qed

lemma preserves_unlabelling [preserves_intros]:
  assumes "\<And>s t. f (s\<lparr>trace := t\<rparr>) = f s"
  shows "preserves f (unlabelNodesLoop E ns ch)" "preserves f (unlabelNodesDaemonSetLoop E ns)"
  by (induction ns arbitrary: ch; auto intro!: preserves_intros assms)+

lemma preserves_ds_queries [preserves_intros]:
  assumes "\<And>s t. f (s\<lparr>trace := t\<rparr>) = f s"
  shows "preserves f (poolNodes E)" "preserves f (kataInstallationDaemonSetAllNodeInState E v)"
    "preserves f (getAddonEnvVars E)"
  unfolding poolNodes_def kataInstallationDaemonSetAllNodeInState_def isKataNodePoolInState_def getAddonEnvVars_def
  by (intro preserves_intros assms)+

lemma keeps_mcoRemoval [keeps_intros]:
  assumes "serverLaw E"
  shows "keeps sound (processKataConfigDeleteRequest E)"
proof -
  have q: "keeps sound (deleteKataOcPool E)" "keeps sound (unlabelNodes E sel)" "keeps sound (newMCForCR E pool ck)"
    "keeps sound (removeMc E mc)" for sel pool ck mc
    unfolding deleteKataOcPool_def unlabelNodes_def removeMc_def setImgMc_def
    by (rule keeps_quiet; intro preserves_intros emits_intros emits_mono[OF emits_labelling_loops(2)];
        auto intro: quiet_readOnly quiet_writesOnly)+
  have "keeps sound (removalPhase E pool)" for pool
    unfolding removalPhase_def uninstallPhase_def cleanupPhase_def removePeerPods_def
    by (intro keeps_intros assms q; simp)
  then show ?thesis unfolding processKataConfigDeleteRequest_def by (intro keeps_intros assms)
qed

lemma keeps_ds_steps:
  "keeps sound (labelKataNodes E v)" "keeps sound (daemonSetForKataInstall E a)"
  "keeps sound (deleteInstallDaemonSet E)" "keeps sound (startUninstall E)"
  "keeps sound (createKataInstallNetworkPolicies E)"
  "keeps sound (deleteKataUninstallNetworkPolicies E)" "keeps sound (deleteKataInstallScc E)"
  "keeps sound (unlabelNodesDaemonSet E sel)" "keeps sound (isKataUninstallDaemonSetUninstalling E)"
  "keeps sound (isKataInstallDaemonSetInstalling E)" "keeps sound (ensureKataInstallSCC E)"
  "keeps sound (createAuthJsonSecret E)"
  by (rule keeps_quiet; (unfold labelKataNodes_def daemonSetForKataInstall_def deleteInstallDaemonSet_def startUninstall_def
        deleteKataInstallScc_def deleteIgnoringAbsent_def unlabelNodesDaemonSet_def
        isKataUninstallDaemonSetUninstalling_def isKataInstallDaemonSetInstalling_def ensureKataInstallSCC_def)?;
      intro preserves_intros emits_intros emits_mono[OF emits_unlabelLoop] emits_createOrUpdate preserves_createOrUpdate;
      auto intro: quiet_readOnly quiet_writesOnly dest!: npWrite_only)+

lemma keeps_dsRemoval [keeps_intros]:
  assumes "serverLaw E"
  shows "keeps sound (processKataConfigDeleteRequestDaemonSet E)"
  unfolding processKataConfigDeleteRequestDaemonSet_def uninstallDaemonSetPhase_def cleanupDaemonSet_def
    removePeerPodsDaemonSet_def
  by (intro keeps_intros keeps_ds_steps assms; simp)

lemma keeps_dsInstall [keeps_intros]:
  assumes "serverLaw E"
  shows "keeps sound (processKataConfigInstallRequestDaemonSet E)"
proof -
  have get: "keeps sound (getDS E ns n)" "keeps sound (writeOp E (CreateReq (ODaemonSet ds)))"
    "keeps sound (writeOp E (UpdateReq (ODaemonSet ds)))" for ns n ds
    by (rule keeps_quiet; intro preserves_intros emits_intros; simp add: quiet_def readOnly_def)+
  have "keeps sound (applyInstallDaemonSet E)" unfolding applyInstallDaemonSet_def
    by (intro keeps_intros keeps_ds_steps get; simp)
  moreover have "keeps sound (finishInstallDaemonSet E)" unfolding finishInstallDaemonSet_def
    by (intro keeps_intros keeps_ds_steps assms; simp)
  ultimately show ?thesis unfolding processKataConfigInstallRequestDaemonSet_def
    by (intro keeps_intros keeps_ds_steps assms)
qed

section \<open>A whole reconciliation\<close>

lemma statusOk_zero: "statusOk (Status zeroKataConfig)"
  by (simp add: statusOk_def conditionsOk_def classesOk_def nodesOk_def statusLists_def zeroKataConfig_def)

lemma keeps_prepareReconcile:
  assumes "serverLaw E"
  shows "keeps sound (prepareReconcile E name)"
proof -
  have q: "keeps sound (migratePeerPodsLimit E)" "keeps sound (ensureRuntimeClassFinalizers E)"
    by (rule keeps_quiet; intro preserves_intros emits_intros; auto intro: quiet_readOnly quiet_writesOnly)+
  define R where "R kc = onErr (migratePeerPodsLimit E) (\<lambda>e. return (Inl (emptyResult, Some e)))
          (onErr (ensureRuntimeClassFinalizers E) (\<lambda>e. return (Inl (emptyResult, Some e)))
          (onErr (processFeatureGates E) (\<lambda>e. return (Inl (emptyResult, Some e)))
          (onInl (getKataConfigNodeSelectorAsSelector E) (\<lambda>_. return (Inl (emptyResult, None)))
            (\<lambda>_. return (Inr (Status kc))))))" for kc :: kataconfig
  have rest: "keeps sound (R kc)" for kc unfolding R_def by (intro keeps_intros q)
  show ?thesis unfolding prepareReconcile_def R_def[symmetric]
  proof (rule keeps_wp)
    fix s assume s: "sound s"
    have kc: "statusOk (Status kc)" if "getKataConfig (apiOf E) (trace s) name = Inr kc" for kc
      using s assms server_read that by (auto simp: sound_def)
    have R: "wp (R kc) (\<lambda>_. sound) s1" if "statusOk (Status (kataConfig s1))" "list_all reported (trace s1)" for kc s1
      using keepsD[OF rest] that by (simp add: wp_def sound_def)
    show "wp (do { _ \<leftarrow> modify (kataConfig_update (\<lambda>_. zeroKataConfig));
        onInl (readOp (GetReq KKataConfig [] name) (\<lambda>h. getKataConfig (apiOf E) h name))
          (\<lambda>err. return (Inl (emptyResult, if IsNotFound err then None else Some err)))
          (\<lambda>kc. modify (kataConfig_update (\<lambda>_. kc)) \<bind> (\<lambda>_. R kc)) }) (\<lambda>_. sound) s"
      using s kc statusOk_zero
      by (auto simp: wp_simps sound_def reported_def intro!: R split: sum.split)
  qed
qed

lemma keeps_Reconcile:
  assumes "serverLaw E"
  shows "keeps sound (Reconcile E name)"
proof -
  have q: "keeps sound (processDashboardConfigMap E)" "keeps sound (ensureDashboard E cm res)" for cm res
    unfolding ensureDashboard_def
    by (rule keeps_quiet; intro preserves_intros emits_intros; auto intro: quiet_readOnly quiet_writesOnly)+
  have "keeps sound (reconcileInstall E old)" for old
    unfolding reconcileInstall_def installRequest_def finishReconcile_def by (intro keeps_intros assms q)
  moreover have "keeps sound (reconcileDelete E)"
    unfolding reconcileDelete_def deleteRequest_def by (intro keeps_intros assms)
  ultimately show ?thesis
    unfolding Reconcile_def reconcileBody_def by (intro keeps_intros keeps_prepareReconcile assms)
qed

end
