(* ===== verification/Event_Handlers.thy ===== *)
theory Event_Handlers
  imports Reconcile_Loop
begin

text \<open>
  The watches of the KataConfig controller (\<^verbatim>\<open>controllers/openshift_controller.go\<close>,
  \<^verbatim>\<open>cm_event_handler.go\<close>, \<^verbatim>\<open>secret_event_handler.go\<close>): which events of machine config
  pools, nodes, ConfigMaps and Secrets put a reconcile request on the work queue. A handler returns the names
  it adds to the queue. The reconciler's \<open>kataConfig\<close> pointer is nil until the first reconciliation: the
  argument \<open>known\<close> says that it is set. The changes of a pool are also logged (\<open>logMcpChange\<close>), as is the
  difference of a node's labels.
\<close>

section \<open>Handlers\<close>

datatype 'o watchEvent = Created 'o | Updated 'o 'o | Deleted 'o | Generic 'o

definition makeReconcileRequest :: "(rstate, string list) state" where
  "makeReconcileRequest = gets (\<lambda>s. [Name (kcMeta (kataConfig s))])"

definition isMcpRelevant :: "mcp \<Rightarrow> bool" where
  "isMcpRelevant m \<longleftrightarrow> Name (mcpMeta m) \<in> {''kata-oc'', ''worker'', ''master''}"

definition missingMcpStatusConditionStr :: string where
  "missingMcpStatusConditionStr = ''<missing>''"

definition mcpCondText :: "env \<Rightarrow> mcpStatus \<Rightarrow> string \<Rightarrow> string" where
  "mcpCondText E st t = (case getMcpCondition (libOf E) st t of
     None \<Rightarrow> missingMcpStatusConditionStr | Some c \<Rightarrow> mcpCondStatus c)"

definition mcpRelevantChange :: "env \<Rightarrow> mcpStatus \<Rightarrow> mcpStatus \<Rightarrow> bool" where
  "mcpRelevantChange E statusOld statusNew \<longleftrightarrow> statusOld \<noteq> statusNew \<and>
     (MachineCount statusOld \<noteq> MachineCount statusNew \<or>
      ReadyMachineCount statusOld \<noteq> ReadyMachineCount statusNew \<or>
      UpdatedMachineCount statusOld \<noteq> UpdatedMachineCount statusNew \<or>
      DegradedMachineCount statusOld \<noteq> DegradedMachineCount statusNew \<or>
      (mcpConditions statusOld \<noteq> mcpConditions statusNew \<and>
       list_ex (\<lambda>t. mcpCondText E statusOld t \<noteq> mcpCondText E statusNew t) [''Updating'', ''Updated'']))"

fun McpEventHandler :: "env \<Rightarrow> bool \<Rightarrow> mcp watchEvent \<Rightarrow> (rstate, string list) state" where
  "McpEventHandler E known (Updated mcpOld mcpNew) =
     (if \<not> isMcpRelevant mcpNew then return []
      else if known \<and> mcpRelevantChange E (mcpStatusOf mcpOld) (mcpStatusOf mcpNew) then makeReconcileRequest
      else return [])"
| "McpEventHandler E known (Created m) = return []"
| "McpEventHandler E known (Deleted m) = return []"
| "McpEventHandler E known (Generic m) = return []"

definition nodeMatchesKataSelector :: "env \<Rightarrow> labels \<Rightarrow> (rstate, bool) state" where
  "nodeMatchesKataSelector E ls =
     onInl (getKataConfigNodeSelectorAsSelector E) (\<lambda>_. return False) (\<lambda>nodeSelector. return (nodeSelector ls))"

definition isWorkerNode :: "node \<Rightarrow> bool" where
  "isWorkerNode n \<longleftrightarrow> Labels (nodeMeta n) ''node-role.kubernetes.io/worker'' \<noteq> None"

text \<open>\<open>getStringMapDiff\<close>: a nil map is \<open>None\<close>.\<close>

definition getStringMapDiff :: "labels option \<Rightarrow> labels option \<Rightarrow> labels option \<times> labels option \<times> labels option" where
  "getStringMapDiff oldMap newMap = (case oldMap of
     None \<Rightarrow> (newMap, Some Map.empty, Some Map.empty)
   | Some old \<Rightarrow> (case newMap of
       None \<Rightarrow> (Some Map.empty, Some Map.empty, Some old)
     | Some new \<Rightarrow>
        (Some (\<lambda>k. if old k = None then new k else None),
         Some (\<lambda>k. if old k \<noteq> None \<and> new k \<noteq> None \<and> atKey old k \<noteq> atKey new k then new k else None),
         Some (\<lambda>k. if new k = None then old k else None))))"

definition machineState :: "node \<Rightarrow> string" where
  "machineState n = atKey (Annotations (nodeMeta n)) ''machineconfiguration.openshift.io/state''"

definition nodeUpdated :: "env \<Rightarrow> node \<Rightarrow> node \<Rightarrow> (rstate, string list) state" where
  "nodeUpdated E nodeOld nodeNew = do {
     mode \<leftarrow> gets DeploymentMode;
     let stateChanged = (if mode = DaemonSetMode then kataState nodeOld \<noteq> kataState nodeNew
                         else machineState nodeOld \<noteq> machineState nodeNew);
     matchChanged \<leftarrow> (if nodeLabels nodeOld \<noteq> nodeLabels nodeNew
       then do {
         matchOld \<leftarrow> nodeMatchesKataSelector E (nodeLabels nodeOld);
         matchNew \<leftarrow> nodeMatchesKataSelector E (nodeLabels nodeNew);
         return (matchOld \<noteq> matchNew)
       } else return False);
     if stateChanged \<or> matchChanged then makeReconcileRequest else return []
   }"

fun NodeEventHandler :: "env \<Rightarrow> bool \<Rightarrow> node watchEvent \<Rightarrow> (rstate, string list) state" where
  "NodeEventHandler E known (Created n) =
     (if \<not> isWorkerNode n \<or> \<not> known then return []
      else do {
        match \<leftarrow> nodeMatchesKataSelector E (nodeLabels n);
        if match then makeReconcileRequest else return []
      })"
| "NodeEventHandler E known (Updated nodeOld nodeNew) =
     (if \<not> isWorkerNode nodeNew \<or> \<not> known then return [] else nodeUpdated E nodeOld nodeNew)"
| "NodeEventHandler E known (Deleted n) = return []"
| "NodeEventHandler E known (Generic n) = return []"

definition relevantConfigMap :: "configMap \<Rightarrow> bool" where
  "relevantConfigMap cm \<longleftrightarrow> Namespace (cmMeta cm) = OperatorNamespace \<and> isConfigMapRelevant (Name (cmMeta cm))"

fun ConfigMapEventHandler :: "env \<Rightarrow> bool \<Rightarrow> configMap watchEvent \<Rightarrow> (rstate, string list) state" where
  "ConfigMapEventHandler E known (Created cm) =
     (if known \<and> relevantConfigMap cm then makeReconcileRequest else return [])"
| "ConfigMapEventHandler E known (Updated cmOld cm) =
     (if known \<and> relevantConfigMap cm \<and> cmData cmOld \<noteq> cmData cm then makeReconcileRequest else return [])"
| "ConfigMapEventHandler E known (Deleted cm) =
     (if known \<and> relevantConfigMap cm then makeReconcileRequest else return [])"
| "ConfigMapEventHandler E known (Generic cm) = return []"

definition monitorCertSecretName :: string where
  "monitorCertSecretName = ''kata-monitor-certs''"

definition relevantSecret :: "secret \<Rightarrow> bool" where
  "relevantSecret sec \<longleftrightarrow> Namespace (secMeta sec) = OperatorNamespace \<and> Name (secMeta sec) = monitorCertSecretName"

fun SecretEventHandler :: "env \<Rightarrow> bool \<Rightarrow> secret watchEvent \<Rightarrow> (rstate, string list) state" where
  "SecretEventHandler E known (Created sec) =
     (if known \<and> relevantSecret sec then makeReconcileRequest else return [])"
| "SecretEventHandler E known (Updated secOld sec) =
     (if known \<and> relevantSecret sec \<and> ResourceVersion (secMeta secOld) \<noteq> ResourceVersion (secMeta sec)
      then makeReconcileRequest else return [])"
| "SecretEventHandler E known (Deleted sec) =
     (if known \<and> relevantSecret sec then makeReconcileRequest else return [])"
| "SecretEventHandler E known (Generic sec) = return []"

section \<open>The watches\<close>

text \<open>
  What \<open>SetupWithManager\<close> registers with the controller builder; \<open>complete\<close> is the builder's \<open>Complete\<close>.
\<close>

datatype registration = For rkind | Owns rkind | Watches rkind

definition SetupWithManager :: "(registration list \<Rightarrow> goerr option) \<Rightarrow> env \<Rightarrow> ('z, goerr option) op" where
  "SetupWithManager complete E =
     (let builder = [For KKataConfig, Owns KNetworkPolicy, Watches KNode, Watches KConfigMap, Watches KSecret,
                     Owns KConfigMap]
      in onInl (isMachineConfigPoolAvailable E) (\<lambda>err. return (Some err)) (\<lambda>mcpAvailable.
         return (complete (if mcpAvailable then builder @ [Watches KMachineConfigPool] else builder))))"

section \<open>The watch of the RuntimeClass controller\<close>

text \<open>Nothing is lost by the filter: reconciling a class whose update is filtered out does nothing.\<close>

lemma filtered_update_idle:
  assumes "getRuntimeClass (apiOf E) (trace s) name = Inr rc" and "\<not> rcUpdateRelevant E rc"
  shows "writesOf (reconcileRuntimeClass E name) s = [] \<and> result (reconcileRuntimeClass E name) s = (emptyResult, None)"
  using assms by (auto simp: reconcileRuntimeClass_def rcUpdateRelevant_def writesOf_def newEvents_def run_simps)

section \<open>What the handlers do\<close>

text \<open>
  What a watch promises the controller: its handler only reads from the cluster, leaves the reconciler as it
  is, and adds at most one request, for the reconciler's KataConfig, and none before there is one.
\<close>

lemma same_but_trace: "x\<lparr>trace := t\<rparr> = s\<lparr>trace := t\<rparr> \<Longrightarrow> trace x = t \<Longrightarrow> x = s\<lparr>trace := t\<rparr>" for s x :: rstate
  by (cases x, cases s) simp

locale event_source =
  fixes handler :: "env \<Rightarrow> bool \<Rightarrow> 'o watchEvent \<Rightarrow> (rstate, string list) state"
  assumes reads: "emits readOnly (handler E known ev)"
    and keeps: "preserves (\<lambda>s. s\<lparr>trace := []\<rparr>) (handler E known ev)"
    and adds: "result (handler E known ev) s \<in> {[], [Name (kcMeta (kataConfig s))]}"
    and silent: "result (handler E False ev) s = []"
begin

lemma settled:
  "list_all readOnly (newEvents (handler E known ev) s) \<and>
   exec (handler E known ev) s = s\<lparr>trace := trace s @ newEvents (handler E known ev) s\<rparr> \<and>
   result (handler E known ev) s = (if known \<and> result (handler E known ev) s \<noteq> [] then [Name (kcMeta (kataConfig s))] else [])"
proof (intro conjI)
  note tr = emits_newEvents[OF reads[of E known ev], of s]
  show "list_all readOnly (newEvents (handler E known ev) s)" by (rule tr)
  have "(exec (handler E known ev) s)\<lparr>trace := []\<rparr> = s\<lparr>trace := []\<rparr>" by (rule preservesD[OF keeps])
  then have "(exec (handler E known ev) s)\<lparr>trace := []\<rparr>\<lparr>trace := trace (exec (handler E known ev) s)\<rparr> =
      s\<lparr>trace := trace (exec (handler E known ev) s)\<rparr>" by simp
  then show "exec (handler E known ev) s = s\<lparr>trace := trace s @ newEvents (handler E known ev) s\<rparr>"
    using tr(1) by (simp add: same_but_trace)
  show "result (handler E known ev) s = (if known \<and> result (handler E known ev) s \<noteq> [] then [Name (kcMeta (kataConfig s))] else [])"
    using adds[of E known ev s] silent[of E ev s] by (cases known) auto
qed

end

abbreviation quietly :: "rstate \<Rightarrow> rstate" where
  "quietly s \<equiv> s\<lparr>trace := []\<rparr>"

lemma preserves_request: "preserves f makeReconcileRequest"
  unfolding makeReconcileRequest_def by (intro preserves_intros)

lemma preserves_match: "preserves quietly (nodeMatchesKataSelector E ls)"
  unfolding nodeMatchesKataSelector_def by (intro preserves_intros) simp_all

lemma preserves_kataConfig: "preserves quietly m \<Longrightarrow> preserves kataConfig m"
  using preserves_comp[of quietly m kataConfig] by simp

lemma emits_request: "emits readOnly makeReconcileRequest"
  unfolding makeReconcileRequest_def by (intro emits_intros)

lemma emits_match: "emits readOnly (nodeMatchesKataSelector E ls)"
  unfolding nodeMatchesKataSelector_def by (intro emits_intros) simp_all

lemma request_result: "result makeReconcileRequest s = [Name (kcMeta (kataConfig s))]"
  by (simp add: makeReconcileRequest_def run_gets_parts)

interpretation mcpEvents: event_source McpEventHandler
proof
  fix E known ev s
  show "emits readOnly (McpEventHandler E known ev)"
    by (cases ev) (auto intro: emits_intros emits_request)
  show "preserves quietly (McpEventHandler E known ev)"
    by (cases ev) (auto intro: preserves_intros preserves_request)
  show "result (McpEventHandler E known ev) s \<in> {[], [Name (kcMeta (kataConfig s))]}"
    "result (McpEventHandler E False ev) s = []"
    by (cases ev; simp add: request_result)+
qed

interpretation configMapEvents: event_source ConfigMapEventHandler
proof
  fix E known ev s
  show "emits readOnly (ConfigMapEventHandler E known ev)"
    by (cases ev) (auto intro: emits_intros emits_request)
  show "preserves quietly (ConfigMapEventHandler E known ev)"
    by (cases ev) (auto intro: preserves_intros preserves_request)
  show "result (ConfigMapEventHandler E known ev) s \<in> {[], [Name (kcMeta (kataConfig s))]}"
    "result (ConfigMapEventHandler E False ev) s = []"
    by (cases ev; simp add: request_result)+
qed

interpretation secretEvents: event_source SecretEventHandler
proof
  fix E known ev s
  show "emits readOnly (SecretEventHandler E known ev)"
    by (cases ev) (auto intro: emits_intros emits_request)
  show "preserves quietly (SecretEventHandler E known ev)"
    by (cases ev) (auto intro: preserves_intros preserves_request)
  show "result (SecretEventHandler E known ev) s \<in> {[], [Name (kcMeta (kataConfig s))]}"
    "result (SecretEventHandler E False ev) s = []"
    by (cases ev; simp add: request_result)+
qed

lemma match_keeps: "kataConfig (exec (nodeMatchesKataSelector E ls) s) = kataConfig s"
  by (rule preservesD[OF preserves_kataConfig[OF preserves_match]])

lemma nodeUpdated_result:
  "result (nodeUpdated E old new) s \<in> {[], [Name (kcMeta (kataConfig s))]}"
  "(if DeploymentMode s = DaemonSetMode then kataState old \<noteq> kataState new else machineState old \<noteq> machineState new) \<Longrightarrow>
   result (nodeUpdated E old new) s = [Name (kcMeta (kataConfig s))]"
  by (auto simp: nodeUpdated_def run_simps run_gets_parts request_result match_keeps)

interpretation nodeEvents: event_source NodeEventHandler
proof
  fix E known ev s
  show "emits readOnly (NodeEventHandler E known ev)"
    by (cases ev) (auto simp: nodeUpdated_def intro!: emits_intros emits_request emits_match)
  show "preserves quietly (NodeEventHandler E known ev)"
    by (cases ev) (auto simp: nodeUpdated_def intro!: preserves_intros preserves_request preserves_match)
  show "result (NodeEventHandler E known ev) s \<in> {[], [Name (kcMeta (kataConfig s))]}"
    "result (NodeEventHandler E False ev) s = []"
    using nodeUpdated_result(1)
    by (cases ev; simp add: run_simps run_gets_parts request_result match_keeps)+
qed

section \<open>Progress is noticed\<close>

text \<open>
  The two helpers the Machine Config Operator's library offers for a pool's conditions agree when no type occurs
  twice: \<open>IsMachineConfigPoolConditionTrue\<close> holds when the condition \<open>GetMachineConfigPoolCondition\<close> finds has
  status \<open>True\<close>.
\<close>

definition mcpConditionLaw :: "lib \<Rightarrow> mcpStatus \<Rightarrow> bool" where
  "mcpConditionLaw L st \<longleftrightarrow> isMcpConditionTrue L (mcpConditions st) ''Updating'' =
     (case getMcpCondition L st ''Updating'' of None \<Rightarrow> False | Some c \<Rightarrow> mcpCondStatus c = ''True'')"

lemma updating_text:
  "mcpConditionLaw (libOf E) st \<Longrightarrow>
   isMcpConditionTrue (libOf E) (mcpConditions st) ''Updating'' \<longleftrightarrow> mcpCondText E st ''Updating'' = ''True''"
  by (auto simp: mcpConditionLaw_def mcpCondText_def missingMcpStatusConditionStr_def split: option.splits)

lemma updating_change:
  assumes "mcpConditionLaw (libOf E) old" and "mcpConditionLaw (libOf E) new"
    and "isMcpConditionTrue (libOf E) (mcpConditions old) ''Updating'' \<noteq>
      isMcpConditionTrue (libOf E) (mcpConditions new) ''Updating''"
  shows "mcpRelevantChange E old new"
proof -
  have "mcpCondText E old ''Updating'' \<noteq> mcpCondText E new ''Updating''"
    using updating_text[OF assms(1)] updating_text[OF assms(2)] assms(3) by metis
  moreover have "mcpConditions old \<noteq> mcpConditions new" using assms(3) by metis
  ultimately show ?thesis by (auto simp: mcpRelevantChange_def)
qed

lemma isMcpUpdating_result:
  "getMachineConfigPool (apiOf E) (trace s) pool = Inr m \<Longrightarrow>
   result (isMcpUpdating E pool) s = isMcpConditionTrue (libOf E) (mcpConditions (mcpStatusOf m)) ''Updating''"
  by (simp add: isMcpUpdating_def run_simps run_gets_parts)


definition progressPool :: "string \<Rightarrow> mcp" where
  "progressPool updating = \<lparr>mcpMeta = mkMeta ''kata-oc'' [], mcpMachineConfigSelector = None, mcpNodeSelector = None,
     mcpConfigurationName = [],
     mcpStatusOf = \<lparr>MachineCount = 1, ReadyMachineCount = 0, UpdatedMachineCount = 0, DegradedMachineCount = 0,
       ObservedGeneration = 1, mcpConditions = [\<lparr>mcpCondType = ''Updating'', mcpCondStatus = updating\<rparr>]\<rparr>\<rparr>"

definition progressWorker :: "string \<Rightarrow> node" where
  "progressWorker st = \<lparr>nodeMeta = (mkMeta ''worker-0'' [])\<lparr>
     Labels := [''node-role.kubernetes.io/worker'' \<mapsto> [], kataInstallationDaemonSetLabel \<mapsto> st]\<rparr>\<rparr>"

text \<open>A pool that is updating until the operator has sent a request.\<close>

definition sampleProgress :: env where
  "sampleProgress = sampleEnv\<lparr>apiOf := sampleApi\<lparr>getMachineConfigPool :=
     (\<lambda>h n. Inr (progressPool (if h = [] then ''True'' else ''False'')))\<rparr>\<rparr>"

lemmas progress_defs = sampleProgress_def progressPool_def progressWorker_def sample_defs mkMeta_def mcpConditionLaw_def
  isMcpRelevant_def isWorkerNode_def kataInstallationDaemonSetLabel_def


text \<open>Applying a difference: keys are removed, then the added and the modified ones are set.\<close>

definition applyDiff :: "labels option \<times> labels option \<times> labels option \<Rightarrow> labels \<Rightarrow> labels" where
  "applyDiff d old = (case d of (added, modified, removed) \<Rightarrow>
     ((old |` (- dom (case removed of None \<Rightarrow> Map.empty | Some r \<Rightarrow> r)))
        ++ (case added of None \<Rightarrow> Map.empty | Some a \<Rightarrow> a)) ++ (case modified of None \<Rightarrow> Map.empty | Some m \<Rightarrow> m))"

abbreviation entries :: "labels option \<Rightarrow> labels" where
  "entries m \<equiv> (case m of None \<Rightarrow> Map.empty | Some l \<Rightarrow> l)"

text \<open>
  Round trip of the label difference. Applying the difference that \<open>getStringMapDiff\<close> computes between two maps,
  nil maps included, to the old one gives the new one; its three parts have no key in common; and the
  difference of a non-nil map to itself is empty.
\<close>

theorem label_diff_roundtrip:
  "applyDiff (getStringMapDiff oldMap newMap) (entries oldMap) = entries newMap \<and>
   (case getStringMapDiff oldMap newMap of (added, modified, removed) \<Rightarrow>
      dom (entries added) \<inter> dom (entries modified) = {} \<and> dom (entries added) \<inter> dom (entries removed) = {} \<and>
      dom (entries modified) \<inter> dom (entries removed) = {}) \<and>
   getStringMapDiff (Some m) (Some m) = (Some Map.empty, Some Map.empty, Some Map.empty)"
  by (cases oldMap; cases newMap)
    (auto simp: applyDiff_def getStringMapDiff_def atKey_def dom_def map_add_def restrict_map_def fun_eq_iff
      split: option.splits if_splits)

end
