(* ===== verification/Operator_Runs.thy ===== *)
theory Operator_Runs
  imports Status_Invariant Event_Handlers
begin

text \<open>
  The life of the KataConfig controller: reconciliations, events of the watched objects and restarts of the
  process, in any order. A configuration is the reconciler's state together with the flag that says whether its
  \<open>kataConfig\<close> pointer is set. The requests of all calls make up one trace, so a property of the trace of a
  reachable configuration covers the whole life of the operator.
\<close>

section \<open>Calls and configurations\<close>

text \<open>The reconciler that \<open>main\<close> creates (\<^verbatim>\<open>cmd/manager/main.go\<close>); the trace is what was sent before.\<close>

definition newReconciler :: "tlsProfileSpec \<Rightarrow> bool \<Rightarrow> history \<Rightarrow> rstate" where
  "newReconciler tlsProfileSpec honorTLSProfile h = \<lparr>trace = h, kataConfig = zeroKataConfig, ImgMc = None,
     DeploymentMode = MachineConfigMode, TLSProfileSpec = tlsProfileSpec, HonorTLSProfile = honorTLSProfile,
     ig = None, eventCache = Map.empty\<rparr>"

datatype operatorCall =
    CallReconcile string
  | McpEvent "mcp watchEvent"
  | NodeEvent "node watchEvent"
  | ConfigMapEvent "configMap watchEvent"
  | SecretEvent "secret watchEvent"
  | Restart tlsProfileSpec bool

type_synonym configuration = "bool \<times> rstate"

fun perform :: "env \<Rightarrow> operatorCall \<Rightarrow> configuration \<Rightarrow> configuration" where
  "perform E (CallReconcile name) (known, s) = (True, exec (Reconcile E name) s)"
| "perform E (McpEvent ev) (known, s) = (known, exec (McpEventHandler E known ev) s)"
| "perform E (NodeEvent ev) (known, s) = (known, exec (NodeEventHandler E known ev) s)"
| "perform E (ConfigMapEvent ev) (known, s) = (known, exec (ConfigMapEventHandler E known ev) s)"
| "perform E (SecretEvent ev) (known, s) = (known, exec (SecretEventHandler E known ev) s)"
| "perform E (Restart tlsProfileSpec honorTLSProfile) (known, s) =
     (False, newReconciler tlsProfileSpec honorTLSProfile (trace s))"

inductive reachable :: "env \<Rightarrow> configuration \<Rightarrow> bool" for E where
  start: "reachable E (False, newReconciler tlsProfileSpec honorTLSProfile [])"
| step: "reachable E c \<Longrightarrow> reachable E (perform E call c)"

text \<open>An invariant of the state holds in every reachable configuration when each kind of call keeps it.\<close>

lemma handlers_settled:
  assumes "reads = newEvents (handler E known ev) s" and "event_source handler"
  shows "exec (handler E known ev) s = s\<lparr>trace := trace s @ reads\<rparr>" and "list_all readOnly reads"
  using event_source.settled[OF assms(2), of E known ev s] assms(1) by blast+

lemma perform_event:
  obtains (Reconciled) name where "perform E call (known, s) = (True, exec (Reconcile E name) s)"
  | (Read) reads where "perform E call (known, s) = (known, s\<lparr>trace := trace s @ reads\<rparr>)" "list_all readOnly reads"
  | (Restarted) tls honor where "perform E call (known, s) = (False, newReconciler tls honor (trace s))"
proof (cases call)
  case (McpEvent ev)
  then show thesis using Read handlers_settled[OF refl mcpEvents.event_source_axioms] by simp
next
  case (NodeEvent ev)
  then show thesis using Read handlers_settled[OF refl nodeEvents.event_source_axioms] by simp
next
  case (ConfigMapEvent ev)
  then show thesis using Read handlers_settled[OF refl configMapEvents.event_source_axioms] by simp
next
  case (SecretEvent ev)
  then show thesis using Read handlers_settled[OF refl secretEvents.event_source_axioms] by simp
qed (use Reconciled Restarted in auto)

lemma reachable_invariant:
  assumes "reachable E c"
    and "\<And>tls honor. I (newReconciler tls honor [])"
    and "\<And>s name. I s \<Longrightarrow> I (exec (Reconcile E name) s)"
    and "\<And>s reads. I s \<Longrightarrow> list_all readOnly reads \<Longrightarrow> I (s\<lparr>trace := trace s @ reads\<rparr>)"
    and "\<And>s tls honor. I s \<Longrightarrow> I (newReconciler tls honor (trace s))"
  shows "I (snd c)"
  using assms(1)
proof induction
  case (step c call)
  obtain known s where c: "c = (known, s)" by (cases c)
  show ?case
    by (rule perform_event[of E call known s]) (use step.IH assms(3-5) c in auto)
qed (simp add: assms(2))

section \<open>The status stays well-formed\<close>

definition storedStatus :: "history \<Rightarrow> kataConfigStatus" where
  "storedStatus h = fold (\<lambda>e st. case e of Ev (StatusUpdateReq (OKataConfig kc)) None \<Rightarrow> Status kc | _ \<Rightarrow> st) h
     (Status sampleKataConfig)"

definition storingEnv :: env where
  "storingEnv = sampleEnv\<lparr>apiOf := sampleApi\<lparr>
     getKataConfig := \<lambda>h n. Inr (sampleKataConfig\<lparr>Status := storedStatus h\<rparr>),
     writtenKataConfig := \<lambda>h q. sampleKataConfig\<lparr>Status := storedStatus (h @ [Ev q None])\<rparr>\<rparr>\<rparr>"

lemma storedStatus_sent: "storedStatus h \<in> {Status sampleKataConfig} \<union> sentStatus h"
  unfolding storedStatus_def
proof (induction h rule: rev_induct)
  case (snoc e h)
  then show ?case by (auto simp: sentStatus_def split: event.splits request.splits kobj.splits option.splits)
qed simp

lemma storingEnv_law: "serverLaw storingEnv"
proof -
  have "statusOk (Status sampleKataConfig)"
    by (simp add: statusOk_def conditionsOk_def classesOk_def nodesOk_def statusLists_def sampleKataConfig_def)
  moreover have "statusSubresource storingEnv {Status sampleKataConfig}"
    unfolding statusSubresource_def using storedStatus_sent by (auto simp: storingEnv_def)
  moreover have "uniqueNodeNames storingEnv"
    by (simp add: uniqueNodeNames_def storingEnv_def sampleApi_def)
  ultimately show ?thesis unfolding serverLaw_def by blast
qed

text \<open>
  C4: the status stays well-formed. If the API server keeps statuses as a subresource, node names are unique and
  the statuses stored before the operator's start are well-formed, then in every reachable configuration the
  status in memory and every status the operator has ever sent has at most one InProgress condition, in a state
  the operator reports, lists every RuntimeClass once and only RuntimeClasses of the operator, has no node on two
  lists or twice on one, and a ready count that is the number of installed nodes.
\<close>

theorem status_stays_well_formed:
  assumes "serverLaw E" and "reachable E (known, s)"
  shows "statusOk (Status (kataConfig s)) \<and> list_all reported (trace s)"
proof -
  have "sound (snd (known, s))" using assms(2)
  proof (rule reachable_invariant)
    show "sound (newReconciler tls honor [])" for tls honor
      by (simp add: sound_def newReconciler_def statusOk_zero)
    show "sound (exec (Reconcile E name) s)" if "sound s" for s name
      using keepsD[OF keeps_Reconcile[OF assms(1)] that] .
    show "sound (s\<lparr>trace := trace s @ reads\<rparr>)" if "sound s" "list_all readOnly reads" for s reads
      using that by (auto simp: sound_def intro: list.pred_mono_strong quiet_reported quiet_readOnly)
    show "sound (newReconciler tls honor (trace s))" if "sound s" for s tls honor
      using that by (simp add: sound_def newReconciler_def statusOk_zero)
  qed
  then show ?thesis by (simp add: sound_def)
qed

theorem status_stays_well_formed_witness:
  "statusOk (Status (kataConfig (exec (Reconcile storingEnv ''example-kataconfig'')
     (newReconciler \<lparr>tlsMinVersion = [], tlsCiphers = []\<rparr> False []))))"
  using status_stays_well_formed[OF storingEnv_law reachable.step[OF reachable.start, of storingEnv
      "CallReconcile ''example-kataconfig''" "\<lparr>tlsMinVersion = [], tlsCiphers = []\<rparr>" False,
      unfolded perform.simps]]
  by simp

section \<open>The finalizer is dropped last\<close>

lemma permitted_shift: "permitted G (h0 @ h) new \<longleftrightarrow> permitted (\<lambda>h. G (h0 @ h)) h new"
  by (induction new arbitrary: h) simp_all

text \<open>A removal that is due has established all facts of its deployment mode in the call that is under way.\<close>

definition removalDone :: "env \<Rightarrow> history \<Rightarrow> bool" where
  "removalDone E h \<longleftrightarrow> (\<exists>c name h1. reachable E c \<and>
     (let s1 = exec (prepareReconcile E name) (snd c) in
      h = trace s1 @ h1 \<and> removalDue (kataConfig s1) \<and> cleaned (modeFacts (DeploymentMode s1) E s1) h1))"

lemma permitted_adds: "list_all (addsFinalizer E) new \<Longrightarrow> permitted (\<lambda>h e. addsFinalizer E e \<or> G h) h new"
  by (induction new arbitrary: h) auto

lemma addsFinalizer_reads: "list_all readOnly reads \<Longrightarrow> list_all (addsFinalizer E) reads"
  by (erule list.pred_mono_strong) (rule addsFinalizer_readOnly)

lemma Reconcile_permitted:
  assumes "reachable E (known, s)" and "permitted (\<lambda>h e. addsFinalizer E e \<or> removalDone E h) [] (trace s)"
  shows "permitted (\<lambda>h e. addsFinalizer E e \<or> removalDone E h) [] (trace (exec (Reconcile E name) s))"
proof -
  define s1 where "s1 = exec (prepareReconcile E name) s"
  obtain rest where tr: "trace s1 = trace s @ newEvents (prepareReconcile E name) s"
    "trace (exec (Reconcile E name) s) = trace s1 @ rest"
    and prep: "list_all (addsFinalizer E) (newEvents (prepareReconcile E name) s)"
    and rest: "permitted (releaseOnly E (\<lambda>h. removalDue (kataConfig s1) \<and>
        cleaned (modeFacts (DeploymentMode s1) E s1) h)) [] rest"
    unfolding s1_def by (rule Reconcile_releases)
  have "removalDone E (trace s1 @ h)"
    if "removalDue (kataConfig s1)" "cleaned (modeFacts (DeploymentMode s1) E s1) h" for h
    unfolding removalDone_def Let_def
    by (intro exI[of _ "(known, s)"] exI[of _ name] exI[of _ h] conjI)
      (use assms(1) that in \<open>simp_all flip: s1_def\<close>)
  then have "permitted (\<lambda>h e. addsFinalizer E e \<or> removalDone E (trace s1 @ h)) [] rest"
    by (intro permitted_weaken[OF rest]) (auto simp: releaseOnly_def)
  then have "permitted (\<lambda>h e. addsFinalizer E e \<or> removalDone E h) (trace s1) rest"
    using permitted_shift[of "\<lambda>h e. addsFinalizer E e \<or> removalDone E h" "trace s1" "[]" rest] by simp
  then show ?thesis using assms(2) permitted_adds[OF prep] by (simp add: tr permitted_append)
qed



end
