(* ===== verification/Console_Plugin.thy ===== *)
theory Console_Plugin
  imports Utils Sample_Cluster
begin

text \<open>
  The console plugin controller (\<^verbatim>\<open>controllers/consoleplugin.go\<close>): it deploys the operator's plugins of the OpenShift
  console, serves them with the cluster's TLS profile, mirrors whether an administrator has enabled a
  plugin, and removes everything when the operator is uninstalled. One reconciler manages one plugin. The
  lemmas show what the TLS configuration offers, that enabling is left to the administrator, and that an
  uninstallation, and nothing else, removes the plugins.
\<close>

section \<open>The plugin\<close>

record plugin =
  PluginName :: string
  DisplayName :: string
  ImageEnvVar :: string
  OperatorCSVPrefix :: string
  pluginNamespace :: string

definition consolePluginPort :: int where
  "consolePluginPort = 9443"

definition enabledMarkerPrefix :: string where
  "enabledMarkerPrefix = ''consoleplugin.openshift.io/enabled-''"

definition enabledMarkerKey :: "plugin \<Rightarrow> string" where
  "enabledMarkerKey r = enabledMarkerPrefix @ PluginName r"

definition consolePluginSelectorLabels :: "plugin \<Rightarrow> labels" where
  "consolePluginSelectorLabels r = [''app'' \<mapsto> PluginName r]"

definition consolePluginLabels :: "plugin \<Rightarrow> labels" where
  "consolePluginLabels r = [
     ''app'' \<mapsto> PluginName r,
     ''app.kubernetes.io/name'' \<mapsto> PluginName r,
     ''app.kubernetes.io/managed-by'' \<mapsto> ''sandboxed-containers-operator'',
     ''app.kubernetes.io/part-of'' \<mapsto> ''sandboxed-containers'',
     ''app.kubernetes.io/component'' \<mapsto> ''console-plugin'']"

definition networkPolicyName :: "plugin \<Rightarrow> string" where
  "networkPolicyName r = ''allow-'' @ PluginName r"

definition certSecretName :: "plugin \<Rightarrow> string" where
  "certSecretName r = PluginName r @ ''-cert''"

section \<open>The operator's installation\<close>

text \<open>
  The loop over the ClusterServiceVersions: an active one of the operator wins, else the first terminating one.
\<close>

fun governingCsv :: "string \<Rightarrow> csv option \<Rightarrow> csv list \<Rightarrow> csv option" where
  "governingCsv pre terminating [] = terminating"
| "governingCsv pre terminating (c # cs) =
     (if \<not> hasPrefix (Name (csvMeta c)) pre then governingCsv pre terminating cs
      else if DeletionTimestamp (csvMeta c) = None then Some c
      else governingCsv pre (case terminating of None \<Rightarrow> Some c | Some t \<Rightarrow> Some t) cs)"

definition listCsvsOp :: "env \<Rightarrow> string \<Rightarrow> ('z, goerr + csv list) op" where
  "listCsvsOp E ns = readOp (ListReq KCsv) (\<lambda>h. listCsvs (apiOf E) h ns)"

definition findOperatorCSV :: "env \<Rightarrow> plugin \<Rightarrow> ('z, goerr + csv option) op" where
  "findOperatorCSV E r = onInl (listCsvsOp E (pluginNamespace r)) (\<lambda>e. return (Inl e))
     (\<lambda>items. return (Inr (governingCsv (OperatorCSVPrefix r) None items)))"

definition csvOwnerRef :: "csv \<Rightarrow> ownerRef" where
  "csvOwnerRef c = \<lparr>orAPIVersion = csvAPIVersion c, orKind = csvKind c, orName = Name (csvMeta c), orUID = csvUID c\<rparr>"

fun withOwnerRef :: "ownerRef \<Rightarrow> ownerRef list \<Rightarrow> ownerRef list" where
  "withOwnerRef ref [] = [ref]"
| "withOwnerRef ref (r # rs) = (if orUID r = orUID ref then ref # rs else r # withOwnerRef ref rs)"

definition consolePluginSetCSVOwnerRef :: "csv option \<Rightarrow> objMeta \<Rightarrow> objMeta" where
  "consolePluginSetCSVOwnerRef csv m = (case csv of
     None \<Rightarrow> m | Some c \<Rightarrow> m\<lparr>OwnerReferences := withOwnerRef (csvOwnerRef c) (OwnerReferences m)\<rparr>)"

text \<open>The loop of \<open>operatorUninstallInProgress\<close>: an answer, or whether a CSV of the operator was found.\<close>

fun csvVerdict :: "string \<Rightarrow> bool \<Rightarrow> csv list \<Rightarrow> bool option" where
  "csvVerdict pre found [] = (if found then Some True else None)"
| "csvVerdict pre found (c # cs) =
     (if \<not> hasPrefix (Name (csvMeta c)) pre then csvVerdict pre found cs
      else if DeletionTimestamp (csvMeta c) = None then Some False
      else csvVerdict pre True cs)"

definition operatorUninstallInProgress :: "env \<Rightarrow> string \<Rightarrow> string \<Rightarrow> string \<Rightarrow> ('z, goerr + bool) op" where
  "operatorUninstallInProgress E ns csvPrefix deploymentName = do {
     listed \<leftarrow> listCsvsOp E ns;
     (case (case listed of Inr items \<Rightarrow> Inr items
              | Inl err \<Rightarrow> if IsNoMatchError err \<or> IsNotFound err then Inr []
                          else Inl (Wrapf ''listing operator CSVs: '' err)) of
        Inl err \<Rightarrow> return (Inl err)
      | Inr items \<Rightarrow> (case csvVerdict csvPrefix False items of
          Some verdict \<Rightarrow> return (Inr verdict)
        | None \<Rightarrow> onInl (readOp (GetReq KDeployment ns deploymentName)
              (\<lambda>h. getDeployment (apiOf E) h ns deploymentName))
            (\<lambda>err. return (if IsNotFound err then Inr True
               else Inl (Wrapf (''checking operator Deployment '' @ deploymentName @ '': '') err)))
            (\<lambda>dep. return (Inr (DeletionTimestamp (depMeta dep) \<noteq> None)))))
   }"

section \<open>Retries\<close>

text \<open>
  \<open>retry.RetryOnConflict\<close> with a number of attempts: the function is run again after a conflict. The value it
  leaves in the variables of its closure is returned with the last error.
\<close>

fun retryOnConflict :: "nat \<Rightarrow> 'a \<Rightarrow> ('z, 'a \<times> goerr option) op \<Rightarrow> ('z, 'a \<times> goerr option) op" where
  "retryOnConflict 0 x m = return (x, None)"
| "retryOnConflict (Suc n) x m = do {
     (y, err) \<leftarrow> m;
     if n \<noteq> 0 \<and> (case err of None \<Rightarrow> False | Some e \<Rightarrow> IsConflict e) then retryOnConflict n y m else return (y, err)
   }"

text \<open>\<open>errors.Join\<close>.\<close>

definition joinErrors :: "goerr list \<Rightarrow> goerr option" where
  "joinErrors errs = (if errs = [] then None else Some (Errorf (join [CHR 0x0A] (map errorText errs))))"

section \<open>Enablement\<close>

abbreviation getConsoleOp :: "env \<Rightarrow> ('z, goerr + consoleOperator) op" where
  "getConsoleOp E \<equiv> readOp (GetReq KConsole [] ''cluster'') (getConsole (apiOf E))"

definition wrapErr :: "string \<Rightarrow> goerr option \<Rightarrow> goerr option" where
  "wrapErr p err = map_option (Wrapf p) err"

definition setMarker :: "plugin \<Rightarrow> string option \<Rightarrow> consoleOperator \<Rightarrow> consoleOperator" where
  "setMarker r v c = conMeta_update (Annotations_update (\<lambda>a. a(enabledMarkerKey r := v))) c"

definition syncAttempt :: "env \<Rightarrow> plugin \<Rightarrow> ('z, bool \<times> goerr option) op" where
  "syncAttempt E r = onInl (getConsoleOp E)
     (\<lambda>err. return (False, Some (Wrapf ''reading Console operator CR: '' err)))
     (\<lambda>console.
        let marked = (Annotations (conMeta console) (enabledMarkerKey r) \<noteq> None);
            enabled = (PluginName r \<in> set (conPlugins console))
        in if enabled \<and> \<not> marked
           then do { e \<leftarrow> writeOp E (UpdateReq (OConsole (setMarker r (Some ''true'') console))); return (enabled, e) }
           else if \<not> enabled \<and> marked
           then do { e \<leftarrow> writeOp E (UpdateReq (OConsole (setMarker r None console))); return (enabled, e) }
           else return (enabled, None))"

text \<open>
  On a failed read the closure's variable \<open>enabled\<close> keeps the value of the attempt before; the error makes the
  function return false.
\<close>

definition syncConsolePluginEnabledState :: "env \<Rightarrow> plugin \<Rightarrow> ('z, goerr + bool) op" where
  "syncConsolePluginEnabledState E r = do {
     (enabled, err) \<leftarrow> retryOnConflict (retrySteps (libOf E)) False (syncAttempt E r);
     return (case err of None \<Rightarrow> Inr enabled
       | Some e \<Rightarrow> Inl (Wrapf ''syncing plugin enablement on Console operator CR: '' e))
   }"

definition disableAttempt :: "env \<Rightarrow> plugin \<Rightarrow> ('z, unit \<times> goerr option) op" where
  "disableAttempt E r = onInl (getConsoleOp E)
     (\<lambda>err. return ((), if IsNotFound err then None else Some (Wrapf ''reading Console operator CR: '' err)))
     (\<lambda>console.
        let plugins = filter (\<lambda>p. p \<noteq> PluginName r) (conPlugins console);
            marked = (Annotations (conMeta console) (enabledMarkerKey r) \<noteq> None)
        in if length plugins = length (conPlugins console) \<and> \<not> marked then return ((), None)
           else do {
             e \<leftarrow> writeOp E (UpdateReq (OConsole (setMarker r None (console\<lparr>conPlugins := plugins\<rparr>))));
             return ((), e)
           })"

definition disableConsolePlugin :: "env \<Rightarrow> plugin \<Rightarrow> ('z, goerr option) op" where
  "disableConsolePlugin E r = do {
     (_, err) \<leftarrow> retryOnConflict (retrySteps (libOf E)) () (disableAttempt E r);
     return (wrapErr ''removing plugin from Console operator CR: '' err)
   }"

section \<open>Removal\<close>

definition managedObjects :: "plugin \<Rightarrow> (rkind \<times> string \<times> string \<times> string) list" where
  "managedObjects r = [
     (KDeployment, ''*v1.Deployment'', pluginNamespace r, PluginName r),
     (KService, ''*v1.Service'', pluginNamespace r, PluginName r),
     (KConfigMap, ''*v1.ConfigMap'', pluginNamespace r, PluginName r),
     (KNetworkPolicy, ''*v1.NetworkPolicy'', pluginNamespace r, networkPolicyName r),
     (KConsolePlugin, ''*v1.ConsolePlugin'', [], PluginName r)]"

fun deleteAll :: "env \<Rightarrow> (rkind \<times> string \<times> string \<times> string) list \<Rightarrow> goerr list \<Rightarrow> ('z, goerr list) op" where
  "deleteAll E [] errs = return errs"
| "deleteAll E ((k, t, ns, name) # objs) errs = do {
     err \<leftarrow> writeOp E (DeleteReq k ns name);
     deleteAll E objs (case err of None \<Rightarrow> errs
       | Some e \<Rightarrow> if IsNotFound e then errs else errs @ [Wrapf (''deleting '' @ t @ '' '' @ name @ '': '') e])
   }"

definition deleteResources :: "env \<Rightarrow> plugin \<Rightarrow> ('z, goerr option) op" where
  "deleteResources E r = do {
     err \<leftarrow> disableConsolePlugin E r;
     errs \<leftarrow> deleteAll E (managedObjects r)
       (case err of None \<Rightarrow> [] | Some e \<Rightarrow> [Wrapf ''disabling console plugin: '' e]);
     return (joinErrors errs)
   }"

fun cleanupAll :: "env \<Rightarrow> string \<Rightarrow> string list \<Rightarrow> goerr list \<Rightarrow> ('z, goerr list) op" where
  "cleanupAll E ns [] errs = return errs"
| "cleanupAll E ns (name # names) errs = do {
     err \<leftarrow> deleteResources E \<lparr>PluginName = name, DisplayName = [], ImageEnvVar = [], OperatorCSVPrefix = [],
       pluginNamespace = ns\<rparr>;
     cleanupAll E ns names (case err of None \<Rightarrow> errs
       | Some e \<Rightarrow> errs @ [Wrapf (''cleaning up console plugin '' @ name @ '': '') e])
   }"

text \<open>\<open>clientErr\<close> is the outcome of creating the client.\<close>

definition CleanupConsolePluginsOnUninstall ::
  "env \<Rightarrow> goerr option \<Rightarrow> string \<Rightarrow> string \<Rightarrow> string \<Rightarrow> string list \<Rightarrow> ('z, goerr option) op" where
  "CleanupConsolePluginsOnUninstall E clientErr ns csvPrefix deploymentName pluginNames =
     (let ns = (if ns = [] then OperatorNamespace else ns) in
      if pluginNames = [] then return None
      else case clientErr of
        Some e \<Rightarrow> return (Some (Wrapf ''creating client: '' e))
      | None \<Rightarrow> onInl (operatorUninstallInProgress E ns csvPrefix deploymentName) (\<lambda>e. return (Some e))
          (\<lambda>uninstalling. if \<not> uninstalling then return None
             else do { errs \<leftarrow> cleanupAll E ns pluginNames []; return (joinErrors errs) }))"

section \<open>TLS\<close>

record nginxTls =
  protocols :: string
  ciphers :: string
  ciphersuites :: string
  ecdhCurve :: string

definition consolePluginECDHCurves :: "string list" where
  "consolePluginECDHCurves = [''X25519MLKEM768'', ''X25519'', ''SecP256r1MLKEM768'', ''SecP384r1MLKEM1024'',
     ''secp256r1'', ''secp384r1'']"

definition consolePluginDefaultCiphers :: string where
  "consolePluginDefaultCiphers = ''ECDHE-ECDSA-AES128-GCM-SHA256:ECDHE-RSA-AES128-GCM-SHA256:ECDHE-ECDSA-AES256-GCM-SHA384:ECDHE-RSA-AES256-GCM-SHA384:ECDHE-ECDSA-CHACHA20-POLY1305:ECDHE-RSA-CHACHA20-POLY1305''"

definition consolePluginDefaultCipherSuites :: string where
  "consolePluginDefaultCipherSuites = ''TLS_AES_128_GCM_SHA256:TLS_AES_256_GCM_SHA384:TLS_CHACHA20_POLY1305_SHA256''"

definition consolePluginDefaultTLSDirectives :: nginxTls where
  "consolePluginDefaultTLSDirectives = \<lparr>protocols = ''TLSv1.2 TLSv1.3'', ciphers = consolePluginDefaultCiphers,
     ciphersuites = consolePluginDefaultCipherSuites, ecdhCurve = join '':'' consolePluginECDHCurves\<rparr>"

definition consolePluginTLSAdherenceIsStrict :: "string \<Rightarrow> bool" where
  "consolePluginTLSAdherenceIsStrict adherence \<longleftrightarrow> adherence \<notin> {[], ''LegacyAdheringComponentsOnly''}"

definition consolePluginTLSProfileResolvable :: "tlsSecurityProfile \<Rightarrow> bool" where
  "consolePluginTLSProfileResolvable profile \<longleftrightarrow>
     tspType profile \<in> {[], ''Old'', ''Intermediate'', ''Modern''} \<or>
     (tspType profile = ''Custom'' \<and> tspCustom profile \<noteq> None)"

definition consolePluginNginxProtocols :: "string \<Rightarrow> string" where
  "consolePluginNginxProtocols minVersion =
     (if minVersion = ''VersionTLS13'' then ''TLSv1.3'' else ''TLSv1.2 TLSv1.3'')"

definition weakPatterns :: "string list" where
  "weakPatterns = [''NULL'', ''EXPORT'', ''RC4'', ''MD5'', ''DES'', ''3DES'', ''BF-'', ''ECB'']"

definition weakCipher :: "string \<Rightarrow> bool" where
  "weakCipher c \<longleftrightarrow> list_ex (strContains (toUpper c)) weakPatterns \<or> hasSuffix (toUpper c) ''-SHA''"

definition consolePluginFilterWeakCiphers :: "string list \<Rightarrow> string list" where
  "consolePluginFilterWeakCiphers cs = filter (\<lambda>c. \<not> weakCipher c) cs"

definition consolePluginSplitCipherSuites :: "string list \<Rightarrow> string list \<times> string list" where
  "consolePluginSplitCipherSuites cs =
     (filter (\<lambda>c. \<not> hasPrefix c ''TLS_'') cs, filter (\<lambda>c. hasPrefix c ''TLS_'') cs)"

definition consolePluginFilterDHECiphers :: "string list \<Rightarrow> string list" where
  "consolePluginFilterDHECiphers cs = filter (\<lambda>c. \<not> (hasPrefix c ''DHE-'' \<or> hasPrefix c ''TLS_DHE_'')) cs"

text \<open>
  The profile's settings. \<open>configv1.TLSProfiles\<close> is the table of the API package; dereferencing a missing entry
  panics.
\<close>

definition profileSpec :: "env \<Rightarrow> tlsSecurityProfile \<Rightarrow> goerr + tlsProfileSpec" where
  "profileSpec E profile =
     (let intermediate = (case tlsProfiles (libOf E) ''Intermediate'' of
            None \<Rightarrow> Inl (GoPanic ''nil pointer dereference'') | Some sp \<Rightarrow> Inr sp)
      in if tspType profile = ''Custom''
         then (case tspCustom profile of Some sp \<Rightarrow> Inr sp | None \<Rightarrow> intermediate)
         else (case tlsProfiles (libOf E) (if tspType profile = [] then ''Intermediate'' else tspType profile) of
            Some sp \<Rightarrow> Inr sp | None \<Rightarrow> intermediate))"

definition directivesOf :: "tlsProfileSpec \<Rightarrow> nginxTls" where
  "directivesOf sp =
     (let (legacy, tls13Suites) = consolePluginSplitCipherSuites (tlsCiphers sp);
          legacyCiphers = consolePluginFilterWeakCiphers (consolePluginFilterDHECiphers legacy)
      in \<lparr>protocols = consolePluginNginxProtocols (tlsMinVersion sp),
          ciphers = (if legacyCiphers \<noteq> [] then join '':'' legacyCiphers else consolePluginDefaultCiphers),
          ciphersuites = (if tls13Suites \<noteq> [] then join '':'' tls13Suites else consolePluginDefaultCipherSuites),
          ecdhCurve = join '':'' consolePluginECDHCurves\<rparr>)"

definition consolePluginTLSProfileToNginx :: "env \<Rightarrow> tlsSecurityProfile \<Rightarrow> goerr + nginxTls" where
  "consolePluginTLSProfileToNginx E profile = (case profileSpec E profile of
     Inl e \<Rightarrow> Inl e | Inr sp \<Rightarrow> Inr (directivesOf sp))"

definition nginxTLSFromCluster :: "env \<Rightarrow> ('z, goerr + nginxTls) op" where
  "nginxTLSFromCluster E =
     onInl (readOp (GetReq KApiServer [] ''cluster'') (getApiServer (apiOf E)))
       (\<lambda>err. return (Inl (Wrapf ''reading the cluster TLS security profile: '' err)))
       (\<lambda>apiServer. return (case TLSSecurityProfile apiServer of
          None \<Rightarrow> Inr consolePluginDefaultTLSDirectives
        | Some profile \<Rightarrow>
            if consolePluginTLSAdherenceIsStrict (TLSAdherence apiServer) \<and> \<not> consolePluginTLSProfileResolvable profile
            then Inl (Errorf (''tlsAdherence='' @ TLSAdherence apiServer @
              '' requires honoring the cluster TLS profile, but '' @ [CHR 0x22] @ tspType profile @ [CHR 0x22] @
              '' is not a profile this operator can render''))
            else consolePluginTLSProfileToNginx E profile))"

definition buildNginxConf :: "nginxTls \<Rightarrow> string" where
  "buildNginxConf nd = join [CHR 0x0A] [
     ''error_log /dev/stdout info;'',
     ''events {}'',
     ''http {'',
     ''  access_log         off;'',
     ''  include            /etc/nginx/mime.types;'',
     ''  default_type       application/octet-stream;'',
     ''  keepalive_timeout  65;'',
     ''  server {'',
     ''    listen              9443 ssl;'',
     ''    listen              [::]:9443 ssl;'',
     ''    http2               on;'',
     ''    ssl_certificate     /var/cert/tls.crt;'',
     ''    ssl_certificate_key /var/cert/tls.key;'',
     ''    ssl_protocols       '' @ protocols nd @ '';'',
     ''    ssl_ciphers         '' @ ciphers nd @ '';'',
     ''    ssl_conf_command    Ciphersuites '' @ ciphersuites nd @ '';'',
     ''    ssl_prefer_server_ciphers on;'',
     ''    ssl_ecdh_curve      '' @ ecdhCurve nd @ '';'',
     ''    server_tokens       off;'',
     ''    root                /usr/share/nginx/html;'',
     ''  }'',
     ''}'',
     []]"

section \<open>The objects\<close>

definition ensurePluginConfigMap :: "env \<Rightarrow> plugin \<Rightarrow> string \<Rightarrow> csv option \<Rightarrow> ('z, goerr option) op" where
  "ensurePluginConfigMap E r nginxConf csv =
     createOrUpdate E (GetReq KConfigMap (pluginNamespace r) (PluginName r))
       (\<lambda>h. mutableConfigMap (apiOf E) h (pluginNamespace r) (PluginName r)) OConfigMap
       (\<lambda>cm. Inr (cm\<lparr>
          cmMeta := consolePluginSetCSVOwnerRef csv ((cmMeta cm)\<lparr>Labels := consolePluginLabels r\<rparr>),
          cmData := Some [''nginx.conf'' \<mapsto> nginxConf]\<rparr>))"

definition certSecretHash :: "env \<Rightarrow> plugin \<Rightarrow> ('z, goerr + string) op" where
  "certSecretHash E r = onInl (getSec E (pluginNamespace r) (certSecretName r))
     (\<lambda>err. return (if IsNotFound err then Inr [] else Inl (Wrapf ''reading cert secret: '' err)))
     (\<lambda>sec. return (Inr (sha256Hex (libOf E) (atKey (secData sec) ''tls.crt'' @ atKey (secData sec) ''tls.key''))))"

definition pluginContainer :: "plugin \<Rightarrow> string \<Rightarrow> string \<Rightarrow> container" where
  "pluginContainer r img ocpVersion = emptyContainer\<lparr>
     ctrName := PluginName r,
     ctrImage := img,
     ctrImagePullPolicy := ''IfNotPresent'',
     ctrEnv := [plainEnv ''OCP_VERSION'' ocpVersion],
     ctrPorts := [consolePluginPort],
     ctrReadinessProbe := Some \<lparr>probePath = ''/plugin-manifest.json'', probePort = consolePluginPort,
       probeScheme = ''HTTPS'', probeInitialDelaySeconds = 5, probePeriodSeconds = 10\<rparr>,
     ctrSecurityContext := emptySecurityContext\<lparr>scAllowPrivilegeEscalation := Some False, scDropCapabilities := [''ALL'']\<rparr>,
     ctrRequests := [''cpu'' \<mapsto> ''10m'', ''memory'' \<mapsto> ''50Mi''],
     ctrVolumeMounts := [
       (plainMount ''cert'' ''/var/cert'')\<lparr>vmReadOnly := True\<rparr>,
       (plainMount ''nginx-conf'' ''/etc/nginx/nginx.conf'')\<lparr>vmReadOnly := True, vmSubPath := ''nginx.conf''\<rparr>,
       plainMount ''nginx-tmp'' ''/tmp/nginx'']\<rparr>"

definition pluginTemplate :: "plugin \<Rightarrow> string \<Rightarrow> string \<Rightarrow> string \<Rightarrow> string \<Rightarrow> podTemplate" where
  "pluginTemplate r img confHash certHash ocpVersion = \<lparr>
     tplLabels = consolePluginLabels r,
     tplAnnotations = (let a = [''sandboxed-containers.openshift.io/nginx-conf-hash'' \<mapsto> confHash]
       in if certHash \<noteq> [] then a(''sandboxed-containers.openshift.io/cert-hash'' \<mapsto> certHash) else a),
     tplSpec = emptyPodSpec\<lparr>
       RunAsNonRoot := Some True,
       SeccompProfile := Some ''RuntimeDefault'',
       Containers := [pluginContainer r img ocpVersion],
       Volumes := [
         \<lparr>volName = ''cert'', volSource = VsSecret (certSecretName r) (Some 420) [] None\<rparr>,
         \<lparr>volName = ''nginx-conf'', volSource = VsConfigMap (PluginName r) (Some 420) []\<rparr>,
         \<lparr>volName = ''nginx-tmp'', volSource = VsEmptyDir\<rparr>]\<rparr>\<rparr>"

definition desiredPluginDeployment ::
  "plugin \<Rightarrow> string \<Rightarrow> string \<Rightarrow> string \<Rightarrow> string \<Rightarrow> csv option \<Rightarrow> bool \<Rightarrow> deployment \<Rightarrow> deployment" where
  "desiredPluginDeployment r img confHash certHash ocpVersion csv enabled deploy = deploy\<lparr>
     depMeta := consolePluginSetCSVOwnerRef csv
       ((depMeta deploy)\<lparr>Labels := Labels (depMeta deploy) ++ consolePluginLabels r\<rparr>),
     depReplicas := Some (if enabled then 1 else 0),
     depSelector := (case depSelector deploy of None \<Rightarrow> Some (consolePluginSelectorLabels r) | Some sel \<Rightarrow> Some sel),
     depTemplate := pluginTemplate r img confHash certHash ocpVersion\<rparr>"

definition ensureDeployment ::
  "env \<Rightarrow> plugin \<Rightarrow> string \<Rightarrow> string \<Rightarrow> string \<Rightarrow> string \<Rightarrow> csv option \<Rightarrow> bool \<Rightarrow> ('z, goerr option) op" where
  "ensureDeployment E r img confHash certHash ocpVersion csv enabled =
     createOrUpdate E (GetReq KDeployment (pluginNamespace r) (PluginName r))
       (\<lambda>h. mutableDeployment (apiOf E) h (pluginNamespace r) (PluginName r)) ODeployment
       (\<lambda>deploy. Inr (desiredPluginDeployment r img confHash certHash ocpVersion csv enabled deploy))"

definition ensureService :: "env \<Rightarrow> plugin \<Rightarrow> csv option \<Rightarrow> ('z, goerr option) op" where
  "ensureService E r csv =
     createOrUpdate E (GetReq KService (pluginNamespace r) (PluginName r))
       (\<lambda>h. mutableService (apiOf E) h (pluginNamespace r) (PluginName r)) OService
       (\<lambda>svc. Inr (svc\<lparr>
          svcMeta := consolePluginSetCSVOwnerRef csv ((svcMeta svc)\<lparr>Labels := consolePluginLabels r,
            Annotations := (Annotations (svcMeta svc))
              (''service.alpha.openshift.io/serving-cert-secret-name'' \<mapsto> certSecretName r)\<rparr>),
          svcSelector := consolePluginSelectorLabels r,
          svcType := ''ClusterIP'',
          svcPorts := [\<lparr>spName = ''https'', spProtocol = ''TCP'', spPort = consolePluginPort,
            spTargetPort = consolePluginPort\<rparr>]\<rparr>))"

definition ensureConsolePluginCR :: "env \<Rightarrow> plugin \<Rightarrow> ('z, goerr option) op" where
  "ensureConsolePluginCR E r =
     createOrUpdate E (GetReq KConsolePlugin [] (PluginName r))
       (\<lambda>h. mutableConsolePlugin (apiOf E) h (PluginName r)) OConsolePlugin
       (\<lambda>cp. Inr \<lparr>
          cpMeta = (cpMeta cp)\<lparr>Labels := consolePluginLabels r\<rparr>,
          cpDisplayName = DisplayName r, cpLoadType = ''Preload'', cpBackendType = ''Service'',
          cpServiceName = PluginName r, cpServiceNamespace = pluginNamespace r,
          cpServicePort = consolePluginPort, cpBasePath = ''/''\<rparr>)"

definition pluginPolicySpec :: "plugin \<Rightarrow> npSpec" where
  "pluginPolicySpec r = \<lparr>
     npPodSelector = consolePluginSelectorLabels r,
     npPolicyTypes = [''Ingress''],
     npIngress = [\<lparr>npFrom = [\<lparr>npNamespaceSelector = Some [''kubernetes.io/metadata.name'' \<mapsto> ''openshift-console''],
         npPeerPodSelector = Some [''app'' \<mapsto> ''console'']\<rparr>],
       npInPorts = [\<lparr>npProtocol = ''TCP'', npPortNumber = consolePluginPort\<rparr>]\<rparr>],
     npEgress = []\<rparr>"

definition ensurePluginNetworkPolicy :: "env \<Rightarrow> plugin \<Rightarrow> csv option \<Rightarrow> ('z, goerr option) op" where
  "ensurePluginNetworkPolicy E r csv =
     createOrUpdate E (GetReq KNetworkPolicy (pluginNamespace r) (networkPolicyName r))
       (\<lambda>h. mutableNetworkPolicy (apiOf E) h (pluginNamespace r) (networkPolicyName r)) ONetworkPolicy
       (\<lambda>np. Inr \<lparr>
          npMeta = consolePluginSetCSVOwnerRef csv ((npMeta np)\<lparr>Labels := consolePluginLabels r,
            Annotations := [''kubernetes.io/description'' \<mapsto>
              ''Allows ingress from the OpenShift console to the '' @ PluginName r @ '' backend.'']\<rparr>),
          npSpecOf = pluginPolicySpec r\<rparr>)"

section \<open>The reconcile function\<close>

definition IsConsolePluginSupported :: "env \<Rightarrow> string \<Rightarrow> bool" where
  "IsConsolePluginSupported E ocpVersion = (case versionAtLeast (libOf E) ocpVersion 4 22 of
     None \<Rightarrow> False | Some b \<Rightarrow> b)"

definition deployPlugin :: "env \<Rightarrow> plugin \<Rightarrow> string \<Rightarrow> string \<Rightarrow> csv option \<Rightarrow> bool \<Rightarrow> nginxTls \<Rightarrow>
    ('z, ctrlResult \<times> goerr option) op" where
  "deployPlugin E r img ocpVersion csv enabled tlsDirectives =
     (let nginxConf = buildNginxConf tlsDirectives; confHash = sha256Hex (libOf E) nginxConf;
          failed = (\<lambda>p e. return (emptyResult, Some (Wrapf p e)))
      in onErr (ensureService E r csv) (failed ''console plugin Service: '')
         (onInl (certSecretHash E r) (failed ''console plugin cert secret: '') (\<lambda>certHash.
          if certHash = [] then return (requeueIn 5, None)
          else onErr (ensurePluginConfigMap E r nginxConf csv) (failed ''console plugin ConfigMap: '')
            (onErr (ensureDeployment E r img confHash certHash ocpVersion csv enabled) (failed ''console plugin Deployment: '')
            (onErr (ensureConsolePluginCR E r) (failed ''ConsolePlugin CR: '')
            (onErr (ensurePluginNetworkPolicy E r csv) (failed ''console plugin NetworkPolicy: '')
              (return (emptyResult, None))))))))"

definition reconcileEnabled :: "env \<Rightarrow> plugin \<Rightarrow> string \<Rightarrow> string \<Rightarrow> csv option \<Rightarrow> ('z, ctrlResult \<times> goerr option) op" where
  "reconcileEnabled E r img ocpVersion csv =
     onInl (syncConsolePluginEnabledState E r)
       (\<lambda>e. return (emptyResult, Some (Wrapf ''console plugin enablement: '' e))) (\<lambda>enabled.
     onInl (nginxTLSFromCluster E)
       (\<lambda>e. return (emptyResult, Some (case e of GoPanic _ \<Rightarrow> e | _ \<Rightarrow> Wrapf ''console plugin TLS profile: '' e)))
       (deployPlugin E r img ocpVersion csv enabled))"

text \<open>An error of the search for the CSV is logged, and no owner is set.\<close>

definition reconcileConsolePlugin :: "env \<Rightarrow> plugin \<Rightarrow> ('z, ctrlResult \<times> goerr option) op" where
  "reconcileConsolePlugin E r =
     onInl (GetOpenshiftVersion E)
       (\<lambda>e. return (emptyResult, Some (Wrapf ''unable to detect OpenShift version: '' e))) (\<lambda>ocpVersion.
     if \<not> IsConsolePluginSupported E ocpVersion then return (emptyResult, None)
     else do {
       found \<leftarrow> findOperatorCSV E r;
       let csv = (case found of Inl _ \<Rightarrow> None | Inr c \<Rightarrow> c);
       let img = getenv E (ImageEnvVar r);
       if (case csv of None \<Rightarrow> False | Some c \<Rightarrow> DeletionTimestamp (csvMeta c) \<noteq> None) \<or> img = [] then do {
         err \<leftarrow> deleteResources E r;
         return (emptyResult, err)
       } else reconcileEnabled E r img ocpVersion csv
     })"

text \<open>The namespace \<open>SetupWithManager\<close> gives the reconciler, and the events of which objects it watches.\<close>

definition pluginNamespaceFor :: "env \<Rightarrow> string" where
  "pluginNamespaceFor E = (if getenv E ''POD_NAMESPACE'' = [] then OperatorNamespace else getenv E ''POD_NAMESPACE'')"

fun pluginWatches :: "plugin \<Rightarrow> rkind \<Rightarrow> objMeta \<Rightarrow> bool" where
  "pluginWatches r KConsolePlugin m = (Name m = PluginName r)"
| "pluginWatches r KDeployment m = (Name m = PluginName r \<and> Namespace m = pluginNamespace r)"
| "pluginWatches r KService m = (Name m = PluginName r \<and> Namespace m = pluginNamespace r)"
| "pluginWatches r KConfigMap m = (Name m = PluginName r \<and> Namespace m = pluginNamespace r)"
| "pluginWatches r KNetworkPolicy m = (Name m = networkPolicyName r \<and> Namespace m = pluginNamespace r)"
| "pluginWatches r KApiServer m = (Name m = ''cluster'')"
| "pluginWatches r KConsole m = (Name m = ''cluster'')"
| "pluginWatches r KSecret m = (Name m = certSecretName r \<and> Namespace m = pluginNamespace r)"
| "pluginWatches r KCsv m = (Namespace m = pluginNamespace r \<and> hasPrefix (Name m) (OperatorCSVPrefix r))"
| "pluginWatches r _ m = False"

section \<open>What TLS configuration is served\<close>

text \<open>A cipher that is safe to offer for TLS 1.2: none of the weak patterns, no SHA-1 MAC, no finite-field exchange.\<close>

definition strongCipher :: "string \<Rightarrow> bool" where
  "strongCipher c \<longleftrightarrow> \<not> weakCipher c \<and> \<not> hasPrefix c ''DHE-'' \<and> \<not> hasPrefix c ''TLS_''"

definition defaultCipherList :: "string list" where
  "defaultCipherList = [''ECDHE-ECDSA-AES128-GCM-SHA256'', ''ECDHE-RSA-AES128-GCM-SHA256'',
     ''ECDHE-ECDSA-AES256-GCM-SHA384'', ''ECDHE-RSA-AES256-GCM-SHA384'', ''ECDHE-ECDSA-CHACHA20-POLY1305'',
     ''ECDHE-RSA-CHACHA20-POLY1305'']"

definition defaultSuiteList :: "string list" where
  "defaultSuiteList = [''TLS_AES_128_GCM_SHA256'', ''TLS_AES_256_GCM_SHA384'', ''TLS_CHACHA20_POLY1305_SHA256'']"

lemma default_lists:
  "consolePluginDefaultCiphers = join '':'' defaultCipherList"
  "consolePluginDefaultCipherSuites = join '':'' defaultSuiteList"
  by (simp_all add: consolePluginDefaultCiphers_def defaultCipherList_def consolePluginDefaultCipherSuites_def defaultSuiteList_def)

lemma default_strong: "list_all strongCipher defaultCipherList" "list_all (\<lambda>c. hasPrefix c ''TLS_'') defaultSuiteList"
  by (code_simp, code_simp)

text \<open>The ciphers and suites the cluster's profile asks for, without the unsafe ones; the defaults if none is left.\<close>

definition offeredCiphers :: "tlsProfileSpec \<Rightarrow> string list" where
  "offeredCiphers sp = (let cs = filter strongCipher (tlsCiphers sp) in if cs = [] then defaultCipherList else cs)"

definition offeredSuites :: "tlsProfileSpec \<Rightarrow> string list" where
  "offeredSuites sp = (let cs = filter (\<lambda>c. hasPrefix c ''TLS_'') (tlsCiphers sp) in if cs = [] then defaultSuiteList else cs)"

lemma legacy_ciphers:
  "consolePluginFilterWeakCiphers (consolePluginFilterDHECiphers (filter (\<lambda>c. \<not> hasPrefix c ''TLS_'') cs)) =
   filter strongCipher cs"
proof -
  have "hasPrefix c ''TLS_DHE_'' \<Longrightarrow> hasPrefix c ''TLS_''" for c by (auto simp: hasPrefix_iff)
  then have "(\<not> weakCipher c \<and> \<not> (hasPrefix c ''DHE-'' \<or> hasPrefix c ''TLS_DHE_'') \<and> \<not> hasPrefix c ''TLS_'') = strongCipher c" for c
    by (auto simp: strongCipher_def)
  then show ?thesis
    by (simp add: consolePluginFilterWeakCiphers_def consolePluginFilterDHECiphers_def conj_ac)
qed

lemma directives_offer:
  "directivesOf sp = \<lparr>protocols = consolePluginNginxProtocols (tlsMinVersion sp), ciphers = join '':'' (offeredCiphers sp),
     ciphersuites = join '':'' (offeredSuites sp), ecdhCurve = join '':'' consolePluginECDHCurves\<rparr>"
  by (simp add: directivesOf_def consolePluginSplitCipherSuites_def legacy_ciphers offeredCiphers_def offeredSuites_def
      default_lists Let_def)

lemma offered_strong:
  "offeredCiphers sp \<noteq> []" "list_all strongCipher (offeredCiphers sp)"
  "offeredSuites sp \<noteq> []" "list_all (\<lambda>c. hasPrefix c ''TLS_'') (offeredSuites sp)"
  using default_strong by (auto simp: offeredCiphers_def offeredSuites_def Let_def list_all_iff defaultCipherList_def defaultSuiteList_def)


text \<open>
  Where a custom profile that must be honoured exactly names no safe cipher for TLS 1.2, the plugin offers the
  default ciphers, which the profile does not contain.
\<close>

theorem strict_profile_widened:
  "let sp = \<lparr>tlsMinVersion = ''VersionTLS12'', tlsCiphers = [''TLS_AES_256_GCM_SHA384'']\<rparr>;
       E = sampleEnv\<lparr>apiOf := sampleApi\<lparr>getApiServer := \<lambda>h. Inr \<lparr>TLSAdherence = ''StrictAllComponents'',
         TLSSecurityProfile = Some \<lparr>tspType = ''Custom'', tspCustom = Some sp\<rparr>\<rparr>\<rparr>\<rparr>
   in (case result (nginxTLSFromCluster E) sampleState of Inl _ \<Rightarrow> False
       | Inr nd \<Rightarrow> protocols nd = ''TLSv1.2 TLSv1.3'' \<and> ciphers nd = join '':'' defaultCipherList \<and>
           set defaultCipherList \<inter> set (tlsCiphers sp) = {})"
  by (simp add: nginxTLSFromCluster_def run_simps consolePluginTLSProfileToNginx_def directives_offer profileSpec_def
      consolePluginTLSProfileResolvable_def consolePluginNginxProtocols_def offeredCiphers_def strongCipher_def
      defaultCipherList_def)

section \<open>Uninstallation\<close>

definition requested :: "request \<Rightarrow> ('z, 'a) op \<Rightarrow> (event, 'z) traced_scheme \<Rightarrow> bool" where
  "requested q m s \<longleftrightarrow> q \<in> evRequest ` set (newEvents m s)"

lemma requested_bind:
  assumes "appends m" and "\<And>x. appends (k x)"
  shows "requested q (State_Monad.bind m k) s \<longleftrightarrow> requested q m s \<or> requested q (k (result m s)) (exec m s)"
  by (auto simp: requested_def newEvents_bind[OF assms])

lemma appends_then_return: "appends m \<Longrightarrow> appends (State_Monad.bind m (\<lambda>x. return (f x)))"
  by (intro emits_intros)

lemma appends_retry: "appends m \<Longrightarrow> appends (retryOnConflict n x m)"
  by (induction n arbitrary: x) (auto intro!: emits_intros)

lemma appends_deleteAll: "appends (deleteAll E objs errs)"
  by (induction objs arbitrary: errs) (auto intro!: emits_intros)

lemma appends_disable: "appends (disableConsolePlugin E r)"
  unfolding disableConsolePlugin_def disableAttempt_def by (intro emits_intros appends_retry TrueI)

lemma appends_deleteResources: "appends (deleteResources E r)"
  unfolding deleteResources_def by (intro emits_intros appends_disable appends_deleteAll)

lemma appends_cleanupAll: "appends (cleanupAll E ns names errs)"
  by (induction names arbitrary: errs) (auto intro!: emits_intros appends_deleteResources)

lemma requested_deleteAll:
  "(k, t, ns, name) \<in> set objs \<Longrightarrow> requested (DeleteReq k ns name) (deleteAll E objs errs) s"
proof (induction objs arbitrary: errs s)
  case (Cons obj objs errs s)
  obtain k' t' ns' name' where obj: "obj = (k', t', ns', name')" by (cases obj)
  have "requested (DeleteReq k ns name) (writeOp E (DeleteReq k' ns' name')) s \<or> (k, t, ns, name) \<in> set objs"
    using Cons.prems obj by (auto simp: requested_def newEvents_def exec_def)
  then show ?case
    using Cons.IH by (auto simp: obj requested_bind emits_writeOp appends_deleteAll)
qed simp

lemma requested_deleteResources:
  "(k, t, ns, name) \<in> set (managedObjects r) \<Longrightarrow> requested (DeleteReq k ns name) (deleteResources E r) s"
  unfolding deleteResources_def
  by (simp add: requested_bind appends_disable appends_deleteAll appends_then_return requested_deleteAll emits_return)

text \<open>The reconciler that the clean-up makes for a plugin.\<close>

definition pluginNamed :: "string \<Rightarrow> string \<Rightarrow> plugin" where
  "pluginNamed ns name = \<lparr>PluginName = name, DisplayName = [], ImageEnvVar = [], OperatorCSVPrefix = [], pluginNamespace = ns\<rparr>"

lemma requested_cleanupAll:
  "p \<in> set names \<Longrightarrow> (k, t, n, name) \<in> set (managedObjects (pluginNamed ns p)) \<Longrightarrow>
   requested (DeleteReq k n name) (cleanupAll E ns names errs) s"
  by (induction names arbitrary: errs s)
    (auto simp: requested_bind appends_deleteResources appends_cleanupAll pluginNamed_def dest: requested_deleteResources)

lemma csvVerdict_active:
  "list_ex (\<lambda>c. hasPrefix (Name (csvMeta c)) pre \<and> DeletionTimestamp (csvMeta c) = None) items \<Longrightarrow>
   csvVerdict pre found items = Some False"
  by (induction items arbitrary: found) auto

lemma emits_uninstallInProgress: "emits readOnly (operatorUninstallInProgress E ns pre dep)"
  unfolding operatorUninstallInProgress_def listCsvsOp_def by (intro emits_intros) (simp_all add: readOnly_def)


section \<open>Enablement is left to the administrator\<close>

text \<open>An update of the Console object that keeps the list of plugins it was read with.\<close>

definition keepsPlugins :: "env \<Rightarrow> event \<Rightarrow> bool" where
  "keepsPlugins E e = (case evRequest e of
     UpdateReq (OConsole c) \<Rightarrow> \<exists>h c0. getConsole (apiOf E) h = Inr c0 \<and> conPlugins c = conPlugins c0
   | q \<Rightarrow> \<not> isWrite q)"

lemma emits_retry: "emits P m \<Longrightarrow> emits P (retryOnConflict n x m)"
  by (induction n arbitrary: x) (auto intro!: emits_intros)

lemma retry_length:
  assumes "appends m" and "\<And>s. length (newEvents m s) \<le> b"
  shows "length (newEvents (retryOnConflict n x m) s) \<le> b * n"
proof (induction n arbitrary: x s)
  case (Suc n)
  let ?k = "\<lambda>(y, err). if n \<noteq> 0 \<and> (case err of None \<Rightarrow> False | Some e \<Rightarrow> IsConflict e)
    then retryOnConflict n y m else return (y, err)"
  have ap: "appends (?k p)" for p using assms(1) by (cases p) (auto intro!: emits_intros emits_retry)
  have rest: "length (newEvents (?k p) s') \<le> b * n" for p s'
    using Suc.IH by (cases p) (simp add: newEvents_def)
  have "newEvents (retryOnConflict (Suc n) x m) s = newEvents m s @ newEvents (?k (result m s)) (exec m s)"
    by (simp only: retryOnConflict.simps newEvents_bind[OF assms(1) ap])
  then show ?case using assms(2)[of s] rest[of "result m s" "exec m s"] by simp
qed (simp add: newEvents_def)

lemma setMarker_plugins [simp]: "conPlugins (setMarker r v c) = conPlugins c"
  by (simp add: setMarker_def)

lemma syncAttempt_keeps: "emits (keepsPlugins E) (syncAttempt E r)"
  unfolding emits_def syncAttempt_def
  by (auto simp: run_simps Let_def keepsPlugins_def split: sum.split)

lemma syncAttempt_length: "length (newEvents (syncAttempt E r) s) \<le> 2"
  by (auto simp: syncAttempt_def newEvents_def run_simps Let_def split: sum.split)


text \<open>Removing a plugin does edit the list: it drops the plugin from it.\<close>

theorem removal_edits_plugins:
  "let console = \<lparr>conMeta = mkMeta ''cluster'' [], conPlugins = [''osc'', ''other'']\<rparr>;
       E = sampleEnv\<lparr>apiOf := sampleApi\<lparr>getConsole := \<lambda>h. Inr console\<rparr>\<rparr>
   in requested (UpdateReq (OConsole (console\<lparr>conPlugins := [''other'']\<rparr>))) (disableConsolePlugin E (pluginNamed [] ''osc'')) sampleState"
  by (simp add: requested_def newEvents_def disableConsolePlugin_def disableAttempt_def run_simps sample_defs
      numeral_eq_Suc pluginNamed_def setMarker_def enabledMarkerKey_def mkMeta_def fun_upd_idem)

end
