(* ===== verification/Startup.thy ===== *)
theory Startup
  imports Mco_Support Console_Plugin
begin

text \<open>
  The operator process (\<^verbatim>\<open>cmd/manager/main.go\<close>) and the validating webhook of the KataConfig
  (\<^verbatim>\<open>api/v1/kataconfig_webhook.go\<close>): what the process does to the cluster before and after the manager runs, the
  TLS profile it starts with, and which KataConfigs may be created. The \<open>main\<close> function, which calls them, is in
  \<open>Operator_Main\<close>.
\<close>

section \<open>Before the manager starts\<close>

text \<open>\<open>IsOpenShift\<close>; \<open>apiGroups\<close> is what the discovery client lists.\<close>

definition IsOpenShift :: "goerr + string list \<Rightarrow> goerr + bool" where
  "IsOpenShift apiGroups = (case apiGroups of
     Inl e \<Rightarrow> Inl e | Inr groups \<Rightarrow> Inr (list_ex (\<lambda>g. g = ''config.openshift.io'') groups))"

definition fixScc :: "env \<Rightarrow> ('z, goerr option) op" where
  "fixScc E = onInl (readOp (GetReq KScc [] (Name (sccMeta GetScc))) (\<lambda>h. getScc (apiOf E) h (Name (sccMeta GetScc))))
     (\<lambda>err. return (if IsNotFound err then None else Some err))
     (\<lambda>sc. if SELinuxContextType sc = ''MustRunAs''
        then writeOp E (UpdateReq (OScc (sc\<lparr>SELinuxContextType := ''RunAsAny''\<rparr>)))
        else return None)"

definition namespaceLabels :: labels where
  "namespaceLabels = [
     ''openshift.io/cluster-monitoring'' \<mapsto> ''true'',
     ''pod-security.kubernetes.io/enforce'' \<mapsto> ''privileged'',
     ''pod-security.kubernetes.io/audit'' \<mapsto> ''privileged'',
     ''pod-security.kubernetes.io/warn'' \<mapsto> ''privileged'']"

text \<open>A namespace without labels is read with a nil map; assigning to it panics.\<close>

definition labelNamespace :: "env \<Rightarrow> ('z, goerr option) op" where
  "labelNamespace E =
     onInl (readOp (GetReq KNamespace [] OperatorNamespace) (\<lambda>h. getNamespace (apiOf E) h OperatorNamespace))
       (\<lambda>err. return (Some err))
       (\<lambda>ns. if Labels (nsMeta ns) = Map.empty
          then return (Some (GoPanic ''assignment to entry in nil map''))
          else writeOp E (UpdateReq (ONamespace
            (nsMeta_update (Labels_update (\<lambda>ls. ls ++ namespaceLabels)) ns))))"

text \<open>The changes to the cluster before the controllers are registered; an error ends the process.\<close>

definition prepareCluster :: "env \<Rightarrow> bool \<Rightarrow> ('z, goerr option) op" where
  "prepareCluster E isOpenshift =
     (if isOpenshift then onErr (fixScc E) (\<lambda>e. return (Some e)) (labelNamespace E) else return None)"

text \<open>
  The TLS profile the process starts with: the values and errors of the two fetches from the API server object
  and the test whether the profile is to be honoured are parameters. The result is the profile, the adherence
  policy, whether the profile is honoured, and the profile in effect for the operator's own servers.
\<close>

definition intermediateProfile :: "env \<Rightarrow> goerr + tlsProfileSpec" where
  "intermediateProfile E = (case tlsProfiles (libOf E) ''Intermediate'' of
     None \<Rightarrow> Inl (GoPanic ''nil pointer dereference'') | Some sp \<Rightarrow> Inr sp)"

definition initialTls ::
  "env \<Rightarrow> tlsProfileSpec \<times> goerr option \<Rightarrow> string \<times> goerr option \<Rightarrow> (string \<Rightarrow> bool) \<Rightarrow>
   goerr + tlsProfileSpec \<times> string \<times> bool \<times> tlsProfileSpec" where
  "initialTls E fetchedProfile fetchedAdherence shouldHonor =
     (case (case snd fetchedProfile of None \<Rightarrow> Inr (fst fetchedProfile)
              | Some e \<Rightarrow> if IsNotFound e then intermediateProfile E else Inl e) of
        Inl e \<Rightarrow> Inl e
      | Inr profile \<Rightarrow> (case (case snd fetchedAdherence of None \<Rightarrow> Inr (fst fetchedAdherence)
              | Some e \<Rightarrow> if IsNotFound e then Inr (fst fetchedAdherence) else Inl e) of
          Inl e \<Rightarrow> Inl e
        | Inr adherence \<Rightarrow>
            (if shouldHonor adherence then Inr (profile, adherence, True, profile)
             else (case intermediateProfile E of Inl e \<Rightarrow> Inl e
               | Inr effective \<Rightarrow> Inr (profile, adherence, False, effective)))))"

section \<open>Console plugins\<close>

definition consolePlugins :: "(string \<times> string \<times> string) list" where
  "consolePlugins = [
     (''osc-openshift-console-plugin'', ''OpenShift Sandboxed Containers'', ''TP_IMAGE_OSC_CONSOLE_PLUGIN''),
     (''coco-openshift-console-plugin'', ''Confidential Containers'', ''TP_IMAGE_COCO_CONSOLE_PLUGIN'')]"

text \<open>The plugin reconcilers that are registered: none when the version is unknown or too old.\<close>

definition registeredPlugins :: "env \<Rightarrow> ('z, plugin list) op" where
  "registeredPlugins E = onInl (GetOpenshiftVersion E) (\<lambda>_. return []) (\<lambda>ocpVersion.
     return (if IsConsolePluginSupported E ocpVersion
       then map (\<lambda>(name, displayName, imageEnvVar). \<lparr>PluginName = name, DisplayName = displayName,
         ImageEnvVar = imageEnvVar, OperatorCSVPrefix = ''sandboxed-containers-operator'',
         pluginNamespace = pluginNamespaceFor E\<rparr>) consolePlugins
       else []))"

text \<open>After the manager has stopped; an error is logged.\<close>

definition cleanupAtExit :: "env \<Rightarrow> goerr option \<Rightarrow> bool \<Rightarrow> ('z, goerr option) op" where
  "cleanupAtExit E clientErr isOpenshift = (if isOpenshift
     then CleanupConsolePluginsOnUninstall E clientErr (getenv E ''POD_NAMESPACE'') ''sandboxed-containers-operator''
       ''controller-manager'' (map fst consolePlugins)
     else return None)"

section \<open>The validating webhook\<close>

definition ValidateCreate :: "env \<Rightarrow> kataconfig \<Rightarrow> ('z, goerr option) op" where
  "ValidateCreate E kc =
     onInl (readOp (ListReq KKataConfig) (listKataConfigs (apiOf E)))
       (\<lambda>err. return (Some (Errorf (''Failed to list KataConfig custom resources: '' @ errorText err))))
       (\<lambda>items. return (if length items = 1
          then Some (Errorf ''A KataConfig instance already exists, refusing to create a duplicate'') else None))"

definition ValidateUpdate :: "kataconfig \<Rightarrow> kataconfig \<Rightarrow> ('z, goerr option) op" where
  "ValidateUpdate oldObj newObj = return None"

definition ValidateDelete :: "kataconfig \<Rightarrow> ('z, goerr option) op" where
  "ValidateDelete kc = return None"

section \<open>What they do\<close>

text \<open>
  The SCC is updated only to replace the SELinux strategy that breaks the Machine Config Operator, and a second
  run over the updated object changes nothing.
\<close>

lemma fixScc_writes:
  "writesOf (fixScc E) s = (case getScc (apiOf E) (trace s) (Name (sccMeta GetScc)) of Inl _ \<Rightarrow> []
     | Inr sc \<Rightarrow> if SELinuxContextType sc = ''MustRunAs''
         then [UpdateReq (OScc (sc\<lparr>SELinuxContextType := ''RunAsAny''\<rparr>))] else [])"
  by (auto simp: fixScc_def writesOf_def newEvents_def run_simps split: sum.split)

text \<open>The namespace is never updated without its pod-security labels, and its other labels are kept.\<close>

lemma labelNamespace_writes:
  "case getNamespace (apiOf E) (trace s) OperatorNamespace of
     Inl e \<Rightarrow> writesOf (labelNamespace E) s = [] \<and> result (labelNamespace E) s = Some e
   | Inr ns \<Rightarrow> if Labels (nsMeta ns) = Map.empty
       then writesOf (labelNamespace E) s = [] \<and> (\<exists>msg. result (labelNamespace E) s = Some (GoPanic msg))
       else \<exists>ns'. writesOf (labelNamespace E) s = [UpdateReq (ONamespace ns')] \<and>
         (\<forall>k. Labels (nsMeta ns') k = (if namespaceLabels k = None then Labels (nsMeta ns) k else namespaceLabels k))"
  by (auto simp: labelNamespace_def writesOf_def newEvents_def run_simps map_add_def
      split: sum.split option.split)

text \<open>
  A KataConfig is refused when exactly one exists; with two or more, which racing creations can leave behind, a
  further one is admitted.
\<close>

theorem create_admitted:
  "result (ValidateCreate E kc) s = None \<longleftrightarrow>
     (case listKataConfigs (apiOf E) (trace s) of Inl _ \<Rightarrow> False | Inr items \<Rightarrow> length items \<noteq> 1)"
  by (simp add: ValidateCreate_def run_simps split: sum.split)

end
