(* ===== verification/Operator_Main.thy ===== *)
theory Operator_Main
  imports Operator_Runs Startup
begin

text \<open>
  The \<open>main\<close> function of the operator process (\<^verbatim>\<open>cmd/manager/main.go\<close>): what is set up in which order, which
  controllers are registered with the manager, and how the process ends. What controller-runtime does (creating
  clients and the manager, registering a controller, running the manager) is a parameter, the record
  \<open>framework\<close>.
\<close>

section \<open>The process\<close>

datatype controller =
    SecurityProfileWatcher tlsProfileSpec string
  | KataConfigController tlsProfileSpec bool
  | PeerPodController
  | ConsolePluginController plugin
  | KataConfigWebhook
  | CredentialsController
  | RuntimeClassController
  | OscMetricsCollector

text \<open>
  Every field that is an optional error is the outcome of one call; \<open>newManager\<close> also gets the TLS profile of the
  operator's own servers, where there is one, and \<open>runManager\<close> the registered controllers and the requests sent
  before: it gives the requests they send until the manager stops, and the error of \<open>mgr.Start\<close>.
\<close>

record framework =
  configErr :: "goerr option"
  apiGroups :: "goerr + string list"
  tempClientErr :: "goerr option"
  fetchedProfile :: "tlsProfileSpec \<times> goerr option"
  fetchedAdherence :: "string \<times> goerr option"
  shouldHonor :: "string \<Rightarrow> bool"
  newManager :: "tlsProfileSpec option \<Rightarrow> goerr option"
  registerErr :: "controller \<Rightarrow> goerr option"
  runManager :: "controller list \<Rightarrow> history \<Rightarrow> history \<times> goerr option"
  cleanupClientErr :: "goerr option"

text \<open>The controllers registered so far, and those the manager was started with.\<close>

record process = "event traced" +
  registered :: "controller list"
  started :: "controller list option"

text \<open>How the process ends: \<open>os.Exit\<close> or the return of \<open>main\<close>, or a panic.\<close>

datatype processEnd = ExitCode nat | Crashed

definition failedSetup :: "goerr \<Rightarrow> processEnd" where
  "failedSetup e = (if isPanic e then Crashed else ExitCode 1)"

definition register :: "framework \<Rightarrow> controller \<Rightarrow> (process, goerr option) state" where
  "register F c = (case registerErr F c of
     Some e \<Rightarrow> return (Some e)
   | None \<Rightarrow> do { _ \<leftarrow> modify (registered_update (\<lambda>cs. cs @ [c])); return None })"

text \<open>
  The TLS settings on OpenShift: the profile and the adherence policy of the cluster, whether the profile is to be
  honoured, and the profile of the operator's own servers. On other clusters they are left empty.
\<close>

definition startupTls :: "env \<Rightarrow> framework \<Rightarrow> bool \<Rightarrow> goerr + (tlsProfileSpec \<times> string \<times> bool \<times> tlsProfileSpec) option" where
  "startupTls E F isOpenshift = (if isOpenshift
     then map_sum id Some (initialTls E (fetchedProfile F) (fetchedAdherence F) (shouldHonor F)) else Inr None)"

text \<open>The part of the setup that only an OpenShift cluster gets.\<close>

definition setupOpenShift ::
  "env \<Rightarrow> framework \<Rightarrow> tlsProfileSpec \<times> string \<times> bool \<times> tlsProfileSpec \<Rightarrow> (process, goerr option) state" where
  "setupOpenShift E F tls = (case tls of (profile, adherence, honor, _) \<Rightarrow>
     onErr (register F (SecurityProfileWatcher profile adherence)) (\<lambda>e. return (Some e))
     (onErr (prepareCluster E True) (\<lambda>e. return (Some e))
     (onErr (register F (KataConfigController profile honor)) (\<lambda>e. return (Some e))
     (onErr (register F PeerPodController) (\<lambda>e. return (Some e))
     (do {
        plugins \<leftarrow> registeredPlugins E;
        forEach (\<lambda>cp. register F (ConsolePluginController cp)) plugins
      })))))"

definition commonControllers :: "controller list" where
  "commonControllers = [KataConfigWebhook, CredentialsController, RuntimeClassController, OscMetricsCollector]"

text \<open>Everything up to the start of the manager: an error, or whether the cluster is OpenShift.\<close>

definition setupManager :: "env \<Rightarrow> framework \<Rightarrow> (process, goerr + bool) state" where
  "setupManager E F =
     onErr (return (configErr F)) (\<lambda>e. return (Inl e))
     (onInl (return (IsOpenShift (apiGroups F))) (\<lambda>e. return (Inl e)) (\<lambda>isOpenshift.
      onErr (return (tempClientErr F)) (\<lambda>e. return (Inl e))
      (onInl (return (startupTls E F isOpenshift)) (\<lambda>e. return (Inl e)) (\<lambda>tls.
       onErr (return (newManager F (map_option (\<lambda>(_, _, _, effective). effective) tls))) (\<lambda>e. return (Inl e))
       (onErr (case tls of Some t \<Rightarrow> setupOpenShift E F t | None \<Rightarrow> return None) (\<lambda>e. return (Inl e))
       (onErr (forEach (register F) commonControllers) (\<lambda>e. return (Inl e))
         (return (Inr isOpenshift))))))))"

definition startManager :: "framework \<Rightarrow> (process, goerr option) state" where
  "startManager F = do {
     cs \<leftarrow> gets registered;
     h \<leftarrow> gets trace;
     _ \<leftarrow> modify (\<lambda>s. s\<lparr>started := Some cs, trace := h @ fst (runManager F cs h)\<rparr>);
     return (snd (runManager F cs h))
   }"

definition main :: "env \<Rightarrow> framework \<Rightarrow> (process, processEnd) state" where
  "main E F = onInl (setupManager E F) (\<lambda>e. return (failedSetup e)) (\<lambda>isOpenshift. do {
     startErr \<leftarrow> startManager F;
     _ \<leftarrow> cleanupAtExit E (cleanupClientErr F) isOpenshift;
     return (ExitCode (if startErr \<noteq> None then 1 else 0))
   })"

text \<open>A fresh process; \<open>h\<close> is what earlier processes sent.\<close>

definition newProcess :: "history \<Rightarrow> process" where
  "newProcess h = \<lparr>trace = h, registered = [], started = None\<rparr>"

section \<open>What the process does\<close>

lemma run_register:
  "result (register F c) s = registerErr F c"
  "exec (register F c) s = (if registerErr F c = None then registered_update (\<lambda>cs. cs @ [c]) s else s)"
  by (auto simp: register_def run_simps split: option.split)

lemma run_registerAll:
  "result (forEach (\<lambda>x. register F (g x)) xs) s = None \<Longrightarrow>
   exec (forEach (\<lambda>x. register F (g x)) xs) s = registered_update (\<lambda>cs. cs @ map g xs) s"
  by (induction xs arbitrary: s) (auto simp: run_simps run_register split: option.splits)

lemma emits_register [emits_intros]: "emits P (register F c)"
  by (auto simp: emits_def run_register)

lemma preserves_register [preserves_intros]: "preserves started (register F c)"
  by (simp add: preserves_def run_register)

lemma emits_setupManager: "emits (writesOnly {KScc, KNamespace}) (setupManager E F)"
  unfolding setupManager_def setupOpenShift_def prepareCluster_def fixScc_def labelNamespace_def registeredPlugins_def
  by (intro emits_intros; simp add: readOnly_writesOnly)

lemma preserves_setupManager: "preserves started (setupManager E F)"
  unfolding setupManager_def setupOpenShift_def prepareCluster_def fixScc_def labelNamespace_def registeredPlugins_def
    GetOpenshiftVersion_def
  by (intro preserves_intros; simp)

text \<open>The controllers of a process whose setup succeeded; the console plugins depend on the version of the cluster.\<close>

definition controllersFor ::
  "(tlsProfileSpec \<times> string \<times> bool \<times> tlsProfileSpec) option \<Rightarrow> plugin list \<Rightarrow> controller list" where
  "controllersFor tls plugins = (case tls of None \<Rightarrow> []
     | Some (profile, adherence, honor, _) \<Rightarrow> [SecurityProfileWatcher profile adherence,
         KataConfigController profile honor, PeerPodController] @ map ConsolePluginController plugins)
     @ commonControllers"

definition pluginsOk :: "plugin list \<Rightarrow> bool" where
  "pluginsOk plugins \<longleftrightarrow> plugins = [] \<or> map PluginName plugins = map fst consolePlugins"

lemma registeredPlugins_ok: "pluginsOk (result (registeredPlugins E) s)"
  by (auto simp: registeredPlugins_def pluginsOk_def consolePlugins_def run_simps split: sum.split)

lemma preserves_cluster_steps:
  "preserves registered (prepareCluster E b)" "preserves registered (registeredPlugins E)"
  unfolding prepareCluster_def fixScc_def labelNamespace_def registeredPlugins_def
  by (intro preserves_intros; simp)+

lemma setupOpenShift_registers:
  assumes "result (setupOpenShift E F tls) s = None"
  shows "\<exists>plugins. pluginsOk plugins \<and> registered (exec (setupOpenShift E F tls) s) @ commonControllers =
    registered s @ controllersFor (Some tls) plugins"
  using assms registeredPlugins_ok
  by (auto simp: setupOpenShift_def controllersFor_def run_simps run_register run_registerAll
      preservesD[OF preserves_cluster_steps(1)] preservesD[OF preserves_cluster_steps(2)]
      split: prod.splits option.splits)

lemma setupManager_registers:
  assumes "result (setupManager E F) s = Inr isOpenshift"
  shows "\<exists>tls plugins. IsOpenShift (apiGroups F) = Inr isOpenshift \<and> startupTls E F isOpenshift = Inr tls \<and>
    newManager F (map_option (\<lambda>(_, _, _, effective). effective) tls) = None \<and> pluginsOk plugins \<and>
    registered (exec (setupManager E F) s) = registered s @ controllersFor tls plugins"
proof -
  have common: "registered (exec (forEach (register F) commonControllers) s') = registered s' @ commonControllers"
    if "result (forEach (register F) commonControllers) s' = None" for s'
    using run_registerAll[of F "\<lambda>x. x"] that by simp
  have "\<exists>plugins. pluginsOk plugins \<and> commonControllers = controllersFor None plugins"
    by (auto simp: controllersFor_def pluginsOk_def)
  then show ?thesis
    using assms by (auto simp: setupManager_def run_simps common intro!: setupOpenShift_registers
        split: option.splits sum.splits)
qed

text \<open>
  The rest of a process whose setup has sent the requests \<open>prep\<close>: those of the running manager, and only then the
  clean-up of the console plugins.
\<close>

definition managerRuns :: "framework \<Rightarrow> bool \<Rightarrow> controller list \<Rightarrow> history \<Rightarrow> processEnd \<Rightarrow> process \<Rightarrow> bool" where
  "managerRuns F isOpenshift cs h ending p \<longleftrightarrow> (\<exists>cleanup. case runManager F cs h of (running, startErr) \<Rightarrow>
     trace p = h @ running @ cleanup \<and> (if isOpenshift then True else cleanup = []) \<and>
     ending = ExitCode (if startErr = None then 0 else 1))"

lemma preserves_cleanup_parts:
  "preserves started m \<Longrightarrow> preserves started (retryOnConflict n x m)"
  "preserves started (deleteAll E objs errs)"
  by (induction n arbitrary: x; auto intro!: preserves_intros)
    (induction objs arbitrary: errs; auto intro!: preserves_intros)

lemma preserves_cleanupAll: "preserves started (cleanupAll E ns names errs)"
  by (induction names arbitrary: errs)
    (auto simp: deleteResources_def disableConsolePlugin_def disableAttempt_def Let_def
      intro!: preserves_intros preserves_cleanup_parts)

lemma cleanupAtExit_frame:
  "appends (cleanupAtExit E clientErr isOpenshift)" "preserves started (cleanupAtExit E clientErr isOpenshift)"
  unfolding cleanupAtExit_def CleanupConsolePluginsOnUninstall_def operatorUninstallInProgress_def listCsvsOp_def
  by (intro emits_intros preserves_intros appends_cleanupAll preserves_cleanupAll; simp)+

lemma run_startManager:
  "result (startManager F) s = snd (runManager F (registered s) (trace s))"
  "exec (startManager F) s =
     s\<lparr>started := Some (registered s), trace := trace s @ fst (runManager F (registered s) (trace s))\<rparr>"
  by (simp_all add: startManager_def run_simps)

lemma main_after_setup:
  assumes "result (setupManager E F) s = Inr isOpenshift"
  defines "s1 \<equiv> exec (setupManager E F) s"
  shows "started (exec (main E F) s) = Some (registered s1)"
    "managerRuns F isOpenshift (registered s1) (trace s1) (result (main E F) s) (exec (main E F) s)"
proof -
  let ?m = "cleanupAtExit E (cleanupClientErr F) isOpenshift :: (process, goerr option) state"
  let ?s2 = "exec (startManager F) s1"
  have ends: "exec (main E F) s = exec ?m ?s2"
    "result (main E F) s = ExitCode (if result (startManager F) s1 \<noteq> None then 1 else 0)"
    using assms by (simp_all add: main_def run_simps)
  have "newEvents ?m ?s2 = []" if "\<not> isOpenshift"
    using that by (simp add: cleanupAtExit_def newEvents_def)
  then show "managerRuns F isOpenshift (registered s1) (trace s1) (result (main E F) s) (exec (main E F) s)"
    using emits_newEvents(1)[OF cleanupAtExit_frame(1), of E "cleanupClientErr F" isOpenshift ?s2]
    by (auto simp: managerRuns_def ends run_startManager split: prod.split intro!: exI[of _ "newEvents ?m ?s2"])
  show "started (exec (main E F) s) = Some (registered s1)"
    by (simp add: ends preservesD[OF cleanupAtExit_frame(2)] run_startManager)
qed


end
