(* ===== verification/Progress.thy ===== *)
theory Progress
  imports Reconcile_Loop
begin

text \<open>
  Reconciliations do not stall: one that ends without an error and without asking for another reconciliation has
  finished its work or waits for an event that brings the reconciler back. \<open>endsIn Q s0 m\<close> says that the request
  handler \<open>m\<close>, called in a call that started in \<open>s0\<close>, ends in such a way only where \<open>Q\<close> holds. The locale
  \<open>live_mode\<close> adds this promise to the ones of a deployment mode.
\<close>

section \<open>Ends of a request\<close>

definition settled :: "ctrlResult \<times> goerr option \<Rightarrow> bool" where
  "settled x \<longleftrightarrow> x = (emptyResult, None)"

definition endsIn :: "(rstate \<Rightarrow> bool) \<Rightarrow> rstate \<Rightarrow> (rstate, ctrlResult \<times> goerr option) state \<Rightarrow> bool" where
  "endsIn Q s0 m \<longleftrightarrow> (\<forall>s. grown s0 s \<longrightarrow> wp m (\<lambda>x s'. settled x \<longrightarrow> Q s') s)"

named_theorems ends_intros "introduction rules for the endsIn predicate"

lemma endsInI: "(\<And>s. grown s0 s \<Longrightarrow> wp m (\<lambda>x s'. settled x \<longrightarrow> Q s') s) \<Longrightarrow> endsIn Q s0 m"
  by (simp add: endsIn_def)

lemma endsInD: "endsIn Q s0 m \<Longrightarrow> grown s0 s \<Longrightarrow> wp m (\<lambda>x s'. settled x \<longrightarrow> Q s') s"
  by (simp add: endsIn_def)

lemma unsettled [simp]:
  "\<not> settled (r, Some e)" "\<not> settled (requeueNow, err)" "\<not> settled (requeueIn n, err)" "\<not> settled (labellingRetry e)"
  by (auto simp: settled_def emptyResult_def requeueNow_def requeueIn_def labellingRetry_def)

lemma unsettled_error [simp]: "err \<noteq> None \<Longrightarrow> \<not> settled (r, err)"
  by (simp add: settled_def)

lemma ends_return [ends_intros]: "\<not> settled x \<Longrightarrow> endsIn Q s0 (return x)"
  by (simp add: endsIn_def wp_return)

lemma ends_bind [ends_intros]: "appends m \<Longrightarrow> (\<And>x. endsIn Q s0 (k x)) \<Longrightarrow> endsIn Q s0 (State_Monad.bind m k)"
  by (rule endsInI, rule wp_bind_grown) (auto intro: endsInD grown_trans)

lemma ends_onErr [ends_intros]:
  "appends m \<Longrightarrow> (\<And>e. endsIn Q s0 (h e)) \<Longrightarrow> endsIn Q s0 k \<Longrightarrow> endsIn Q s0 (onErr m h k)"
  by (rule endsInI, rule wp_onErr_grown) (auto intro: endsInD grown_trans)

lemma ends_onInl [ends_intros]:
  "appends m \<Longrightarrow> (\<And>e. endsIn Q s0 (h e)) \<Longrightarrow> (\<And>x. endsIn Q s0 (k x)) \<Longrightarrow> endsIn Q s0 (onInl m h k)"
  by (rule endsInI, rule wp_onInl_grown) (auto intro: endsInD grown_trans)

lemma ends_if [ends_intros]:
  "(b \<Longrightarrow> endsIn Q s0 m) \<Longrightarrow> (\<not> b \<Longrightarrow> endsIn Q s0 n) \<Longrightarrow> endsIn Q s0 (if b then m else n)"
  by simp

lemma ends_let [ends_intros]: "(\<And>y. endsIn Q s0 (k y)) \<Longrightarrow> endsIn Q s0 (Let x k)"
  by simp

lemma ends_case_option [ends_intros]:
  "endsIn Q s0 m \<Longrightarrow> (\<And>x. endsIn Q s0 (k x)) \<Longrightarrow> endsIn Q s0 (case_option m k r)"
  by (cases r) simp_all

lemma ends_case_prod [ends_intros]: "(\<And>x y. endsIn Q s0 (k x y)) \<Longrightarrow> endsIn Q s0 (case_prod k r)"
  by (cases r) simp

lemma ends_mono: "endsIn Q s0 m \<Longrightarrow> (\<And>s'. Q s' \<Longrightarrow> R s') \<Longrightarrow> endsIn R s0 m"
  by (auto simp: endsIn_def elim!: wp_conseq)

section \<open>What a request waits for, and what it has done\<close>

text \<open>A pool was seen updating, or the KataConfig in memory says that the Machine Config Operator has yet to start.\<close>

definition sawUpdating :: "env \<Rightarrow> rstate \<Rightarrow> rstate \<Rightarrow> bool" where
  "sawUpdating E s0 s' \<longleftrightarrow> (\<exists>h0 h1 pool. trace s' = trace s0 @ h0 @ h1 \<and>
     pool \<in> {''kata-oc'', ''worker'', ''master''} \<and> poolUpdating E (trace s0 @ h0) pool)"

definition awaitsPool :: "env \<Rightarrow> rstate \<Rightarrow> rstate \<Rightarrow> bool" where
  "awaitsPool E s0 s' \<longleftrightarrow> waitingForMco s' \<or> sawUpdating E s0 s'"

text \<open>A kata node was seen that has not reached the state \<open>v\<close>.\<close>

definition awaitsNodes :: "env \<Rightarrow> string \<Rightarrow> rstate \<Rightarrow> rstate \<Rightarrow> bool" where
  "awaitsNodes E v s0 s' \<longleftrightarrow> (\<exists>h0 h1 q nodes. trace s' = trace s0 @ h0 @ h1 \<and>
     listNodes (apiOf E) (trace s0 @ h0) q = Inr nodes \<and> \<not> list_all (\<lambda>n. kataState n = v) nodes)"

definition inThisCall :: "(event \<Rightarrow> bool) \<Rightarrow> rstate \<Rightarrow> rstate \<Rightarrow> bool" where
  "inThisCall A s0 s' \<longleftrightarrow> since (length (trace s0)) A (trace s')"

definition finalizerReleased :: "env \<Rightarrow> event \<Rightarrow> bool" where
  "finalizerReleased E e \<longleftrightarrow> (\<exists>kc m. e = Ev (UpdateReq (OKataConfig kc)) None \<and>
     kcMeta kc = RemoveFinalizer E kataConfigFinalizer m)"

definition uninstallStarted :: "event \<Rightarrow> bool" where
  "uninstallStarted e \<longleftrightarrow> (\<exists>ds. e = Ev (CreateReq (ODaemonSet ds)) None \<and>
     Name (dsMeta ds) = installDsName UninstallKata)"

definition kataInstalled :: "rstate \<Rightarrow> rstate \<Rightarrow> bool" where
  "kataInstalled s0 s' \<longleftrightarrow> inThisCall sccThere s0 s' \<and> inThisCall monitorWritten s0 s'"

lemma sawUpdating_grown: "sawUpdating E s0 s \<Longrightarrow> grown s s' \<Longrightarrow> sawUpdating E s0 s'"
  unfolding sawUpdating_def grown_def by (metis append.assoc)

lemma awaitsNodes_grown: "awaitsNodes E v s0 s \<Longrightarrow> grown s s' \<Longrightarrow> awaitsNodes E v s0 s'"
  unfolding awaitsNodes_def grown_def by (metis append.assoc)

lemma inThisCall_grown: "inThisCall A s0 s \<Longrightarrow> grown s s' \<Longrightarrow> inThisCall A s0 s'"
  unfolding inThisCall_def by (rule since_grown)

lemma inThisCall_new: "grown s0 s \<Longrightarrow> trace s' = trace s @ new \<Longrightarrow> e \<in> set new \<Longrightarrow> A e \<Longrightarrow> inThisCall A s0 s'"
  by (auto simp: inThisCall_def since_def grown_def)

lemma wp_sawUpdating:
  assumes "grown s0 s" and "pool \<in> {''kata-oc'', ''worker'', ''master''}"
  shows "wp (isMcpUpdating E pool) (\<lambda>x s'. grown s0 s' \<and> (x \<longrightarrow> sawUpdating E s0 s') \<and> kataConfig s' = kataConfig s) s"
proof -
  from assms(1) obtain h0 where h0: "trace s = trace s0 @ h0" by (auto simp: grown_def)
  have saw: "sawUpdating E s0 s'" if "trace s' = trace s @ h1" "poolUpdating E (trace s) pool" for s' h1
    unfolding sawUpdating_def using that h0 assms(2) by (intro exI[of _ h0] exI[of _ h1] exI[of _ pool]) simp
  show ?thesis
    unfolding isMcpUpdating_def
    by (auto simp: wp_simps grown_def h0 poolUpdating_def split: sum.split
        intro!: saw[unfolded h0 poolUpdating_def, simplified])
qed

lemma ends_isMcpUpdating:
  assumes "pool \<in> {''kata-oc'', ''worker'', ''master''}"
    and "\<And>s. grown s0 s \<Longrightarrow> sawUpdating E s0 s \<Longrightarrow> wp (k True) (\<lambda>x s'. settled x \<longrightarrow> Q s') s"
    and "endsIn Q s0 (k False)"
  shows "endsIn Q s0 (State_Monad.bind (isMcpUpdating E pool) k)"
proof (rule endsInI)
  fix s assume "grown s0 s"
  then show "wp (isMcpUpdating E pool \<bind> k) (\<lambda>x s'. settled x \<longrightarrow> Q s') s"
    unfolding wp_bind
    by (rule wp_conseq[OF wp_sawUpdating[OF _ assms(1)]])
      (rename_tac x s', case_tac x, simp_all add: assms(2) endsInD[OF assms(3)])
qed

lemma ends_removeFinalizer:
  "endsIn (inThisCall (finalizerReleased E) s0) s0
     (onErr (removeFinalizer E) (\<lambda>_. return (requeueNow, None)) (return (emptyResult, None)))"
  by (rule endsInI) (auto simp: removeFinalizer_def writeKataConfig_def wp_simps finalizerReleased_def
      intro!: inThisCall_new split: option.split)

section \<open>Removal by the Machine Config Operator\<close>

definition mcoRemovalSettled :: "env \<Rightarrow> rstate \<Rightarrow> rstate \<Rightarrow> bool" where
  "mcoRemovalSettled E s0 s' \<longleftrightarrow> awaitsPool E s0 s' \<or> inThisCall (finalizerReleased E) s0 s'"

lemma ends_waiting:
  assumes "\<And>s'. waitingForMco s' \<Longrightarrow> Q s'" and "endsIn Q s0 rest"
  shows "endsIn Q s0 (gets waitingForMco \<bind> (\<lambda>waiting. if waiting then return x else rest))"
  by (rule endsInI) (auto simp: wp_simps assms(1) endsInD[OF assms(2)])

lemma appends_parts:
  "appends (updateStatus E)" "appends (setWaitingForMcoToStart b)" "appends (mutateCondition E f)"
  by (intro emits_intros appends_finishInstall emits_setWaiting TrueI)+

lemma wp_sawUpdating_kept:
  assumes "sawUpdating E s0 s" and "appends m"
  shows "wp m (\<lambda>x s'. settled x \<longrightarrow> sawUpdating E s0 s') s"
  by (rule wp_grown[OF assms(2)]) (use sawUpdating_grown[OF assms(1)] in blast)

lemma deletePodVMImage_shape: "wp (deletePodVMImage E) (\<lambda>x s'. fst x \<noteq> Some emptyResult) s"
  unfolding deletePodVMImage_def
  by (simp add: wp_bind wp_gets, rule wp_grown, intro emits_intros TrueI)
    (auto simp: wp_simps requeueErr_def requeueIn_def emptyResult_def split: prod.split)

lemma removePeerPods_shape: "wp (removePeerPods E) (\<lambda>x s'. fst x \<noteq> Some emptyResult) s"
proof -
  have "wp (disablePeerPods E) (\<lambda>x s'. fst x \<noteq> Some emptyResult) s" for s
    unfolding disablePeerPods_def
    by (rule wp_bind_grown, intro emits_intros TrueI, simp only: wp_bind)
      (rule wp_conseq[OF deletePodVMImage_shape],
       auto simp: wp_simps requeueErr_def requeueIn_def emptyResult_def split: prod.splits)
  then show ?thesis unfolding removePeerPods_def by (simp add: wp_simps)
qed

lemma ends_bind_shape:
  assumes "appends m" and "\<And>s. wp m (\<lambda>x s'. S x) s" and "\<And>x. S x \<Longrightarrow> endsIn Q s0 (k x)"
  shows "endsIn Q s0 (State_Monad.bind m k)"
proof (rule endsInI)
  fix s assume "grown s0 s"
  then have "grown s0 (exec m s)" using grown_exec[OF assms(1)] grown_trans by blast
  moreover have "S (result m s)" using assms(2)[of s] by (simp add: wp_def)
  ultimately show "wp (m \<bind> k) (\<lambda>x s'. settled x \<longrightarrow> Q s') s"
    unfolding wp_bind by (simp add: wp_def[of m] endsInD[OF assms(3)])
qed

lemma ends_removePeerPods:
  assumes "endsIn Q s0 k"
  shows "endsIn Q s0 (removePeerPods E \<bind> (\<lambda>(res, err). case (res, err) of
       (Some r, _) \<Rightarrow> return (r, err)
     | (None, Some e) \<Rightarrow> return (emptyResult, Some (if isPanic e then e else GoPanic ''nil pointer dereference''))
     | (None, None) \<Rightarrow> k))"
proof (rule ends_bind_shape[OF _ removePeerPods_shape])
  show "appends (removePeerPods E)" unfolding removePeerPods_def by (intro emits_intros TrueI)
  fix x :: stepResult assume "fst x \<noteq> Some emptyResult"
  then show "endsIn Q s0 (case x of (res, err) \<Rightarrow> case (res, err) of
       (Some r, _) \<Rightarrow> return (r, err)
     | (None, Some e) \<Rightarrow> return (emptyResult, Some (if isPanic e then e else GoPanic ''nil pointer dereference''))
     | (None, None) \<Rightarrow> k)"
    by (cases x; cases "fst x"; cases "snd x") (auto intro!: ends_return assms simp: settled_def)
qed

lemma ends_cleanupPhase: "endsIn (inThisCall (finalizerReleased E) s0) s0 (cleanupPhase E conv)"
  unfolding cleanupPhase_def deleteKataOcPool_def
  by (intro ends_intros ends_removePeerPods ends_removeFinalizer emits_intros TrueI; simp)

lemma ends_uninstallPhase: "endsIn (mcoRemovalSettled E s0) s0 (uninstallPhase E conv)"
proof -
  let ?pool = "if conv then ''master'' else ''worker''"
  have idle: "endsIn (mcoRemovalSettled E s0) s0 (gets waitingForMco \<bind> (\<lambda>waiting.
      if waiting then return (emptyResult, None)
      else setWaitingForMcoToStart False \<bind> (\<lambda>_. updateStatus E \<bind> (\<lambda>_.
        mutateCondition E resetInProgressCondition \<bind> (\<lambda>_. cleanupPhase E conv)))))"
    by (rule ends_waiting)
      (auto simp: mcoRemovalSettled_def awaitsPool_def intro!: ends_bind appends_parts ends_mono[OF ends_cleanupPhase])
  have busy: "wp (gets waitingForMco \<bind> (\<lambda>waiting. setWaitingForMcoToStart False \<bind> (\<lambda>_. updateStatus E \<bind>
      (\<lambda>_. return (emptyResult, None))))) (\<lambda>x s'. settled x \<longrightarrow> mcoRemovalSettled E s0 s') s"
    if "sawUpdating E s0 s" for s
    by (rule wp_conseq[OF wp_sawUpdating_kept[OF that]])
      (auto simp: mcoRemovalSettled_def awaitsPool_def intro!: emits_bind emits_gets appends_parts emits_return)
  show ?thesis unfolding uninstallPhase_def
    by (rule ends_isMcpUpdating) (use idle busy in simp_all)
qed

lemma ends_mcoRemoval: "endsIn (mcoRemovalSettled E s0) s0 (processKataConfigDeleteRequest E)"
  unfolding processKataConfigDeleteRequest_def removalPhase_def removeMc_def setImgMc_def
  by (intro ends_intros ends_uninstallPhase appends_parts emits_mono[OF emits_checkDeletionEligibility TrueI]
      emits_intros TrueI; simp)

section \<open>Installation by the Machine Config Operator\<close>

definition mcoInstallSettled :: "env \<Rightarrow> rstate \<Rightarrow> rstate \<Rightarrow> bool" where
  "mcoInstallSettled E s0 s' \<longleftrightarrow> awaitsPool E s0 s' \<or> kataInstalled s0 s'"

lemma ends_finishInstall: "endsIn (kataInstalled s0) s0 (finishInstall E)"
proof (rule endsInI)
  fix s :: rstate assume s: "grown s0 s"
  show "wp (finishInstall E) (\<lambda>x s'. settled x \<longrightarrow> kataInstalled s0 s') s"
    using finishInstall_ends[of E s] s emits_newEvents(1)[OF appends_finishInstall(1), of E s]
    by (auto simp: wp_def settled_def installEnds_def kataInstalled_def inThisCall_def since_def grown_def)
qed

lemma ends_installPhase:
  assumes "pool \<in> {''kata-oc'', ''worker'', ''master''}"
  shows "endsIn (mcoInstallSettled E s0) s0 (installPhase E pool)"
proof -
  let ?current = "gets (\<lambda>s. getInProgressConditionValue (conditionsOf s))"
  have idle: "endsIn (mcoInstallSettled E s0) s0 (?current \<bind> (\<lambda>_. gets waitingForMco \<bind> (\<lambda>waiting.
      if waiting then return (emptyResult, None)
      else setWaitingForMcoToStart False \<bind> (\<lambda>_. updateStatus E \<bind> (\<lambda>_. finishInstall E)))))"
    by (rule ends_bind, rule emits_gets, rule ends_waiting)
      (auto simp: mcoInstallSettled_def awaitsPool_def intro!: ends_bind appends_parts ends_mono[OF ends_finishInstall])
  have busy: "wp (?current \<bind> (\<lambda>v. (if v = ''False'' then mutateCondition E setInProgressConditionToUpdating else return ()) \<bind>
      (\<lambda>_. gets waitingForMco \<bind> (\<lambda>waiting. setWaitingForMcoToStart False \<bind> (\<lambda>_. updateStatus E \<bind>
      (\<lambda>_. return (emptyResult, None))))))) (\<lambda>x s'. settled x \<longrightarrow> mcoInstallSettled E s0 s') s"
    if "sawUpdating E s0 s" for s
    by (rule wp_conseq[OF wp_sawUpdating_kept[OF that]])
      (auto simp: mcoInstallSettled_def awaitsPool_def intro!: emits_bind emits_gets emits_if appends_parts emits_return)
  show ?thesis unfolding installPhase_def
    by (rule ends_isMcpUpdating[OF assms]) (use idle busy in simp_all)
qed

lemma ends_onInl_shape:
  assumes "appends m" and "\<And>s. wp m (\<lambda>x s'. case x of Inl e \<Rightarrow> True | Inr y \<Rightarrow> S y) s"
    and "\<And>e. endsIn Q s0 (h e)" and "\<And>y. S y \<Longrightarrow> endsIn Q s0 (k y)"
  shows "endsIn Q s0 (onInl m h k)"
  unfolding onInl_def by (rule ends_bind_shape[OF assms(1,2)]) (auto intro: assms(3,4) split: sum.splits)

lemma getMcpName_shape:
  "wp (getMcpName E) (\<lambda>x s'. case x of Inl e \<Rightarrow> True | Inr pool \<Rightarrow> pool \<in> {''kata-oc'', ''worker'', ''master''}) s"
  unfolding getMcpName_def
  by (rule wp_onInl_grown, intro emits_intros TrueI) (auto simp: wp_simps)

lemma ends_mcoInstall: "endsIn (mcoInstallSettled E s0) s0 (processKataConfigInstallRequest E)"
proof -
  have mixed: "wp (reconcileMixedCluster E) (\<lambda>x s'. case x of (Some r, err) \<Rightarrow> \<not> settled (r, err) | _ \<Rightarrow> True) s" for s
    unfolding reconcileMixedCluster_def
    by (simp only: wp_bind wp_gets)
      (auto intro!: wp_onErr_grown wp_onInl_grown emits_intros simp: wp_return)
  have pool: "endsIn (mcoInstallSettled E s0) s0 (preparePool E pool created)"
    if "pool \<in> {''kata-oc'', ''worker'', ''master''}" for pool created
    unfolding preparePool_def ensurePool_def
    by (intro ends_intros ends_installPhase[OF that] appends_parts emits_intros TrueI; simp)
  have rest: "endsIn (mcoInstallSettled E s0) s0 (onInl (getMcpName E) (\<lambda>e. return (emptyResult, Some e)) (\<lambda>machinePool.
       onErr (ensureFinalizer E) (\<lambda>e. return (emptyResult, Some e))
       (onInl (getCustomKernelConfig E) (\<lambda>e. return (emptyResult, Some e)) (\<lambda>customKernelCfg.
        onInl (createMc E machinePool customKernelCfg) (\<lambda>e. return (requeueNow, None)) (\<lambda>wasMcJustCreated.
          (if wasMcJustCreated then mutateCondition E setInProgressConditionToInstalling else return ()) \<bind>
          (\<lambda>_. preparePool E machinePool wasMcJustCreated))))))"
    by (rule ends_onInl_shape[OF _ getMcpName_shape];
        (intro ends_intros pool appends_parts emits_mono[OF emits_ensureFinalizer TrueI] emits_intros TrueI)?; simp)
  show ?thesis unfolding processKataConfigInstallRequest_def checkEligibility_def
    by (intro ends_onErr ends_bind_shape[OF _ mixed] ends_return emits_intros TrueI;
        (simp add: rest split: option.splits prod.splits; auto intro!: ends_return rest)?)
qed

section \<open>The DaemonSet mode\<close>

definition dsRemovalSettled :: "env \<Rightarrow> rstate \<Rightarrow> rstate \<Rightarrow> bool" where
  "dsRemovalSettled E s0 s' \<longleftrightarrow> inThisCall uninstallStarted s0 s' \<or> awaitsNodes E KataUninstalled s0 s' \<or>
     inThisCall (finalizerReleased E) s0 s'"

definition dsInstallSettled :: "env \<Rightarrow> rstate \<Rightarrow> rstate \<Rightarrow> bool" where
  "dsInstallSettled E s0 s' \<longleftrightarrow> awaitsNodes E KataInstalled s0 s' \<or> kataInstalled s0 s'"

text \<open>Once a lasting fact holds, any way to end is fine; a query or step that ends well may establish one.\<close>

lemma ends_onInl_fact:
  assumes "appends m" and "\<And>s. grown s0 s \<Longrightarrow> wp m (\<lambda>x s'. x = Inr b \<longrightarrow> F s') s"
    and "\<And>s s'. F s \<Longrightarrow> grown s s' \<Longrightarrow> Q s'" and "\<And>e. endsIn Q s0 (h e)"
    and "appends (k b)" and "\<And>y. y \<noteq> b \<Longrightarrow> endsIn Q s0 (k y)"
  shows "endsIn Q s0 (onInl m h k)"
proof (rule endsInI)
  fix s assume s: "grown s0 s"
  then have g: "grown s0 (exec m s)" using grown_exec[OF assms(1)] grown_trans by blast
  show "wp (onInl m h k) (\<lambda>x s'. settled x \<longrightarrow> Q s') s"
  proof (cases "result m s")
    case (Inl e)
    then show ?thesis using endsInD[OF assms(4) g] by (simp add: wp_onInl wp_def[of m])
  next
    case (Inr y)
    have "wp (k y) (\<lambda>x s'. settled x \<longrightarrow> Q s') (exec m s)"
    proof (cases "y = b")
      case True
      then have "F (exec m s)" using assms(2)[OF s] Inr by (simp add: wp_def)
      then show ?thesis unfolding True by (intro wp_grown[OF assms(5)]) (use assms(3) in blast)
    qed (use endsInD[OF assms(6) g] in blast)
    then show ?thesis using Inr by (simp add: wp_onInl wp_def[of m])
  qed
qed

lemma wp_awaitsNodes:
  assumes "grown s0 s"
  shows "wp (kataInstallationDaemonSetAllNodeInState E v) (\<lambda>x s'. x = Inr False \<longrightarrow> awaitsNodes E v s0 s') s"
proof -
  have saw: "awaitsNodes E v s0 s'"
    if "grown s s1" "listNodes (apiOf E) (trace s1) q = Inr nodes" "trace s' = trace s1 @ [e]"
      "\<not> list_all (\<lambda>n. kataState n = v) nodes" for s1 s' :: rstate and q nodes e
  proof -
    from grown_trans[OF assms that(1)] obtain h0 where "trace s1 = trace s0 @ h0" by (auto simp: grown_def)
    then show ?thesis unfolding awaitsNodes_def
      using that(2-4) by (intro exI[of _ h0] exI[of _ "[e]"] exI[of _ q] exI[of _ nodes]) simp
  qed
  show ?thesis
    unfolding kataInstallationDaemonSetAllNodeInState_def isKataNodePoolInState_def poolNodes_def getNodesWithLabels_def
    by (simp only: wp_onInl wp_bind, rule wp_grown, intro emits_intros TrueI)
      (auto simp: wp_simps all_in_state_iff kataState_def[symmetric] split: sum.split intro: saw)
qed

lemma wp_inProgress:
  assumes "grown s0 s"
  shows "wp (isKataUninstallDaemonSetUninstalling E) (\<lambda>x s'. x = Inr True \<longrightarrow> awaitsNodes E KataUninstalled s0 s') s"
    and "wp (isKataInstallDaemonSetInstalling E) (\<lambda>x s'. x = Inr True \<longrightarrow> awaitsNodes E KataInstalled s0 s') s"
  unfolding isKataUninstallDaemonSetUninstalling_def isKataInstallDaemonSetInstalling_def wp_onInl
  by (rule wp_conseq[OF wp_awaitsNodes[OF assms]]; auto simp: wp_return split: sum.splits)+

lemma wp_startUninstall:
  assumes "grown s0 s"
  shows "wp (startUninstall E) (\<lambda>x s'. x = Inr True \<longrightarrow> inThisCall uninstallStarted s0 s') s"
proof -
  have made: "wp (onErr (writeOp E (CreateReq (ODaemonSet ds))) (\<lambda>e. return (Inl e))
        (do { _ \<leftarrow> labelKataNodes E KataWaitingToUninstall; return (Inr True) }))
      (\<lambda>x s'. x = Inr True \<longrightarrow> inThisCall uninstallStarted s0 s') s'"
    if "grown s0 s'" "Name (dsMeta ds) = installDsName UninstallKata" for s' ds
  proof -
    have "inThisCall uninstallStarted s0 s2"
      if "grown (s'\<lparr>trace := trace s' @ [Ev (CreateReq (ODaemonSet ds)) None]\<rparr>) s2" for s2
      using that \<open>grown s0 s'\<close> \<open>Name (dsMeta ds) = _\<close>
      by (auto simp: grown_def inThisCall_def since_def uninstallStarted_def)
    moreover have "appends (labelKataNodes E KataWaitingToUninstall)" by (intro emits_intros TrueI)
    ultimately show ?thesis
      by (auto simp: wp_onErr wp_writeOp wp_bind wp_return split: option.split intro!: wp_grown)
  qed
  have ds: "wp (daemonSetForKataInstall E UninstallKata) (\<lambda>x s'. grown s0 s' \<and>
      (case x of Inl e \<Rightarrow> True | Inr ds \<Rightarrow> dsMeta ds = mkMeta (installDsName UninstallKata) OperatorNamespace)) s"
  proof -
    have "appends (daemonSetForKataInstall E UninstallKata)" by (intro emits_intros TrueI)
    then show ?thesis using installDs_meta[of E UninstallKata s] grown_trans[OF assms grown_exec]
      by (auto simp: wp_def split: sum.split)
  qed
  have rest: "wp (do { kc \<leftarrow> gets kataConfig;
       (case SetControllerReference E kc (dsMeta ds0) of
          Inl e \<Rightarrow> return (Inl e)
        | Inr m \<Rightarrow> let ds = ds0\<lparr>dsMeta := m\<rparr> in
            onErr (createKataUninstallNetworkPolicies E) (\<lambda>e. return (Inl e))
              (onInl (getDS E (Namespace (dsMeta ds)) (Name (dsMeta ds)))
                (\<lambda>err. if IsNotFound err
                   then onErr (writeOp E (CreateReq (ODaemonSet ds))) (\<lambda>e. return (Inl e))
                     (do { _ \<leftarrow> labelKataNodes E KataWaitingToUninstall; return (Inr True) })
                   else return (Inl err))
                (\<lambda>_. return (Inr False)))) }) (\<lambda>x s'. x = Inr True \<longrightarrow> inThisCall uninstallStarted s0 s') s'"
    if "grown s0 s'" "dsMeta ds0 = mkMeta (installDsName UninstallKata) OperatorNamespace" for s' ds0
  proof -
    have m: "Name m = installDsName UninstallKata" if "SetControllerReference E kc (dsMeta ds0) = Inr m" for kc m
      using SetControllerReference_Inr[OF that] \<open>dsMeta ds0 = _\<close> by auto
    show ?thesis
      by (simp only: wp_bind wp_gets, cases "SetControllerReference E (kataConfig s') (dsMeta ds0)")
        (auto simp: wp_return Let_def m intro!: wp_onErr_grown[OF emits_mono[OF _ TrueI]] wp_onInl_grown made
          emits_intros intro: grown_trans[OF grown_trans[OF that(1)]])
  qed
  show ?thesis unfolding startUninstall_def wp_onInl
    by (rule wp_conseq[OF ds], elim conjE, intro conjI allI impI)
      (simp add: wp_return, rule rest, assumption, simp only: sum.case)
qed

lemma ends_cleanupDaemonSet: "endsIn (inThisCall (finalizerReleased E) s0) s0 (cleanupDaemonSet E)"
proof -
  have shape: "wp (removePeerPodsDaemonSet E) (\<lambda>x s'. fst x \<noteq> Some emptyResult) s" for s
    unfolding removePeerPodsDaemonSet_def
    by (auto simp: wp_bind wp_gets wp_return intro!: wp_onErr_grown deletePodVMImage_shape emits_intros)
  have peer: "endsIn Q s0 (removePeerPodsDaemonSet E \<bind> (\<lambda>(res, err). case (res, err) of
       (Some r, _) \<Rightarrow> return (r, err)
     | (None, Some e) \<Rightarrow> return (emptyResult, Some e)
     | (None, None) \<Rightarrow> k))" if "endsIn Q s0 k" for Q k
  proof (rule ends_bind_shape[OF _ shape])
    show "appends (removePeerPodsDaemonSet E)" by (intro emits_intros TrueI)
    fix x :: stepResult assume "fst x \<noteq> Some emptyResult"
    then show "endsIn Q s0 (case x of (res, err) \<Rightarrow> case (res, err) of
       (Some r, _) \<Rightarrow> return (r, err)
     | (None, Some e) \<Rightarrow> return (emptyResult, Some e)
     | (None, None) \<Rightarrow> k)"
      by (cases x; cases "fst x"; cases "snd x") (auto intro!: ends_return that simp: settled_def)
  qed
  show ?thesis unfolding cleanupDaemonSet_def
    by (intro ends_onErr ends_onInl peer ends_removeFinalizer ends_return emits_intros TrueI; simp)
qed

lemma ends_dsRemoval: "endsIn (dsRemovalSettled E s0) s0 (processKataConfigDeleteRequestDaemonSet E)"
proof -
  have cleanup: "endsIn (dsRemovalSettled E s0) s0 (cleanupDaemonSet E)"
    by (rule ends_mono[OF ends_cleanupDaemonSet]) (simp add: dsRemovalSettled_def)
  have rest: "endsIn (dsRemovalSettled E s0) s0 (onInl (isKataUninstallDaemonSetUninstalling E)
      (\<lambda>e. return (emptyResult, Some e)) (\<lambda>uninstallInProgress.
         if False \<or> uninstallInProgress then return (emptyResult, None)
         else mutateCondition E resetInProgressCondition \<bind> (\<lambda>_. cleanupDaemonSet E)))"
    by (rule ends_onInl_fact[OF _ wp_inProgress(1)])
      (auto intro!: ends_intros cleanup appends_parts emits_intros
        simp: dsRemovalSettled_def dest: awaitsNodes_grown)
  have ap: "appends (updateStatusDaemonSet E a \<bind> (\<lambda>_. onInl (isKataUninstallDaemonSetUninstalling E)
      (\<lambda>e. return (emptyResult, Some e)) (\<lambda>uninstallInProgress.
         if just \<or> uninstallInProgress then return (emptyResult, None)
         else mutateCondition E resetInProgressCondition \<bind> (\<lambda>_. cleanupDaemonSet E))))" for a just
    unfolding cleanupDaemonSet_def by (intro emits_intros TrueI)
  have "endsIn (dsRemovalSettled E s0) s0 (uninstallDaemonSetPhase E)"
    unfolding uninstallDaemonSetPhase_def
    by (intro ends_bind appends_parts ends_onErr ends_return ends_onInl_fact[OF _ wp_startUninstall])
      (auto simp: ap dsRemovalSettled_def rest[simplified] dest: inThisCall_grown
        intro!: ends_bind ends_return emits_intros)
  then show ?thesis unfolding processKataConfigDeleteRequestDaemonSet_def
    by (intro ends_intros emits_mono[OF emits_checkDeletionEligibility TrueI]; simp)
qed

lemma ends_post:
  "endsIn (kataInstalled s0) s0 (postKataInstallation E \<bind>
     (\<lambda>(res, err). return (case res of Some r \<Rightarrow> (r, err) | None \<Rightarrow> (emptyResult, err))))" (is "endsIn _ _ ?m")
proof (rule endsInI)
  fix s :: rstate assume s: "grown s0 s"
  have "exec ?m s = exec (finishInstall E) s"
    "settled (result ?m s) \<Longrightarrow> settled (result (finishInstall E) s)"
    by (auto simp: finishInstall_def run_simps settled_def exec_def split: prod.splits option.splits)
  then show "wp ?m (\<lambda>x s'. settled x \<longrightarrow> kataInstalled s0 s') s"
    using endsInD[OF ends_finishInstall s, of E] by (simp add: wp_def)
qed

lemma ends_dsInstall: "endsIn (dsInstallSettled E s0) s0 (processKataConfigInstallRequestDaemonSet E)"
proof -
  have "endsIn (dsInstallSettled E s0) s0 (finishInstallDaemonSet E)"
    unfolding finishInstallDaemonSet_def
    by (rule ends_onInl_fact[OF _ wp_inProgress(2)])
      (auto simp: dsInstallSettled_def dest: awaitsNodes_grown
        intro!: ends_bind ends_return ends_mono[OF ends_post] appends_parts emits_intros)
  then show ?thesis
    unfolding processKataConfigInstallRequestDaemonSet_def checkEligibility_def
    by (intro ends_intros emits_intros TrueI; simp)
qed

section \<open>Both modes\<close>

text \<open>A live mode is a deployment mode whose requests end only when they have settled.\<close>

locale live_mode = deployment_mode +
  fixes installSettled removalSettled :: "env \<Rightarrow> rstate \<Rightarrow> rstate \<Rightarrow> bool"
  assumes install_ends: "endsIn (installSettled E s) s (install E)"
    and removal_ends: "endsIn (removalSettled E s) s (uninstall E)"
begin

lemma request_ends:
  "settled (result (install E) s) \<Longrightarrow> installSettled E s (exec (install E) s)"
  "settled (result (uninstall E) s) \<Longrightarrow> removalSettled E s (exec (uninstall E) s)"
  using endsInD[OF install_ends[of E s] grown_refl] endsInD[OF removal_ends[of E s] grown_refl]
  by (simp_all add: wp_def)

end

interpretation mcoLive: live_mode processKataConfigInstallRequest processKataConfigDeleteRequest
  "{KNodeFeatureRule, KKataConfig}" poolIdle mcoFacts mcoInstallSettled mcoRemovalSettled
  by unfold_locales (rule ends_mcoInstall ends_mcoRemoval)+

interpretation dsLive: live_mode processKataConfigInstallRequestDaemonSet processKataConfigDeleteRequestDaemonSet
  "{KNode, KSecret, KKataConfig}" "\<lambda>E. nodesInState E KataInstalled" dsFacts dsInstallSettled dsRemovalSettled
  by unfold_locales (rule ends_dsInstall ends_dsRemoval)+

definition modeInstallSettled :: "deploymentMode \<Rightarrow> env \<Rightarrow> rstate \<Rightarrow> rstate \<Rightarrow> bool" where
  "modeInstallSettled mode = (case mode of MachineConfigMode \<Rightarrow> mcoInstallSettled
     | DaemonSetMode \<Rightarrow> dsInstallSettled | UnknownMode n \<Rightarrow> (\<lambda>E s s'. False))"

definition modeRemovalSettled :: "deploymentMode \<Rightarrow> env \<Rightarrow> rstate \<Rightarrow> rstate \<Rightarrow> bool" where
  "modeRemovalSettled mode = (case mode of MachineConfigMode \<Rightarrow> mcoRemovalSettled
     | DaemonSetMode \<Rightarrow> dsRemovalSettled | UnknownMode n \<Rightarrow> (\<lambda>E s s'. False))"

lemma request_settled:
  "settled (result (installRequest E) s) \<Longrightarrow> modeInstallSettled (DeploymentMode s) E s (exec (installRequest E) s)"
  "settled (result (deleteRequest E) s) \<Longrightarrow> modeRemovalSettled (DeploymentMode s) E s (exec (deleteRequest E) s)"
  using mcoLive.request_ends[of E s] dsLive.request_ends[of E s]
  by (auto simp: installRequest_def deleteRequest_def run_simps run_gets_parts modeInstallSettled_def
      modeRemovalSettled_def unknownMode_def split: deploymentMode.splits)

section \<open>The whole reconciliation\<close>

lemma finishReconcile_settled: "settled (result (finishReconcile E res) s) \<Longrightarrow> res = emptyResult"
  by (auto simp: finishReconcile_def ensureDashboard_def run_simps onInl_def onErr_def settled_def emptyResult_def
      requeueIn_def split: option.splits prod.splits sum.splits if_splits)

lemma reconcileInstall_settled:
  "settled (result (reconcileInstall E old) s) \<Longrightarrow> settled (result (installRequest E) s)"
  by (auto simp: reconcileInstall_def run_simps onErr_def split: option.splits prod.splits if_splits
      dest!: finishReconcile_settled)
    (auto simp: settled_def)

lemma reconcileDelete_settled:
  "settled (result (reconcileDelete E) s) \<Longrightarrow> settled (result (deleteRequest E) s)"
  by (auto simp: reconcileDelete_def run_simps settled_def split: prod.splits if_splits)

text \<open>
  The preparation ends the reconciliation for good only for a KataConfig that is gone or whose selector is
  invalid.
\<close>

definition nothingToDo :: "env \<Rightarrow> string \<Rightarrow> rstate \<Rightarrow> bool" where
  "nothingToDo E name s \<longleftrightarrow>
     (\<exists>err. getKataConfig (apiOf E) (trace s) name = Inl err \<and> IsNotFound err) \<or>
     (\<exists>s0 err. result (getKataConfigNodeSelectorAsSelector E) s0 = Inl err \<and>
        exec (getKataConfigNodeSelectorAsSelector E) s0 = exec (prepareReconcile E name) s)"

lemma prepareReconcile_settled:
  assumes "result (prepareReconcile E name) s = Inl x" and "settled x"
  shows "nothingToDo E name s"
  using assms
  by (auto simp: prepareReconcile_def run_simps onInl_def onErr_def settled_def nothingToDo_def
      split: sum.splits option.splits if_splits)

text \<open>
  C5: no reconciliation stalls. One that ends without an error and without asking for another found the
  KataConfig gone or its selector invalid; or its removal dropped the finalizer, or waits for a pool that is
  updating or nodes that are not uninstalled yet (or has just told them to uninstall); or its installation put
  the security context constraints and the monitor in place, or waits for a pool or for nodes that are not
  installed yet.
\<close>

theorem reconcile_never_stalls:
  "let s1 = exec (prepareReconcile E name) s in
   if settled (result (Reconcile E name) s)
   then (case result (prepareReconcile E name) s of
       Inl _ \<Rightarrow> nothingToDo E name s
     | Inr _ \<Rightarrow> if removalDue (kataConfig s1)
         then modeRemovalSettled (DeploymentMode s1) E s1 (exec (deleteRequest E) s1)
         else modeInstallSettled (DeploymentMode s1) E s1 (exec (installRequest E) s1))
   else True"
  using prepareReconcile_settled[of E name s] request_settled[of E "exec (prepareReconcile E name) s"]
    reconcileDelete_settled[of E "exec (prepareReconcile E name) s"]
    reconcileInstall_settled[of E _ "exec (prepareReconcile E name) s"]
  by (auto simp: Let_def Reconcile_def reconcileBody_def run_simps run_gets_parts split: sum.split)

end
