(* ===== verification/Cache_Scope.thy ===== *)
theory Cache_Scope
  imports Operator_Runs
begin

text \<open>
  The manager's cache (\<^verbatim>\<open>cmd/manager/main.go\<close>) holds Secrets, ConfigMaps, Deployments, Services and network
  policies of a few namespaces only; reading one of another namespace through the cached client fails. This
  theory follows the reads of the KataConfig controller through all its operations.
\<close>

section \<open>What is cached\<close>

text \<open>The namespaces a kind is cached for; every other kind is cached for all of them.\<close>

definition cachedNamespaces :: "rkind \<Rightarrow> string list option" where
  "cachedNamespaces k = (case k of
     KSecret \<Rightarrow> Some [OperatorNamespace, ''openshift-config'']
   | KConfigMap \<Rightarrow> Some [OperatorNamespace, DashboardConfigMapNamespace]
   | KDeployment \<Rightarrow> Some [OperatorNamespace]
   | KService \<Rightarrow> Some [OperatorNamespace]
   | KNetworkPolicy \<Rightarrow> Some [OperatorNamespace]
   | _ \<Rightarrow> None)"

definition inCache :: "event \<Rightarrow> bool" where
  "inCache e = (case evRequest e of
     GetReq k ns _ \<Rightarrow> (case cachedNamespaces k of None \<Rightarrow> True | Some nss \<Rightarrow> ns \<in> set nss)
   | ListReq k \<Rightarrow> cachedNamespaces k = None
   | _ \<Rightarrow> True)"

declare cachedNamespaces_def [simp]

lemma inCache_event [simp]: "inCache (Ev (GetReq k ns n) r) \<longleftrightarrow> (case cachedNamespaces k of None \<Rightarrow> True | Some nss \<Rightarrow> ns \<in> set nss)"
  "inCache (Ev (ListReq k) r) \<longleftrightarrow> cachedNamespaces k = None" "isWrite q \<Longrightarrow> inCache (Ev q r)"
  by (simp_all add: inCache_def) (cases q; simp)

section \<open>The operations\<close>

named_theorems cache_intros "operations that read only what is cached"

lemmas structure_rules = emits_return emits_gets emits_modify emits_bind emits_if emits_let emits_case_sum
  emits_case_option emits_case_prod emits_case_list emits_onErr emits_onInl emits_forEach emits_forEachKeepLast
  emits_readOp emits_probeOp emits_writeOp emits_createOrUpdateM emits_createOrUpdate emits_writeKataConfig
  emits_mutateCondition emits_setWaiting

declare structure_rules [cache_intros]

lemma cache_queries [cache_intros]:
  "emits inCache (checkConvergedCluster E)" "emits inCache (getMcpName E)" "emits inCache (getMcpByName E n)"
  "emits inCache (isMcpUpdating E n)" "emits inCache (getKataConfigNodeSelectorAsLabelSelector E)"
  "emits inCache (getKataConfigNodeSelectorAsSelector E)" "emits inCache (getNodeSelectorAsMap E)"
  "emits inCache (getNodeSelectorAsLabelSelector E)" "emits inCache (getNodes E)"
  "emits inCache (getNodesWithLabels E l)" "emits inCache (checkNodeEligibility E)"
  "emits inCache (kataEnabledOnMaster E n)" "emits inCache (listKataPods E)" "emits inCache (getExtensionName E)"
  unfolding checkConvergedCluster_def getMcpName_def getMcpByName_def isMcpUpdating_def
    getKataConfigNodeSelectorAsLabelSelector_def getKataConfigNodeSelectorAsSelector_def getNodeSelectorAsMap_def
    getNodeSelectorAsLabelSelector_def getNodes_def getNodesWithLabels_def checkNodeEligibility_def
    kataEnabledOnMaster_def listKataPods_def getExtensionName_def crdAvailable_def isMachineConfigAvailable_def
    isMachineConfigPoolAvailable_def
  by (intro cache_intros; simp)+

lemma cache_loops [cache_intros]:
  "emits inCache (updateNodeLabelsLoop E sel nodes b)" "emits inCache (unlabelNodesLoop E nodes b)"
  "emits inCache (unlabelNodesDaemonSetLoop E nodes)"
  by (induction nodes arbitrary: b) (auto intro!: cache_intros split: option.split)

lemma cache_nodes [cache_intros]:
  "emits inCache (updateNodeLabels E)" "emits inCache (unlabelNodes E sel)"
  "emits inCache (unlabelNodesDaemonSet E sel)" "emits inCache (labelNodes E sel l)"
  "emits inCache (putNodeOnStatusList E node)" "emits inCache (updateStatus E)"
  "emits inCache (checkDeletionEligibility E)" "emits inCache (addFinalizer E)" "emits inCache (removeFinalizer E)"
  "emits inCache (ensureFinalizer E)"
  unfolding updateNodeLabels_def unlabelNodes_def unlabelNodesDaemonSet_def labelNodes_def putNodeOnStatusList_def
    updateStatus_def checkDeletionEligibility_def addFinalizer_def removeFinalizer_def ensureFinalizer_def
    putObservedNode_def
  by (intro cache_intros; simp)+

lemma cache_runtimeClasses [cache_intros]:
  "emits inCache (createRuntimeClass E q)" "emits inCache (deleteRuntimeClass E n)"
  "emits inCache (ensureRuntimeClassFinalizers E)"
  unfolding createRuntimeClass_def deleteRuntimeClass_def ensureRuntimeClassFinalizers_def hasEligibleNode_def
    ensureRuntimeClass_def ensureRuntimeClassFinalizer_def
  by (intro cache_intros; simp)+

lemma cache_policies [cache_intros]:
  "emits inCache (createKataMonitorNetworkPolicies E)" "emits inCache (deleteKataMonitorNetworkPolicies E)"
  "emits inCache (createPeerPodsWebhookNetworkPolicies E)" "emits inCache (deletePeerPodsWebhookNetworkPolicies E)"
  "emits inCache (createKataInstallNetworkPolicies E)" "emits inCache (deleteKataInstallNetworkPolicies E)"
  "emits inCache (createKataUninstallNetworkPolicies E)" "emits inCache (deleteKataUninstallNetworkPolicies E)"
  "emits inCache (createPodVMImageCreationNetworkPolicies E)"
  "emits inCache (deletePodVMImageCreationNetworkPolicies E)"
  "emits inCache (createPodVMImageDeletionNetworkPolicies E)"
  "emits inCache (deletePodVMImageDeletionNetworkPolicies E)"
  unfolding createKataMonitorNetworkPolicies_def deleteKataMonitorNetworkPolicies_def
    createPeerPodsWebhookNetworkPolicies_def deletePeerPodsWebhookNetworkPolicies_def
    createKataInstallNetworkPolicies_def deleteKataInstallNetworkPolicies_def createKataUninstallNetworkPolicies_def
    deleteKataUninstallNetworkPolicies_def createPodVMImageCreationNetworkPolicies_def
    deletePodVMImageCreationNetworkPolicies_def createPodVMImageDeletionNetworkPolicies_def
    deletePodVMImageDeletionNetworkPolicies_def ensureNetworkPolicy_def deleteNetworkPolicies_def
    deleteNetworkPolicy_def
  by (intro cache_intros; simp)+

lemma cache_utils [cache_intros]:
  "emits inCache (getPeerPodsSecret E)" "emits inCache (getCloudProviderFromInfra E)" "emits inCache (getClusterID E)"
  "emits inCache (GetImageForComponent E n)" "emits inCache (GetOpenshiftVersion E)"
  "emits inCache (createAuthJsonSecret E)" "emits inCache (getProxyCREnvVars E)"
  "emits inCache (getEffectiveProxyEnvVars E)" "emits inCache (generateTrustedCAVolumeConfig E kc)"
  "emits inCache (isClusterInTokenBasedAuthMode E)" "emits inCache (createKubernetesEvent E ev n)"
  "emits inCache (deletePeerPodConfig E)" "emits inCache (migratePeerPodsLimit E)"
  unfolding getPeerPodsSecret_def getCloudProviderFromInfra_def getClusterID_def GetImageForComponent_def
    GetOpenshiftVersion_def createAuthJsonSecret_def getProxyCREnvVars_def getEffectiveProxyEnvVars_def
    generateTrustedCAVolumeConfig_def isClusterInTokenBasedAuthMode_def createKubernetesEvent_def
    deletePeerPodConfig_def migratePeerPodsLimit_def
  by (intro cache_intros; simp)+

text \<open>Reads in a namespace the caller names.\<close>

lemma cache_named [cache_intros]:
  assumes "ns = OperatorNamespace"
  shows "emits inCache (updateConfigMap E n ns added removed)" "emits inCache (getConfigMapVersion E n ns)"
    "emits inCache (getSecretVersion E n ns)"
  unfolding updateConfigMap_def getConfigMapVersion_def getSecretVersion_def assms
  by (intro cache_intros; simp)+

lemma cache_images [cache_intros]:
  "emits inCache (InitializeImageGenerator E)" "emits inCache (isImageIDSet E g)" "emits inCache (getImageID E g)"
  "emits inCache (validatePeerPodsConfigs E g)" "emits inCache (createImageConfigMapFromFile E g kc)"
  "emits inCache (updateImageConfigMap E g)" "emits inCache (createJobFromFile E g n kc)"
  "emits inCache (createJob E job)" "emits inCache (deleteJob E job)" "emits inCache (createJobEvent E n m v w p q)"
  "emits inCache (checkJobStatus E n m)" "emits inCache (imageCreateJobRunner E g kc)"
  "emits inCache (imageDeleteJobRunner E g kc)" "emits inCache (ImageCreate E kc)" "emits inCache (ImageDelete E kc)"
  unfolding InitializeImageGenerator_def isImageIDSet_def getImageID_def validatePeerPodsConfigs_def
    createImageConfigMapFromFile_def updateImageConfigMap_def createJobFromFile_def createJob_def deleteJob_def
    createJobEvent_def checkJobStatus_def imageCreateJobRunner_def imageDeleteJobRunner_def ImageCreate_def
    ImageDelete_def newImageGenerator_def getPeerPodsCM_def forDeletion_def withImageGenerator_def
  by (intro cache_intros; simp)+

lemma cache_features [cache_intros]:
  "emits inCache (handleFeatureConfidential E g)" "emits inCache (handleLayeredImageDeploymentFeature E g)"
  "emits inCache (processFeatureGates E)" "emits inCache (NewFeatureGateStatus E)"
  unfolding handleFeatureConfidential_def handleLayeredImageDeploymentFeature_def processFeatureGates_def
    NewFeatureGateStatus_def crdAvailable_def isMachineConfigAvailable_def confidentialImageConfig_def
    handleConfidentialPeerPods_def computeTEE_def handleConfidentialBaremetal_def getExistingMachineConfig_def
    createMachineConfigFromConfigMap_def setImgMc_def setDeploymentMode_def handleDeploymentModeFeature_def
    processModeAndImage_def
  by (intro cache_intros; simp)+

lemma cache_nfd [cache_intros]:
  "emits inCache (ensureNodeFeatureRule E)" "emits inCache (nodeFeatureRuleExists E)"
  "emits inCache (deleteNodeFeatureRule E)" "emits inCache (checkNFDInstalled E)"
  unfolding ensureNodeFeatureRule_def nodeFeatureRuleExists_def deleteNodeFeatureRule_def checkNFDInstalled_def
  by (intro cache_intros; simp)+

lemma cache_mco [cache_intros]:
  "emits inCache (processLogLevel E n)" "emits inCache (removeLogLevel E)"
  "emits inCache (processDaemonsetForMonitor E n)" "emits inCache (createDaemonsetForMonitor E)"
  "emits inCache (deleteDaemonsetForMonitor E)" "emits inCache (createScc E)" "emits inCache (deleteScc E)"
  "emits inCache (processDashboardConfigMap E)" "emits inCache (newMCPforCR E)"
  "emits inCache (getCustomKernelConfig E)" "emits inCache (newMCForCR E n k)" "emits inCache (createMc E n k)"
  unfolding processLogLevel_def removeLogLevel_def processDaemonsetForMonitor_def createDaemonsetForMonitor_def
    deleteDaemonsetForMonitor_def createScc_def deleteScc_def processDashboardConfigMap_def newMCPforCR_def
    getCustomKernelConfig_def newMCForCR_def createMc_def applyMc_def
  by (intro cache_intros; simp)+

lemma cache_webhook [cache_intros]:
  assumes "peerPodsNamespace E = OperatorNamespace"
  shows "emits inCache (createMutatingWebhookService E)" "emits inCache (createMutatingWebhookDeployment E)"
    "emits inCache (createMutatingWebhookConfig E)" "emits inCache (deleteMutatingWebhookDeployment E)"
    "emits inCache (deleteMutatingWebhookService E)" "emits inCache (deleteMutatingWebhookConfig E)"
  unfolding createMutatingWebhookService_def createMutatingWebhookDeployment_def createMutatingWebhookConfig_def
    deleteMutatingWebhookDeployment_def deleteMutatingWebhookService_def deleteMutatingWebhookConfig_def
    deleteIgnoringAbsent_def
  by (intro cache_intros assms; simp)+

lemma cache_caa [cache_intros]:
  "emits inCache (configureCAA E ds n)" "emits inCache (configureCAAProvider E ds)" "emits inCache (mutateCAA E n ds)"
  unfolding configureCAA_def configureCAAProvider_def mutateCAA_def
  by (intro cache_intros; simp)+

lemma cache_peerPodsMisc [cache_intros]:
  assumes "peerPodsNamespace E = OperatorNamespace"
  shows "emits inCache (enablePeerPodsMiscConfigs E)" "emits inCache (disablePeerPodsMiscConfigs E)"
  unfolding enablePeerPodsMiscConfigs_def disablePeerPodsMiscConfigs_def deleteIgnoringAbsent_def
  by (intro cache_intros assms; simp)+

lemma cache_podVMImage [cache_intros]:
  "emits inCache (deletePodVMImage E)" "emits inCache (createPodVMImage E)"
  unfolding deletePodVMImage_def createPodVMImage_def
  by (intro cache_intros; simp)+

lemma cache_peerPods [cache_intros]:
  assumes "peerPodsNamespace E = OperatorNamespace"
  shows "emits inCache (enablePeerPods E)" "emits inCache (disablePeerPods E)"
  unfolding enablePeerPods_def disablePeerPods_def
  by (intro cache_intros assms; simp)+

lemma cache_mcoMode [cache_intros]:
  assumes "peerPodsNamespace E = OperatorNamespace"
  shows "emits inCache (postKataInstallation E)" "emits inCache (processKataConfigInstallRequest E)"
    "emits inCache (processKataConfigDeleteRequest E)"
  unfolding postKataInstallation_def processKataConfigInstallRequest_def processKataConfigDeleteRequest_def
    reconcileMixedCluster_def ensurePool_def finishInstall_def installPhase_def preparePool_def checkEligibility_def
    deleteKataOcPool_def removePeerPods_def cleanupPhase_def uninstallPhase_def removeMc_def removalPhase_def
    setImgMc_def
  by (intro cache_intros assms; simp)+

lemma cache_dsMode [cache_intros]:
  assumes "peerPodsNamespace E = OperatorNamespace"
  shows "emits inCache (processKataConfigInstallRequestDaemonSet E)"
    "emits inCache (processKataConfigDeleteRequestDaemonSet E)"
  unfolding processKataConfigInstallRequestDaemonSet_def processKataConfigDeleteRequestDaemonSet_def
    ensureKataInstallSCC_def deleteKataInstallScc_def getAddonEnvVars_def daemonSetForKataInstall_def poolNodes_def
    isKataNodePoolInState_def kataInstallationDaemonSetAllNodeInState_def isKataUninstallDaemonSetUninstalling_def
    isKataInstallDaemonSetInstalling_def updateStatusDaemonSet_def labelKataNodes_def deleteInstallDaemonSet_def
    startUninstall_def removePeerPodsDaemonSet_def cleanupDaemonSet_def uninstallDaemonSetPhase_def
    applyInstallDaemonSet_def finishInstallDaemonSet_def checkEligibility_def deleteIgnoringAbsent_def
  by (intro cache_intros assms; simp)+

section \<open>The reconciliation\<close>

lemma cache_case_mode [cache_intros]:
  "emits P m \<Longrightarrow> emits P n \<Longrightarrow> (\<And>x. emits P (k x)) \<Longrightarrow> emits P (case_deploymentMode m n k r)"
  by (cases r) simp_all

text \<open>The dashboard that is looked up is the one that was built, in the namespace of the console.\<close>

lemma emits_bind_result:
  assumes "emits P m" and "\<And>s. emits P (k (result m s))"
  shows "emits P (State_Monad.bind m k)"
  unfolding emits_def
proof
  fix s
  have "newEvents m s @ newEvents (k (result m s)) (exec m s) = new \<Longrightarrow>
      trace (exec (State_Monad.bind m k) s) = trace s @ new \<and> list_all P new" for new
    using emits_newEvents[OF assms(1), of s] emits_newEvents[OF assms(2), of s "exec m s"] by (auto simp: run_bind)
  then show "\<exists>new. trace (exec (State_Monad.bind m k) s) = trace s @ new \<and> list_all P new" by blast
qed

lemma cache_finishReconcile [cache_intros]: "emits inCache (finishReconcile E res)"
proof -
  have dashboard: "emits inCache (ensureDashboard E cm res)" if "Namespace (cmMeta cm) = DashboardConfigMapNamespace"
    for cm :: configMap
    unfolding ensureDashboard_def that by (intro cache_intros; simp)
  have "Namespace (cmMeta cm) = DashboardConfigMapNamespace"
    if "result (processDashboardConfigMap E) s = Some cm" for cm and s :: rstate
    using that by (auto simp: processDashboardConfigMap_def run_simps mkMeta_def split: sum.splits)
  then show ?thesis
    unfolding finishReconcile_def
    by (intro emits_bind_result[OF cache_mco(8)]) (auto split: option.splits intro!: cache_intros dashboard)
qed

lemma cache_Reconcile:
  assumes "peerPodsNamespace E = OperatorNamespace"
  shows "emits inCache (Reconcile E name)"
  unfolding Reconcile_def prepareReconcile_def reconcileBody_def reconcileDelete_def reconcileInstall_def
    installRequest_def deleteRequest_def
  by (intro cache_intros assms; simp)

section \<open>The life of the operator\<close>

lemma cache_handlers:
  "emits inCache (McpEventHandler E known mcpEv)" "emits inCache (NodeEventHandler E known nodeEv)"
  "emits inCache (ConfigMapEventHandler E known cmEv)" "emits inCache (SecretEventHandler E known secEv)"
  by (cases mcpEv; cases nodeEv; cases cmEv; cases secEv;
      auto simp: nodeUpdated_def makeReconcileRequest_def nodeMatchesKataSelector_def intro!: cache_intros)+

lemma reads_grow: "emits P m \<Longrightarrow> list_all P (trace s) \<Longrightarrow> list_all P (trace (exec m s))"
  using emits_newEvents by fastforce

text \<open>
  C14: the operator never asks its cache for an object that the cache does not hold. With the peer-pods namespace
  that the operator is deployed with, every read of the KataConfig controller, in any sequence of
  reconciliations, events and restarts, is of a kind that is cached for all namespaces or in a namespace it is
  cached for, and no kind that is cached in part is listed.
\<close>

theorem reads_stay_in_cache:
  assumes "peerPodsNamespace E = OperatorNamespace" and "reachable E (known, s)"
  shows "list_all inCache (trace s)"
proof -
  have "list_all inCache (trace (snd (known, s)))" using assms(2)
  proof induction
    case (step c call)
    then show ?case
      by (cases c; cases call)
        (simp_all add: reads_grow cache_Reconcile[OF assms(1)] cache_handlers newReconciler_def)
  qed (simp add: newReconciler_def)
  then show ?thesis by simp
qed

theorem reads_stay_in_cache_witness:
  "let E = sampleEnv\<lparr>procOf := sampleProc\<lparr>lookupEnv := [''PEERPODS_NAMESPACE'' \<mapsto> OperatorNamespace]\<rparr>\<rparr> in
   list_all inCache (trace (exec (Reconcile E ''example-kataconfig'')
     (newReconciler \<lparr>tlsMinVersion = [], tlsCiphers = []\<rparr> False [])))"
  unfolding Let_def
  by (rule reads_stay_in_cache[OF _ reachable.step[OF reachable.start,
        where call = "CallReconcile ''example-kataconfig''", unfolded perform.simps]])
    (simp add: peerPodsNamespace_def getenv_def)
end
