(* ===== verification/Credentials.thy ===== *)
theory Credentials
  imports Utils Sample_Cluster
begin

text \<open>
  The credentials controller (\<^verbatim>\<open>controllers/credentials_controller.go\<close>): it maps the secret that the Cloud
  Credential Operator or ccoctl provides to the secret of the peer pods, and sets the credentials up and tears
  them down with the KataConfig's events. The lemmas show that a secret the user made is left alone, and
  that the INI file ccoctl writes is read back.
\<close>

section \<open>Mapping the provider's secret\<close>

definition credentialsRequestSecretRefName :: string where
  "credentialsRequestSecretRefName = ''cco-secret''"

definition labelExplicitDeletion :: string where
  "labelExplicitDeletion = ''kataconfiguration.openshift.io/explicit-deletion''"

definition labelCredentialsRequest :: string where
  "labelCredentialsRequest = ''kataconfiguration.openshift.io/credentials-request-based''"

definition ccoToPp :: "(string \<times> string) list" where
  "ccoToPp = [
     (''aws_access_key_id'', ''AWS_ACCESS_KEY_ID''),
     (''aws_secret_access_key'', ''AWS_SECRET_ACCESS_KEY''),
     (''azure_subscription_id'', ''AZURE_SUBSCRIPTION_ID''),
     (''azure_client_id'', ''AZURE_CLIENT_ID''),
     (''azure_client_secret'', ''AZURE_CLIENT_SECRET''),
     (''azure_tenant_id'', ''AZURE_TENANT_ID''),
     (''azure_federated_token_file'', ''AZURE_FEDERATED_TOKEN_FILE'')]"

text \<open>
  \<open>ccoToPp\<close> maps different keys to different keys, so the order in which the secret's data is ranged over does
  not matter: the loop visits the pairs of the table.
\<close>

definition copyKeys :: "labels \<Rightarrow> labels" where
  "copyKeys d = fold (\<lambda>(ccoKey, ppKey) m. case d ccoKey of None \<Rightarrow> m | Some v \<Rightarrow> m(ppKey \<mapsto> v))
     ccoToPp Map.empty"

definition stsFieldMap :: labels where
  "stsFieldMap = [''role_arn'' \<mapsto> ''AWS_ROLE_ARN'',
     ''web_identity_token_file'' \<mapsto> ''AWS_WEB_IDENTITY_TOKEN_FILE'']"

definition stsLine :: "string \<Rightarrow> labels \<Rightarrow> labels" where
  "stsLine line m = (case splitOnce CHR ''='' (trimSpace line) of
     [k, v] \<Rightarrow> (case stsFieldMap (trimSpace k) of None \<Rightarrow> m | Some ppKey \<Rightarrow> m(ppKey \<mapsto> trimSpace v))
   | _ \<Rightarrow> m)"

definition stsFields :: "string \<Rightarrow> labels \<Rightarrow> labels" where
  "stsFields credFile m = fold stsLine (split (CHR 0x0A) credFile) m"

definition gcpCredentials :: "env \<Rightarrow> string \<Rightarrow> labels \<Rightarrow> labels" where
  "gcpCredentials E saJSON m = (case jsonTypeField (libOf E) saJSON of
     Inl _ \<Rightarrow> m
   | Inr t \<Rightarrow> if t = ''external_account'' then m(''GCP_WIF_CREDENTIALS'' \<mapsto> saJSON)
             else m(''GCP_CREDENTIALS'' \<mapsto> saJSON))"

definition ccoDataMapping :: "env \<Rightarrow> labels \<Rightarrow> labels" where
  "ccoDataMapping E ccoSecretData =
     (if ccoSecretData = Map.empty then Map.empty
      else let m = copyKeys ccoSecretData;
               m = (case ccoSecretData ''credentials'' of None \<Rightarrow> m | Some credFile \<Rightarrow> stsFields credFile m)
           in (case ccoSecretData ''service_account.json'' of None \<Rightarrow> m | Some saJSON \<Rightarrow> gcpCredentials E saJSON m))"

definition needsExplicitDeletion :: "secret \<Rightarrow> bool" where
  "needsExplicitDeletion sec \<longleftrightarrow> atKey (Labels (secMeta sec)) labelExplicitDeletion \<noteq> []"

definition isOwnedByCCOSecret :: "secret \<Rightarrow> bool" where
  "isOwnedByCCOSecret sec \<longleftrightarrow> list_ex (\<lambda>owner. orKind owner = ''Secret'' \<and>
     orName owner = credentialsRequestSecretRefName) (OwnerReferences (secMeta sec))"

text \<open>An empty label argument is the nil map of the source: neither adds a label.\<close>

definition createOrUpdateSecret ::
  "env \<Rightarrow> string \<Rightarrow> string \<Rightarrow> labels \<Rightarrow> objMeta option \<Rightarrow> labels \<Rightarrow> ('z, goerr option) op" where
  "createOrUpdateSecret E name ns d owner ls =
     createOrUpdate E (GetReq KSecret ns name) (\<lambda>h. mutableSecret (apiOf E) h ns name) OSecret
       (\<lambda>sec. let m = (secMeta sec)\<lparr>Labels := Labels (secMeta sec) ++ ls\<rparr>;
                  sec = sec\<lparr>secData := d, secType := ''Opaque'', secMeta := m\<rparr>
         in (case owner of
               None \<Rightarrow> Inr sec
             | Some ow \<Rightarrow> (case setOwnerReference (libOf E) ow m of
                 Inl e \<Rightarrow> Inl e | Inr refs \<Rightarrow> Inr (sec\<lparr>secMeta := m\<lparr>OwnerReferences := refs\<rparr>\<rparr>))))"

text \<open>The reconcile function; a failure asks for another run and is not returned as an error.\<close>

definition mapCcoSecret :: "env \<Rightarrow> secret \<Rightarrow> ('z, ctrlResult \<times> goerr option) op" where
  "mapCcoSecret E ccoSecret =
     onErr (createOrUpdateSecret E peerPodsSecretName OperatorNamespace (ccoDataMapping E (secData ccoSecret))
         (Some (secMeta ccoSecret)) [labelCredentialsRequest \<mapsto> ''true''])
       (\<lambda>_. return (emptyResult\<lparr>Requeue := True\<rparr>, None))
       (return (emptyResult, None))"

definition reconcileSecret :: "env \<Rightarrow> string \<Rightarrow> string \<Rightarrow> ('z, ctrlResult \<times> goerr option) op" where
  "reconcileSecret E ns name =
     onInl (getSec E ns name)
       (\<lambda>err. return (if IsNotFound err then emptyResult else emptyResult\<lparr>Requeue := True\<rparr>, None))
       (\<lambda>ccoSecret. onInl (getPeerPodsSecret E)
          (\<lambda>err. if IsNotFound err then mapCcoSecret E ccoSecret
             else return (emptyResult\<lparr>Requeue := True\<rparr>, None))
          (\<lambda>peerPodsSecret. if \<not> isOwnedByCCOSecret peerPodsSecret then return (emptyResult, None)
             else mapCcoSecret E ccoSecret))"

text \<open>Which events of secrets reach the reconcile function.\<close>

definition isCcoSecret :: "secret \<Rightarrow> bool" where
  "isCcoSecret sec \<longleftrightarrow> Namespace (secMeta sec) = OperatorNamespace \<and>
     Name (secMeta sec) = credentialsRequestSecretRefName"

section \<open>Credentials from the environment\<close>

definition buildGCPWIFCredentials :: "env \<Rightarrow> string \<Rightarrow> string \<Rightarrow> string \<Rightarrow> goerr + string" where
  "buildGCPWIFCredentials E audience serviceAccountEmail tokenPath =
     (if audience = [] then Inl (Errorf ''GCP WIF audience is empty'')
      else if serviceAccountEmail = [] then Inl (Errorf ''GCP WIF service account email is empty'')
      else if tokenPath = [] then Inl (Errorf ''GCP WIF token path is empty'')
      else marshalJson (libOf E) (JObject [
        (''type'', JString ''external_account''),
        (''audience'', JString audience),
        (''subject_token_type'', JString ''urn:ietf:params:oauth:token-type:jwt''),
        (''token_url'', JString ''https://sts.googleapis.com/v1/token''),
        (''service_account_impersonation_url'',
           JString (''https://iamcredentials.googleapis.com/v1/projects/-/serviceAccounts/'' @ serviceAccountEmail
             @ '':generateAccessToken'')),
        (''credential_source'', JObject [
           (''file'', JString tokenPath), (''format'', JObject [(''type'', JString ''text'')])])]))"

definition tokenPath :: string where
  "tokenPath = ''/var/run/secrets/openshift/serviceaccount/token''"

definition gcpAudience :: "env \<Rightarrow> string" where
  "gcpAudience E =
     (if getenv E ''AUDIENCE'' = [] \<and> getenv E ''PROJECT_NUMBER'' \<noteq> [] \<and> getenv E ''POOL_ID'' \<noteq> [] \<and>
         getenv E ''PROVIDER_ID'' \<noteq> []
      then ''//iam.googleapis.com/projects/'' @ getenv E ''PROJECT_NUMBER'' @
        ''/locations/global/workloadIdentityPools/'' @ getenv E ''POOL_ID'' @ ''/providers/'' @ getenv E ''PROVIDER_ID''
      else getenv E ''AUDIENCE'')"

text \<open>The data the environment provides: none, an error, or the secret's data.\<close>

definition envSecretData :: "env \<Rightarrow> (goerr + labels) option" where
  "envSecretData E =
     (let clientID = getenv E ''CLIENTID''; tenantID = getenv E ''TENANTID'';
          subscriptionID = getenv E ''SUBSCRIPTIONID''; roleARN = getenv E ''ROLEARN'';
          gcpServiceAccount = getenv E ''SERVICE_ACCOUNT_EMAIL'';
          hasAzureWIFCreds = (clientID \<noteq> [] \<and> tenantID \<noteq> [] \<and> subscriptionID \<noteq> []);
          hasAWSSTSCreds = (roleARN \<noteq> []);
          hasGCPWIFCreds = (gcpServiceAccount \<noteq> [] \<and> gcpAudience E \<noteq> [])
      in if hasAzureWIFCreds
         then Some (Inr [''AZURE_CLIENT_ID'' \<mapsto> clientID, ''AZURE_TENANT_ID'' \<mapsto> tenantID,
           ''AZURE_SUBSCRIPTION_ID'' \<mapsto> subscriptionID, ''AZURE_FEDERATED_TOKEN_FILE'' \<mapsto> tokenPath])
         else if hasAWSSTSCreds
         then Some (Inr [''AWS_ROLE_ARN'' \<mapsto> roleARN, ''AWS_WEB_IDENTITY_TOKEN_FILE'' \<mapsto> tokenPath])
         else if hasGCPWIFCreds
         then Some (case buildGCPWIFCredentials E (gcpAudience E) gcpServiceAccount tokenPath of
           Inl e \<Rightarrow> Inl e | Inr wifCreds \<Rightarrow> Inr [''GCP_WIF_CREDENTIALS'' \<mapsto> wifCreds])
         else None)"

definition trySetupCredentialsFromEnv :: "env \<Rightarrow> ('z, bool \<times> goerr option) op" where
  "trySetupCredentialsFromEnv E = (case envSecretData E of
     None \<Rightarrow> return (False, None)
   | Some (Inl e) \<Rightarrow> return (False, Some e)
   | Some (Inr d) \<Rightarrow>
       onErr (createOrUpdateSecret E peerPodsSecretName OperatorNamespace d None [labelExplicitDeletion \<mapsto> ''true''])
         (\<lambda>e. return (False, Some e)) (return (True, None)))"

section \<open>Credentials requests\<close>

definition credentialsRequestFile :: "string \<Rightarrow> string" where
  "credentialsRequestFile provider =
     ''/config/peerpods/credentials-requests'' @ ''/'' @ ''credentials_request_'' @ provider @ ''.yaml''"

definition getCredentialsRequest :: "env \<Rightarrow> ('z, goerr + credentialsRequest option) op" where
  "getCredentialsRequest E = onInl (getCloudProviderFromInfra E) (\<lambda>e. return (Inl e)) (\<lambda>provider.
     return (case readFile (procOf E) (credentialsRequestFile provider) of
       Inl e \<Rightarrow> if IsNotExist e then Inr None else Inl e
     | Inr yamlData \<Rightarrow> (case unmarshalCredentialsRequest (libOf E) yamlData of
         Inl e \<Rightarrow> Inl e | Inr cr \<Rightarrow> Inr (Some cr))))"

definition createCredentialsRequests :: "env \<Rightarrow> ('z, goerr option) op" where
  "createCredentialsRequests E = onInl (getCredentialsRequest E) (\<lambda>e. return (Some e)) (\<lambda>credentialsRequest.
     (case credentialsRequest of
        None \<Rightarrow> return None
      | Some cr \<Rightarrow> onErr (writeOp E (CreateReq (OCredentialsRequest cr)))
          (\<lambda>e. return (if IsAlreadyExists e then None else Some e)) (return None)))"

definition deleteCredentialsRequests :: "env \<Rightarrow> ('z, goerr option) op" where
  "deleteCredentialsRequests E = onInl (getCredentialsRequest E) (\<lambda>e. return (Some e)) (\<lambda>credentialsRequest.
     (case credentialsRequest of
        None \<Rightarrow> return None
      | Some cr \<Rightarrow> onErr (writeOp E (DeleteReq KCredentialsRequest (Namespace (credMeta cr)) (Name (credMeta cr))))
          (\<lambda>e. return (if IsNotFound e \<or> IsGone e then None else Some e)) (return None)))"

section \<open>Setting up and tearing down\<close>

definition setupWithoutSecret :: "env \<Rightarrow> ('z, bool \<times> goerr option) op" where
  "setupWithoutSecret E = do {
     (isTokenBased, _) \<leftarrow> isClusterInTokenBasedAuthMode E;
     if isTokenBased then do {
       (stsConfigured, err) \<leftarrow> trySetupCredentialsFromEnv E;
       return (if err \<noteq> None then (False, err) else (True, None))
     }
     else onErr (createCredentialsRequests E) (\<lambda>e. return (False, Some e)) (return (True, None))
   }"

definition setupPeerPodsCredentials :: "env \<Rightarrow> ('z, bool \<times> goerr option) op" where
  "setupPeerPodsCredentials E = onInl (getPeerPodsSecret E)
     (\<lambda>err. if IsNotFound err then setupWithoutSecret E else return (False, Some err))
     (\<lambda>_. return (False, None))"

definition deleteMarkedSecret :: "env \<Rightarrow> secret \<Rightarrow> ('z, goerr option) op" where
  "deleteMarkedSecret E peerPodsSecret =
     (if needsExplicitDeletion peerPodsSecret
      then onErr (writeOp E (DeleteReq KSecret (Namespace (secMeta peerPodsSecret)) (Name (secMeta peerPodsSecret))))
        (\<lambda>e. return (if IsNotFound e \<or> IsGone e then None else Some e)) (return None)
      else return None)"

definition teardownPeerPodsCredentials :: "env \<Rightarrow> ('z, bool \<times> goerr option) op" where
  "teardownPeerPodsCredentials E = do {
     r \<leftarrow> getPeerPodsSecret E;
     onErr (case r of Inl _ \<Rightarrow> return None | Inr peerPodsSecret \<Rightarrow> deleteMarkedSecret E peerPodsSecret)
       (\<lambda>e. return (False, Some e))
       (onErr (deleteCredentialsRequests E) (\<lambda>e. return (False, Some e)) (return (True, None)))
   }"

text \<open>The handler of the KataConfig's events; errors are logged.\<close>

datatype kataConfigEvent = KcCreated kataconfig | KcUpdated kataconfig kataconfig | KcDeleted kataconfig | KcGeneric kataconfig

fun KataConfigHandler :: "env \<Rightarrow> kataConfigEvent \<Rightarrow> ('z, unit) op" where
  "KataConfigHandler E (KcCreated kc) =
     (if EnablePeerPods (Spec kc) then do { _ \<leftarrow> setupPeerPodsCredentials E; return () } else return ())"
| "KataConfigHandler E (KcUpdated old kc) =
     (if EnablePeerPods (Spec kc) then do { _ \<leftarrow> setupPeerPodsCredentials E; return () }
      else do { _ \<leftarrow> teardownPeerPodsCredentials E; return () })"
| "KataConfigHandler E (KcDeleted kc) =
     (if EnablePeerPods (Spec kc) then do { _ \<leftarrow> teardownPeerPodsCredentials E; return () } else return ())"
| "KataConfigHandler E (KcGeneric kc) = return ()"

section \<open>A user's secret\<close>

lemma emits_createOrUpdateSecret: "emits (writesOnly {KSecret}) (createOrUpdateSecret E name ns d owner ls)"
  unfolding createOrUpdateSecret_def by (rule emits_createOrUpdate) simp_all

lemma emits_credentialsRequests:
  "emits readOnly (getCredentialsRequest E)"
  "emits (writesOnly {KCredentialsRequest}) (createCredentialsRequests E)"
  "emits (writesOnly {KCredentialsRequest}) (deleteCredentialsRequests E)"
proof -
  show g: "emits readOnly (getCredentialsRequest E)"
    unfolding getCredentialsRequest_def by (intro emits_intros) simp_all
  have g': "emits (writesOnly {KCredentialsRequest}) (getCredentialsRequest E)"
    by (rule emits_mono[OF g readOnly_writesOnly])
  show "emits (writesOnly {KCredentialsRequest}) (createCredentialsRequests E)"
    unfolding createCredentialsRequests_def by (intro emits_intros g') simp_all
  show "emits (writesOnly {KCredentialsRequest}) (deleteCredentialsRequests E)"
    unfolding deleteCredentialsRequests_def by (intro emits_intros g') simp_all
qed

text \<open>A secret that is neither mapped from the provider's secret nor made from the environment.\<close>

definition userProvided :: "secret \<Rightarrow> bool" where
  "userProvided sec \<longleftrightarrow> \<not> isOwnedByCCOSecret sec \<and> \<not> needsExplicitDeletion sec"

lemma getPeerPodsSecret_run:
  "getSecret (apiOf E) (trace s) OperatorNamespace peerPodsSecretName = Inr sec \<Longrightarrow>
   run_state (getPeerPodsSecret E) s =
     (Inr sec, s\<lparr>trace := trace s @ [Ev (GetReq KSecret OperatorNamespace peerPodsSecretName) None]\<rparr>)"
  by (simp add: getPeerPodsSecret_def)

text \<open>
  C13: a peer-pods secret the user made is never touched. While the secret \<open>peer-pods-secret\<close> exists and is neither
  owned by the provider's secret nor marked for explicit deletion, the reconcile function of the credentials
  controller and its handler of KataConfig events send no write but for the CredentialsRequest, whatever
  the API server answers; and setting up the credentials ends with no write and no error.
\<close>

theorem user_secret_untouched:
  assumes "\<And>h. getSecret (apiOf E) h OperatorNamespace peerPodsSecretName = Inr sec" and "userProvided sec"
  shows "list_all (writesOnly {KCredentialsRequest}) (newEvents (KataConfigHandler E ev) s) \<and>
    list_all readOnly (newEvents (reconcileSecret E ns name) s) \<and>
    list_all readOnly (newEvents (setupPeerPodsCredentials E) s) \<and>
    result (setupPeerPodsCredentials E) s = (False, None)"
proof (intro conjI)
  have get: "getPeerPodsSecret E = State (\<lambda>s. (Inr sec,
      s\<lparr>trace := trace s @ [Ev (GetReq KSecret OperatorNamespace peerPodsSecretName) None]\<rparr>))"
    by (rule state.expand) (simp add: fun_eq_iff getPeerPodsSecret_run assms(1))
  have setupRun: "setupPeerPodsCredentials E = do { _ \<leftarrow> getPeerPodsSecret E; return (False, None) }"
    unfolding setupPeerPodsCredentials_def by (rule state.expand) (simp add: get run_simps fun_eq_iff onInl_def)
  have teardown: "teardownPeerPodsCredentials E = do { _ \<leftarrow> getPeerPodsSecret E;
      onErr (deleteCredentialsRequests E) (\<lambda>e. return (False, Some e)) (return (True, None)) }"
    unfolding teardownPeerPodsCredentials_def deleteMarkedSecret_def
    using assms(2) by (intro state.expand) (simp add: get run_simps fun_eq_iff userProvided_def onErr_def)
  have get_ro: "emits readOnly (getPeerPodsSecret E)"
    unfolding getPeerPodsSecret_def by (intro emits_intros) (simp add: readOnly_def)
  note get_wo = emits_mono[OF get_ro readOnly_writesOnly]
  have setup_ro: "emits readOnly (setupPeerPodsCredentials E)"
    unfolding setupRun by (intro emits_intros get_ro)
  show "list_all readOnly (newEvents (setupPeerPodsCredentials E) s)"
    by (rule emits_newEvents(2)[OF setup_ro])
  show "result (setupPeerPodsCredentials E) s = (False, None)"
    by (simp add: setupRun run_simps)
  have teardown_wo: "emits (writesOnly {KCredentialsRequest}) (teardownPeerPodsCredentials E)"
    unfolding teardown by (intro emits_intros get_wo emits_credentialsRequests)
  have "emits (writesOnly {KCredentialsRequest}) (KataConfigHandler E ev)"
    by (cases ev) (auto intro!: emits_intros teardown_wo emits_mono[OF setup_ro readOnly_writesOnly])
  then show "list_all (writesOnly {KCredentialsRequest}) (newEvents (KataConfigHandler E ev) s)"
    by (rule emits_newEvents(2))
  have rec: "reconcileSecret E ns name = onInl (getSec E ns name)
      (\<lambda>err. return (if IsNotFound err then emptyResult else emptyResult\<lparr>Requeue := True\<rparr>, None))
      (\<lambda>_. do { _ \<leftarrow> getPeerPodsSecret E; return (emptyResult, None) })"
    unfolding reconcileSecret_def using assms(2)
    by (intro state.expand) (auto simp: get run_simps fun_eq_iff userProvided_def onInl_def split: sum.split)
  have "emits readOnly (reconcileSecret E ns name)"
    unfolding rec by (intro emits_intros get_ro) (simp add: readOnly_def)
  then show "list_all readOnly (newEvents (reconcileSecret E ns name) s)" by (rule emits_newEvents(2))
qed

definition userSecret :: secret where
  "userSecret = \<lparr>secMeta = mkMeta ''peer-pods-secret'' OperatorNamespace,
     secData = [''AWS_ACCESS_KEY_ID'' \<mapsto> ''key''], secType = ''Opaque''\<rparr>"

definition userSecretEnv :: env where
  "userSecretEnv = sampleEnv\<lparr>apiOf := sampleApi\<lparr>getSecret := \<lambda>h ns n. Inr userSecret\<rparr>\<rparr>"

theorem user_secret_untouched_witness:
  "list_all (writesOnly {KCredentialsRequest})
     (newEvents (KataConfigHandler userSecretEnv (KcDeleted sampleKataConfig)) sampleState) \<and>
   list_all readOnly (newEvents (reconcileSecret userSecretEnv OperatorNamespace credentialsRequestSecretRefName) sampleState) \<and>
   list_all readOnly (newEvents (setupPeerPodsCredentials userSecretEnv) sampleState) \<and>
   result (setupPeerPodsCredentials userSecretEnv) sampleState = (False, None)"
  by (rule user_secret_untouched[where sec = userSecret])
    (simp_all add: userSecretEnv_def userSecret_def userProvided_def isOwnedByCCOSecret_def needsExplicitDeletion_def
      mkMeta_def atKey_def)

section \<open>The file ccoctl writes\<close>

lemma dropWhile_plain: "s \<noteq> [] \<Longrightarrow> \<not> isSpace (hd s) \<Longrightarrow> dropWhile isSpace s = s"
  by (cases s) simp_all

lemma trimSpace_plain: "s \<noteq> [] \<Longrightarrow> \<not> isSpace (hd s) \<Longrightarrow> \<not> isSpace (last s) \<Longrightarrow> trimSpace s = s"
  using dropWhile_plain[of s] dropWhile_plain[of "rev s"] by (simp add: trimSpace_def hd_rev)

lemma trimSpace_pad: "trimSpace (CHR '' '' # s) = trimSpace s"
  by (simp add: trimSpace_def isSpace_def)

lemma trimSpace_tail:
  assumes "k \<noteq> []" and "\<not> isSpace (hd k)" and "\<not> isSpace (last k)"
  shows "trimSpace (k @ '' '') = k"
proof -
  have "dropWhile isSpace (k @ '' '') = k @ '' ''" using assms(1,2) by (intro dropWhile_plain) simp_all
  moreover have "dropWhile isSpace (rev k) = rev k" using assms(1,3) by (intro dropWhile_plain) (simp_all add: hd_rev)
  moreover have "isSpace CHR '' ''" by (simp add: isSpace_def)
  ultimately show ?thesis by (simp add: trimSpace_def)
qed

text \<open>A value that survives trimming and stays on one line.\<close>

definition iniValue :: "string \<Rightarrow> bool" where
  "iniValue v \<longleftrightarrow> v \<noteq> [] \<and> \<not> isSpace (hd v) \<and> \<not> isSpace (last v) \<and> CHR 0x0A \<notin> set v"

definition iniLine :: "string \<Rightarrow> string \<Rightarrow> string" where
  "iniLine k v = k @ '' = '' @ v"

lemma splitOnce_ini: "CHR ''='' \<notin> set k \<Longrightarrow> splitOnce CHR ''='' (iniLine k v) = [k @ '' '', CHR '' '' # v]"
proof -
  assume "CHR ''='' \<notin> set k"
  then have "\<And>d. d \<in> set (k @ '' '') \<Longrightarrow> d \<noteq> CHR ''=''" by auto
  then have "dropWhile (\<lambda>d. d \<noteq> CHR ''='') ((k @ '' '') @ CHR ''='' # CHR '' '' # v) = CHR ''='' # CHR '' '' # v"
    "takeWhile (\<lambda>d. d \<noteq> CHR ''='') ((k @ '' '') @ CHR ''='' # CHR '' '' # v) = k @ '' ''"
    by (simp_all add: dropWhile_append2 takeWhile_append2)
  then show ?thesis by (simp add: splitOnce_def iniLine_def)
qed

lemma iniLine_trim:
  assumes "iniValue v" and "k \<noteq> []" and "\<not> isSpace (hd k)"
  shows "trimSpace (iniLine k v) = iniLine k v"
  using assms by (intro trimSpace_plain) (auto simp: iniLine_def iniValue_def)

lemma stsLine_ini:
  assumes "iniValue v" and "stsFieldMap k = Some ppKey" and "k \<noteq> []" and "\<not> isSpace (hd k)" and "\<not> isSpace (last k)"
    and "CHR ''='' \<notin> set k"
  shows "stsLine (iniLine k v) m = m(ppKey \<mapsto> v)"
proof -
  have "trimSpace (k @ '' '') = k" using assms(3-5) by (rule trimSpace_tail)
  moreover have "trimSpace (CHR '' '' # v) = v"
    using assms(1) by (simp add: trimSpace_pad trimSpace_plain iniValue_def)
  ultimately show ?thesis
    using assms by (simp add: stsLine_def iniLine_trim splitOnce_ini)
qed

lemma split_line: "c \<notin> set w \<Longrightarrow> split c (w @ c # rest) = w # split c rest"
  by (induction w) (auto split: list.split)

lemma iniLine_line: "iniValue v \<Longrightarrow> CHR 0x0A \<notin> set k \<Longrightarrow> CHR 0x0A \<notin> set (iniLine k v)"
  by (auto simp: iniLine_def iniValue_def)

lemma split_lines: "list_all (\<lambda>l. c \<notin> set l) ls \<Longrightarrow> split c (concat (map (\<lambda>l. l @ [c]) ls)) = ls @ [[]]"
  by (induction ls) (simp_all add: split_line)

text \<open>The configuration file of ccoctl for a role and a token file.\<close>

definition ccoctlLines :: "string \<Rightarrow> string \<Rightarrow> string list" where
  "ccoctlLines roleArn tokenFile = [''[default]'', ''sts_regional_endpoints = regional'',
     iniLine ''role_arn'' roleArn, iniLine ''web_identity_token_file'' tokenFile]"

definition ccoctlFile :: "string \<Rightarrow> string \<Rightarrow> string" where
  "ccoctlFile roleArn tokenFile = concat (map (\<lambda>l. l @ [CHR 0x0A]) (ccoctlLines roleArn tokenFile))"

lemma stsLine_other:
  "stsLine ''[default]'' m = m" "stsLine ''sts_regional_endpoints = regional'' m = m" "stsLine [] m = m"
  by (simp_all add: stsLine_def splitOnce_def trimSpace_def isSpace_def stsFieldMap_def)

lemma ccoctl_lines:
  assumes "iniValue roleArn" and "iniValue tokenFile"
  shows "split (CHR 0x0A) (ccoctlFile roleArn tokenFile) = ccoctlLines roleArn tokenFile @ [[]]"
proof -
  have "CHR 0x0A \<notin> set (iniLine ''role_arn'' roleArn)" "CHR 0x0A \<notin> set (iniLine ''web_identity_token_file'' tokenFile)"
    using assms by (intro iniLine_line; simp)+
  then show ?thesis unfolding ccoctlFile_def by (intro split_lines) (simp add: ccoctlLines_def)
qed

text \<open>
  C26: the credentials file of ccoctl is read back. For a role and a token file whose values have no line break and no
  space at their ends, mapping the file that ccoctl writes for them gives exactly the two variables the
  peer pods expect, with the values unchanged.
\<close>

theorem sts_credentials_roundtrip:
  assumes "iniValue roleArn" and "iniValue tokenFile"
  shows "ccoDataMapping E [''credentials'' \<mapsto> ccoctlFile roleArn tokenFile] =
    [''AWS_ROLE_ARN'' \<mapsto> roleArn, ''AWS_WEB_IDENTITY_TOKEN_FILE'' \<mapsto> tokenFile]"
proof -
  have "stsLine (iniLine ''role_arn'' roleArn) m = m(''AWS_ROLE_ARN'' \<mapsto> roleArn)"
    "stsLine (iniLine ''web_identity_token_file'' tokenFile) m = m(''AWS_WEB_IDENTITY_TOKEN_FILE'' \<mapsto> tokenFile)" for m
    using assms by (auto intro!: stsLine_ini simp: stsFieldMap_def isSpace_def)
  then show ?thesis
    using assms by (simp add: ccoDataMapping_def copyKeys_def ccoToPp_def stsFields_def ccoctl_lines ccoctlLines_def stsLine_other)
qed

theorem sts_credentials_roundtrip_witness:
  "ccoDataMapping sampleEnv [''credentials'' \<mapsto> ccoctlFile ''arn:aws:iam::1:role/osc'' ''/var/run/token''] =
    [''AWS_ROLE_ARN'' \<mapsto> ''arn:aws:iam::1:role/osc'', ''AWS_WEB_IDENTITY_TOKEN_FILE'' \<mapsto> ''/var/run/token'']"
  by (rule sts_credentials_roundtrip) (simp_all add: iniValue_def isSpace_def)

end
