(* ===== verification/Metrics_Collector.thy ===== *)
theory Metrics_Collector
  imports Feature_Gates Confidential Sample_Cluster Complex_Main
begin

text \<open>
  The metrics collector (\<^verbatim>\<open>controllers/metrics_collector.go\<close>): the samples of one scrape. Values are rational
  numbers; the rounding of the source's floating point numbers is not modelled. The lemmas show the range of the
  values and what the success metric means.
\<close>

section \<open>Samples\<close>

datatype metric =
    RuntimeClassAvailable | TotalPods | FailedPods | FailureRatio
  | SetupInfo string string string
  | KataPods string
  | KataConfigSuccess

type_synonym sample = "metric \<times> rat"

definition kataRemoteRuntimeClass :: string where
  "kataRemoteRuntimeClass = ''kata-remote''"

definition kataRuntimeClasses :: "string list" where
  "kataRuntimeClasses = [kataRuntimeClassName, kataNvidiaGPURuntimeClassName, kataRemoteRuntimeClass,
     kataCCRuntimeClassName, kataNvidiaGPUCCRuntimeClassName]"

text \<open>A pod list request with the field selector \<open>spec.runtimeClassName\<close>, which the manager's index answers.\<close>

definition listPodsOf :: "env \<Rightarrow> string \<Rightarrow> ('z, goerr + pod list) op" where
  "listPodsOf E rc = readOp (ListReq KPod) (\<lambda>h. listPodsByClass (apiOf E) h rc)"

definition podFailed :: "pod \<Rightarrow> bool" where
  "podFailed p \<longleftrightarrow> podPhase p \<notin> {''Running'', ''Succeeded''}"

definition computeSetupType :: "env \<Rightarrow> kataconfig \<Rightarrow> ('z, string) op" where
  "computeSetupType E kc = do {
     r \<leftarrow> getCM E OperatorNamespace FgConfigMapName;
     let isConfidential = (case r of Inl _ \<Rightarrow> False
       | Inr cm \<Rightarrow> (case cmLookup cm ConfidentialFeatureGate of None \<Rightarrow> False
           | Some val \<Rightarrow> (case ParseBool val of None \<Rightarrow> False | Some b \<Rightarrow> b)));
     let isPeerPods = EnablePeerPods (Spec kc);
     return (if isPeerPods \<and> isConfidential then ''confidential_peerpods''
             else if isPeerPods then ''peerpods''
             else if isConfidential then ''confidential_baremetal'' else ''baremetal'')
   }"

definition computeCloudProvider :: "env \<Rightarrow> ('z, string) op" where
  "computeCloudProvider E = onInl (getCloudProviderFromInfra E) (\<lambda>_. return ''unknown'')
     (\<lambda>provider. return (if provider \<in> {''aws'', ''azure'', ''gcp'', LibvirtProvider, IBMCloudProvider}
        then provider else ''unknown''))"

definition teeLabels :: "(string \<times> string) list" where
  "teeLabels = [(intelTDXNodeLabel, ''tdx''), (amdSNPNodeLabel, ''snp''), (ibmSENodeLabel, ''se'')]"

fun computeTEETypeFrom :: "env \<Rightarrow> (string \<times> string) list \<Rightarrow> ('z, string) op" where
  "computeTEETypeFrom E [] = return ''none''"
| "computeTEETypeFrom E ((l, teeType) # tees) =
     onInl (getNodesWithLabels E [l \<mapsto> ''true'']) (\<lambda>_. return ''unknown'')
       (\<lambda>nodes. if nodes \<noteq> [] then return teeType else computeTEETypeFrom E tees)"

definition computeTEEType :: "env \<Rightarrow> ('z, string) op" where
  "computeTEEType E = computeTEETypeFrom E teeLabels"

section \<open>A scrape\<close>

definition kataConfigReady :: "kataconfig \<Rightarrow> bool" where
  "kataConfigReady kc \<longleftrightarrow>
     \<not> list_ex (\<lambda>c. condType c = KataConfigInProgress \<and> condStatus c = ''True'') (Conditions (Status kc)) \<and>
     0 < NodeCount (KataNodes (Status kc)) \<and>
     ReadyNodeCount (KataNodes (Status kc)) = NodeCount (KataNodes (Status kc))"

definition successValue :: "kataconfig \<Rightarrow> rat" where
  "successValue kc = (if kataConfigReady kc then 1 else 0)"

text \<open>The pods a list request gave, and the sample of their number.\<close>

definition listed :: "goerr + 'a \<Rightarrow> 'a option" where
  "listed r = (case r of Inl _ \<Rightarrow> None | Inr x \<Rightarrow> Some x)"

definition podSample :: "string \<Rightarrow> pod list option \<Rightarrow> sample list" where
  "podSample rc pods = (case pods of None \<Rightarrow> [] | Some ps \<Rightarrow> [(KataPods rc, of_nat (length ps))])"

text \<open>The pods of the class \<open>kata-remote\<close>: \<open>None\<close> when they were not listed.\<close>

definition remotePods :: "env \<Rightarrow> bool \<Rightarrow> ('z, pod list option) op" where
  "remotePods E rcAvail = (if rcAvail
     then do { r \<leftarrow> listPodsOf E kataRemoteRuntimeClass; return (listed r) }
     else return None)"

fun podSamples :: "env \<Rightarrow> pod list option \<Rightarrow> string list \<Rightarrow> ('z, sample list) op" where
  "podSamples E remote [] = return []"
| "podSamples E remote (rc # rcs) =
     (if rc = kataRemoteRuntimeClass
      then do {
        rest \<leftarrow> podSamples E remote rcs;
        return (podSample rc remote @ rest)
      }
      else do {
        r \<leftarrow> listPodsOf E rc;
        rest \<leftarrow> podSamples E remote rcs;
        return (podSample rc (listed r) @ rest)
      })"

definition configSamples :: "env \<Rightarrow> pod list option \<Rightarrow> ('z, sample list) op" where
  "configSamples E remote =
     onInl (readOp (ListReq KKataConfig) (listKataConfigs (apiOf E))) (\<lambda>_. return [(KataConfigSuccess, 0)])
       (\<lambda>kcs. case kcs of [] \<Rightarrow> return [(KataConfigSuccess, 0)]
        | kc # _ \<Rightarrow> do {
            setupType \<leftarrow> computeSetupType E kc;
            cloudProvider \<leftarrow> computeCloudProvider E;
            teeType \<leftarrow> computeTEEType E;
            pods \<leftarrow> podSamples E remote kataRuntimeClasses;
            return ([(SetupInfo setupType cloudProvider teeType, 1)] @ pods @
              [(KataConfigSuccess, successValue kc)])
          })"

definition failureRatio :: "pod list \<Rightarrow> rat" where
  "failureRatio ps = (if ps = [] then 0
     else of_nat (length (filter podFailed ps)) / of_nat (length ps) * 100)"

definition remoteSamples :: "bool \<Rightarrow> pod list \<Rightarrow> sample list" where
  "remoteSamples rcAvail ps = [
     (RuntimeClassAvailable, if rcAvail then 1 else 0),
     (TotalPods, of_nat (length ps)),
     (FailedPods, of_nat (length (filter podFailed ps))),
     (FailureRatio, failureRatio ps)]"

definition Collect :: "env \<Rightarrow> ('z, sample list) op" where
  "Collect E = do {
     rc \<leftarrow> readOp (GetReq KRuntimeClass [] kataRemoteRuntimeClass)
       (\<lambda>h. getRuntimeClass (apiOf E) h kataRemoteRuntimeClass);
     let rcAvail = (case rc of Inl _ \<Rightarrow> False | Inr _ \<Rightarrow> True);
     remote \<leftarrow> remotePods E rcAvail;
     let ps = (case remote of None \<Rightarrow> [] | Some ps \<Rightarrow> ps);
     rest \<leftarrow> configSamples E remote;
     return (remoteSamples rcAvail ps @ rest)
   }"

section \<open>What a scrape reports\<close>

lemma emits_tee: "emits readOnly (computeTEETypeFrom E tees)"
  by (induction tees) (auto intro!: emits_intros)

lemma emits_podSamples: "emits readOnly (podSamples E remote rcs)"
  by (induction rcs) (auto simp: listPodsOf_def readOnly_def intro!: emits_intros)

lemma emits_Collect: "emits readOnly (Collect E)"
  unfolding Collect_def remotePods_def configSamples_def computeSetupType_def computeCloudProvider_def computeTEEType_def
    listPodsOf_def
  by (intro emits_intros emits_tee emits_podSamples) (auto simp: readOnly_def)

text \<open>The range of a metric.\<close>

fun inRange :: "sample \<Rightarrow> bool" where
  "inRange (FailureRatio, v) \<longleftrightarrow> 0 \<le> v \<and> v \<le> 100"
| "inRange (RuntimeClassAvailable, v) \<longleftrightarrow> v \<in> {0, 1}"
| "inRange (KataConfigSuccess, v) \<longleftrightarrow> v \<in> {0, 1}"
| "inRange (SetupInfo a b c, v) \<longleftrightarrow> v = 1"
| "inRange (m, v) \<longleftrightarrow> 0 \<le> v"

lemma failureRatio_range: "0 \<le> failureRatio ps \<and> failureRatio ps \<le> 100"
proof -
  have "length (filter podFailed ps) \<le> length ps" by (rule length_filter_le)
  then show ?thesis by (auto simp: failureRatio_def divide_le_eq)
qed

definition podSampleList :: "string list \<Rightarrow> sample list \<Rightarrow> bool" where
  "podSampleList rcs xs \<longleftrightarrow> fst ` set xs \<subseteq> KataPods ` set rcs \<and> list_all inRange xs \<and> (distinct rcs \<longrightarrow> distinct (map fst xs))"

lemma podSampleList_Cons: "podSampleList rcs xs \<Longrightarrow> podSampleList (rc # rcs) (podSample rc r @ xs)"
  by (auto simp: podSampleList_def podSample_def split: option.split)

lemma podSamples_list: "podSampleList rcs (result (podSamples E remote rcs) s)"
  by (induction rcs arbitrary: s) (auto simp: run_simps podSampleList_Cons podSampleList_def[of "[]"])

lemma kataRuntimeClasses_distinct: "distinct kataRuntimeClasses"
  by (simp add: kataRuntimeClasses_def kataRuntimeClassName_def kataNvidiaGPURuntimeClassName_def kataRemoteRuntimeClass_def
      kataCCRuntimeClassName_def kataNvidiaGPUCCRuntimeClassName_def)

text \<open>The samples about the KataConfig: one success metric, and pods and setup only when a KataConfig was listed.\<close>

definition configShape :: "env \<Rightarrow> history \<Rightarrow> sample list \<Rightarrow> bool" where
  "configShape E h xs \<longleftrightarrow> (\<exists>info pods v. xs = info @ pods @ [(KataConfigSuccess, v)] \<and>
     (info = [] \<or> (\<exists>a b c. info = [(SetupInfo a b c, 1)])) \<and> podSampleList kataRuntimeClasses pods \<and> v \<in> {0, 1} \<and>
     (v = 1 \<longrightarrow> (\<exists>kc kcs. listKataConfigs (apiOf E) h = Inr (kc # kcs) \<and> kataConfigReady kc)))"

lemma configShape_none: "configShape E h [(KataConfigSuccess, 0)]"
  unfolding configShape_def
  by (rule exI[of _ "[]"], rule exI[of _ "[]"], rule exI[of _ 0]) (simp add: podSampleList_def)

lemma configShape_listed:
  assumes "podSampleList kataRuntimeClasses pods" and "listKataConfigs (apiOf E) h = Inr (kc # kcs)"
  shows "configShape E h ((SetupInfo a b c, 1) # pods @ [(KataConfigSuccess, successValue kc)])"
  unfolding configShape_def
  by (rule exI[of _ "[(SetupInfo a b c, 1)]"], rule exI[of _ pods], rule exI[of _ "successValue kc"])
    (use assms in \<open>auto simp: successValue_def\<close>)

lemma configSamples_shape: "configShape E (trace s) (result (configSamples E remote) s)"
proof (cases "listKataConfigs (apiOf E) (trace s)")
  case (Inr kcs)
  then show ?thesis
    using configShape_listed[OF podSamples_list]
    by (cases kcs) (simp_all add: configSamples_def run_simps configShape_none)
qed (simp add: configSamples_def run_simps configShape_none)

lemma kataPods_other: "podSampleList rcs xs \<Longrightarrow> (\<And>rc. m \<noteq> KataPods rc) \<Longrightarrow> m \<notin> fst ` set xs"
  by (auto simp: podSampleList_def)

lemma configShape_sound:
  assumes "configShape E h xs"
  shows "distinct (map fst xs)" and "list_all inRange xs"
    and "fst ` set xs \<inter> {RuntimeClassAvailable, TotalPods, FailedPods, FailureRatio} = {}"
    and "(KataConfigSuccess, 1) \<in> set xs \<Longrightarrow> \<exists>kc kcs. listKataConfigs (apiOf E) h = Inr (kc # kcs) \<and> kataConfigReady kc"
proof -
  obtain info pods v where xs: "xs = info @ pods @ [(KataConfigSuccess, v)]"
    and info: "info = [] \<or> (\<exists>a b c. info = [(SetupInfo a b c, 1)])" and pods: "podSampleList kataRuntimeClasses pods"
    and v: "v \<in> {0, 1}" "v = 1 \<longrightarrow> (\<exists>kc kcs. listKataConfigs (apiOf E) h = Inr (kc # kcs) \<and> kataConfigReady kc)"
    using assms unfolding configShape_def by blast
  have none: "m \<notin> fst ` set pods" if "\<And>rc. m \<noteq> KataPods rc" for m using kataPods_other[OF pods that] .
  have d: "distinct (map fst pods)" and r: "list_all inRange pods"
    using pods kataRuntimeClasses_distinct by (auto simp: podSampleList_def)
  show "distinct (map fst xs)" using info d none[of KataConfigSuccess] none[of "SetupInfo _ _ _"] by (force simp: xs image_iff)
  show "list_all inRange xs" using info r v(1) by (auto simp: xs)
  show "fst ` set xs \<inter> {RuntimeClassAvailable, TotalPods, FailedPods, FailureRatio} = {}"
    using info none by (auto simp: xs)
  show "\<exists>kc kcs. listKataConfigs (apiOf E) h = Inr (kc # kcs) \<and> kataConfigReady kc" if "(KataConfigSuccess, 1) \<in> set xs"
    using that info none[of KataConfigSuccess] v by (force simp: xs)
qed

text \<open>
  C35: a scrape is well formed. Whatever the API server answers, a scrape only reads; it reports every time series at
  most once, so that the registry accepts it; the failure ratio is a percentage and the indicators are 0 or 1;
  and success is reported only if the first KataConfig listed was not in progress and had all of at least one
  node ready.
\<close>

theorem scrape_well_formed:
  "let samples = result (Collect E) s in
   distinct (map fst samples) \<and> list_all inRange samples \<and> list_all readOnly (newEvents (Collect E) s) \<and>
   (if (KataConfigSuccess, 1) \<in> set samples
    then \<exists>h kc kcs. listKataConfigs (apiOf E) h = Inr (kc # kcs) \<and> kataConfigReady kc else True)"
proof -
  have "\<exists>avail ps h xs. result (Collect E) s = remoteSamples avail ps @ xs \<and> configShape E h xs"
    unfolding Collect_def by (simp add: run_simps Let_def) (use configSamples_shape in blast)
  then obtain avail ps h xs where res: "result (Collect E) s = remoteSamples avail ps @ xs" and xs: "configShape E h xs"
    by blast
  note r = res[unfolded remoteSamples_def]
  note sound = configShape_sound[OF xs]
  have "distinct (map fst (result (Collect E) s))" using sound(1,3) by (auto simp: r)
  moreover have "list_all inRange (result (Collect E) s)" using sound(2) failureRatio_range[of ps] by (simp add: r)
  moreover have "list_all readOnly (newEvents (Collect E) s)" by (rule emits_newEvents(2)[OF emits_Collect])
  moreover have "(KataConfigSuccess, 1) \<in> set (result (Collect E) s) \<Longrightarrow> (KataConfigSuccess, 1) \<in> set xs" by (auto simp: r)
  ultimately show ?thesis using sound(4) unfolding Let_def by (auto split: if_splits)
qed

end
