(* ===== verification/Spec2Isabelle.thy ===== *)
theory Spec2Isabelle
  imports Operator_Main Progress Cache_Scope Credentials Metrics_Collector
begin

text \<open>
  A verification development for the OpenShift sandboxed containers operator
  (\<^verbatim>\<open>src/controllers\<close>, \<^verbatim>\<open>src/api/v1\<close>, \<^verbatim>\<open>src/cmd/manager\<close>).

  \<^bold>\<open>The program.\<close>
  The operator installs the kata runtime on the nodes of an OpenShift cluster. The KataConfig
  controller (\<^verbatim>\<open>openshift_controller.go\<close>) reconciles the one KataConfig object. It reads the
  feature gates, labels the nodes, installs kata in one of two deployment modes (through the
  Machine Config Operator, or with a DaemonSet of its own), waits for the nodes, and then creates
  RuntimeClasses, the monitor and, if asked for, peer pods with their webhook and pod VM image.
  Removal goes the other way and ends with dropping the finalizer. Separate controllers look after
  RuntimeClasses, cloud credentials and the console plugins; a collector serves metrics.

  \<^bold>\<open>How the code is modelled.\<close>
  \<^item> An operation of a controller is a function in the state monad. Its state is the record
    \<open>reconciler\<close> (the fields of \<open>KataConfigOpenShiftReconciler\<close>, the KataConfig in memory, the
    package-level image generator) extended by a \<open>trace\<close> of the requests sent so far with their
    outcome. A Go error is a value of \<open>goerr\<close>; a pair of a value and an error is a sum, or a pair
    where the code uses both.
  \<^item> The API server, third-party packages and the process environment are the argument \<open>env\<close>
    of every operation (\<open>Kube_Client\<close>). The answer of the API server is an arbitrary function of
    the requests sent before, so a theorem about all environments covers every failure, every stale
    cache, every other actor in the cluster and every interleaving of their actions with the
    operator's requests. Nothing about the server is assumed unless a theorem says so. The order in
    which Go visits the keys of a map is a parameter as well.
  \<^item> Kubernetes objects are records with the fields that the sources build or read
    (\<open>Kube_Objects\<close>). A handler is cut into phases where it is long; the phases are composed in the
    order of the code.
  \<^item> Loops over lists are structural recursions, so every operation terminates. The only loop
    with a bound is the retry on conflicts of the console plugins; its number of attempts is that
    of client-go's default policy, a parameter, and the property about it holds for every number.

  \<^bold>\<open>The theories.\<close>
  \<^item> \<open>Osc_Prelude\<close>: errors, the monad, and the calculi of the component proofs: weakest
    preconditions (\<open>wp\<close>), the requests an operation may send (\<open>emits\<close>), the state it keeps
    (\<open>preserves\<close>) and requests that are sent only after a suitable history (\<open>guarded\<close>).
  \<^item> \<open>Go_Strings\<close>, \<open>Go_Base64\<close>: the functions of Go's standard library the sources call.
  \<^item> \<open>Kube_Objects\<close>, \<open>Kube_Client\<close>: data and client. \<open>Sample_Cluster\<close>: a concrete environment
    for evaluating examples.
  \<^item> \<open>Kata_Status\<close>: KataConfig types (\<^verbatim>\<open>kataconfig_types.go\<close>), conditions and node states. The
    locale \<open>inprogress_mutator\<close> is the contract of the 15 functions that set the InProgress
    condition, \<open>node_placement\<close> that of the functions that put a node on a status list; both modes
    interpret the latter.
  \<^item> \<open>Cluster_Queries\<close>: node selectors, node labels, status lists. A labelling pass leaves
    exactly the selected nodes labelled, and the status lists classify the worker nodes.
  \<^item> \<open>Runtime_Classes\<close>: RuntimeClasses of the reconciler, \<^verbatim>\<open>runtimeclass_controller.go\<close>.
  \<^item> \<open>Network_Policies\<close>: \<^verbatim>\<open>networkpolicy.go\<close>; the locale \<open>operand_policies\<close> is interpreted for the
    six operands. \<open>Isolation\<close>: a workload is written after its policies.
  \<^item> \<open>Utils\<close>: \<^verbatim>\<open>utils.go\<close>, \<^verbatim>\<open>tls.go\<close>, \<^verbatim>\<open>migrate.go\<close>.
  \<^item> \<open>Image_Generator\<close>, \<open>Peer_Pods\<close>, \<open>Pp_Webhook\<close>: \<^verbatim>\<open>image_generator.go\<close>, \<^verbatim>\<open>peerpods.go\<close>,
    \<^verbatim>\<open>ppwebhook.go\<close>. The possible outcomes of the image operations, what enabling peer pods leads to,
    and that the parts of the webhook fit together.
  \<^item> \<open>Confidential\<close>, \<open>Layered_Image\<close>, \<open>Feature_Gates\<close>, \<open>Nfd_Handler\<close>: the features and their
    gates (\<^verbatim>\<open>confidential_handler.go\<close>, \<^verbatim>\<open>layered_image_handler.go\<close>, \<^verbatim>\<open>fg_handler.go\<close>,
    \<^verbatim>\<open>deployment_mode_handler.go\<close>, \<^verbatim>\<open>nfd_handler.go\<close>).
  \<^item> \<open>Mco_Support\<close>: the MachineConfig, the log level, the monitor, the SCC (\<^verbatim>\<open>scc.go\<close>) and the
    dashboard.
  \<^item> \<open>Finalizers\<close>, \<open>Mco_Reconcile\<close>, \<open>Daemonset_Reconcile\<close>: the install and delete requests of
    the two modes (\<^verbatim>\<open>daemonset_reconcile.go\<close>), with the statements that order their requests.
  \<^item> \<open>Reconcile_Loop\<close>: the function \<open>Reconcile\<close>. The locale \<open>deployment_mode\<close> is what a mode
    promises; the modes interpret it, and the safety properties of \<open>Reconcile\<close> rest on its lemmas:
    nothing is installed before the finalizer is set, and the finalizer is dropped last.
  \<^item> \<open>Progress\<close>: the locale \<open>live_mode\<close> extends \<open>deployment_mode\<close> by when a request may end for
    good; both modes interpret it, and no reconciliation stalls.
  \<^item> \<open>Status_Invariant\<close>: every operation of the KataConfig controller keeps the status it holds
    and every status it sends well-formed.
  \<^item> \<open>Event_Handlers\<close>: \<^verbatim>\<open>cm_event_handler.go\<close>, \<^verbatim>\<open>secret_event_handler.go\<close> and the handlers of pools
    and nodes, with the locale \<open>event_source\<close>. A reconciliation that waits is woken up.
  \<^item> \<open>Operator_Runs\<close>: reconciliations, events and restarts in any order as a reachability relation;
    the well-formed status and the order of removals are invariants of all runs.
  \<^item> \<open>Credentials\<close>: \<^verbatim>\<open>credentials_controller.go\<close>. A secret of the user is left alone.
  \<^item> \<open>Console_Plugin\<close>: \<^verbatim>\<open>consoleplugin.go\<close>. The TLS settings offered, the clean-up on
    uninstallation, and the mirroring of the administrator's choice.
  \<^item> \<open>Metrics_Collector\<close>: \<^verbatim>\<open>metrics_collector.go\<close>. \<open>Startup\<close>: \<^verbatim>\<open>kataconfig_webhook.go\<close>
    and what \<^verbatim>\<open>main.go\<close> does to the cluster. \<open>Operator_Main\<close>: the function \<open>main\<close>, its registrations and
    the way it ends; the calls into controller-runtime are the parameter \<open>framework\<close>.
  \<^item> \<open>Cache_Scope\<close>: the namespaces the manager caches (\<^verbatim>\<open>main.go\<close>), and that the KataConfig controller
    reads nothing outside them.

  \<^bold>\<open>Deliberate simplifications.\<close>
  Log messages are left out, and so are the texts of most error messages. The JSON or YAML form of
  an object, SHA-256 and label selectors with expressions are parameters, with what the sources
  rely on as hypotheses of the theorems that need it. Metric values are rational numbers. Nil
  and empty slices are the same list, nil and empty maps the same map, except where writing to a nil
  map panics.

  \<^bold>\<open>Not modelled.\<close>
  Command-line flags and addresses of the manager, and what controller-runtime does with a
  registered controller; \<^verbatim>\<open>groupversion_info.go\<close> and the deep copies are
  generated; the PeerPod controller comes from another module; \<open>logMcpChange\<close> only logs and
  \<open>getConditionReason\<close> is never called. Shell and Python scripts (\<^verbatim>\<open>src/scripts\<close>,
  \<^verbatim>\<open>src/config/peerpods/podvm\<close>), manifests (\<^verbatim>\<open>src/config\<close>, \<^verbatim>\<open>src/bundle\<close>) and the tests
  (\<^verbatim>\<open>src/test\<close>) are not part of the operator process; the operator sees of the scripts only node
  labels and the state of jobs, which come from the API server of the model.
\<close>

end
